(* ===== verification/Conv_Prelude.thy ===== *)
theory Conv_Prelude
  imports Main "HOL-Library.Sublist"
begin

text \<open>
  Shared vocabulary of the development.

  The in-memory stores of the API server are slices that the code scans from the front and
  stops at the first element whose identifier matches. \<open>find_key\<close>, \<open>upd_key\<close> and
  \<open>del_key\<close> are that scan with its three endings (return the element, overwrite it in
  place, cut it out), and the locales at the end state what a component built on them
  promises. The theory also holds the decimal formatting behind the generated identifiers and
  the non-blocking send on a bounded Go channel.
\<close>

named_theorems store_simps \<open>characteristic equations of the first-match scans\<close>

section \<open>First-match scans over a slice\<close>

fun find_key :: "('a \<Rightarrow> 'k) \<Rightarrow> 'k \<Rightarrow> 'a list \<Rightarrow> 'a option" where
  "find_key f k [] = None"
| "find_key f k (x # xs) = (if f x = k then Some x else find_key f k xs)"

fun upd_key :: "('a \<Rightarrow> 'k) \<Rightarrow> 'k \<Rightarrow> 'a \<Rightarrow> 'a list \<Rightarrow> 'a list" where
  "upd_key f k y [] = []"
| "upd_key f k y (x # xs) = (if f x = k then y # xs else x # upd_key f k y xs)"

fun del_key :: "('a \<Rightarrow> 'k) \<Rightarrow> 'k \<Rightarrow> 'a list \<Rightarrow> 'a list" where
  "del_key f k [] = []"
| "del_key f k (x # xs) = (if f x = k then xs else x # del_key f k xs)"

lemma find_key_None [store_simps]: "find_key f k xs = None \<longleftrightarrow> k \<notin> f ` set xs"
  by (induction xs) auto

lemma find_key_key: "find_key f k xs = Some x \<Longrightarrow> f x = k"
  by (induction xs) (auto split: if_splits)

lemma find_key_mem: "find_key f k xs = Some x \<Longrightarrow> x \<in> set xs"
  by (induction xs) (auto split: if_splits)

lemma found_iff: "find_key f k xs = Some x \<Longrightarrow> k \<in> f ` set xs"
  using find_key_None [of f k xs] by auto

lemma find_key_distinct:
  "distinct (map f xs) \<Longrightarrow> x \<in> set xs \<Longrightarrow> find_key f (f x) xs = Some x"
  by (induction xs) (auto simp: rev_image_eqI)

lemma find_key_append [store_simps]:
  "find_key f k (xs @ ys) =
     (case find_key f k xs of None \<Rightarrow> find_key f k ys | Some x \<Rightarrow> Some x)"
  by (induction xs) auto

lemma map_upd_key: "f y = k \<Longrightarrow> map f (upd_key f k y xs) = map f xs"
  by (induction xs) auto

lemma length_upd_key [simp]: "length (upd_key f k y xs) = length xs"
  by (induction xs) auto

lemma set_upd_key_subset: "set (upd_key f k y xs) \<subseteq> insert y (set xs)"
  by (induction xs) auto

lemma upd_key_absent: "k \<notin> f ` set xs \<Longrightarrow> upd_key f k y xs = xs"
  by (induction xs) auto

lemma find_key_upd_same:
  "f y = k \<Longrightarrow> k \<in> f ` set xs \<Longrightarrow> find_key f k (upd_key f k y xs) = Some y"
  by (induction xs) auto

lemma find_key_upd_other:
  "f y = k \<Longrightarrow> k' \<noteq> k \<Longrightarrow> find_key f k' (upd_key f k y xs) = find_key f k' xs"
  by (induction xs) auto

lemma map_del_key [store_simps]: "map f (del_key f k xs) = remove1 k (map f xs)"
  by (induction xs) auto

lemma set_del_key_subset: "set (del_key f k xs) \<subseteq> set xs"
  by (induction xs) auto

lemma del_key_absent: "k \<notin> f ` set xs \<Longrightarrow> del_key f k xs = xs"
  by (induction xs) auto

lemma find_key_del_other:
  "k' \<noteq> k \<Longrightarrow> find_key f k' (del_key f k xs) = find_key f k' xs"
  by (induction xs) auto

lemma length_del_key:
  "k \<in> f ` set xs \<Longrightarrow> Suc (length (del_key f k xs)) = length xs"
  by (induction xs) auto

text \<open>
  Overwriting the element a scan found, with its identifier kept: the form in which the update
  methods of the stores use the scans.
\<close>

lemma upd_found:
  assumes "find_key f k xs = Some e" and "f e' = f e"
  shows "map f (upd_key f k e' xs) = map f xs"
    and "find_key f k (upd_key f k e' xs) = Some e'"
    and "k' \<noteq> k \<Longrightarrow> find_key f k' (upd_key f k e' xs) = find_key f k' xs"
  using assms find_key_key [OF assms(1)] found_iff [OF assms(1)]
  by (auto intro: map_upd_key find_key_upd_same find_key_upd_other)

text \<open>The position of the first match, where the code keeps an index.\<close>

fun index_key :: "('a \<Rightarrow> 'k) \<Rightarrow> 'k \<Rightarrow> 'a list \<Rightarrow> nat option" where
  "index_key f k [] = None"
| "index_key f k (x # xs) = (if f x = k then Some 0 else map_option Suc (index_key f k xs))"

lemma index_key_find: "map_option ((!) xs) (index_key f k xs) = find_key f k xs"
  by (induction xs) (auto simp: option.map_comp comp_def split: option.splits)

lemma index_key_None [store_simps]: "index_key f k xs = None \<longleftrightarrow> k \<notin> f ` set xs"
  by (induction xs) auto

lemma index_key_Some:
  "index_key f k xs = Some i \<Longrightarrow> i < length xs \<and> f (xs ! i) = k \<and> find_key f k xs = Some (xs ! i)"
  by (induction xs arbitrary: i) (auto split: if_splits)

lemma index_key_update:
  "index_key f k xs = Some i \<Longrightarrow> xs[i := y] = upd_key f k y xs"
  by (induction xs arbitrary: i) (auto split: if_splits)

lemma nth_split:
  "i < length xs \<Longrightarrow> \<exists>ys zs. xs = ys @ xs ! i # zs \<and> (\<forall>y. xs[i := y] = ys @ y # zs)"
  by (intro exI [of _ "take i xs"] exI [of _ "drop (Suc i) xs"])
    (simp add: id_take_nth_drop upd_conv_take_nth_drop)

text \<open>
  Identifiers kept in a slice of slices: overwriting one inner slice keeps them distinct when
  its identifiers stay distinct and only new ones (\<open>N\<close>) come in.
\<close>

lemma distinct_replace:
  assumes "distinct (A @ X @ C)" and "distinct X'" and "set X' \<subseteq> set X \<union> N"
    and "N \<inter> set (A @ X @ C) = {}"
  shows "distinct (A @ X' @ C) \<and> set (A @ X' @ C) \<subseteq> set (A @ X @ C) \<union> N"
proof -
  have "set X' \<inter> set A = {}" and "set X' \<inter> set C = {}"
    using assms unfolding distinct_append set_append by blast+
  with assms show ?thesis unfolding distinct_append set_append by blast
qed

lemma concat_update:
  assumes "i < length xs" and "distinct (concat (map f xs))" and "distinct (f y)"
    and "set (f y) \<subseteq> set (f (xs ! i)) \<union> N" and "N \<inter> set (concat (map f xs)) = {}"
  shows "distinct (concat (map f (xs[i := y]))) \<and>
    set (concat (map f (xs[i := y]))) \<subseteq> set (concat (map f xs)) \<union> N"
proof -
  define x where "x = xs ! i"
  obtain ys zs where old: "xs = ys @ x # zs" and new: "xs[i := y] = ys @ y # zs"
    using nth_split [OF assms(1)] unfolding x_def by blast
  show ?thesis
    using distinct_replace [of "concat (map f ys)" "f x" "concat (map f zs)" "f y" N]
      assms(2-5) [folded x_def]
    unfolding new unfolding old by simp
qed

lemmas scan_simps = find_key_None find_key_append map_upd_key map_del_key
  find_key_upd_same find_key_upd_other find_key_del_other

section \<open>Decimal formatting\<close>

text \<open>
  \<open>fmt.Sprintf(\"%0wd\", n)\<close> of a non-negative \<open>n\<close>: the decimal digits, padded on the
  left with zeros to at least \<open>w\<close> characters.
\<close>

definition digit_char :: "nat \<Rightarrow> char" where
  "digit_char d = char_of (48 + d)"

fun digits :: "nat \<Rightarrow> string" where
  "digits n = (if n < 10 then [digit_char n] else digits (n div 10) @ [digit_char (n mod 10)])"

declare digits.simps [simp del]

definition sprintf_0d :: "nat \<Rightarrow> nat \<Rightarrow> string" where
  "sprintf_0d w n = replicate (w - length (digits n)) CHR ''0'' @ digits n"

text \<open>Reading the digits back gives the number, which makes the formatting injective.\<close>

definition digit_val :: "char \<Rightarrow> nat" where
  "digit_val c = of_char c - 48"

definition dec_val :: "string \<Rightarrow> nat" where
  "dec_val s = foldl (\<lambda>a c. 10 * a + digit_val c) 0 s"

lemma digit_val_char [simp]: "d < 10 \<Longrightarrow> digit_val (digit_char d) = d"
  by (simp add: digit_val_def digit_char_def)

lemma dec_val_snoc [simp]: "dec_val (s @ [c]) = 10 * dec_val s + digit_val c"
  by (simp add: dec_val_def)

lemma dec_val_digits [simp]: "dec_val (digits n) = n"
proof (induction n rule: digits.induct)
  case (1 n)
  show ?case
  proof (cases "n < 10")
    case True
    then have "digits n = [] @ [digit_char n]" by (subst digits.simps) simp
    with True show ?thesis by (simp only: dec_val_snoc) (simp add: dec_val_def)
  next
    case False
    with 1 have "dec_val (digits (n div 10)) = n div 10" by simp
    with False show ?thesis by (subst digits.simps) simp
  qed
qed

lemma dec_val_zeros [simp]: "dec_val (replicate k CHR ''0'' @ s) = dec_val s"
proof -
  have "foldl (\<lambda>a c. 10 * a + digit_val c) 0 (replicate k CHR ''0'') = 0"
    by (induction k) (auto simp: digit_val_def)
  then show ?thesis by (simp add: dec_val_def)
qed

lemma dec_val_sprintf [simp]: "dec_val (sprintf_0d w n) = n"
  by (simp add: sprintf_0d_def)

lemma sprintf_0d_inj [simp]: "sprintf_0d w m = sprintf_0d w n \<longleftrightarrow> m = n"
  by (metis dec_val_sprintf)

section \<open>Non-blocking send on a bounded channel\<close>

text \<open>
  \<open>select { case ch <- x: default: }\<close> on a buffered channel of capacity \<open>n\<close> whose
  buffer is \<open>q\<close>: the value is queued when there is room and dropped otherwise.
\<close>

definition try_send :: "nat \<Rightarrow> 'a list \<Rightarrow> 'a \<Rightarrow> 'a list" where
  "try_send n q x = (if length q < n then q @ [x] else q)"

lemma try_send_bound: "length q \<le> n \<Longrightarrow> length (try_send n q x) \<le> n"
  by (simp add: try_send_def)

lemma try_send_take: "length q \<le> n \<Longrightarrow> try_send n q x = take n (q @ [x])"
  by (auto simp: try_send_def)

section \<open>Strings\<close>

text \<open>\<open>strings.Join(xs, " ")\<close>.\<close>

definition join_space :: "string list \<Rightarrow> string" where
  "join_space xs = concat (case xs of [] \<Rightarrow> [] | x # ys \<Rightarrow> x # map (\<lambda>y. '' '' @ y) ys)"

text \<open>\<open>strings.TrimSpace\<close> on ASCII.\<close>

definition trim_spaces :: "string \<Rightarrow> string" where
  "trim_spaces s =
     (let sp = (\<lambda>c :: char. (of_char c :: nat) \<in> {9, 10, 11, 12, 13, 32})
      in rev (dropWhile sp (rev (dropWhile sp s))))"

text \<open>\<open>strings.Split\<close> at a character.\<close>

fun split_on :: "char \<Rightarrow> string \<Rightarrow> string list" where
  "split_on c [] = [[]]"
| "split_on c (x # xs) =
     (if x = c then [] # split_on c xs
      else (case split_on c xs of [] \<Rightarrow> [[x]] | p # ps \<Rightarrow> (x # p) # ps))"

text \<open>\<open>strings.Fields\<close> on ASCII: the non-empty pieces between white space.\<close>

definition white :: "char \<Rightarrow> bool" where
  "white c \<longleftrightarrow> (of_char c :: nat) \<in> {9, 10, 11, 12, 13, 32}"

fun fields_acc :: "string \<Rightarrow> string \<Rightarrow> string list" where
  "fields_acc cur [] = (if cur = [] then [] else [rev cur])"
| "fields_acc cur (c # s) =
     (if white c then (if cur = [] then fields_acc [] s else rev cur # fields_acc [] s)
      else fields_acc (c # cur) s)"

definition string_fields :: "string \<Rightarrow> string list" where
  "string_fields s = fields_acc [] s"

lemma fields_word: "\<forall>c \<in> set w. \<not> white c \<Longrightarrow> fields_acc cur (w @ s) = fields_acc (rev w @ cur) s"
  by (induction w arbitrary: cur) auto

lemma white_blank [simp]: "white CHR '' ''"
  by (simp add: white_def)

text \<open>Words joined with blanks are the fields of the result.\<close>

lemma fields_join:
  assumes "\<forall>w \<in> set ws. w \<noteq> [] \<and> (\<forall>c \<in> set w. \<not> white c)"
  shows "string_fields (join_space ws) = ws"
proof -
  show ?thesis
  proof (cases ws)
    case Nil
    then show ?thesis by (simp add: string_fields_def join_space_def)
  next
    case (Cons w vs)
    have "fields_acc [] (w @ concat (map (\<lambda>y. '' '' @ y) vs)) = w # vs"
      using assms Cons
    proof (induction vs arbitrary: w ws)
      case Nil
      then show ?case using fields_word [of w "[]" "[]"] by simp
    next
      case (Cons v us)
      then show ?case
        using fields_word [of w "[]" "CHR '' '' # v @ concat (map (\<lambda>y. '' '' @ y) us)"] by simp
    qed
    then show ?thesis by (simp only: Cons string_fields_def join_space_def list.case concat.simps)
  qed
qed

text \<open>\<open>strings.ReplaceAll\<close>, for a non-empty pattern.\<close>

function replace_all :: "string \<Rightarrow> string \<Rightarrow> string \<Rightarrow> string" where
  "replace_all old new [] = []"
| "replace_all old new (c # s) =
     (if old \<noteq> [] \<and> prefix old (c # s) then new @ replace_all old new (drop (length old) (c # s))
      else c # replace_all old new s)"
  by pat_completeness auto
termination by (relation "measure (\<lambda>(old, new, s). length s)") (auto simp: Suc_le_eq)

text \<open>One character replaced is a map over the string.\<close>

lemma replace_char: "replace_all [c] new s = concat (map (\<lambda>x. if x = c then new else [x]) s)"
  by (induction s) auto

section \<open>Dates\<close>

text \<open>The date of a day counted from 1 January 1970, in the proleptic Gregorian calendar.\<close>

definition civil :: "int \<Rightarrow> int \<times> int \<times> int" where
  "civil days =
     (let z = days + 719468;
          era = z div 146097;
          doe = z - era * 146097;
          yoe = (doe - doe div 1460 + doe div 36524 - doe div 146096) div 365;
          doy = doe - (365 * yoe + yoe div 4 - yoe div 100);
          mp = (5 * doy + 2) div 153;
          d = doy - (153 * mp + 2) div 5 + 1;
          m = (if mp < 10 then mp + 3 else mp - 9)
      in (yoe + era * 400 + (if m \<le> 2 then 1 else 0), m, d))"

text \<open>\<open>Format(time.RFC3339)\<close> of an instant in UTC, in seconds.\<close>

definition rfc3339 :: "int \<Rightarrow> string" where
  "rfc3339 secs =
     (let (y, m, d) = civil (secs div 86400); s = secs mod 86400; p = (\<lambda>w n. sprintf_0d w (nat n))
      in p 4 y @ ''-'' @ p 2 m @ ''-'' @ p 2 d @ ''T'' @ p 2 (s div 3600) @ '':'' @ p 2 (s div 60 mod 60) @ '':'' @
         p 2 (s mod 60) @ ''Z'')"

text \<open>\<open>%x\<close> of bytes.\<close>

definition hex_digit :: "nat \<Rightarrow> char" where
  "hex_digit n = (if n < 10 then char_of (48 + n) else char_of (87 + n))"

definition hex_bytes :: "nat list \<Rightarrow> string" where
  "hex_bytes bs = concat (map (\<lambda>b. [hex_digit (b div 16), hex_digit (b mod 16)]) bs)"

end
