(* ===== verification/Httputil.thy ===== *)
theory Httputil
  imports Conv_Prelude
begin

text \<open>
  The HTTP vocabulary of the API server (\<^verbatim>\<open>internal/httputil\<close> and the part of
  \<^verbatim>\<open>net/http\<close> the handlers use): requests, replies, handlers as state transformers, and
  the pagination every list endpoint shares.

  A request carries what the handlers read of it: headers, query parameters and path values
  as lookup functions (the Go accessors return the empty string for an absent key), the
  principal that the authentication middleware puts into the context, and the request body as
  decoded by \<open>ReadJSON\<close>, \<open>None\<close> when decoding fails; \<open>rq_now\<close> is what
  \<open>time.Now()\<close> formats to (RFC 3339, in seconds) while the request is handled. A reply is the status and the
  value handed to the JSON encoder; \<open>Panic\<close> is a run-time panic of the handler.
\<close>

section \<open>Principals, requests, replies\<close>

record principal =
  p_id :: string
  p_username :: string
  p_name :: string
  p_email :: string
  p_groups :: "string list"
  p_roles :: "string list"
  p_idp :: string
  p_applets :: "string list"

record 'b request =
  rq_method :: string
  rq_header :: "string \<Rightarrow> string"
  rq_query :: "string \<Rightarrow> string"
  rq_path :: "string \<Rightarrow> string"
  rq_body :: "'b option"
  rq_principal :: "principal option"
  rq_now :: string

datatype 'r reply =
    Reply nat 'r                \<comment> \<open>\<open>WriteJSON w status data\<close>\<close>
  | Failure nat string string   \<comment> \<open>\<open>WriteError w status code message\<close>\<close>
  | Status nat                  \<comment> \<open>\<open>w.WriteHeader status\<close> with no body\<close>
  | Panic

type_synonym ('b, 's, 'r) handler = "'b request \<Rightarrow> 's \<Rightarrow> 'r reply \<times> 's"

fun reply_code :: "'r reply \<Rightarrow> nat option" where
  "reply_code (Reply c _) = Some c"
| "reply_code (Failure c _ _) = Some c"
| "reply_code (Status c) = Some c"
| "reply_code Panic = None"

definition write_json :: "nat \<Rightarrow> 'r \<Rightarrow> 's \<Rightarrow> 'r reply \<times> 's" where
  "write_json status data s = (Reply status data, s)"

definition write_error :: "nat \<Rightarrow> string \<Rightarrow> string \<Rightarrow> 's \<Rightarrow> 'r reply \<times> 's" where
  "write_error status code message s = (Failure status code message, s)"

text \<open>\<open>if err := ReadJSON(r, &req); err != nil { 400 }\<close>, the opening of the write handlers.\<close>

definition with_body :: "('b \<Rightarrow> ('b, 's, 'r) handler) \<Rightarrow> ('b, 's, 'r) handler" where
  "with_body h r s =
     (case rq_body r of
        None \<Rightarrow> write_error 400 ''validation_failed'' ''invalid request body'' s
      | Some b \<Rightarrow> h b r s)"

lemma with_body_cases:
  "with_body h r s = (t, s') \<Longrightarrow>
     (\<exists>b. rq_body r = Some b \<and> h b r s = (t, s')) \<or>
     (rq_body r = None \<and> s' = s \<and>
      t = Failure 400 ''validation_failed'' ''invalid request body'')"
  by (auto simp: with_body_def write_error_def split: option.splits)

lemma snd_with_body:
  "snd (with_body h r s) =
     (case rq_body r of None \<Rightarrow> s | Some b \<Rightarrow> snd (h b r s))"
  by (simp add: with_body_def write_error_def split: option.split)

lemma snd_write [simp]:
  "snd (write_json c d s) = s"
  "snd (write_error c k m s) = s"
  by (simp_all add: write_json_def write_error_def)

section \<open>Integers in query parameters\<close>

text \<open>
  \<open>strconv.Atoi\<close>: an optional sign, at least one decimal digit and nothing else, and the
  value in the range of a 64-bit \<open>int\<close>.
\<close>

definition is_digit :: "char \<Rightarrow> bool" where
  "is_digit c \<longleftrightarrow> 48 \<le> (of_char c :: nat) \<and> (of_char c :: nat) \<le> 57"

fun atoi_sign :: "string \<Rightarrow> bool \<times> string" where
  "atoi_sign [] = (False, [])"
| "atoi_sign (c # cs) =
     (if c = CHR ''-'' then (True, cs) else if c = CHR ''+'' then (False, cs)
      else (False, c # cs))"

definition atoi :: "string \<Rightarrow> int option" where
  "atoi s =
     (let (neg, ds) = atoi_sign s;
          v = (if neg then - int (dec_val ds) else int (dec_val ds))
      in if ds \<noteq> [] \<and> list_all is_digit ds \<and> - (2 ^ 63) \<le> v \<and> v < 2 ^ 63
         then Some v else None)"

definition queryInt :: "(string \<Rightarrow> string) \<Rightarrow> string \<Rightarrow> int \<Rightarrow> int" where
  "queryInt q key d =
     (if q key = '''' then d
      else case atoi (q key) of None \<Rightarrow> d | Some v \<Rightarrow> v)"

section \<open>Pagination\<close>

record 'a page =
  pg_offset :: int
  pg_limit :: int
  pg_total :: int
  pg_items :: "'a list"

definition parsePagination :: "(string \<Rightarrow> string) \<Rightarrow> int \<times> int" where
  "parsePagination q =
     (let offset = queryInt q ''offset'' 0;
          limit = queryInt q ''limit'' 25;
          offset = (if offset < 0 then 0 else offset);
          limit = (if limit < 1 then 1 else limit);
          limit = (if limit > 200 then 200 else limit)
      in (offset, limit))"

text \<open>
  \<open>items[offset:end]\<close> panics unless \<open>0 \<le> offset \<le> end\<close>; \<open>end\<close> never exceeds the
  length here. Addition is on mathematical integers: \<open>offset < total\<close> and \<open>limit \<le> 200\<close>
  keep the sum inside 64 bits for every slice that fits in memory.
\<close>

definition paginate :: "'a list \<Rightarrow> int \<Rightarrow> int \<Rightarrow> 'a page option" where
  "paginate items offset limit =
     (let total = int (length items)
      in if offset \<ge> total
         then Some \<lparr>pg_offset = offset, pg_limit = limit, pg_total = total, pg_items = []\<rparr>
         else let en = (if offset + limit > total then total else offset + limit)
              in if offset < 0 \<or> en < offset then None
                 else Some \<lparr>pg_offset = offset, pg_limit = limit, pg_total = total,
                            pg_items = take (nat (en - offset)) (drop (nat offset) items)\<rparr>)"

text \<open>
  \<open>WriteJSON(w, 200, Paginate(items, ParsePagination(r)))\<close>, with the panic of the slice
  expression, were it to happen, surfaced as the reply.
\<close>

definition write_page :: "('a page \<Rightarrow> 'r) \<Rightarrow> 'a list \<Rightarrow> ('b, 's, 'r) handler" where
  "write_page wrap items r s =
     (let (offset, limit) = parsePagination (rq_query r)
      in case paginate items offset limit of
           None \<Rightarrow> (Panic, s)
         | Some p \<Rightarrow> (Reply 200 (wrap p), s))"

lemma snd_write_page [simp]: "snd (write_page wrap items r s) = s"
  by (simp add: write_page_def split: prod.split option.split)

lemma atoi_range: "atoi s = Some v \<Longrightarrow> - (2 ^ 63) \<le> v \<and> v < 2 ^ 63"
  by (auto simp: atoi_def Let_def split: prod.splits if_splits)

lemma queryInt_range:
  "- (2 ^ 63) \<le> d \<Longrightarrow> d < 2 ^ 63 \<Longrightarrow> - (2 ^ 63) \<le> queryInt q k d \<and> queryInt q k d < 2 ^ 63"
  by (auto simp: queryInt_def dest: atoi_range split: option.splits)

lemma paginate_in_range:
  "0 \<le> offset \<Longrightarrow> 0 \<le> limit \<Longrightarrow>
     paginate items offset limit =
       Some \<lparr>pg_offset = offset, pg_limit = limit, pg_total = int (length items),
             pg_items = take (nat limit) (drop (nat offset) items)\<rparr>"
  by (auto simp: paginate_def Let_def)

lemma pages_concat:
  "length xs \<le> n * l \<Longrightarrow> concat (map (\<lambda>i. take l (drop (i * l) xs)) [0..<n]) = xs"
proof (induction n arbitrary: xs)
  case 0
  then show ?case by simp
next
  case (Suc n)
  have "concat (map (\<lambda>i. take l (drop (i * l) xs)) [0..<Suc n]) =
      take l xs @ concat (map (\<lambda>i. take l (drop (i * l + l) xs)) [0..<n])"
    by (simp add: upt_conv_Cons map_Suc_upt [symmetric] comp_def add.commute del: upt_Suc)
  with Suc.IH [of "drop l xs"] Suc.prems show ?case by simp
qed

text \<open>
  Whatever the query string says, the offset every list endpoint works with is a
  non-negative 64-bit integer and the page size is between 1 and 200, so that \<open>Paginate\<close>
  slices in range: it returns the page and never panics, and a page never exceeds its limit.
\<close>

theorem pagination_total:
  "case parsePagination q of (offset, limit) \<Rightarrow>
     0 \<le> offset \<and> offset < 2 ^ 63 \<and> 1 \<le> limit \<and> limit \<le> 200 \<and>
     (\<exists>p. paginate items offset limit = Some p \<and> int (length (pg_items p)) \<le> limit \<and>
          pg_total p = int (length items))"
proof -
  obtain offset limit where p: "parsePagination q = (offset, limit)"
    by (cases "parsePagination q")
  have o: "0 \<le> offset" "offset < 2 ^ 63" and l: "1 \<le> limit" "limit \<le> 200"
    using p queryInt_range [of 0 q "''offset''"] by (auto simp: parsePagination_def Let_def)
  from o l have "paginate items offset limit = Some \<lparr>pg_offset = offset, pg_limit = limit,
      pg_total = int (length items), pg_items = take (nat limit) (drop (nat offset) items)\<rparr>"
    by (simp add: paginate_in_range)
  with o l p show ?thesis by simp
qed

lemma write_page_ok: "\<exists>p. write_page wrap items r s = (Reply 200 (wrap p), s)"
proof (cases "parsePagination (rq_query r)")
  case (Pair offset limit)
  have "0 \<le> offset \<and> 0 \<le> limit"
    using Pair queryInt_range [of 0 "rq_query r" "''offset''"]
    by (auto simp: parsePagination_def Let_def)
  with Pair show ?thesis
    by (auto simp: write_page_def paginate_in_range)
qed

text \<open>
  Walking a list endpoint page by page, with any page size, returns every item exactly
  once and in order: the pages at offsets \<open>0, limit, 2 limit, \<dots>\<close> concatenate to the list.
\<close>

theorem paginate_reassembles:
  assumes "1 \<le> limit" and "length items \<le> n * nat limit"
  shows "concat (map (\<lambda>i. pg_items (the (paginate items (int i * limit) limit))) [0..<n]) = items"
proof -
  have "pg_items (the (paginate items (int i * limit) limit)) =
      take (nat limit) (drop (i * nat limit) items)" for i
    using assms(1) by (simp add: paginate_in_range nat_mult_distrib)
  with pages_concat [OF assms(2)] show ?thesis by simp
qed

theorem paginate_reassembles_witness:
  "concat (map (\<lambda>i. pg_items (the (paginate ''abcde'' (int i * 2) 2))) [0..<3]) = ''abcde''"
  by (rule paginate_reassembles) simp_all

end
