(* ===== verification/Middleware.thy ===== *)
theory Middleware
  imports Httputil
begin

text \<open>
  The request pipeline of the API server (\<^verbatim>\<open>internal/middleware\<close>): \<open>Chain\<close>,
  \<open>CORS\<close>, \<open>InternalAuth\<close>, \<open>RBAC\<close> and \<open>Auth\<close>, with the principal \<open>Auth\<close> builds from what
  OpenBao says about a token.

  OpenBao is reached over HTTP and is not part of the repository: \<open>bao_env\<close> holds its two
  endpoints as functions of the URL and the token the code sends, \<open>None\<close> for a request that
  could not be built or sent, otherwise the status and the decoded body (\<open>None\<close> inside when
  decoding fails). \<open>be_range\<close> is the order in which Go iterates over a map, which the language
  leaves open. \<open>to_lower\<close> is \<open>strings.ToLower\<close> on ASCII, the alphabet of policy names.
\<close>

section \<open>Chain, CORS, InternalAuth, RBAC\<close>

type_synonym ('b, 's, 'r) middleware = "('b, 's, 'r) handler \<Rightarrow> ('b, 's, 'r) handler"

fun chain :: "('b, 's, 'r) handler \<Rightarrow> ('b, 's, 'r) middleware list \<Rightarrow> ('b, 's, 'r) handler" where
  "chain h [] = h"
| "chain h (m # ms) = m (chain h ms)"

definition cors :: "('b, 's, 'r) middleware" where
  "cors next r s = (if rq_method r = ''OPTIONS'' then (Status 204, s) else next r s)"

definition bearer :: string where
  "bearer = ''Bearer ''"

definition internalAuth :: "string \<Rightarrow> ('b, 's, 'r) middleware" where
  "internalAuth metricsAPIKey next r s =
     (if metricsAPIKey = ''''
      then write_error 401 ''unauthorized'' ''METRICS_API_KEY not configured'' s
      else let auth = rq_header r ''Authorization''
           in if \<not> prefix bearer auth \<or> drop (length bearer) auth \<noteq> metricsAPIKey
              then write_error 401 ''unauthorized'' ''invalid metrics API key'' s
              else next r s)"

fun role_granted :: "string \<Rightarrow> string list \<Rightarrow> bool" where
  "role_granted required [] = False"
| "role_granted required (ro # rs) =
     (if ro = ''admin'' \<or> ro = ''admin-policy'' \<or> ro = required then True
      else role_granted required rs)"

definition rbac :: "string \<Rightarrow> ('b, 's, 'r) middleware" where
  "rbac required next r s =
     (case rq_principal r of
        None \<Rightarrow> write_error 403 ''forbidden'' ''no principal in context'' s
      | Some p \<Rightarrow>
          if role_granted required (p_roles p) then next r s
          else write_error 403 ''forbidden''
                 (''insufficient permissions: requires '' @ required) s)"

lemma role_granted_iff:
  "role_granted required rs \<longleftrightarrow> (\<exists>ro \<in> set rs. ro \<in> {''admin'', ''admin-policy'', required})"
  by (induction rs) auto

section \<open>From policies to applets\<close>

definition lower_char :: "char \<Rightarrow> char" where
  "lower_char c =
     (let n = (of_char c :: nat) in if 65 \<le> n \<and> n \<le> 90 then char_of (n + 32) else c)"

definition to_lower :: "string \<Rightarrow> string" where
  "to_lower s = map lower_char s"

fun contains :: "string \<Rightarrow> string \<Rightarrow> bool" where
  "contains [] t = (t = [])"
| "contains (c # s) t = (prefix t (c # s) \<or> contains s t)"

lemma contains_sublist: "contains s t = sublist t s"
  by (induction s) (auto simp: sublist_Cons_right)

definition allApplets :: "string list" where
  "allApplets = [''nmgr'', ''amgr'', ''pb'', ''ide'', ''repo'', ''ac'', ''sup'']"

definition applet_of :: "string \<Rightarrow> string option" where
  "applet_of p =
     (if contains p ''node-'' then Some ''nmgr''
      else if contains p ''agent-'' then Some ''amgr''
      else if contains p ''pb-'' then Some ''pb''
      else if contains p ''ide-'' then Some ''ide''
      else if contains p ''access-'' then Some ''ac''
      else if contains p ''repo-'' then Some ''repo''
      else if contains p ''support-'' then Some ''sup''
      else None)"

definition admin_policy :: "string \<Rightarrow> bool" where
  "admin_policy p \<longleftrightarrow> p = ''admin-policy'' \<or> p = ''admin''"

text \<open>The loop over the policies: \<open>None\<close> is the early return of \<open>allApplets\<close>.\<close>

fun applets_loop :: "string list \<Rightarrow> string list \<Rightarrow> string list option" where
  "applets_loop appletSet [] = Some appletSet"
| "applets_loop appletSet (policy # ps) =
     (let p = to_lower policy
      in if admin_policy p then None
         else case applet_of p of
                None \<Rightarrow> applets_loop appletSet ps
              | Some a \<Rightarrow> applets_loop (List.insert a appletSet) ps)"

definition rolesToApplets :: "(string list \<Rightarrow> string list) \<Rightarrow> string list \<Rightarrow> string list" where
  "rolesToApplets rng policies =
     (case applets_loop [] policies of None \<Rightarrow> allApplets | Some as \<Rightarrow> rng as)"

text \<open>Iterating over a map visits each key once, in some order.\<close>

definition map_order :: "(string list \<Rightarrow> string list) \<Rightarrow> bool" where
  "map_order rng \<longleftrightarrow> (\<forall>ks. set (rng ks) = set ks \<and> length (rng ks) = length ks)"

lemma applets_loop_None:
  "applets_loop as ps = None \<longleftrightarrow> (\<exists>p \<in> set ps. admin_policy (to_lower p))"
  by (induction ps arbitrary: as) (auto simp: Let_def split: option.splits)

lemma applets_loop_set:
  "applets_loop as ps = Some bs \<Longrightarrow>
     set bs = set as \<union> {a. \<exists>p \<in> set ps. applet_of (to_lower p) = Some a}"
  by (induction ps arbitrary: as) (auto simp: Let_def split: if_splits option.splits)

lemma applet_of_known: "applet_of p = Some a \<Longrightarrow> a \<in> set allApplets"
  by (auto simp: applet_of_def allApplets_def split: if_splits)

text \<open>
  The applets a principal may open are exactly those its policies name: all seven when
  some policy is an administrator policy in any letter case, otherwise the applet of each
  policy, one applet per policy by the first fragment that matches, and nothing else. The
  order in which Go iterates over the set does not matter.
\<close>

theorem rolesToApplets_spec:
  assumes "map_order rng"
  shows "set (rolesToApplets rng policies) =
    (if \<exists>p \<in> set policies. admin_policy (to_lower p) then set allApplets
     else {a \<in> set allApplets. \<exists>p \<in> set policies. applet_of (to_lower p) = Some a})"
proof (cases "applets_loop [] policies")
  case None
  then show ?thesis
    using applets_loop_None [of "[]" policies] by (simp add: rolesToApplets_def)
next
  case (Some as)
  then have "\<not> (\<exists>p \<in> set policies. admin_policy (to_lower p))"
    using applets_loop_None [of "[]" policies] by simp
  moreover from Some have
    "set as = {a. \<exists>p \<in> set policies. applet_of (to_lower p) = Some a}"
    by (simp add: applets_loop_set)
  ultimately show ?thesis
    using Some assms by (auto simp: rolesToApplets_def map_order_def dest: applet_of_known)
qed

theorem rolesToApplets_spec_witness:
  "set (rolesToApplets rev [''Node-View'', ''pb-agent-x'']) =
    (if \<exists>p \<in> set [''Node-View'', ''pb-agent-x'']. admin_policy (to_lower p)
     then set allApplets
     else {a \<in> set allApplets.
             \<exists>p \<in> set [''Node-View'', ''pb-agent-x'']. applet_of (to_lower p) = Some a})"
  by (rule rolesToApplets_spec) (simp add: map_order_def)

section \<open>Token lookup and the principal\<close>

record token_info =
  ti_entity :: string
  ti_policies :: "string list"

record entity_info =
  en_id :: string
  en_name :: string
  en_metadata :: "string \<rightharpoonup> string"
  en_policies :: "string list"
  en_groups :: "string list"

type_synonym 'a http_get = "string \<Rightarrow> string \<Rightarrow> (nat \<times> 'a option) option"

record bao_env =
  be_addr :: string
  be_token :: "token_info http_get"
  be_entity :: "entity_info http_get"
  be_range :: "string list \<Rightarrow> string list"

definition trim_right :: "char \<Rightarrow> string \<Rightarrow> string" where
  "trim_right c s = rev (dropWhile (\<lambda>x. x = c) (rev s))"

definition openbaoAddr :: "string \<Rightarrow> string" where
  "openbaoAddr env =
     (if env \<noteq> '''' then trim_right CHR ''/'' env else ''http://openbao.security.svc:8200'')"

text \<open>Reading a 200 response: any other status or an undecodable body is an error.\<close>

definition decode_ok :: "(nat \<times> 'a option) option \<Rightarrow> 'a option" where
  "decode_ok resp =
     (case resp of None \<Rightarrow> None | Some (status, body) \<Rightarrow> if status \<noteq> 200 then None else body)"

definition lookupTokenSelf :: "bao_env \<Rightarrow> string \<Rightarrow> token_info option" where
  "lookupTokenSelf env token =
     decode_ok (be_token env (openbaoAddr (be_addr env) @ ''/v1/auth/token/lookup-self'') token)"

definition lookupEntity :: "bao_env \<Rightarrow> string \<Rightarrow> string \<Rightarrow> entity_info option" where
  "lookupEntity env token entityID =
     decode_ok (be_entity env
       (openbaoAddr (be_addr env) @ ''/v1/identity/entity/id/'' @ entityID) token)"

text \<open>\<open>meta[k]\<close> on a Go map of strings: the empty string for an absent key.\<close>

definition meta_get :: "(string \<rightharpoonup> string) \<Rightarrow> string \<Rightarrow> string" where
  "meta_get m k = (case m k of None \<Rightarrow> '''' | Some v \<Rightarrow> v)"

text \<open>The deduplicating loop: blank policies are dropped, first occurrences kept.\<close>

fun dedup_roles :: "string list \<Rightarrow> string list \<Rightarrow> string list" where
  "dedup_roles seen [] = []"
| "dedup_roles seen (p # ps) =
     (if p \<noteq> '''' \<and> p \<notin> set seen then p # dedup_roles (p # seen) ps
      else dedup_roles seen ps)"

definition buildPrincipal ::
    "(string list \<Rightarrow> string list) \<Rightarrow> entity_info \<Rightarrow> string list \<Rightarrow> principal" where
  "buildPrincipal rng entity policies =
     (let meta = en_metadata entity;
          roles = dedup_roles [] (en_policies entity @ policies);
          name = (if meta_get meta ''name'' = '''' then en_name entity
                  else meta_get meta ''name'')
      in \<lparr>p_id = en_id entity, p_username = en_name entity, p_name = name,
          p_email = meta_get meta ''email'', p_groups = en_groups entity,
          p_roles = roles, p_idp = ''openbao'',
          p_applets = rolesToApplets rng roles\<rparr>)"

lemma set_dedup_roles: "set (dedup_roles seen ps) = set ps - {''''} - set seen"
  by (induction ps arbitrary: seen) auto

lemma distinct_dedup_roles: "distinct (dedup_roles seen ps)"
  by (induction ps arbitrary: seen) (auto simp: set_dedup_roles)

section \<open>Auth\<close>

definition request_token :: "'b request \<Rightarrow> string option" where
  "request_token r =
     (let auth = rq_header r ''Authorization'';
          q = rq_query r ''token'';
          auth = (if (\<not> prefix bearer auth \<or> length auth \<le> 7) \<and> q \<noteq> ''''
                  then bearer @ q else auth)
      in if \<not> prefix bearer auth \<or> length auth \<le> 7 then None else Some (drop 7 auth))"

definition auth :: "bao_env \<Rightarrow> ('b, 's, 'r) middleware" where
  "auth env next r s =
     (case request_token r of
        None \<Rightarrow> write_error 401 ''unauthorized'' ''missing or invalid bearer token'' s
      | Some token \<Rightarrow>
         (case lookupTokenSelf env token of
            None \<Rightarrow> write_error 401 ''unauthorized'' ''invalid or expired token'' s
          | Some info \<Rightarrow>
              if ti_entity info = ''''
              then write_error 401 ''unauthorized'' ''token has no associated entity'' s
              else (case lookupEntity env token (ti_entity info) of
                      None \<Rightarrow> write_error 401 ''unauthorized'' ''failed to resolve identity'' s
                    | Some entity \<Rightarrow>
                        next (r\<lparr>rq_principal :=
                                  Some (buildPrincipal (be_range env) entity (ti_policies info))\<rparr>)
                             s)))"

text \<open>The specification of \<open>Auth\<close>: who the request comes from, if anyone.\<close>

definition authenticate :: "bao_env \<Rightarrow> 'b request \<Rightarrow> principal option" where
  "authenticate env r =
     Option.bind (request_token r) (\<lambda>token.
       Option.bind (lookupTokenSelf env token) (\<lambda>info.
         if ti_entity info = '''' then None
         else map_option (\<lambda>entity. buildPrincipal (be_range env) entity (ti_policies info))
                (lookupEntity env token (ti_entity info))))"

lemma auth_accepts:
  "authenticate env r = Some p \<Longrightarrow> auth env next r s = next (r\<lparr>rq_principal := Some p\<rparr>) s"
  by (auto simp: authenticate_def auth_def split: option.splits if_splits bind_splits)

lemma auth_rejects:
  "authenticate env r = None \<Longrightarrow>
     \<exists>msg. auth env next r s = (Failure 401 ''unauthorized'' msg, s)"
  by (auto simp: authenticate_def auth_def write_error_def
      split: option.splits if_splits bind_splits)

text \<open>
  How the components register their routes: \<open>Chain(handler, auth, RBAC(role))\<close>.
\<close>

definition guarded :: "bao_env \<Rightarrow> string \<Rightarrow> ('b, 's, 'r) handler \<Rightarrow> ('b, 's, 'r) handler" where
  "guarded env role h = chain h [auth env, rbac role]"

text \<open>
  C1: a guarded handler runs only for an authenticated caller that holds the required role or
  an administrator role, and then it sees that caller as the principal, whatever principal the
  request carried; every other request is answered 401 or 403 and leaves the state of the
  component as it was.
\<close>

theorem guarded_gate:
  "case authenticate env r of
     None \<Rightarrow> \<exists>msg. guarded env role h r s = (Failure 401 ''unauthorized'' msg, s)
   | Some p \<Rightarrow>
       guarded env role h r s =
         (if \<exists>ro \<in> set (p_roles p). ro \<in> {''admin'', ''admin-policy'', role}
          then h (r\<lparr>rq_principal := Some p\<rparr>) s
          else (Failure 403 ''forbidden'' (''insufficient permissions: requires '' @ role), s))"
proof (cases "authenticate env r")
  case None
  then show ?thesis
    using auth_rejects [of env r "rbac role h" s] by (simp add: guarded_def)
next
  case (Some p)
  then show ?thesis
    by (simp add: guarded_def auth_accepts rbac_def role_granted_iff write_error_def)
qed

text \<open>
  An example environment and request, for the witnesses: OpenBao answers every lookup with an
  entity that holds the given policies.
\<close>

definition demo_env :: "string list \<Rightarrow> bao_env" where
  "demo_env policies =
     \<lparr>be_addr = '''',
      be_token = (\<lambda>url tok. Some (200, Some \<lparr>ti_entity = ''ent-1'', ti_policies = policies\<rparr>)),
      be_entity = (\<lambda>url tok. Some (200, Some \<lparr>en_id = ''ent-1'', en_name = ''ann'',
         en_metadata = Map.empty, en_policies = [], en_groups = []\<rparr>)),
      be_range = id\<rparr>"

definition demo_req :: "(string \<Rightarrow> string) \<Rightarrow> 'b option \<Rightarrow> 'b request" where
  "demo_req path body =
     \<lparr>rq_method = ''POST'',
      rq_header = (\<lambda>h. if h = ''Authorization'' then ''Bearer tok'' else ''''),
      rq_query = (\<lambda>q. ''''), rq_path = path, rq_body = body, rq_principal = None,
      rq_now = ''2024-01-01T00:00:00Z''\<rparr>"

lemma demo_authenticate:
  "\<exists>p. authenticate (demo_env policies) (demo_req path body) = Some p \<and>
       set (p_roles p) = set policies - {''''}"
  by (simp add: authenticate_def request_token_def bearer_def demo_req_def demo_env_def
      lookupTokenSelf_def lookupEntity_def decode_ok_def buildPrincipal_def Let_def
      set_dedup_roles)

lemma guarded_granted:
  "authenticate env r = Some p \<Longrightarrow> role_granted role (p_roles p) \<Longrightarrow>
     guarded env role h r s = h (r\<lparr>rq_principal := Some p\<rparr>) s"
  by (simp add: guarded_def auth_accepts rbac_def)

text \<open>An invariant of the handlers is an invariant of the guarded routes.\<close>

lemma guarded_cases:
  "(\<exists>p. authenticate env r = Some p \<and> role_granted role (p_roles p) \<and>
        guarded env role h r s = h (r\<lparr>rq_principal := Some p\<rparr>) s) \<or>
   snd (guarded env role h r s) = s"
proof (cases "authenticate env r")
  case None
  then show ?thesis
    using auth_rejects [of env r "rbac role h" s] by (auto simp: guarded_def)
next
  case (Some p)
  then show ?thesis
    by (auto simp: guarded_def auth_accepts rbac_def write_error_def)
qed

lemma guarded_keeps:
  assumes "\<And>r. I (snd (h r s))" and "I s"
  shows "I (snd (guarded env role h r s))"
  using guarded_cases [of env r role h s] assms by (metis (no_types))

text \<open>A history of a component: requests on its routes, each under the answers OpenBao gives then.\<close>

fun serve_all ::
    "(bao_env \<Rightarrow> 'rt \<Rightarrow> ('b, 's, 'r) handler) \<Rightarrow> (bao_env \<times> 'rt \<times> 'b request) list \<Rightarrow> 's \<Rightarrow> 's"
  where
  "serve_all serve [] s = s"
| "serve_all serve ((env, rt, r) # qs) s = serve_all serve qs (snd (serve env rt r s))"

lemma serve_all_keeps_on:
  assumes "\<And>env rt r s. (env, rt, r) \<in> set qs \<Longrightarrow> I s \<Longrightarrow> I (snd (serve env rt r s))"
    and "I s"
  shows "I (serve_all serve qs s)"
  using assms
proof (induction qs arbitrary: s)
  case Nil
  then show ?case by simp
next
  case (Cons q qs)
  obtain env rt r where q: "q = (env, rt, r)" by (cases q)
  then have "I (snd (serve env rt r s))" using Cons.prems by simp
  then have "I (serve_all serve qs (snd (serve env rt r s)))"
    by (intro Cons.IH) (use Cons.prems(1) in auto)
  then show ?case by (simp add: q)
qed

lemma serve_all_keeps:
  assumes "\<And>env rt r s. I s \<Longrightarrow> I (snd (serve env rt r s))" and "I s"
  shows "I (serve_all serve qs s)"
  using serve_all_keeps_on [of qs I serve s] assms by blast

section \<open>The contract between RBAC and a component\<close>

text \<open>
  A component names a role per route. Its promise to the access-control matrix is that the
  routes open to its view role do not write.
\<close>

locale rbac_component =
  fixes handle :: "'rt \<Rightarrow> ('b, 's, 'r) handler"
    and role :: "'rt \<Rightarrow> string"
    and view :: string
  assumes view_pure: "role rt = view \<Longrightarrow> snd (handle rt r s) = s"
begin

definition read_only :: "principal \<Rightarrow> bool" where
  "read_only p \<longleftrightarrow>
     (\<forall>ro \<in> set (p_roles p). ro \<notin> {''admin'', ''admin-policy''} \<and> (ro \<in> range role \<longrightarrow> ro = view))"

lemma viewer_cannot_write:
  assumes "\<And>p. authenticate env r = Some p \<Longrightarrow> read_only p"
  shows "snd (guarded env (role rt) (handle rt) r s) = s"
  using guarded_cases [of env r "role rt" "handle rt" s]
proof
  assume "\<exists>p. authenticate env r = Some p \<and> role_granted (role rt) (p_roles p) \<and>
    guarded env (role rt) (handle rt) r s = handle rt (r\<lparr>rq_principal := Some p\<rparr>) s"
  then obtain p where p: "authenticate env r = Some p" "role_granted (role rt) (p_roles p)"
    and run: "guarded env (role rt) (handle rt) r s = handle rt (r\<lparr>rq_principal := Some p\<rparr>) s"
    by blast
  from p assms have "role rt = view"
    unfolding role_granted_iff read_only_def by blast
  then show ?thesis unfolding run by (rule view_pure)
qed

lemma viewers_change_nothing:
  assumes "\<And>env rt r p. (env, rt, r) \<in> set qs \<Longrightarrow> authenticate env r = Some p \<Longrightarrow> read_only p"
  shows "serve_all (\<lambda>env rt. guarded env (role rt) (handle rt)) qs s = s"
  using assms
proof (induction qs)
  case Nil
  then show ?case by simp
next
  case (Cons q qs)
  obtain env rt r where q: "q = (env, rt, r)" by (cases q)
  have "snd (guarded env (role rt) (handle rt) r s) = s"
    by (rule viewer_cannot_write) (rule Cons.prems, auto simp: q)
  with Cons show ?case by (simp add: q) blast
qed

end

end
