(* ===== verification/Store_Contracts.thy ===== *)
theory Store_Contracts
  imports Conv_Prelude
begin

text \<open>
  What the in-memory stores of the API server promise to their HTTP handlers, as locales.
  \<open>keyed_store\<close> is a store of records scanned by identifier, \<open>creating_store\<close> adds the
  creation of records under an identifier the store chooses, \<open>deleting_store\<close> adds removal,
  and \<open>counted_store\<close> has both and numbers a new record by the current length
  of its slice. The components interpret them on their own operations; the lemmas here are
  proved once.
\<close>

section \<open>Lookup and update by identifier\<close>

locale keyed_store =
  fixes keys :: "'s \<Rightarrow> 'k list"
    and lookup :: "'k \<Rightarrow> 's \<Rightarrow> 'a option"
    and update :: "'u \<Rightarrow> 'k \<Rightarrow> 's \<Rightarrow> 'a option \<times> 's"
  assumes lookup_None: "lookup k s = None \<longleftrightarrow> k \<notin> set (keys s)"
    and update_keys: "keys (snd (update u k s)) = keys s"
    and update_same: "fst (update u k s) = lookup k (snd (update u k s))"
    and update_other: "k' \<noteq> k \<Longrightarrow> lookup k' (snd (update u k s)) = lookup k' s"
begin

lemma update_None: "fst (update u k s) = None \<longleftrightarrow> k \<notin> set (keys s)"
  by (simp add: update_same lookup_None update_keys)

lemma update_read_back:
  "fst (update u k s) = Some a \<Longrightarrow> lookup k (snd (update u k s)) = Some a"
  by (simp flip: update_same)

lemma update_distinct: "distinct (keys (snd (update u k s))) = distinct (keys s)"
  by (simp add: update_keys)

text \<open>Updates of different records do not see each other, in either order.\<close>

lemma update_independent:
  assumes "k' \<noteq> k"
  shows "lookup k' (snd (update u k (snd (update u' k' s)))) = fst (update u' k' s)"
  using assms by (simp add: update_other update_same)

end

section \<open>Creation\<close>

locale creating_store = keyed_store keys lookup update
  for keys :: "'s \<Rightarrow> 'k list"
    and lookup :: "'k \<Rightarrow> 's \<Rightarrow> 'a option"
    and update :: "'u \<Rightarrow> 'k \<Rightarrow> 's \<Rightarrow> 'a option \<times> 's" +
  fixes new_key :: "'c \<Rightarrow> 's \<Rightarrow> 'k"
    and create :: "'c \<Rightarrow> 's \<Rightarrow> 'a \<times> 's"
  assumes create_keys: "keys (snd (create c s)) = keys s @ [new_key c s]"
    and create_same:
      "new_key c s \<notin> set (keys s) \<Longrightarrow>
         lookup (new_key c s) (snd (create c s)) = Some (fst (create c s))"
    and create_old: "k \<in> set (keys s) \<Longrightarrow> lookup k (snd (create c s)) = lookup k s"
begin

lemma create_distinct:
  "distinct (keys s) \<Longrightarrow>
     distinct (keys (snd (create c s))) \<longleftrightarrow> new_key c s \<notin> set (keys s)"
  by (auto simp: create_keys)

text \<open>
  A record created under an identifier already in use is shadowed: no lookup reaches it.
\<close>

lemma create_shadowed:
  "new_key c s \<in> set (keys s) \<Longrightarrow>
     lookup (new_key c s) (snd (create c s)) = lookup (new_key c s) s"
  by (rule create_old)

end

section \<open>Removal\<close>

locale deleting_store = keyed_store keys lookup update
  for keys :: "'s \<Rightarrow> 'k list"
    and lookup :: "'k \<Rightarrow> 's \<Rightarrow> 'a option"
    and update :: "'u \<Rightarrow> 'k \<Rightarrow> 's \<Rightarrow> 'a option \<times> 's" +
  fixes delete :: "'k \<Rightarrow> 's \<Rightarrow> bool \<times> 's"
  assumes delete_result: "fst (delete k s) \<longleftrightarrow> k \<in> set (keys s)"
    and delete_keys: "keys (snd (delete k s)) = remove1 k (keys s)"
    and delete_other: "k' \<noteq> k \<Longrightarrow> lookup k' (snd (delete k s)) = lookup k' s"
begin

lemma delete_gone:
  "distinct (keys s) \<Longrightarrow> lookup k (snd (delete k s)) = None"
  by (simp add: lookup_None delete_keys)

lemma delete_twice:
  "distinct (keys s) \<Longrightarrow> \<not> fst (delete k (snd (delete k s)))"
  by (simp add: delete_result delete_keys)

lemma delete_distinct:
  "distinct (keys s) \<Longrightarrow> distinct (keys (snd (delete k s)))"
  by (simp add: delete_keys)

lemma delete_count:
  "k \<in> set (keys s) \<Longrightarrow> Suc (length (keys (snd (delete k s)))) = length (keys s)"
  by (simp add: delete_keys length_remove1) (metis Suc_pred length_pos_if_in_set)

end

section \<open>Numbering by the length of the slice\<close>

locale counted_store =
  creating_store keys lookup update new_key create + deleting_store keys lookup update delete
  for keys :: "'s \<Rightarrow> string list"
    and lookup :: "string \<Rightarrow> 's \<Rightarrow> 'a option"
    and update :: "'u \<Rightarrow> string \<Rightarrow> 's \<Rightarrow> 'a option \<times> 's"
    and new_key :: "'c \<Rightarrow> 's \<Rightarrow> string"
    and create :: "'c \<Rightarrow> 's \<Rightarrow> 'a \<times> 's"
    and delete :: "string \<Rightarrow> 's \<Rightarrow> bool \<times> 's" +
  fixes prefix :: string and width :: nat
  assumes new_key_counted:
    "new_key c s = prefix @ sprintf_0d width (Suc (length (keys s)))"
begin

text \<open>The identifiers a store hands out while nothing is deleted.\<close>

definition numbered :: "nat \<Rightarrow> string list" where
  "numbered n = map (\<lambda>i. prefix @ sprintf_0d width (Suc i)) [0..<n]"

lemma distinct_numbered: "distinct (numbered n)"
  by (auto simp: numbered_def distinct_map inj_on_def)

lemma create_numbered:
  "keys s = numbered n \<Longrightarrow> keys (snd (create c s)) = numbered (Suc n)"
  by (simp add: create_keys new_key_counted numbered_def)

text \<open>
  Identifiers are reused: once any record but the newest of a full numbering is deleted, the
  next creation takes the newest record's identifier again.
\<close>

lemma create_after_delete_reuses:
  assumes keys: "keys s = numbered n" and old: "k \<in> set (keys s)"
  shows "new_key c (snd (delete k s)) = prefix @ sprintf_0d width n"
  using delete_count [OF old] keys by (simp add: new_key_counted numbered_def)

lemma create_after_delete_collides:
  assumes keys: "keys s = numbered n" and old: "k \<in> set (keys s)"
    and not_last: "k \<noteq> prefix @ sprintf_0d width n"
  shows "new_key c (snd (delete k s)) \<in> set (keys (snd (delete k s)))"
proof -
  from old keys have n: "0 < n" by (auto simp: numbered_def)
  then have "prefix @ sprintf_0d width n \<in> set (keys s)"
    by (auto simp: keys numbered_def image_iff intro!: bexI [of _ "n - 1"])
  with not_last show ?thesis
    by (simp add: create_after_delete_reuses [OF keys old] delete_keys in_set_remove1)
qed

end

end
