(* ===== verification/Board.thy ===== *)
theory Board
  imports Complex_Main Middleware Store_Contracts
begin

text \<open>
  The project board (\<^verbatim>\<open>internal/pb\<close>): boards of cards and typed edges between cards, the
  store that keeps them, its HTTP handlers and their routes.

  Records follow the Go structs; \<open>Board\<close> embeds \<open>BoardSummary\<close>, which is a record extension
  here. Coordinates are only stored and returned, as rationals. A nil slice of links is
  \<open>None\<close>. A method that returns a record and a boolean returns an option. Every store method
  runs under the store's mutex, so it is one step; a handler is the sequence of its store
  calls.
\<close>

section \<open>Data\<close>

record position =
  pos_x :: rat
  pos_y :: rat

record size2 =
  sz_w :: rat
  sz_h :: rat

record edge =
  edge_id :: string
  edge_type :: string
  edge_from :: string
  edge_to :: string

record card =
  card_id :: string
  card_title :: string
  card_status :: string
  card_content :: string
  card_position :: "position option"
  card_size :: "size2 option"
  card_sourceRefs :: "string list"
  card_note :: "string option"
  card_links :: "edge list option"

record board_summary =
  brd_id :: string
  brd_name :: string
  brd_repo :: string
  brd_updatedAt :: string

record board = board_summary +
  brd_cards :: "card list"
  brd_edges :: "edge list"

record execution_run =
  run_id :: string
  run_board :: string
  run_dispatched :: "string list"
  run_pr :: "string option"
  run_startedAt :: string

record pb_store =
  boards :: "board list"
  nextCardN :: nat
  nextEdgeN :: nat

section \<open>The store\<close>

definition card_key :: "nat \<Rightarrow> string" where
  "card_key n = ''card-'' @ sprintf_0d 3 n"

definition edge_key :: "nat \<Rightarrow> string" where
  "edge_key n = ''edge-'' @ sprintf_0d 3 n"

definition board_key :: "nat \<Rightarrow> string" where
  "board_key n = ''brd-'' @ sprintf_0d 3 n"

definition demo_card :: "string \<Rightarrow> string \<Rightarrow> string \<Rightarrow> rat \<Rightarrow> card" where
  "demo_card i title content y =
     \<lparr>card_id = i, card_title = title, card_status = ''todo'', card_content = content,
      card_position = Some \<lparr>pos_x = 70, pos_y = y\<rparr>, card_size = Some \<lparr>sz_w = 200, sz_h = 120\<rparr>,
      card_sourceRefs = [], card_note = None, card_links = Some []\<rparr>"

definition pb_newStore :: "string \<Rightarrow> pb_store" where
  "pb_newStore now =
     \<lparr>boards =
        [\<lparr>brd_id = ''brd-001'', brd_name = ''Demo Project'', brd_repo = ''repo-001'',
          brd_updatedAt = now,
          brd_cards =
            [demo_card ''card-001'' ''Set up database schema'' ''Create initial PostgreSQL schema'' 80,
             demo_card ''card-002'' ''Implement auth endpoints'' ''JWT login, refresh, logout'' 220],
          brd_edges =
            [\<lparr>edge_id = ''edge-001'', edge_type = ''DependsOn'', edge_from = ''card-002'',
              edge_to = ''card-001''\<rparr>]\<rparr>],
      nextCardN = 3, nextEdgeN = 2\<rparr>"

definition listBoards :: "pb_store \<Rightarrow> board_summary list" where
  "listBoards s = map board_summary.truncate (boards s)"

definition getBoard :: "string \<Rightarrow> pb_store \<Rightarrow> board option" where
  "getBoard i s = find_key brd_id i (boards s)"

definition createBoard :: "string \<Rightarrow> string \<Rightarrow> string \<Rightarrow> pb_store \<Rightarrow> board \<times> pb_store" where
  "createBoard now name repoID s =
     (let b = \<lparr>brd_id = board_key (length (boards s) + 1), brd_name = name, brd_repo = repoID,
               brd_updatedAt = now, brd_cards = [], brd_edges = []\<rparr>
      in (b, s\<lparr>boards := boards s @ [b]\<rparr>))"

definition renameBoard :: "string \<Rightarrow> string \<Rightarrow> string \<Rightarrow> pb_store \<Rightarrow> board option \<times> pb_store" where
  "renameBoard now i name s =
     (case find_key brd_id i (boards s) of
        None \<Rightarrow> (None, s)
      | Some b \<Rightarrow>
          let b' = b\<lparr>brd_name := name, brd_updatedAt := now\<rparr>
          in (Some b', s\<lparr>boards := upd_key brd_id i b' (boards s)\<rparr>))"

text \<open>\<open>boardIndex\<close> returns \<open>-1\<close> for an unknown board, \<open>None\<close> here.\<close>

definition boardIndex :: "string \<Rightarrow> pb_store \<Rightarrow> nat option" where
  "boardIndex i s = index_key brd_id i (boards s)"

definition createCard :: "string \<Rightarrow> card \<Rightarrow> pb_store \<Rightarrow> card option \<times> pb_store" where
  "createCard boardID c s =
     (case boardIndex boardID s of
        None \<Rightarrow> (None, s)
      | Some bi \<Rightarrow>
          let c = c\<lparr>card_id := card_key (nextCardN s)\<rparr>;
              s = s\<lparr>nextCardN := nextCardN s + 1\<rparr>;
              c = (if card_status c = '''' then c\<lparr>card_status := ''todo''\<rparr> else c);
              c = (if card_links c = None then c\<lparr>card_links := Some []\<rparr> else c);
              b = boards s ! bi
          in (Some c, s\<lparr>boards := (boards s)[bi := b\<lparr>brd_cards := brd_cards b @ [c]\<rparr>]\<rparr>))"

definition getCard :: "string \<Rightarrow> string \<Rightarrow> pb_store \<Rightarrow> card option" where
  "getCard boardID cardID s =
     (case boardIndex boardID s of
        None \<Rightarrow> None
      | Some bi \<Rightarrow> find_key card_id cardID (brd_cards (boards s ! bi)))"

definition updateCard :: "string \<Rightarrow> card \<Rightarrow> pb_store \<Rightarrow> card option \<times> pb_store" where
  "updateCard boardID c s =
     (case boardIndex boardID s of
        None \<Rightarrow> (None, s)
      | Some bi \<Rightarrow>
          let b = boards s ! bi
          in (case find_key card_id (card_id c) (brd_cards b) of
                None \<Rightarrow> (None, s)
              | Some _ \<Rightarrow>
                  (Some c, s\<lparr>boards := (boards s)[bi :=
                     b\<lparr>brd_cards := upd_key card_id (card_id c) c (brd_cards b)\<rparr>]\<rparr>)))"

definition deleteCard :: "string \<Rightarrow> string \<Rightarrow> pb_store \<Rightarrow> bool \<times> pb_store" where
  "deleteCard boardID cardID s =
     (case boardIndex boardID s of
        None \<Rightarrow> (False, s)
      | Some bi \<Rightarrow>
          let b = boards s ! bi
          in (case find_key card_id cardID (brd_cards b) of
                None \<Rightarrow> (False, s)
              | Some _ \<Rightarrow>
                  (True, s\<lparr>boards := (boards s)[bi :=
                     b\<lparr>brd_cards := del_key card_id cardID (brd_cards b)\<rparr>]\<rparr>)))"

definition createEdge :: "string \<Rightarrow> edge \<Rightarrow> pb_store \<Rightarrow> edge option \<times> pb_store" where
  "createEdge boardID e s =
     (case boardIndex boardID s of
        None \<Rightarrow> (None, s)
      | Some bi \<Rightarrow>
          let e = e\<lparr>edge_id := edge_key (nextEdgeN s)\<rparr>;
              s = s\<lparr>nextEdgeN := nextEdgeN s + 1\<rparr>;
              e = (if edge_type e = '''' then e\<lparr>edge_type := ''RelatesTo''\<rparr> else e);
              b = boards s ! bi
          in (Some e, s\<lparr>boards := (boards s)[bi := b\<lparr>brd_edges := brd_edges b @ [e]\<rparr>]\<rparr>))"

definition updateEdge :: "string \<Rightarrow> string \<Rightarrow> string \<Rightarrow> pb_store \<Rightarrow> edge option \<times> pb_store" where
  "updateEdge boardID edgeID edgeType s =
     (case boardIndex boardID s of
        None \<Rightarrow> (None, s)
      | Some bi \<Rightarrow>
          let b = boards s ! bi
          in (case find_key edge_id edgeID (brd_edges b) of
                None \<Rightarrow> (None, s)
              | Some e \<Rightarrow>
                  let e' = e\<lparr>edge_type := edgeType\<rparr>
                  in (Some e', s\<lparr>boards := (boards s)[bi :=
                        b\<lparr>brd_edges := upd_key edge_id edgeID e' (brd_edges b)\<rparr>]\<rparr>)))"

definition deleteEdge :: "string \<Rightarrow> string \<Rightarrow> pb_store \<Rightarrow> bool \<times> pb_store" where
  "deleteEdge boardID edgeID s =
     (case boardIndex boardID s of
        None \<Rightarrow> (False, s)
      | Some bi \<Rightarrow>
          let b = boards s ! bi
          in (case find_key edge_id edgeID (brd_edges b) of
                None \<Rightarrow> (False, s)
              | Some _ \<Rightarrow>
                  (True, s\<lparr>boards := (boards s)[bi :=
                     b\<lparr>brd_edges := del_key edge_id edgeID (brd_edges b)\<rparr>]\<rparr>)))"

section \<open>Handlers\<close>

text \<open>
  The request body, decoded at the type each handler asks for; a handler reads one of the
  fields. Payloads are what the handlers give to the JSON encoder.
\<close>

record pb_body =
  pbb_name :: string
  pbb_repoId :: string
  pbb_type :: string
  pbb_card :: card
  pbb_edge :: edge

datatype pb_payload =
    PBoards "board_summary page" | PBoard board | PCard card | PEdge edge
  | PRun execution_run | PSaved "(string \<times> string) list"

type_synonym pb_handler_t = "(pb_body, pb_store, pb_payload) handler"

definition pb_not_found :: "string \<Rightarrow> pb_store \<Rightarrow> pb_payload reply \<times> pb_store" where
  "pb_not_found what s = write_error 404 ''not_found'' (what @ '' not found'') s"

definition h_listBoards :: pb_handler_t where
  "h_listBoards r s = write_page PBoards (listBoards s) r s"

definition h_createBoard :: pb_handler_t where
  "h_createBoard = with_body (\<lambda>req r s.
     let (b, s) = createBoard (rq_now r) (pbb_name req) (pbb_repoId req) s
     in write_json 201 (PBoard b) s)"

definition h_getBoard :: pb_handler_t where
  "h_getBoard r s =
     (case getBoard (rq_path r ''boardId'') s of
        None \<Rightarrow> pb_not_found ''board'' s
      | Some b \<Rightarrow> write_json 200 (PBoard b) s)"

definition h_renameBoard :: pb_handler_t where
  "h_renameBoard = with_body (\<lambda>req r s.
     case renameBoard (rq_now r) (rq_path r ''boardId'') (pbb_name req) s of
       (None, s) \<Rightarrow> pb_not_found ''board'' s
     | (Some b, s) \<Rightarrow> write_json 200 (PBoard b) s)"

definition h_saveAsRepo :: pb_handler_t where
  "h_saveAsRepo r s =
     write_json 201 (PSaved [(''id'', ''repo-mock''), (''name'', ''saved-board'')]) s"

definition h_implement :: pb_handler_t where
  "h_implement r s =
     write_json 202 (PRun \<lparr>run_id = ''run-001'', run_board = rq_path r ''boardId'',
        run_dispatched = [''card-001'', ''card-002''], run_pr = None,
        run_startedAt = rq_now r\<rparr>) s"

definition h_createCard :: pb_handler_t where
  "h_createCard = with_body (\<lambda>req r s.
     case createCard (rq_path r ''boardId'') (pbb_card req) s of
       (None, s) \<Rightarrow> pb_not_found ''board'' s
     | (Some c, s) \<Rightarrow> write_json 201 (PCard c) s)"

definition h_getCard :: pb_handler_t where
  "h_getCard r s =
     (case getCard (rq_path r ''boardId'') (rq_path r ''cardId'') s of
        None \<Rightarrow> pb_not_found ''card'' s
      | Some c \<Rightarrow> write_json 200 (PCard c) s)"

definition h_updateCard :: pb_handler_t where
  "h_updateCard = with_body (\<lambda>req r s.
     case updateCard (rq_path r ''boardId'') ((pbb_card req)\<lparr>card_id := rq_path r ''cardId''\<rparr>) s of
       (None, s) \<Rightarrow> pb_not_found ''card'' s
     | (Some c, s) \<Rightarrow> write_json 200 (PCard c) s)"

definition h_deleteCard :: pb_handler_t where
  "h_deleteCard r s =
     (case deleteCard (rq_path r ''boardId'') (rq_path r ''cardId'') s of
        (False, s) \<Rightarrow> pb_not_found ''card'' s
      | (True, s) \<Rightarrow> (Status 204, s))"

text \<open>
  \<open>sendCard\<close> calls the store twice, and the mutex is released in between: the snapshot is
  read first and written back, with its status changed, afterwards.
\<close>

definition sendCard_snapshot :: "pb_body request \<Rightarrow> pb_store \<Rightarrow> card option" where
  "sendCard_snapshot r s =
     map_option (\<lambda>c. c\<lparr>card_status := ''active''\<rparr>)
       (getCard (rq_path r ''boardId'') (rq_path r ''cardId'') s)"

definition sendCard_commit :: "pb_body request \<Rightarrow> card option \<Rightarrow> pb_store \<Rightarrow>
    pb_payload reply \<times> pb_store" where
  "sendCard_commit r oc s =
     (case oc of
        None \<Rightarrow> pb_not_found ''card'' s
      | Some c \<Rightarrow>
          let (_, s) = updateCard (rq_path r ''boardId'') c s in write_json 202 (PCard c) s)"

definition h_sendCard :: pb_handler_t where
  "h_sendCard r s = sendCard_commit r (sendCard_snapshot r s) s"

definition h_createEdge :: pb_handler_t where
  "h_createEdge = with_body (\<lambda>req r s.
     case createEdge (rq_path r ''boardId'') (pbb_edge req) s of
       (None, s) \<Rightarrow> pb_not_found ''board'' s
     | (Some e, s) \<Rightarrow> write_json 201 (PEdge e) s)"

definition h_updateEdge :: pb_handler_t where
  "h_updateEdge = with_body (\<lambda>req r s.
     case updateEdge (rq_path r ''boardId'') (rq_path r ''edgeId'') (pbb_type req) s of
       (None, s) \<Rightarrow> pb_not_found ''edge'' s
     | (Some e, s) \<Rightarrow> write_json 200 (PEdge e) s)"

definition h_deleteEdge :: pb_handler_t where
  "h_deleteEdge r s =
     (case deleteEdge (rq_path r ''boardId'') (rq_path r ''edgeId'') s of
        (False, s) \<Rightarrow> pb_not_found ''edge'' s
      | (True, s) \<Rightarrow> (Status 204, s))"

section \<open>Routes\<close>

datatype pb_route =
    PbListBoards | PbCreateBoard | PbGetBoard | PbRenameBoard | PbSaveAsRepo | PbImplement
  | PbCreateCard | PbGetCard | PbUpdateCard | PbDeleteCard | PbSendCard
  | PbCreateEdge | PbUpdateEdge | PbDeleteEdge

fun pb_role :: "pb_route \<Rightarrow> string" where
  "pb_role PbListBoards = ''pb-view''"
| "pb_role PbCreateBoard = ''pb-update''"
| "pb_role PbGetBoard = ''pb-view''"
| "pb_role PbRenameBoard = ''pb-update''"
| "pb_role PbSaveAsRepo = ''pb-update''"
| "pb_role PbImplement = ''pb-execute''"
| "pb_role PbCreateCard = ''pb-update''"
| "pb_role PbGetCard = ''pb-view''"
| "pb_role PbUpdateCard = ''pb-update''"
| "pb_role PbDeleteCard = ''pb-update''"
| "pb_role PbSendCard = ''pb-execute''"
| "pb_role PbCreateEdge = ''pb-update''"
| "pb_role PbUpdateEdge = ''pb-update''"
| "pb_role PbDeleteEdge = ''pb-update''"

fun pb_handle :: "pb_route \<Rightarrow> pb_handler_t" where
  "pb_handle PbListBoards = h_listBoards"
| "pb_handle PbCreateBoard = h_createBoard"
| "pb_handle PbGetBoard = h_getBoard"
| "pb_handle PbRenameBoard = h_renameBoard"
| "pb_handle PbSaveAsRepo = h_saveAsRepo"
| "pb_handle PbImplement = h_implement"
| "pb_handle PbCreateCard = h_createCard"
| "pb_handle PbGetCard = h_getCard"
| "pb_handle PbUpdateCard = h_updateCard"
| "pb_handle PbDeleteCard = h_deleteCard"
| "pb_handle PbSendCard = h_sendCard"
| "pb_handle PbCreateEdge = h_createEdge"
| "pb_handle PbUpdateEdge = h_updateEdge"
| "pb_handle PbDeleteEdge = h_deleteEdge"

definition pb_serve :: "bao_env \<Rightarrow> pb_route \<Rightarrow> pb_handler_t" where
  "pb_serve env rt = guarded env (pb_role rt) (pb_handle rt)"

section \<open>The store as a store\<close>

text \<open>
  The card and edge operations find their board by position and write it back by position.
  \<open>board_at\<close> splits the slice there, and the \<open>_eq\<close> lemmas give each operation as one
  scan of the boards followed by one scan of the board.
\<close>

definition pb_keys :: "pb_store \<Rightarrow> string list" where
  "pb_keys s = map brd_id (boards s)"

definition card_keys :: "string \<Rightarrow> pb_store \<Rightarrow> string list" where
  "card_keys b s = (case getBoard b s of None \<Rightarrow> [] | Some B \<Rightarrow> map card_id (brd_cards B))"

definition edge_keys :: "string \<Rightarrow> pb_store \<Rightarrow> string list" where
  "edge_keys b s = (case getBoard b s of None \<Rightarrow> [] | Some B \<Rightarrow> map edge_id (brd_edges B))"

definition getEdge :: "string \<Rightarrow> string \<Rightarrow> pb_store \<Rightarrow> edge option" where
  "getEdge b k s = Option.bind (getBoard b s) (\<lambda>B. find_key edge_id k (brd_edges B))"

lemma board_at:
  assumes "boardIndex b s = Some i"
  shows "\<exists>ys B zs. boards s = ys @ B # zs \<and> boards s ! i = B \<and> brd_id B = b \<and>
    getBoard b s = Some B \<and> (\<forall>B'. (boards s)[i := B'] = ys @ B' # zs)"
proof -
  define B where "B = boards s ! i"
  from assms have i: "i < length (boards s)" and B: "brd_id B = b" "getBoard b s = Some B"
    using index_key_Some [of brd_id b "boards s" i]
    by (simp_all add: boardIndex_def getBoard_def B_def)
  obtain ys zs where "boards s = ys @ B # zs" "\<forall>B'. (boards s)[i := B'] = ys @ B' # zs"
    using nth_split [OF i] unfolding B_def by blast
  with B show ?thesis unfolding B_def [symmetric] by blast
qed

lemma boardIndex_None: "boardIndex b s = None \<longleftrightarrow> getBoard b s = None"
  by (simp add: boardIndex_def getBoard_def store_simps)

lemma getBoard_None: "getBoard b s = None \<longleftrightarrow> b \<notin> set (pb_keys s)"
  by (simp add: getBoard_def pb_keys_def store_simps)

lemma getBoard_id: "getBoard b s = Some B \<Longrightarrow> brd_id B = b"
  unfolding getBoard_def by (rule find_key_key)

lemma boardIndex_getBoard: "boardIndex b s = Some i \<Longrightarrow> getBoard b s = Some (boards s ! i)"
  using board_at [of b s i] by blast

lemma board_write:
  "boardIndex b s = Some i \<Longrightarrow> (boards s)[i := B'] = upd_key brd_id b B' (boards s)"
  by (simp add: boardIndex_def index_key_update)

lemma getBoard_write:
  assumes "getBoard b s = Some B" and "brd_id B' = b"
  shows "find_key brd_id b' (upd_key brd_id b B' (boards s)) =
    (if b' = b then Some B' else getBoard b' s)"
proof -
  from assms(1) have "b \<in> brd_id ` set (boards s)"
    using getBoard_None [of b s] by (auto simp: pb_keys_def)
  with assms(2) show ?thesis
    by (simp add: getBoard_def find_key_upd_same find_key_upd_other)
qed

lemma boardIndex_split:
  "(case boardIndex b s of None \<Rightarrow> x | Some i \<Rightarrow> f i) =
   (case getBoard b s of None \<Rightarrow> x | Some B \<Rightarrow> f (the (boardIndex b s)))"
  by (auto simp: boardIndex_None boardIndex_getBoard split: option.split)

lemma board_the:
  "getBoard b s = Some B \<Longrightarrow> boards s ! the (boardIndex b s) = B"
  "getBoard b s = Some B \<Longrightarrow>
     (boards s)[the (boardIndex b s) := B'] = upd_key brd_id b B' (boards s)"
proof -
  assume B: "getBoard b s = Some B"
  then obtain i where i: "boardIndex b s = Some i"
    using boardIndex_None [of b s] by fastforce
  with B show "boards s ! the (boardIndex b s) = B"
    and "(boards s)[the (boardIndex b s) := B'] = upd_key brd_id b B' (boards s)"
    using boardIndex_getBoard [OF i] board_write [OF i] by simp_all
qed

lemmas board_scan = boardIndex_split board_the Let_def

lemma getCard_eq:
  "getCard b k s = Option.bind (getBoard b s) (\<lambda>B. find_key card_id k (brd_cards B))"
  by (simp add: getCard_def board_scan split: option.split)

lemma createCard_eq:
  "createCard b c s =
     (case getBoard b s of
        None \<Rightarrow> (None, s)
      | Some B \<Rightarrow>
          let c' = c\<lparr>card_id := card_key (nextCardN s),
                     card_status := (if card_status c = '''' then ''todo'' else card_status c),
                     card_links := (if card_links c = None then Some [] else card_links c)\<rparr>
          in (Some c', s\<lparr>nextCardN := nextCardN s + 1,
                boards := upd_key brd_id b (B\<lparr>brd_cards := brd_cards B @ [c']\<rparr>) (boards s)\<rparr>))"
  by (simp add: createCard_def board_scan split: option.split)

lemma updateCard_eq:
  "updateCard b c s =
     (case getBoard b s of
        None \<Rightarrow> (None, s)
      | Some B \<Rightarrow>
          if card_id c \<in> card_id ` set (brd_cards B)
          then (Some c, s\<lparr>boards := upd_key brd_id b
                  (B\<lparr>brd_cards := upd_key card_id (card_id c) c (brd_cards B)\<rparr>) (boards s)\<rparr>)
          else (None, s))"
  by (auto simp: updateCard_def board_scan find_key_None found_iff split: option.split)

lemma deleteCard_eq:
  "deleteCard b k s =
     (case getBoard b s of
        None \<Rightarrow> (False, s)
      | Some B \<Rightarrow>
          if k \<in> card_id ` set (brd_cards B)
          then (True, s\<lparr>boards := upd_key brd_id b
                  (B\<lparr>brd_cards := del_key card_id k (brd_cards B)\<rparr>) (boards s)\<rparr>)
          else (False, s))"
  by (auto simp: deleteCard_def board_scan find_key_None found_iff split: option.split)

lemma createEdge_eq:
  "createEdge b e s =
     (case getBoard b s of
        None \<Rightarrow> (None, s)
      | Some B \<Rightarrow>
          let e' = e\<lparr>edge_id := edge_key (nextEdgeN s),
                     edge_type := (if edge_type e = '''' then ''RelatesTo'' else edge_type e)\<rparr>
          in (Some e', s\<lparr>nextEdgeN := nextEdgeN s + 1,
                boards := upd_key brd_id b (B\<lparr>brd_edges := brd_edges B @ [e']\<rparr>) (boards s)\<rparr>))"
  by (simp add: createEdge_def board_scan split: option.split)

lemma updateEdge_eq:
  "updateEdge b k ty s =
     (case getBoard b s of
        None \<Rightarrow> (None, s)
      | Some B \<Rightarrow>
         (case find_key edge_id k (brd_edges B) of
            None \<Rightarrow> (None, s)
          | Some e \<Rightarrow> (Some (e\<lparr>edge_type := ty\<rparr>), s\<lparr>boards := upd_key brd_id b
              (B\<lparr>brd_edges := upd_key edge_id k (e\<lparr>edge_type := ty\<rparr>) (brd_edges B)\<rparr>)
              (boards s)\<rparr>)))"
  by (simp add: updateEdge_def board_scan split: option.split)

lemma deleteEdge_eq:
  "deleteEdge b k s =
     (case getBoard b s of
        None \<Rightarrow> (False, s)
      | Some B \<Rightarrow>
          if k \<in> edge_id ` set (brd_edges B)
          then (True, s\<lparr>boards := upd_key brd_id b
                  (B\<lparr>brd_edges := del_key edge_id k (brd_edges B)\<rparr>) (boards s)\<rparr>)
          else (False, s))"
  by (auto simp: deleteEdge_def board_scan find_key_None found_iff split: option.split)

text \<open>The three contracts the store offers: boards, the cards of a board, the edges of a board.\<close>

lemma getBoard_rename:
  "getBoard k' (snd (renameBoard now k name s)) =
     (if k' = k then fst (renameBoard now k name s) else getBoard k' s)"
proof (cases "getBoard k s")
  case None
  then show ?thesis by (simp add: renameBoard_def getBoard_def)
next
  case (Some B)
  with getBoard_id [OF Some] show ?thesis
    using getBoard_write [OF Some, of "B\<lparr>brd_name := name, brd_updatedAt := now\<rparr>"]
    by (simp add: renameBoard_def getBoard_def Let_def)
qed

lemma keys_rename: "pb_keys (snd (renameBoard now k name s)) = pb_keys s"
  by (auto simp: renameBoard_def pb_keys_def Let_def map_upd_key split: option.split
      dest: find_key_key)

interpretation brd: creating_store pb_keys getBoard
  "\<lambda>u k s. renameBoard (fst u) k (snd u) s"
  "\<lambda>_ s. board_key (length (boards s) + 1)"
  "\<lambda>c s. createBoard (fst c) (fst (snd c)) (snd (snd c)) s"
proof unfold_locales
  fix k s show "(getBoard k s = None) = (k \<notin> set (pb_keys s))" by (rule getBoard_None)
next
  fix u :: "string \<times> string" and k s
  show "pb_keys (snd (renameBoard (fst u) k (snd u) s)) = pb_keys s" by (rule keys_rename)
  show "fst (renameBoard (fst u) k (snd u) s) = getBoard k (snd (renameBoard (fst u) k (snd u) s))"
    by (simp add: getBoard_rename)
next
  fix u :: "string \<times> string" and k k' :: string and s assume "k' \<noteq> k"
  then show "getBoard k' (snd (renameBoard (fst u) k (snd u) s)) = getBoard k' s"
    by (simp add: getBoard_rename)
next
  fix c :: "string \<times> string \<times> string" and s :: pb_store
  let ?n = "board_key (length (boards s) + 1)"
  let ?r = "createBoard (fst c) (fst (snd c)) (snd (snd c)) s"
  show "pb_keys (snd ?r) = pb_keys s @ [?n]" by (simp add: createBoard_def pb_keys_def Let_def)
  assume "?n \<notin> set (pb_keys s)"
  then have "getBoard ?n s = None" by (simp add: getBoard_None)
  then show "getBoard ?n (snd ?r) = Some (fst ?r)"
    by (simp add: createBoard_def getBoard_def find_key_append Let_def)
next
  fix c :: "string \<times> string \<times> string" and k s assume "k \<in> set (pb_keys s)"
  then have "getBoard k s \<noteq> None" by (simp add: getBoard_None)
  then show "getBoard k (snd (createBoard (fst c) (fst (snd c)) (snd (snd c)) s)) = getBoard k s"
    by (auto simp: createBoard_def getBoard_def find_key_append Let_def)
qed

lemma getCard_None: "getCard b k s = None \<longleftrightarrow> k \<notin> set (card_keys b s)"
  by (cases "getBoard b s") (simp_all add: getCard_eq card_keys_def find_key_None)

lemma getEdge_None: "getEdge b k s = None \<longleftrightarrow> k \<notin> set (edge_keys b s)"
  by (cases "getBoard b s") (simp_all add: getEdge_def edge_keys_def find_key_None)

lemma getBoard_boards:
  "getBoard b (s\<lparr>boards := bs\<rparr>) = find_key brd_id b bs"
  "getBoard b (s\<lparr>nextCardN := m, boards := bs\<rparr>) = find_key brd_id b bs"
  "getBoard b (s\<lparr>nextEdgeN := m, boards := bs\<rparr>) = find_key brd_id b bs"
  by (simp_all add: getBoard_def)

text \<open>What each operation on the cards or edges of board \<open>b\<close> leaves at \<open>b\<close> and elsewhere.\<close>

lemmas board_after = getBoard_boards getBoard_write getBoard_id Let_def

lemma getBoard_updateCard:
  "getBoard b' (snd (updateCard b c s)) =
     (case getBoard b s of
        Some B \<Rightarrow> if b' = b \<and> card_id c \<in> card_id ` set (brd_cards B)
                  then Some (B\<lparr>brd_cards := upd_key card_id (card_id c) c (brd_cards B)\<rparr>)
                  else getBoard b' s
      | None \<Rightarrow> getBoard b' s)"
  by (auto simp: updateCard_eq board_after split: option.split)

lemma getBoard_deleteCard:
  "getBoard b' (snd (deleteCard b k s)) =
     (case getBoard b s of
        Some B \<Rightarrow> if b' = b then Some (B\<lparr>brd_cards := del_key card_id k (brd_cards B)\<rparr>)
                  else getBoard b' s
      | None \<Rightarrow> getBoard b' s)"
  by (auto simp: deleteCard_eq board_after del_key_absent split: option.split)

lemma getBoard_createCard:
  "getBoard b' (snd (createCard b c s)) =
     (case getBoard b s of
        Some B \<Rightarrow>
          if b' = b then Some (B\<lparr>brd_cards := brd_cards B @ [the (fst (createCard b c s))]\<rparr>)
          else getBoard b' s
      | None \<Rightarrow> getBoard b' s)"
  by (auto simp: createCard_eq board_after split: option.split)

lemma getBoard_updateEdge:
  "getBoard b' (snd (updateEdge b k ty s)) =
     (case (getBoard b s, fst (updateEdge b k ty s)) of
        (Some B, Some e) \<Rightarrow>
          if b' = b then Some (B\<lparr>brd_edges := upd_key edge_id k e (brd_edges B)\<rparr>)
          else getBoard b' s
      | _ \<Rightarrow> getBoard b' s)"
  by (auto simp: updateEdge_eq board_after split: option.split)

lemma getBoard_deleteEdge:
  "getBoard b' (snd (deleteEdge b k s)) =
     (case getBoard b s of
        Some B \<Rightarrow> if b' = b then Some (B\<lparr>brd_edges := del_key edge_id k (brd_edges B)\<rparr>)
                  else getBoard b' s
      | None \<Rightarrow> getBoard b' s)"
  by (auto simp: deleteEdge_eq board_after del_key_absent split: option.split)

lemma fst_updateCard:
  "fst (updateCard b c s) =
     (case getBoard b s of
        None \<Rightarrow> None
      | Some B \<Rightarrow> if card_id c \<in> card_id ` set (brd_cards B) then Some c else None)"
  by (simp add: updateCard_eq split: option.split)

lemma getCard_updateCard:
  "getCard b k' (snd (updateCard b c s)) =
     (if k' = card_id c then fst (updateCard b c s) else getCard b k' s)"
proof (cases "getBoard b s")
  case None
  then show ?thesis by (simp add: getCard_eq getBoard_updateCard fst_updateCard)
next
  case (Some B)
  then show ?thesis
    by (cases "card_id c \<in> card_id ` set (brd_cards B)")
      (simp_all add: getCard_eq getBoard_updateCard fst_updateCard find_key_upd_same
        find_key_upd_other find_key_None)
qed

lemma card_keys_updateCard: "card_keys b (snd (updateCard b c s)) = card_keys b s"
  by (auto simp: card_keys_def getBoard_updateCard map_upd_key split: option.split)

interpretation crd: deleting_store "card_keys b" "getCard b"
  "\<lambda>c k s. updateCard b (c\<lparr>card_id := k\<rparr>) s" "deleteCard b" for b
proof unfold_locales
  fix k s show "(getCard b k s = None) = (k \<notin> set (card_keys b s))" by (rule getCard_None)
next
  fix c k s
  show "card_keys b (snd (updateCard b (c\<lparr>card_id := k\<rparr>) s)) = card_keys b s"
    by (rule card_keys_updateCard)
  show "fst (updateCard b (c\<lparr>card_id := k\<rparr>) s) =
      getCard b k (snd (updateCard b (c\<lparr>card_id := k\<rparr>) s))"
    by (simp add: getCard_updateCard)
next
  fix c :: card and k k' :: string and s assume "k' \<noteq> k"
  then show "getCard b k' (snd (updateCard b (c\<lparr>card_id := k\<rparr>) s)) = getCard b k' s"
    by (simp add: getCard_updateCard)
next
  fix k s show "fst (deleteCard b k s) = (k \<in> set (card_keys b s))"
    by (simp add: deleteCard_eq card_keys_def split: option.split)
next
  fix k s show "card_keys b (snd (deleteCard b k s)) = remove1 k (card_keys b s)"
    by (auto simp: card_keys_def getBoard_deleteCard map_del_key split: option.split)
next
  fix k k' :: string and s assume "k' \<noteq> k"
  then show "getCard b k' (snd (deleteCard b k s)) = getCard b k' s"
    by (cases "getBoard b s") (simp_all add: getCard_eq getBoard_deleteCard find_key_del_other)
qed

lemma getEdge_updateEdge:
  "getEdge b k' (snd (updateEdge b k ty s)) =
     (if k' = k then fst (updateEdge b k ty s) else getEdge b k' s)"
proof (cases "getEdge b k s")
  case None
  then show ?thesis
    by (cases "getBoard b s") (simp_all add: getEdge_def updateEdge_eq)
next
  case (Some e)
  then obtain B where B: "getBoard b s = Some B" and e: "find_key edge_id k (brd_edges B) = Some e"
    by (auto simp: getEdge_def bind_eq_Some_conv)
  have "edge_id e = k" and "k \<in> edge_id ` set (brd_edges B)"
    using e find_key_key [OF e] found_iff [OF e] by auto
  with B e show ?thesis
    by (simp add: getEdge_def updateEdge_eq getBoard_boards getBoard_write [OF B] getBoard_id [OF B]
        find_key_upd_same find_key_upd_other)
qed

lemma updateEdge_id: "fst (updateEdge b k ty s) = Some e \<Longrightarrow> edge_id e = k"
  by (cases "getBoard b s"; cases "find_key edge_id k (brd_edges (the (getBoard b s)))")
    (auto simp: updateEdge_eq, metis find_key_key)

lemma edge_keys_updateEdge: "edge_keys b (snd (updateEdge b k ty s)) = edge_keys b s"
proof (cases "fst (updateEdge b k ty s)")
  case None
  then show ?thesis
    by (auto simp: edge_keys_def getBoard_updateEdge split: option.split)
next
  case (Some e)
  with updateEdge_id [OF Some] show ?thesis
    by (auto simp: edge_keys_def getBoard_updateEdge map_upd_key split: option.split)
qed

interpretation edg: deleting_store "edge_keys b" "getEdge b"
  "\<lambda>ty k s. updateEdge b k ty s" "deleteEdge b" for b
proof unfold_locales
  fix k s show "(getEdge b k s = None) = (k \<notin> set (edge_keys b s))" by (rule getEdge_None)
next
  fix ty k s
  show "edge_keys b (snd (updateEdge b k ty s)) = edge_keys b s" by (rule edge_keys_updateEdge)
  show "fst (updateEdge b k ty s) = getEdge b k (snd (updateEdge b k ty s))"
    by (simp add: getEdge_updateEdge)
next
  fix ty k k' :: string and s assume "k' \<noteq> k"
  then show "getEdge b k' (snd (updateEdge b k ty s)) = getEdge b k' s"
    by (simp add: getEdge_updateEdge)
next
  fix k s show "fst (deleteEdge b k s) = (k \<in> set (edge_keys b s))"
    by (simp add: deleteEdge_eq edge_keys_def split: option.split)
next
  fix k s show "edge_keys b (snd (deleteEdge b k s)) = remove1 k (edge_keys b s)"
    by (auto simp: edge_keys_def getBoard_deleteEdge map_del_key split: option.split)
next
  fix k k' :: string and s assume "k' \<noteq> k"
  then show "getEdge b k' (snd (deleteEdge b k s)) = getEdge b k' s"
    by (cases "getBoard b s") (simp_all add: getEdge_def getBoard_deleteEdge find_key_del_other)
qed

section \<open>The invariant of the store\<close>

text \<open>
  Board identifiers number the slice; card and edge identifiers are distinct across all boards
  and come from the two counters.
\<close>

definition card_ids :: "pb_store \<Rightarrow> string list" where
  "card_ids s = concat (map (\<lambda>b. map card_id (brd_cards b)) (boards s))"

definition edge_ids :: "pb_store \<Rightarrow> string list" where
  "edge_ids s = concat (map (\<lambda>b. map edge_id (brd_edges b)) (boards s))"

definition pb_wf :: "pb_store \<Rightarrow> bool" where
  "pb_wf s \<longleftrightarrow>
     1 \<le> nextCardN s \<and> 1 \<le> nextEdgeN s \<and>
     pb_keys s = map (\<lambda>i. board_key (Suc i)) [0..<length (boards s)] \<and>
     distinct (card_ids s) \<and> set (card_ids s) \<subseteq> card_key ` {1..<nextCardN s} \<and>
     distinct (edge_ids s) \<and> set (edge_ids s) \<subseteq> edge_key ` {1..<nextEdgeN s}"

lemma key_inj [simp]:
  "card_key m = card_key n \<longleftrightarrow> m = n"
  "edge_key m = edge_key n \<longleftrightarrow> m = n"
  "board_key m = board_key n \<longleftrightarrow> m = n"
  by (simp_all add: card_key_def edge_key_def board_key_def)

lemma pb_wf_distinct: "pb_wf s \<Longrightarrow> distinct (pb_keys s)"
  by (auto simp: pb_wf_def distinct_map inj_on_def)

lemma next_card_fresh: "pb_wf s \<Longrightarrow> card_key (nextCardN s) \<notin> set (card_ids s)"
  by (auto simp: pb_wf_def)

lemma next_edge_fresh: "pb_wf s \<Longrightarrow> edge_key (nextEdgeN s) \<notin> set (edge_ids s)"
  by (auto simp: pb_wf_def)

lemma next_board_fresh: "pb_wf s \<Longrightarrow> board_key (length (boards s) + 1) \<notin> set (pb_keys s)"
  by (auto simp: pb_wf_def)

lemma getBoard_mem: "getBoard b s = Some B \<Longrightarrow> B \<in> set (boards s)"
  unfolding getBoard_def by (rule find_key_mem)

lemma card_keys_card_ids: "set (card_keys b s) \<subseteq> set (card_ids s)"
proof (cases "getBoard b s")
  case None
  then show ?thesis by (simp add: card_keys_def)
next
  case (Some B)
  with getBoard_mem [OF Some] show ?thesis by (auto simp: card_keys_def card_ids_def)
qed

lemma key_literals:
  "board_key 1 = ''brd-001''" "card_key 1 = ''card-001''" "card_key 2 = ''card-002''"
  "edge_key 1 = ''edge-001''"
  by code_simp+

lemma pb_wf_newStore: "pb_wf (pb_newStore now)"
proof -
  have "{1..<3::nat} = {1, 2}" and "{1..<2::nat} = {1}" by auto
  then show ?thesis
    by (simp add: pb_wf_def pb_newStore_def pb_keys_def card_ids_def edge_ids_def demo_card_def
        flip: key_literals)
qed

text \<open>
  Overwriting one board of a well-formed store: the identifiers of the other boards stay where
  they are, so the invariant follows from what happens to the board's own identifiers.
\<close>

lemma pb_wf_write:
  assumes wf: "pb_wf s" and B: "getBoard b s = Some B" and id: "brd_id B' = b"
    and m: "nextCardN s \<le> m" and n: "nextEdgeN s \<le> n"
    and cards: "distinct (map card_id (brd_cards B'))"
      "set (map card_id (brd_cards B')) \<subseteq>
         set (map card_id (brd_cards B)) \<union> card_key ` {nextCardN s..<m}"
    and edges: "distinct (map edge_id (brd_edges B'))"
      "set (map edge_id (brd_edges B')) \<subseteq>
         set (map edge_id (brd_edges B)) \<union> edge_key ` {nextEdgeN s..<n}"
  shows "pb_wf (s\<lparr>boards := upd_key brd_id b B' (boards s), nextCardN := m, nextEdgeN := n\<rparr>)"
    (is "pb_wf ?s")
proof -
  let ?C = "card_key ` {nextCardN s..<m}" and ?E = "edge_key ` {nextEdgeN s..<n}"
  obtain i where bi: "boardIndex b s = Some i"
    using B boardIndex_None [of b s] by (cases "boardIndex b s") simp_all
  have upd: "upd_key brd_id b B' (boards s) = (boards s)[i := B']" by (rule board_write [OF bi, symmetric])
  have at: "boards s ! i = B" using boardIndex_getBoard [OF bi] B by simp
  have i: "i < length (boards s)"
    using index_key_Some [of brd_id b "boards s" i] bi by (simp add: boardIndex_def)
  have new: "card_ids ?s = concat (map (\<lambda>b. map card_id (brd_cards b)) ((boards s)[i := B']))"
    "edge_ids ?s = concat (map (\<lambda>b. map edge_id (brd_edges b)) ((boards s)[i := B']))"
    by (simp_all add: card_ids_def edge_ids_def upd)
  have sets: "set (card_ids s) \<subseteq> card_key ` {1..<nextCardN s}"
    "set (edge_ids s) \<subseteq> edge_key ` {1..<nextEdgeN s}"
    and dist: "distinct (card_ids s)" "distinct (edge_ids s)"
    and pos: "1 \<le> nextCardN s" "1 \<le> nextEdgeN s"
    using wf by (simp_all add: pb_wf_def)
  have "?C \<inter> card_key ` {1..<nextCardN s} = {}" "?E \<inter> edge_key ` {1..<nextEdgeN s} = {}"
    by auto
  with sets have disj: "?C \<inter> set (card_ids s) = {}" "?E \<inter> set (edge_ids s) = {}"
    by blast+
  have C: "distinct (card_ids ?s) \<and> set (card_ids ?s) \<subseteq> set (card_ids s) \<union> ?C"
    unfolding new card_ids_def [of s]
    by (rule concat_update [OF i]) (simp_all only: at cards dist(1) [unfolded card_ids_def] disj(1) [unfolded card_ids_def])
  have E: "distinct (edge_ids ?s) \<and> set (edge_ids ?s) \<subseteq> set (edge_ids s) \<union> ?E"
    unfolding new edge_ids_def [of s]
    by (rule concat_update [OF i]) (simp_all only: at edges dist(2) [unfolded edge_ids_def] disj(2) [unfolded edge_ids_def])
  have "card_key ` {1..<nextCardN s} \<union> ?C = card_key ` {1..<m}"
    "edge_key ` {1..<nextEdgeN s} \<union> ?E = edge_key ` {1..<n}"
    using m n pos by (simp_all add: ivl_disj_un flip: image_Un)
  then have "set (card_ids ?s) \<subseteq> card_key ` {1..<m}" "set (edge_ids ?s) \<subseteq> edge_key ` {1..<n}"
    using C E sets by (metis (no_types, lifting) Un_mono subset_refl order_trans)+
  with C E show ?thesis
    using wf map_upd_key [of brd_id B' b "boards s"] id m n pos by (simp add: pb_wf_def pb_keys_def)
qed

lemma pb_wf_board:
  assumes "pb_wf s" and "getBoard b s = Some B"
  shows "distinct (map card_id (brd_cards B))" and "distinct (map edge_id (brd_edges B))"
    and "set (map card_id (brd_cards B)) \<subseteq> set (card_ids s)"
    and "set (map edge_id (brd_edges B)) \<subseteq> set (edge_ids s)"
proof -
  obtain ys zs where s: "boards s = ys @ B # zs"
    using split_list [OF getBoard_mem [OF assms(2)]] by blast
  show "distinct (map card_id (brd_cards B))" "distinct (map edge_id (brd_edges B))"
    "set (map card_id (brd_cards B)) \<subseteq> set (card_ids s)"
    "set (map edge_id (brd_edges B)) \<subseteq> set (edge_ids s)"
    using assms(1) by (auto simp: pb_wf_def card_ids_def edge_ids_def s)
qed

text \<open>Every store operation preserves the invariant.\<close>

lemma createBoard_wf: "pb_wf s \<Longrightarrow> pb_wf (snd (createBoard now name repo s))"
  by (simp add: pb_wf_def createBoard_def Let_def pb_keys_def card_ids_def edge_ids_def)

lemma write_wf:
  assumes "pb_wf s" and "getBoard b s = Some B" and "brd_id B' = b"
    and "distinct (map card_id (brd_cards B'))" "distinct (map edge_id (brd_edges B'))"
    and "set (map card_id (brd_cards B')) \<subseteq> set (map card_id (brd_cards B))"
    and "set (map edge_id (brd_edges B')) \<subseteq> set (map edge_id (brd_edges B))"
  shows "pb_wf (s\<lparr>boards := upd_key brd_id b B' (boards s)\<rparr>)"
  using pb_wf_write [OF assms(1-3), of "nextCardN s" "nextEdgeN s"] assms(4-7)
  by (simp del: set_map)

lemma renameBoard_wf: "pb_wf s \<Longrightarrow> pb_wf (snd (renameBoard now k name s))"
proof (cases "getBoard k s")
  case None
  assume "pb_wf s"
  with None show ?thesis by (simp add: renameBoard_def getBoard_def)
next
  case (Some B)
  assume wf: "pb_wf s"
  have "pb_wf (s\<lparr>boards := upd_key brd_id k (B\<lparr>brd_name := name, brd_updatedAt := now\<rparr>) (boards s)\<rparr>)"
    by (rule write_wf [OF wf Some]) (simp_all add: getBoard_id [OF Some]
        pb_wf_board [OF wf Some, simplified])
  with Some show ?thesis by (simp add: renameBoard_def getBoard_def Let_def)
qed

lemma updateCard_wf: "pb_wf s \<Longrightarrow> pb_wf (snd (updateCard b c s))"
proof (cases "getBoard b s")
  case None
  assume "pb_wf s"
  with None show ?thesis by (simp add: updateCard_eq)
next
  case (Some B)
  assume wf: "pb_wf s"
  let ?B = "B\<lparr>brd_cards := upd_key card_id (card_id c) c (brd_cards B)\<rparr>"
  have "pb_wf (s\<lparr>boards := upd_key brd_id b ?B (boards s)\<rparr>)"
    by (rule write_wf [OF wf Some]) (simp_all add: getBoard_id [OF Some] map_upd_key
        pb_wf_board [OF wf Some, simplified] flip: set_map)
  with Some wf show ?thesis by (simp add: updateCard_eq)
qed

lemma deleteCard_wf: "pb_wf s \<Longrightarrow> pb_wf (snd (deleteCard b k s))"
proof (cases "getBoard b s")
  case None
  assume "pb_wf s"
  with None show ?thesis by (simp add: deleteCard_eq)
next
  case (Some B)
  assume wf: "pb_wf s"
  let ?B = "B\<lparr>brd_cards := del_key card_id k (brd_cards B)\<rparr>"
  have "pb_wf (s\<lparr>boards := upd_key brd_id b ?B (boards s)\<rparr>)"
    by (rule write_wf [OF wf Some]) (simp_all add: getBoard_id [OF Some] map_del_key
        pb_wf_board [OF wf Some] set_remove1_subset distinct_remove1 del: set_map)
  with Some wf show ?thesis by (simp add: deleteCard_eq)
qed

lemma updateEdge_wf: "pb_wf s \<Longrightarrow> pb_wf (snd (updateEdge b k ty s))"
proof (cases "getEdge b k s")
  case None
  assume "pb_wf s"
  with None show ?thesis
    by (cases "getBoard b s") (simp_all add: updateEdge_eq getEdge_def)
next
  case (Some e)
  assume wf: "pb_wf s"
  from Some obtain B where B: "getBoard b s = Some B" and e: "find_key edge_id k (brd_edges B) = Some e"
    by (auto simp: getEdge_def bind_eq_Some_conv)
  let ?B = "B\<lparr>brd_edges := upd_key edge_id k (e\<lparr>edge_type := ty\<rparr>) (brd_edges B)\<rparr>"
  have "pb_wf (s\<lparr>boards := upd_key brd_id b ?B (boards s)\<rparr>)"
    by (rule write_wf [OF wf B]) (simp_all add: getBoard_id [OF B] map_upd_key
        find_key_key [OF e] pb_wf_board [OF wf B] del: set_map)
  with B e show ?thesis by (simp add: updateEdge_eq)
qed

lemma deleteEdge_wf: "pb_wf s \<Longrightarrow> pb_wf (snd (deleteEdge b k s))"
proof (cases "getBoard b s")
  case None
  assume "pb_wf s"
  with None show ?thesis by (simp add: deleteEdge_eq)
next
  case (Some B)
  assume wf: "pb_wf s"
  let ?B = "B\<lparr>brd_edges := del_key edge_id k (brd_edges B)\<rparr>"
  have "pb_wf (s\<lparr>boards := upd_key brd_id b ?B (boards s)\<rparr>)"
    by (rule write_wf [OF wf Some]) (simp_all add: getBoard_id [OF Some] map_del_key
        pb_wf_board [OF wf Some] set_remove1_subset distinct_remove1 del: set_map)
  with Some wf show ?thesis by (simp add: deleteEdge_eq)
qed

lemma snd_create:
  assumes "getBoard b s = Some B"
  shows "snd (createCard b c s) =
      s\<lparr>boards := upd_key brd_id b (B\<lparr>brd_cards := brd_cards B @ [the (fst (createCard b c s))]\<rparr>)
          (boards s), nextCardN := nextCardN s + 1, nextEdgeN := nextEdgeN s\<rparr>"
    and "snd (createEdge b e s) =
      s\<lparr>boards := upd_key brd_id b (B\<lparr>brd_edges := brd_edges B @ [the (fst (createEdge b e s))]\<rparr>)
          (boards s), nextCardN := nextCardN s, nextEdgeN := nextEdgeN s + 1\<rparr>"
  using assms by (cases s; simp add: createCard_eq createEdge_eq Let_def)+

lemma createCard_wf: "pb_wf s \<Longrightarrow> pb_wf (snd (createCard b c s))"
proof (cases "getBoard b s")
  case None
  assume "pb_wf s"
  with None show ?thesis by (simp add: createCard_eq)
next
  case (Some B)
  assume wf: "pb_wf s"
  define B' where "B' = B\<lparr>brd_cards := brd_cards B @ [the (fst (createCard b c s))]\<rparr>"
  have id: "card_id (the (fst (createCard b c s))) = card_key (nextCardN s)"
    using Some by (simp add: createCard_eq Let_def)
  have new: "card_key (nextCardN s) \<notin> card_id ` set (brd_cards B)"
    using next_card_fresh [OF wf] pb_wf_board(3) [OF wf Some] by auto
  have "pb_wf (s\<lparr>boards := upd_key brd_id b B' (boards s), nextCardN := nextCardN s + 1,
      nextEdgeN := nextEdgeN s\<rparr>)"
    by (rule pb_wf_write [OF wf Some]) (use pb_wf_board [OF wf Some] new in
        \<open>simp_all add: getBoard_id [OF Some] id B'_def\<close>)
  then show ?thesis unfolding snd_create [OF Some] B'_def .
qed

lemma createEdge_wf: "pb_wf s \<Longrightarrow> pb_wf (snd (createEdge b e s))"
proof (cases "getBoard b s")
  case None
  assume "pb_wf s"
  with None show ?thesis by (simp add: createEdge_eq)
next
  case (Some B)
  assume wf: "pb_wf s"
  define B' where "B' = B\<lparr>brd_edges := brd_edges B @ [the (fst (createEdge b e s))]\<rparr>"
  have id: "edge_id (the (fst (createEdge b e s))) = edge_key (nextEdgeN s)"
    using Some by (simp add: createEdge_eq Let_def)
  have new: "edge_key (nextEdgeN s) \<notin> edge_id ` set (brd_edges B)"
    using next_edge_fresh [OF wf] pb_wf_board(4) [OF wf Some] by auto
  have "pb_wf (s\<lparr>boards := upd_key brd_id b B' (boards s), nextCardN := nextCardN s,
      nextEdgeN := nextEdgeN s + 1\<rparr>)"
    by (rule pb_wf_write [OF wf Some]) (use pb_wf_board [OF wf Some] new in
        \<open>simp_all add: getBoard_id [OF Some] id B'_def\<close>)
  then show ?thesis unfolding snd_create [OF Some] B'_def .
qed

section \<open>Histories and interleavings\<close>

text \<open>
  \<open>pb_handle\<close> takes a request from decoding to reply in one go. The mutex covers one store
  method only, so other requests may run between the two halves of \<open>sendCard\<close>; \<open>pb_step\<close>
  is that finer system. Its state is the store and the \<open>sendCard\<close> requests in flight, each with
  the snapshot it took.
\<close>

lemmas pb_handler_defs = h_listBoards_def h_createBoard_def h_getBoard_def h_renameBoard_def
  h_saveAsRepo_def h_implement_def h_createCard_def h_getCard_def h_updateCard_def
  h_deleteCard_def h_sendCard_def h_createEdge_def h_updateEdge_def h_deleteEdge_def
  pb_not_found_def

lemma sendCard_commit_store:
  "snd (sendCard_commit r oc s) =
     (case oc of None \<Rightarrow> s | Some c \<Rightarrow> snd (updateCard (rq_path r ''boardId'') c s))"
  by (simp add: sendCard_commit_def pb_not_found_def split: option.split prod.split)

text \<open>Which store operation each route performs.\<close>

lemma pb_handle_store:
  "snd (pb_handle rt r s) =
    (let b = rq_path r ''boardId''; k = rq_path r ''cardId''; e = rq_path r ''edgeId'' in
     case (rt, rq_body r) of
       (PbCreateBoard, Some q) \<Rightarrow> snd (createBoard (rq_now r) (pbb_name q) (pbb_repoId q) s)
     | (PbRenameBoard, Some q) \<Rightarrow> snd (renameBoard (rq_now r) b (pbb_name q) s)
     | (PbCreateCard, Some q) \<Rightarrow> snd (createCard b (pbb_card q) s)
     | (PbUpdateCard, Some q) \<Rightarrow> snd (updateCard b ((pbb_card q)\<lparr>card_id := k\<rparr>) s)
     | (PbDeleteCard, _) \<Rightarrow> snd (deleteCard b k s)
     | (PbSendCard, _) \<Rightarrow> snd (sendCard_commit r (sendCard_snapshot r s) s)
     | (PbCreateEdge, Some q) \<Rightarrow> snd (createEdge b (pbb_edge q) s)
     | (PbUpdateEdge, Some q) \<Rightarrow> snd (updateEdge b e (pbb_type q) s)
     | (PbDeleteEdge, _) \<Rightarrow> snd (deleteEdge b e s)
     | _ \<Rightarrow> s)"
  by (cases rt)
    (simp_all add: pb_handler_defs snd_with_body split: option.split prod.split bool.split)

lemma pb_handle_wf: "pb_wf s \<Longrightarrow> pb_wf (snd (pb_handle rt r s))"
  unfolding pb_handle_store
  by (cases rt) (simp_all add: sendCard_commit_store createBoard_wf renameBoard_wf
      createCard_wf updateCard_wf deleteCard_wf createEdge_wf updateEdge_wf deleteEdge_wf
      split: option.split)

inductive pb_step ::
  "pb_store \<times> (pb_body request \<times> card option) list \<Rightarrow>
   pb_store \<times> (pb_body request \<times> card option) list \<Rightarrow> bool" where
  serve: "rt \<noteq> PbSendCard \<Longrightarrow> pb_step (s, ps) (snd (pb_serve env rt r s), ps)"
| send_read: "authenticate env r = Some p \<Longrightarrow> role_granted (pb_role PbSendCard) (p_roles p) \<Longrightarrow>
    pb_step (s, ps) (s, ps @ [(r, sendCard_snapshot r s)])"
| send_commit: "(r, oc) \<in> set ps \<Longrightarrow>
    pb_step (s, ps) (snd (sendCard_commit r oc s), remove1 (r, oc) ps)"

inductive_cases pb_stepE: "pb_step (s, ps) (s', ps')"

lemma pb_serve_wf: "pb_wf s \<Longrightarrow> pb_wf (snd (pb_serve env rt r s))"
  using guarded_keeps [of pb_wf "pb_handle rt" s env "pb_role rt" r] pb_handle_wf
  by (simp add: pb_serve_def)

lemma pb_step_wf: "pb_step x y \<Longrightarrow> pb_wf (fst x) \<Longrightarrow> pb_wf (fst y)"
  by (induction rule: pb_step.induct)
    (auto simp: sendCard_commit_store pb_serve_wf updateCard_wf split: option.split)

lemma pb_steps_wf: "pb_step\<^sup>*\<^sup>* x y \<Longrightarrow> pb_wf (fst x) \<Longrightarrow> pb_wf (fst y)"
  by (induction rule: rtranclp_induct) (auto dest: pb_step_wf)

interpretation pbr: rbac_component pb_handle pb_role "''pb-view''"
proof
  fix rt r s assume "pb_role rt = ''pb-view''"
  then show "snd (pb_handle rt r s) = s"
    unfolding pb_handle_store by (cases rt) simp_all
qed

section \<open>Properties\<close>

text \<open>
  C2: in every interleaving of requests, with \<open>sendCard\<close> split at its lock release, the
  boards are numbered without gaps and no two cards and no two edges of the whole store share
  an identifier; all identifiers lie below the counters the next ones are taken from.
\<close>

theorem boards_stay_wellformed:
  assumes "pb_step\<^sup>*\<^sup>* (pb_newStore now, []) (s, ps)"
  shows "pb_wf s"
  using pb_steps_wf [OF assms] pb_wf_newStore by simp

definition demo_card_rq :: "pb_body request" where
  "demo_card_rq = demo_req
     (\<lambda>k. if k = ''boardId'' then ''brd-001'' else if k = ''cardId'' then ''card-001'' else '''')
     (Some \<lparr>pbb_name = ''n'', pbb_repoId = '''', pbb_type = '''',
        pbb_card = (demo_card '''' ''t'' '''' 0)\<lparr>card_links := None\<rparr>,
        pbb_edge = \<lparr>edge_id = '''', edge_type = '''', edge_from = '''', edge_to = ''''\<rparr>\<rparr>)"

theorem boards_stay_wellformed_witness:
  "pb_wf (snd (pb_serve (demo_env [''pb-update'']) PbCreateCard demo_card_rq (pb_newStore ''t'')))"
  by (rule boards_stay_wellformed [of "''t''" _ "[]"]) (rule r_into_rtranclp, rule serve, simp)

text \<open>
  In every reachable store, creating a card on an existing board gives it an identifier no
  board has used, a non-blank status and non-nil links; it is read back as returned, and every
  other card of every board reads as before.
\<close>

theorem created_card:
  assumes "pb_step\<^sup>*\<^sup>* (pb_newStore now, []) (s, ps)" and "createCard b c s = (Some c', s')"
  shows "getCard b (card_id c') s' = Some c' \<and> (\<forall>b'. getCard b' (card_id c') s = None) \<and>
    card_status c' \<noteq> '''' \<and> card_links c' \<noteq> None \<and>
    (\<forall>b' k. (b', k) = (b, card_id c') \<or> getCard b' k s' = getCard b' k s)"
proof -
  have wf: "pb_wf s" using pb_steps_wf [OF assms(1)] pb_wf_newStore by simp
  from assms(2) obtain B where B: "getBoard b s = Some B"
    by (cases "getBoard b s") (simp_all add: createCard_eq)
  from assms(2) have c': "c' = the (fst (createCard b c s))" and s': "s' = snd (createCard b c s)"
    by simp_all
  have id: "card_id c' = card_key (nextCardN s)"
    and ok: "card_status c' \<noteq> ''''" "card_links c' \<noteq> None"
    using B by (simp_all add: c' createCard_eq Let_def)
  have new: "getCard b' (card_id c') s = None" for b'
    unfolding getCard_None id using next_card_fresh [OF wf] card_keys_card_ids [of b' s] by blast
  have "getCard b' k s' = (if (b', k) = (b, card_id c') then Some c' else getCard b' k s)" for b' k
  proof (cases "b' = b")
    case True
    with B new [of b] show ?thesis
      by (auto simp: getCard_eq s' getBoard_createCard find_key_append c' [symmetric]
          split: option.split)
  next
    case False
    with B show ?thesis by (simp add: getCard_eq s' getBoard_createCard)
  qed
  with new ok show ?thesis by simp
qed

theorem created_card_witness:
  "\<exists>c' s'. createCard ''brd-001'' (demo_card '''' ''t'' '''' 0) (pb_newStore ''now'') = (Some c', s') \<and>
     getCard ''brd-001'' (card_id c') s' = Some c' \<and>
     (\<forall>b'. getCard b' (card_id c') (pb_newStore ''now'') = None)"
proof -
  let ?s = "pb_newStore ''now''" and ?c = "demo_card '''' ''t'' '''' 0"
  obtain c' s' where run: "createCard ''brd-001'' ?c ?s = (Some c', s')"
    by (simp add: createCard_def boardIndex_def pb_newStore_def Let_def)
  from created_card [OF rtranclp.rtrancl_refl run] run show ?thesis by blast
qed

text \<open>
  Deleting a card removes that card and nothing else. It is gone for good, the other cards
  of the board and all other boards are as before, and the edges of the board stay as they
  are, those that start or end at the deleted card included.
\<close>

theorem deleted_card:
  assumes "pb_wf s" and "getBoard b s = Some B" and "getCard b k s = Some c"
  shows "fst (deleteCard b k s) \<and> getCard b k (snd (deleteCard b k s)) = None \<and>
    \<not> fst (deleteCard b k (snd (deleteCard b k s))) \<and>
    (\<forall>k'. k' = k \<or> getCard b k' (snd (deleteCard b k s)) = getCard b k' s) \<and>
    (\<forall>b'. b' = b \<or> getBoard b' (snd (deleteCard b k s)) = getBoard b' s) \<and>
    map_option brd_edges (getBoard b (snd (deleteCard b k s))) = Some (brd_edges B)"
proof -
  have keys: "distinct (card_keys b s)"
    using pb_wf_board(1) [OF assms(1,2)] assms(2) by (simp add: card_keys_def)
  have "k \<in> set (card_keys b s)"
    using assms(3) getCard_None [of b k s] by auto
  with keys crd.delete_gone [where b = b and s = s and k = k] crd.delete_twice [where b = b and s = s and k = k]
    crd.delete_result [where b = b and s = s and k = k]
    crd.delete_other [where b = b and s = s and k = k] assms(2)
  show ?thesis by (auto simp: getBoard_deleteCard)
qed

theorem deleted_card_witness:
  "let s = snd (deleteCard ''brd-001'' ''card-001'' (pb_newStore ''now'')) in
   getCard ''brd-001'' ''card-001'' s = None \<and>
   map_option (map edge_to \<circ> brd_edges) (getBoard ''brd-001'' s) = Some [''card-001'']"
proof -
  let ?s = "pb_newStore ''now''"
  have "getBoard ''brd-001'' ?s = Some (hd (boards ?s))"
    and "getCard ''brd-001'' ''card-001'' ?s = Some (hd (brd_cards (hd (boards ?s))))"
    by (simp_all add: getBoard_def getCard_def boardIndex_def pb_newStore_def demo_card_def)
  from deleted_card [OF pb_wf_newStore this] show ?thesis
    by (auto simp: Let_def pb_newStore_def simp flip: option.map_comp)
qed

text \<open>
  \<open>sendCard\<close> read the card when the store was \<open>s\<close> and commits when it is \<open>s1\<close>. Whatever
  happened in between, it answers 202 with the old card marked active; if the card still
  exists its whole content is overwritten by that old copy, so an update made in between is
  lost, and if the card was deleted the answer is 202 all the same and nothing is stored.
\<close>

theorem sendCard_lost_update:
  assumes "getCard b k s = Some c" and "rq_path r ''boardId'' = b" and "rq_path r ''cardId'' = k"
  shows "\<exists>s2. sendCard_commit r (sendCard_snapshot r s) s1 =
      (Reply 202 (PCard (c\<lparr>card_status := ''active''\<rparr>)), s2) \<and>
    getCard b k s2 = (if getCard b k s1 = None then None else Some (c\<lparr>card_status := ''active''\<rparr>)) \<and>
    (getCard b k s1 \<noteq> None \<or> s2 = s1)"
proof -
  let ?c = "c\<lparr>card_status := ''active''\<rparr>"
  have id: "card_id ?c = k"
    using assms(1) by (auto simp: getCard_eq bind_eq_Some_conv) (metis find_key_key)
  have self: "?c\<lparr>card_id := k\<rparr> = ?c" using id by (cases c) simp
  have snap: "sendCard_snapshot r s = Some ?c"
    using assms by (simp add: sendCard_snapshot_def)
  have none: "fst (updateCard b ?c s1) = None \<longleftrightarrow> getCard b k s1 = None"
    using crd.update_None [where b = b and u = ?c and k = k and s = s1] self by (simp add: getCard_None)
  have same: "snd (updateCard b ?c s1) = s1" if "getCard b k s1 = None"
    using that none by (auto simp: updateCard_eq split: option.splits if_splits)
  have read: "getCard b k (snd (updateCard b ?c s1)) = fst (updateCard b ?c s1)"
    using getCard_updateCard [of b k ?c s1] id by simp
  have "fst (updateCard b ?c s1) = None \<or> fst (updateCard b ?c s1) = Some ?c"
    by (auto simp: fst_updateCard split: option.split)
  with none same read snap assms show ?thesis
    by (auto simp: sendCard_commit_def write_json_def split: prod.split)
qed

theorem sendCard_lost_update_witness:
  "let s = pb_newStore ''now'';
       c = demo_card ''card-001'' ''Set up database schema'' ''Create initial PostgreSQL schema'' 80;
       s1 = snd (updateCard ''brd-001'' (c\<lparr>card_content := ''new''\<rparr>) s)
   in map_option card_content (getCard ''brd-001'' ''card-001'' s1) = Some ''new'' \<and>
      getCard ''brd-001'' ''card-001''
        (snd (sendCard_commit demo_card_rq (sendCard_snapshot demo_card_rq s) s1)) =
      Some (c\<lparr>card_status := ''active''\<rparr>)"
proof -
  let ?s = "pb_newStore ''now''"
  let ?c = "demo_card ''card-001'' ''Set up database schema'' ''Create initial PostgreSQL schema'' 80"
  let ?s1 = "snd (updateCard ''brd-001'' (?c\<lparr>card_content := ''new''\<rparr>) ?s)"
  have c: "getCard ''brd-001'' ''card-001'' ?s = Some ?c"
    by (simp add: getCard_def boardIndex_def pb_newStore_def demo_card_def)
  have "fst (updateCard ''brd-001'' (?c\<lparr>card_content := ''new''\<rparr>) ?s) =
      Some (?c\<lparr>card_content := ''new''\<rparr>)"
    by (simp add: updateCard_def boardIndex_def pb_newStore_def demo_card_def)
  then have s1: "getCard ''brd-001'' ''card-001'' ?s1 = Some (?c\<lparr>card_content := ''new''\<rparr>)"
    using getCard_updateCard [of "''brd-001''" "''card-001''" "?c\<lparr>card_content := ''new''\<rparr>" ?s]
    by (simp add: demo_card_def)
  have "rq_path demo_card_rq ''boardId'' = ''brd-001''" "rq_path demo_card_rq ''cardId'' = ''card-001''"
    by (simp_all add: demo_card_rq_def demo_req_def)
  from sendCard_lost_update [OF c this, of ?s1] s1 show ?thesis by (auto simp: Let_def)
qed

end
