(* ===== verification/Tickets.thy ===== *)
theory Tickets
  imports Middleware Store_Contracts
begin

text \<open>
  Support tickets and documentation articles (\<^verbatim>\<open>internal/sup\<close>): store, handlers, routes.
  Every route of this component, the writing ones included, asks for \<^verbatim>\<open>support-view\<close>.
\<close>

section \<open>Store\<close>

record ticket =
  tkt_id :: string
  tkt_subject :: string
  tkt_status :: string
  tkt_priority :: string
  tkt_body :: string
  tkt_reporter :: string
  tkt_updatedAt :: string

record doc_article =
  doc_id :: string
  doc_title :: string
  doc_slug :: string

record sup_store =
  tickets :: "ticket list"
  articles :: "doc_article list"

definition sup_newStore :: sup_store where
  "sup_newStore =
     \<lparr>tickets = [],
      articles =
        [\<lparr>doc_id = ''doc-001'', doc_title = ''Getting Started'', doc_slug = ''getting-started''\<rparr>,
         \<lparr>doc_id = ''doc-002'', doc_title = ''Node Provisioning Guide'',
          doc_slug = ''node-provisioning''\<rparr>,
         \<lparr>doc_id = ''doc-003'', doc_title = ''Agent Management'', doc_slug = ''agent-management''\<rparr>]\<rparr>"

definition listTickets :: "sup_store \<Rightarrow> ticket list" where
  "listTickets s = tickets s"

definition listArticles :: "sup_store \<Rightarrow> doc_article list" where
  "listArticles s = articles s"

definition getTicket :: "string \<Rightarrow> sup_store \<Rightarrow> ticket option" where
  "getTicket i s = find_key tkt_id i (tickets s)"

definition ticket_key :: "nat \<Rightarrow> string" where
  "ticket_key n = ''tkt-'' @ sprintf_0d 3 n"

definition createTicket :: "string \<Rightarrow> ticket \<Rightarrow> sup_store \<Rightarrow> ticket \<times> sup_store" where
  "createTicket now t s =
     (let t = t\<lparr>tkt_id := ticket_key (length (tickets s) + 1)\<rparr>;
          t = t\<lparr>tkt_status := ''open''\<rparr>;
          t = t\<lparr>tkt_updatedAt := now\<rparr>
      in (t, s\<lparr>tickets := tickets s @ [t]\<rparr>))"

definition patchTicket :: "string \<Rightarrow> ticket \<Rightarrow> ticket \<Rightarrow> ticket" where
  "patchTicket now t e =
     (let e = (if tkt_subject t \<noteq> '''' then e\<lparr>tkt_subject := tkt_subject t\<rparr> else e);
          e = (if tkt_status t \<noteq> '''' then e\<lparr>tkt_status := tkt_status t\<rparr> else e);
          e = (if tkt_priority t \<noteq> '''' then e\<lparr>tkt_priority := tkt_priority t\<rparr> else e);
          e = (if tkt_body t \<noteq> '''' then e\<lparr>tkt_body := tkt_body t\<rparr> else e)
      in e\<lparr>tkt_updatedAt := now\<rparr>)"

definition updateTicket :: "string \<Rightarrow> string \<Rightarrow> ticket \<Rightarrow> sup_store \<Rightarrow> ticket option \<times> sup_store" where
  "updateTicket now i t s =
     (case find_key tkt_id i (tickets s) of
        None \<Rightarrow> (None, s)
      | Some e \<Rightarrow>
          let e' = patchTicket now t e
          in (Some e', s\<lparr>tickets := upd_key tkt_id i e' (tickets s)\<rparr>))"

definition deleteTicket :: "string \<Rightarrow> sup_store \<Rightarrow> bool \<times> sup_store" where
  "deleteTicket i s =
     (case find_key tkt_id i (tickets s) of
        None \<Rightarrow> (False, s)
      | Some _ \<Rightarrow> (True, s\<lparr>tickets := del_key tkt_id i (tickets s)\<rparr>))"

section \<open>Handlers and routes\<close>

datatype sup_payload =
    SupTickets "ticket page" | SupTicket ticket | SupDocs "doc_article page"

type_synonym sup_handler_t = "(ticket, sup_store, sup_payload) handler"

definition sup_not_found :: "sup_store \<Rightarrow> sup_payload reply \<times> sup_store" where
  "sup_not_found s = write_error 404 ''not_found'' ''ticket not found'' s"

definition sup_listTickets :: sup_handler_t where
  "sup_listTickets r s = write_page SupTickets (listTickets s) r s"

definition sup_createTicket :: sup_handler_t where
  "sup_createTicket = with_body (\<lambda>req r s.
     let req = (if tkt_reporter req = ''''
                then (case rq_principal r of
                        None \<Rightarrow> req
                      | Some p \<Rightarrow> req\<lparr>tkt_reporter := p_username p\<rparr>)
                else req);
         (t, s) = createTicket (rq_now r) req s
     in write_json 201 (SupTicket t) s)"

definition sup_getTicket :: sup_handler_t where
  "sup_getTicket r s =
     (case getTicket (rq_path r ''ticketId'') s of
        None \<Rightarrow> sup_not_found s
      | Some t \<Rightarrow> write_json 200 (SupTicket t) s)"

definition sup_updateTicket :: sup_handler_t where
  "sup_updateTicket = with_body (\<lambda>req r s.
     case updateTicket (rq_now r) (rq_path r ''ticketId'') req s of
       (None, s) \<Rightarrow> sup_not_found s
     | (Some t, s) \<Rightarrow> write_json 200 (SupTicket t) s)"

definition sup_deleteTicket :: sup_handler_t where
  "sup_deleteTicket r s =
     (case deleteTicket (rq_path r ''ticketId'') s of
        (False, s) \<Rightarrow> sup_not_found s
      | (True, s) \<Rightarrow> (Status 204, s))"

definition sup_listDocs :: sup_handler_t where
  "sup_listDocs r s = write_page SupDocs (listArticles s) r s"

datatype sup_route =
    SupListTickets | SupCreateTicket | SupGetTicket | SupUpdateTicket | SupDeleteTicket
  | SupListDocs

fun sup_handle :: "sup_route \<Rightarrow> sup_handler_t" where
  "sup_handle SupListTickets = sup_listTickets"
| "sup_handle SupCreateTicket = sup_createTicket"
| "sup_handle SupGetTicket = sup_getTicket"
| "sup_handle SupUpdateTicket = sup_updateTicket"
| "sup_handle SupDeleteTicket = sup_deleteTicket"
| "sup_handle SupListDocs = sup_listDocs"

definition sup_role :: "sup_route \<Rightarrow> string" where
  "sup_role rt = ''support-view''"

definition sup_serve :: "bao_env \<Rightarrow> sup_route \<Rightarrow> sup_handler_t" where
  "sup_serve env rt = guarded env (sup_role rt) (sup_handle rt)"

section \<open>The store contract\<close>

definition ticket_ids :: "sup_store \<Rightarrow> string list" where
  "ticket_ids s = map tkt_id (tickets s)"

lemma patchTicket_id [simp]: "tkt_id (patchTicket now t e) = tkt_id e"
  by (simp add: patchTicket_def Let_def)

interpretation tkt: counted_store ticket_ids getTicket
  "\<lambda>u k s. updateTicket (fst u) k (snd u) s"
  "\<lambda>_ s. ticket_key (length (tickets s) + 1)"
  "\<lambda>c s. createTicket (fst c) (snd c) s" deleteTicket "''tkt-''" 3
proof (unfold_locales, goal_cases)
  case (1 k s) show ?case by (simp add: getTicket_def ticket_ids_def find_key_None)
next
  case (2 u k s) show ?case
    by (simp add: updateTicket_def ticket_ids_def Let_def upd_found split: option.split)
next
  case (3 u k s) show ?case
    by (simp add: updateTicket_def getTicket_def Let_def upd_found split: option.split)
next
  case (4 k' k u s) then show ?case
    by (simp add: updateTicket_def getTicket_def Let_def upd_found split: option.split)
next
  case (5 c s) show ?case by (simp add: createTicket_def ticket_ids_def Let_def)
next
  case (6 c s) then have "getTicket (ticket_key (length (tickets s) + 1)) s = None"
    by (simp add: getTicket_def ticket_ids_def find_key_None)
  then show ?case by (simp add: createTicket_def getTicket_def find_key_append Let_def)
next
  case (7 k s c) then have "getTicket k s \<noteq> None"
    by (simp add: getTicket_def ticket_ids_def find_key_None)
  then show ?case by (auto simp: createTicket_def getTicket_def find_key_append Let_def)
next
  case (8 k s) show ?case
    using find_key_None [of tkt_id k "tickets s"]
    by (auto simp: deleteTicket_def ticket_ids_def split: option.split)
next
  case (9 k s) show ?case
    using find_key_None [of tkt_id k "tickets s"]
    by (auto simp: deleteTicket_def ticket_ids_def map_del_key remove1_idem split: option.split)
next
  case (10 k' k s) then show ?case
    by (simp add: deleteTicket_def getTicket_def find_key_del_other split: option.split)
next
  case (11 c s) show ?case by (simp add: ticket_key_def ticket_ids_def)
qed

section \<open>Properties\<close>

lemmas sup_handler_defs = sup_listTickets_def sup_createTicket_def sup_getTicket_def
  sup_updateTicket_def sup_deleteTicket_def sup_listDocs_def sup_not_found_def

text \<open>What a route does to the store.\<close>

definition with_reporter :: "principal option \<Rightarrow> ticket \<Rightarrow> ticket" where
  "with_reporter p t =
     (if tkt_reporter t = ''''
      then (case p of None \<Rightarrow> t | Some p \<Rightarrow> t\<lparr>tkt_reporter := p_username p\<rparr>) else t)"

lemma sup_handle_store:
  "snd (sup_handle rt r s) =
    (case (rt, rq_body r) of
       (SupCreateTicket, Some q) \<Rightarrow>
          snd (createTicket (rq_now r) (with_reporter (rq_principal r) q) s)
     | (SupUpdateTicket, Some q) \<Rightarrow> snd (updateTicket (rq_now r) (rq_path r ''ticketId'') q s)
     | (SupDeleteTicket, _) \<Rightarrow> snd (deleteTicket (rq_path r ''ticketId'') s)
     | _ \<Rightarrow> s)"
  by (cases rt) (simp_all add: sup_handler_defs with_reporter_def snd_with_body Let_def
      split: option.split prod.split bool.split)

definition sup_numbered :: "sup_store \<Rightarrow> bool" where
  "sup_numbered s \<longleftrightarrow> ticket_ids s = map (\<lambda>i. ticket_key (Suc i)) [0..<length (tickets s)]"

lemma numbered_ticket_key: "tkt.numbered n = map (\<lambda>i. ticket_key (Suc i)) [0..<n]"
  by (simp add: tkt.numbered_def ticket_key_def)

lemma sup_numbered_create: "sup_numbered s \<Longrightarrow> sup_numbered (snd (createTicket now t s))"
  using tkt.create_numbered [of s "length (tickets s)" "(now, t)"]
  by (simp add: sup_numbered_def numbered_ticket_key createTicket_def Let_def)

lemma sup_numbered_update: "sup_numbered s \<Longrightarrow> sup_numbered (snd (updateTicket now k t s))"
proof -
  have ids: "ticket_ids (snd (updateTicket now k t s)) = ticket_ids s"
    using tkt.update_keys [of "(now, t)" k s] by simp
  have "length (tickets (snd (updateTicket now k t s))) = length (tickets s)"
    using arg_cong [OF ids, of length] by (simp add: ticket_ids_def)
  with ids show "sup_numbered s \<Longrightarrow> ?thesis" by (simp add: sup_numbered_def)
qed

lemma sup_handle_numbered:
  "rt \<noteq> SupDeleteTicket \<Longrightarrow> sup_numbered s \<Longrightarrow> sup_numbered (snd (sup_handle rt r s))"
  unfolding sup_handle_store
  by (cases rt) (simp_all add: sup_numbered_create sup_numbered_update split: option.split)

text \<open>
  As long as no ticket is deleted, the tickets are numbered \<^verbatim>\<open>tkt-001\<close>, \<^verbatim>\<open>tkt-002\<close>, \<dots> in order of
  creation, whatever requests the component serves; in particular no two share an identifier.
\<close>

theorem tickets_numbered:
  assumes "\<forall>(env, rt, r) \<in> set qs. rt \<noteq> SupDeleteTicket"
  shows "sup_numbered (serve_all sup_serve qs sup_newStore) \<and>
    distinct (ticket_ids (serve_all sup_serve qs sup_newStore))"
proof -
  have "sup_numbered (serve_all sup_serve qs sup_newStore)"
  proof (rule serve_all_keeps_on)
    fix env rt r s assume "(env, rt, r) \<in> set qs" and "sup_numbered s"
    moreover from this assms have "rt \<noteq> SupDeleteTicket" by auto
    ultimately show "sup_numbered (snd (sup_serve env rt r s))"
      unfolding sup_serve_def
      by (intro guarded_keeps [where I = sup_numbered] sup_handle_numbered) simp_all
  qed (simp add: sup_numbered_def sup_newStore_def ticket_ids_def)
  moreover from this have "distinct (ticket_ids (serve_all sup_serve qs sup_newStore))"
    unfolding sup_numbered_def numbered_ticket_key [symmetric] by (simp only: tkt.distinct_numbered)
  ultimately show ?thesis ..
qed

definition demo_ticket :: ticket where
  "demo_ticket = \<lparr>tkt_id = '''', tkt_subject = ''s'', tkt_status = '''', tkt_priority = '''',
     tkt_body = '''', tkt_reporter = '''', tkt_updatedAt = ''''\<rparr>"

theorem tickets_numbered_witness:
  "sup_numbered (serve_all sup_serve
     [(demo_env [''support-view''], SupCreateTicket, demo_req (\<lambda>k. '''') (Some demo_ticket)),
      (demo_env [''support-view''], SupCreateTicket, demo_req (\<lambda>k. '''') None)] sup_newStore)"
  by (rule tickets_numbered [THEN conjunct1]) simp

text \<open>
  Identifiers are reused. When the tickets are numbered without gaps and any ticket but the
  newest is deleted, the ticket created next gets the identifier of the newest one; every
  lookup of that identifier still answers with the older ticket, so the created ticket can be
  neither read nor updated.
\<close>

theorem ticket_id_reused:
  assumes "sup_numbered s" and "k \<in> set (ticket_ids s)" and "k \<noteq> ticket_key (length (tickets s))"
    and "deleteTicket k s = (ok, s1)" and "createTicket now t s1 = (t', s2)"
  shows "tkt_id t' = ticket_key (length (tickets s)) \<and>
    getTicket (tkt_id t') s2 = getTicket (tkt_id t') s \<and> getTicket (tkt_id t') s \<noteq> None \<and>
    \<not> distinct (ticket_ids s2)"
proof -
  let ?n = "length (tickets s)"
  have num: "ticket_ids s = tkt.numbered ?n"
    using assms(1) by (simp add: sup_numbered_def numbered_ticket_key)
  have s1: "s1 = snd (deleteTicket k s)" and s2: "s2 = snd (createTicket now t s1)"
    and t': "t' = fst (createTicket now t s1)" using assms(4,5) by simp_all
  have new: "ticket_key (length (tickets s1) + 1) = ticket_key ?n"
    using tkt.create_after_delete_reuses [OF num assms(2)]
    by (simp add: s1 ticket_key_def)
  have in1: "ticket_key ?n \<in> set (ticket_ids s1)"
    using tkt.create_after_delete_collides [OF num assms(2)] assms(3) new
    by (simp add: s1 ticket_key_def)
  have id: "tkt_id t' = ticket_key ?n"
    using new by (simp add: t' createTicket_def Let_def)
  have "getTicket (ticket_key ?n) s2 = getTicket (ticket_key ?n) s1"
    using tkt.create_old [OF in1, of "(now, t)"] by (simp add: s2)
  also have "\<dots> = getTicket (ticket_key ?n) s"
    using tkt.delete_other [of "ticket_key ?n" k s] assms(3) by (simp add: s1)
  finally have get: "getTicket (ticket_key ?n) s2 = getTicket (ticket_key ?n) s" .
  have "getTicket (ticket_key ?n) s1 \<noteq> None"
    using in1 tkt.lookup_None [of "ticket_key ?n" s1] by simp
  then have "getTicket (ticket_key ?n) s \<noteq> None"
    using tkt.delete_other [of "ticket_key ?n" k s] assms(3) by (simp add: s1)
  moreover have "\<not> distinct (ticket_ids s2)"
    using tkt.create_keys [of "(now, t)" s1] in1 new by (simp add: s2)
  ultimately show ?thesis using id get by simp
qed

theorem ticket_id_reused_witness:
  "let mk = (\<lambda>n s. snd (createTicket n demo_ticket s));
       s = mk ''t2'' (mk ''t1'' sup_newStore);
       s1 = snd (deleteTicket (ticket_key 1) s);
       (t', s2) = createTicket ''t3'' demo_ticket s1
   in tkt_updatedAt t' = ''t3'' \<and>
      map_option tkt_updatedAt (getTicket (tkt_id t') s2) = Some ''t2''"
proof -
  let ?s = "snd (createTicket ''t2'' demo_ticket (snd (createTicket ''t1'' demo_ticket sup_newStore)))"
  have num: "sup_numbered ?s"
    by (intro sup_numbered_create) (simp add: sup_numbered_def sup_newStore_def ticket_ids_def)
  have len: "length (tickets ?s) = 2" by (simp add: createTicket_def Let_def sup_newStore_def)
  have k: "ticket_key 1 \<in> set (ticket_ids ?s)" "ticket_key 1 \<noteq> ticket_key (length (tickets ?s))"
    using num by (simp_all add: sup_numbered_def len upt_conv_Cons) (simp add: ticket_key_def)
  obtain ok s1 where d: "deleteTicket (ticket_key 1) ?s = (ok, s1)" by (cases "deleteTicket (ticket_key 1) ?s")
  obtain t' s2 where c: "createTicket ''t3'' demo_ticket s1 = (t', s2)"
    by (cases "createTicket ''t3'' demo_ticket s1")
  from ticket_id_reused [OF num k d c]
  have "tkt_id t' = ticket_key 2 \<and> getTicket (tkt_id t') s2 = getTicket (ticket_key 2) ?s"
    by (auto simp: len)
  moreover have "map_option tkt_updatedAt (getTicket (ticket_key 2) ?s) = Some ''t2''"
    by (simp add: getTicket_def createTicket_def Let_def sup_newStore_def numeral_2_eq_2 ticket_key_def)
  moreover have "tkt_updatedAt t' = ''t3''" using c by (auto simp: createTicket_def Let_def)
  ultimately show ?thesis using d c by (auto simp: Let_def)
qed

text \<open>
  A PATCH of a ticket that reaches the store overwrites exactly the fields of the body that
  are not blank and stamps the time: identifier and reporter never change, blank fields keep
  the stored value (so a field cannot be cleared), other tickets are untouched, and an unknown
  ticket is answered 404 without a change.
\<close>

theorem patch_ticket:
  "case getTicket (rq_path r ''ticketId'') s of
     None \<Rightarrow> rq_body r = None \<or>
       sup_handle SupUpdateTicket r s = (Failure 404 ''not_found'' ''ticket not found'', s)
   | Some e \<Rightarrow>
      (case rq_body r of
         None \<Rightarrow> sup_handle SupUpdateTicket r s =
           (Failure 400 ''validation_failed'' ''invalid request body'', s)
       | Some q \<Rightarrow>
          let keep = (\<lambda>old new. if new = '''' then old else new);
              e' = \<lparr>tkt_id = tkt_id e, tkt_subject = keep (tkt_subject e) (tkt_subject q),
                    tkt_status = keep (tkt_status e) (tkt_status q),
                    tkt_priority = keep (tkt_priority e) (tkt_priority q),
                    tkt_body = keep (tkt_body e) (tkt_body q), tkt_reporter = tkt_reporter e,
                    tkt_updatedAt = rq_now r\<rparr>;
              s' = snd (sup_handle SupUpdateTicket r s)
          in fst (sup_handle SupUpdateTicket r s) = Reply 200 (SupTicket e') \<and>
             (\<forall>k. getTicket k s' = (if k = rq_path r ''ticketId'' then Some e' else getTicket k s)) \<and>
             ticket_ids s' = ticket_ids s)"
proof -
  have patch: "patchTicket now q e = \<lparr>tkt_id = tkt_id e,
      tkt_subject = (if tkt_subject q = '''' then tkt_subject e else tkt_subject q),
      tkt_status = (if tkt_status q = '''' then tkt_status e else tkt_status q),
      tkt_priority = (if tkt_priority q = '''' then tkt_priority e else tkt_priority q),
      tkt_body = (if tkt_body q = '''' then tkt_body e else tkt_body q),
      tkt_reporter = tkt_reporter e, tkt_updatedAt = now\<rparr>" for now q e
    by (cases e) (simp add: patchTicket_def Let_def)
  show ?thesis
    by (auto simp: getTicket_def updateTicket_def sup_handler_defs with_body_def write_error_def
        write_json_def Let_def upd_found ticket_ids_def patch split: option.split)
qed

end
