(* ===== verification/Repos.thy ===== *)
theory Repos
  imports Middleware Store_Contracts
begin

text \<open>
  Repositories and pull requests (\<^verbatim>\<open>internal/repo\<close>): store, handlers, routes. Repositories
  are only ever added and pull requests only ever merged.
\<close>

section \<open>Store\<close>

record repo =
  repo_id :: string
  repo_name :: string
  repo_description :: string
  repo_defaultBranch :: string
  repo_visibility :: string
  repo_updatedAt :: string

record repo_file =
  rf_name :: string
  rf_type :: string
  rf_size :: int
  rf_path :: string

record check =
  chk_name :: string
  chk_status :: string

record pull_request =
  pr_id :: string
  pr_repo :: string
  pr_title :: string
  pr_branch :: string
  pr_targetBranch :: string
  pr_status :: string
  pr_author :: string
  pr_files :: "string list"
  pr_checks :: "check list"

record repo_store =
  repos :: "repo list"
  prs :: "pull_request list"

definition repo_newStore :: "string \<Rightarrow> repo_store" where
  "repo_newStore now =
     \<lparr>repos =
        [\<lparr>repo_id = ''repo-001'', repo_name = ''demo-app'', repo_description = ''Demo application'',
          repo_defaultBranch = ''main'', repo_visibility = ''private'', repo_updatedAt = now\<rparr>,
         \<lparr>repo_id = ''repo-002'', repo_name = ''api-svc'', repo_description = ''API service'',
          repo_defaultBranch = ''main'', repo_visibility = ''private'', repo_updatedAt = now\<rparr>],
      prs =
        [\<lparr>pr_id = ''pr-001'', pr_repo = ''repo-001'', pr_title = ''Add user auth'',
          pr_branch = ''feature/auth'', pr_targetBranch = ''main'', pr_status = ''open'',
          pr_author = ''admin'', pr_files = [''src/auth.ts'', ''src/login.ts''],
          pr_checks = [\<lparr>chk_name = ''ci/build'', chk_status = ''passing''\<rparr>,
                       \<lparr>chk_name = ''ci/test'', chk_status = ''passing''\<rparr>]\<rparr>]\<rparr>"

definition listRepos :: "repo_store \<Rightarrow> repo list" where
  "listRepos s = repos s"

definition repo_key :: "nat \<Rightarrow> string" where
  "repo_key n = ''repo-'' @ sprintf_0d 3 n"

definition createRepo :: "string \<Rightarrow> string \<Rightarrow> string \<Rightarrow> repo_store \<Rightarrow> repo \<times> repo_store" where
  "createRepo now name visibility s =
     (let r = \<lparr>repo_id = repo_key (length (repos s) + 1), repo_name = name,
               repo_description = '''', repo_defaultBranch = ''main'',
               repo_visibility = visibility, repo_updatedAt = now\<rparr>
      in (r, s\<lparr>repos := repos s @ [r]\<rparr>))"

definition listFiles :: "string \<Rightarrow> repo_store \<Rightarrow> repo_file list" where
  "listFiles repoID s =
     [\<lparr>rf_name = ''README.md'', rf_type = ''file'', rf_size = 1024, rf_path = ''README.md''\<rparr>,
      \<lparr>rf_name = ''src'', rf_type = ''dir'', rf_size = 0, rf_path = ''src''\<rparr>,
      \<lparr>rf_name = ''SPECIFICATION.md'', rf_type = ''file'', rf_size = 4096,
       rf_path = ''SPECIFICATION.md''\<rparr>]"

definition listPRs :: "string \<Rightarrow> repo_store \<Rightarrow> pull_request list" where
  "listPRs repoID s = filter (\<lambda>pr. pr_repo pr = repoID) (prs s)"

text \<open>Pull requests are found by repository and identifier together.\<close>

definition pr_key :: "pull_request \<Rightarrow> string \<times> string" where
  "pr_key pr = (pr_repo pr, pr_id pr)"

definition getPR :: "string \<times> string \<Rightarrow> repo_store \<Rightarrow> pull_request option" where
  "getPR k s = find_key pr_key k (prs s)"

definition mergePR :: "string \<times> string \<Rightarrow> repo_store \<Rightarrow> pull_request option \<times> repo_store" where
  "mergePR k s =
     (case find_key pr_key k (prs s) of
        None \<Rightarrow> (None, s)
      | Some pr \<Rightarrow>
          let pr' = pr\<lparr>pr_status := ''merged''\<rparr>
          in (Some pr', s\<lparr>prs := upd_key pr_key k pr' (prs s)\<rparr>))"

section \<open>Handlers and routes\<close>

record repo_body =
  rb_name :: string
  rb_visibility :: string

datatype repo_payload =
    RepoPage "repo page" | RepoOne repo | RepoFiles "repo_file list" | PrPage "pull_request page"
  | PrOne pull_request

type_synonym repo_handler_t = "(repo_body, repo_store, repo_payload) handler"

definition repo_listRepos :: repo_handler_t where
  "repo_listRepos r s = write_page RepoPage (listRepos s) r s"

definition repo_createRepo :: repo_handler_t where
  "repo_createRepo = with_body (\<lambda>req r s.
     let (x, s) = createRepo (rq_now r) (rb_name req) (rb_visibility req) s
     in write_json 201 (RepoOne x) s)"

definition repo_listFiles :: repo_handler_t where
  "repo_listFiles r s = write_json 200 (RepoFiles (listFiles (rq_path r ''repoId'') s)) s"

definition repo_listPRs :: repo_handler_t where
  "repo_listPRs r s = write_page PrPage (listPRs (rq_path r ''repoId'') s) r s"

definition repo_getPR :: repo_handler_t where
  "repo_getPR r s =
     (case getPR (rq_path r ''repoId'', rq_path r ''prId'') s of
        None \<Rightarrow> write_error 404 ''not_found'' ''pull request not found'' s
      | Some pr \<Rightarrow> write_json 200 (PrOne pr) s)"

definition repo_mergePR :: repo_handler_t where
  "repo_mergePR r s =
     (case mergePR (rq_path r ''repoId'', rq_path r ''prId'') s of
        (None, s) \<Rightarrow> write_error 404 ''not_found'' ''pull request not found'' s
      | (Some pr, s) \<Rightarrow> write_json 200 (PrOne pr) s)"

datatype repo_route =
    RepoList | RepoCreate | RepoFilesOf | RepoPRs | RepoGetPR | RepoMergePR

fun repo_role :: "repo_route \<Rightarrow> string" where
  "repo_role RepoList = ''repo-view''"
| "repo_role RepoCreate = ''repo-update''"
| "repo_role RepoFilesOf = ''repo-view''"
| "repo_role RepoPRs = ''repo-view''"
| "repo_role RepoGetPR = ''repo-view''"
| "repo_role RepoMergePR = ''repo-merge''"

fun repo_handle :: "repo_route \<Rightarrow> repo_handler_t" where
  "repo_handle RepoList = repo_listRepos"
| "repo_handle RepoCreate = repo_createRepo"
| "repo_handle RepoFilesOf = repo_listFiles"
| "repo_handle RepoPRs = repo_listPRs"
| "repo_handle RepoGetPR = repo_getPR"
| "repo_handle RepoMergePR = repo_mergePR"

definition repo_serve :: "bao_env \<Rightarrow> repo_route \<Rightarrow> repo_handler_t" where
  "repo_serve env rt = guarded env (repo_role rt) (repo_handle rt)"

section \<open>Contracts\<close>

definition pr_keys :: "repo_store \<Rightarrow> (string \<times> string) list" where
  "pr_keys s = map pr_key (prs s)"

lemma pr_key_status [simp]: "pr_key (pr\<lparr>pr_status := st\<rparr>) = pr_key pr"
  by (simp add: pr_key_def)

interpretation prq: keyed_store pr_keys getPR "\<lambda>(_ :: unit). mergePR"
proof (unfold_locales, goal_cases)
  case (1 k s) show ?case by (simp add: getPR_def pr_keys_def find_key_None)
next
  case (2 u k s) show ?case
    by (simp add: mergePR_def pr_keys_def Let_def upd_found split: option.split)
next
  case (3 u k s) show ?case
    by (simp add: mergePR_def getPR_def Let_def upd_found split: option.split)
next
  case (4 k' k u s) then show ?case
    by (simp add: mergePR_def getPR_def Let_def upd_found split: option.split)
qed

lemmas repo_handler_defs = repo_listRepos_def repo_createRepo_def repo_listFiles_def
  repo_listPRs_def repo_getPR_def repo_mergePR_def

lemma repo_handle_store:
  "snd (repo_handle rt r s) =
    (case (rt, rq_body r) of
       (RepoCreate, Some q) \<Rightarrow> snd (createRepo (rq_now r) (rb_name q) (rb_visibility q) s)
     | (RepoMergePR, _) \<Rightarrow> snd (mergePR (rq_path r ''repoId'', rq_path r ''prId'') s)
     | _ \<Rightarrow> s)"
  by (cases rt) (simp_all add: repo_handler_defs snd_with_body Let_def
      split: option.split prod.split)

interpretation rpr: rbac_component repo_handle repo_role "''repo-view''"
proof
  fix rt r s assume "repo_role rt = ''repo-view''"
  then show "snd (repo_handle rt r s) = s"
    unfolding repo_handle_store by (cases rt) simp_all
qed

section \<open>Properties\<close>

text \<open>
  What every request keeps: repositories numbered without gaps, the pull requests the same up
  to their status, and a merged pull request merged.
\<close>

definition repo_extends :: "repo_store \<Rightarrow> repo_store \<Rightarrow> bool" where
  "repo_extends s0 s \<longleftrightarrow>
     prefix (repos s0) (repos s) \<and>
     map repo_id (repos s) = map (\<lambda>i. repo_key (Suc i)) [0..<length (repos s)] \<and>
     pr_keys s = pr_keys s0 \<and>
     list_all2 (\<lambda>p0 p. p = p0 \<or> p = p0\<lparr>pr_status := ''merged''\<rparr>) (prs s0) (prs s)"

lemma repo_extends_create:
  "repo_extends s0 s \<Longrightarrow> repo_extends s0 (snd (createRepo now name vis s))"
  by (auto simp: repo_extends_def createRepo_def Let_def pr_keys_def intro: prefix_prefix)

lemma list_all2_upd_key:
  "list_all2 P xs ys \<Longrightarrow> find_key f k ys = Some y \<Longrightarrow> (\<And>x. P x y \<Longrightarrow> P x y') \<Longrightarrow>
     list_all2 P xs (upd_key f k y' ys)"
  by (induction rule: list_all2_induct) (auto split: if_splits)

lemma repo_extends_merge:
  assumes "repo_extends s0 s"
  shows "repo_extends s0 (snd (mergePR k s))"
proof (cases "find_key pr_key k (prs s)")
  case None
  with assms show ?thesis by (simp add: mergePR_def)
next
  case (Some pr)
  let ?P = "\<lambda>p0 p. p = p0 \<or> p = p0\<lparr>pr_status := ''merged''\<rparr>"
  have "list_all2 ?P (prs s0) (upd_key pr_key k (pr\<lparr>pr_status := ''merged''\<rparr>) (prs s))"
    by (rule list_all2_upd_key [OF _ Some]) (use assms in \<open>auto simp: repo_extends_def\<close>)
  with Some assms show ?thesis
    by (simp add: repo_extends_def mergePR_def Let_def pr_keys_def upd_found)
qed

lemma repo_handle_extends: "repo_extends s0 s \<Longrightarrow> repo_extends s0 (snd (repo_handle rt r s))"
  unfolding repo_handle_store
  by (cases rt) (simp_all add: repo_extends_create repo_extends_merge split: option.split)

text \<open>
  Over every history of requests the repository list only grows at its end, with
  consecutive and therefore distinct identifiers, and pull requests only change from their
  first state to merged: none is lost, added, renamed or reopened.
\<close>

theorem repositories_only_grow:
  "repo_extends (repo_newStore now) (serve_all repo_serve qs (repo_newStore now)) \<and>
   distinct (map repo_id (repos (serve_all repo_serve qs (repo_newStore now))))"
proof -
  have start: "repo_extends (repo_newStore now) (repo_newStore now)"
  proof -
    have "repo_key 1 = ''repo-001''" "repo_key 2 = ''repo-002''" by code_simp+
    then show ?thesis
      by (simp add: repo_extends_def repo_newStore_def upt_conv_Cons numeral_2_eq_2)
  qed
  have "repo_extends (repo_newStore now) (serve_all repo_serve qs (repo_newStore now))"
    by (rule serve_all_keeps [where I = "repo_extends (repo_newStore now)"])
      (simp_all add: repo_serve_def guarded_keeps repo_handle_extends start)
  moreover have "distinct (map (\<lambda>i. repo_key (Suc i)) [0..<n])" for n
    by (simp add: distinct_map inj_on_def repo_key_def)
  ultimately show ?thesis by (simp add: repo_extends_def)
qed

text \<open>
  Merging a pull request is final and idempotent, and touches no other pull request; an
  unknown pull request is answered 404 without a change.
\<close>

theorem merge_pull_request:
  "let k = (rq_path r ''repoId'', rq_path r ''prId'');
       (reply, s') = repo_handle RepoMergePR r s
   in (case getPR k s of
         None \<Rightarrow> reply = Failure 404 ''not_found'' ''pull request not found'' \<and> s' = s
       | Some pr \<Rightarrow> reply = Reply 200 (PrOne (pr\<lparr>pr_status := ''merged''\<rparr>)) \<and>
           (\<forall>k'. getPR k' s' =
              (if k' = k then Some (pr\<lparr>pr_status := ''merged''\<rparr>) else getPR k' s)) \<and>
           repo_handle RepoMergePR r s' = (reply, s'))"
proof -
  have idem: "upd_key f k y (upd_key f k y xs) = upd_key f k y xs" if "f y = k"
    for f :: "pull_request \<Rightarrow> string \<times> string" and k y xs
    using that by (induction xs) auto
  show ?thesis
  proof (cases "find_key pr_key (rq_path r ''repoId'', rq_path r ''prId'') (prs s)")
    case None
    then show ?thesis by (simp add: repo_handler_defs mergePR_def getPR_def write_error_def)
  next
    case (Some pr)
    have key: "pr_key pr = (rq_path r ''repoId'', rq_path r ''prId'')" by (rule find_key_key [OF Some])
    with Some show ?thesis
      by (simp add: repo_handler_defs mergePR_def getPR_def write_json_def Let_def upd_found idem)
  qed
qed

end
