(* ===== verification/Llm.thy ===== *)
theory Llm
  imports Board
begin

text \<open>
  The LLM client and the decomposition of a specification into a board (\<^verbatim>\<open>internal/llm\<close>).

  The package-level configuration is the record \<open>llm_cfg\<close>. What leaves the process is a
  request, and the network is the parameter \<open>post\<close>, which answers it; JSON decoding of the
  answer is part of that answer (\<open>None\<close> with a message when \<open>json.Unmarshal\<close> fails), and
  decoding of the model's text into the intermediate structure is the parameter \<open>parse\<close>.
  Errors are Go's error strings.
\<close>

section \<open>The client\<close>

record llm_cfg =
  endpoint :: string
  apiKey :: string
  model :: string

definition llm_Init :: "(string \<Rightarrow> string) \<Rightarrow> llm_cfg" where
  "llm_Init getenv =
     (let ep = getenv ''LLM_ENDPOINT'';
          ep = (if ep = '''' then ''https://api.anthropic.com/v1/messages'' else ep);
          m = getenv ''LLM_MODEL'';
          m = (if m = '''' then ''claude-sonnet-4-20250514'' else m)
      in \<lparr>endpoint = ep, apiKey = getenv ''LLM_API_KEY'', model = m\<rparr>)"

definition setEndpoint :: "string \<Rightarrow> llm_cfg \<Rightarrow> llm_cfg" where
  "setEndpoint e cfg = cfg\<lparr>endpoint := e\<rparr>"

definition setAPIKey :: "string \<Rightarrow> llm_cfg \<Rightarrow> llm_cfg" where
  "setAPIKey k cfg = cfg\<lparr>apiKey := k\<rparr>"

record message =
  msg_role :: string
  msg_content :: string

record completion_request =
  cr_model :: string
  cr_messages :: "message list"
  cr_maxTokens :: int

record content_block =
  cb_type :: string
  cb_text :: string

record llm_http =
  lh_url :: string
  lh_apiKey :: string
  lh_version :: string
  lh_body :: completion_request

text \<open>How a call to the service can end, in the order the client meets it.\<close>

datatype llm_outcome =
    CannotCreate string
  | CannotSend string
  | CannotRead string
  | Answer nat string "string + content_block list"

definition complete ::
    "(llm_http \<Rightarrow> llm_outcome) \<Rightarrow> llm_cfg \<Rightarrow> string \<Rightarrow> string \<Rightarrow> string + string" where
  "complete post cfg systemPrompt userPrompt =
     (if apiKey cfg = '''' then Inl ''LLM_API_KEY not configured''
      else let reqBody = \<lparr>cr_model = model cfg,
                          cr_messages = [\<lparr>msg_role = ''user'', msg_content = userPrompt\<rparr>],
                          cr_maxTokens = 4096\<rparr>
           in case post \<lparr>lh_url = endpoint cfg, lh_apiKey = apiKey cfg,
                         lh_version = ''2023-06-01'', lh_body = reqBody\<rparr> of
                CannotCreate e \<Rightarrow> Inl (''create request: '' @ e)
              | CannotSend e \<Rightarrow> Inl (''LLM request: '' @ e)
              | CannotRead e \<Rightarrow> Inl (''read response: '' @ e)
              | Answer status body decoded \<Rightarrow>
                  if status \<noteq> 200 then Inl (''LLM returned '' @ digits status @ '': '' @ body)
                  else (case decoded of
                          Inl e \<Rightarrow> Inl (''parse response: '' @ e)
                        | Inr [] \<Rightarrow> Inl ''empty response from LLM''
                        | Inr (b # _) \<Rightarrow> Inr (cb_text b)))"

section \<open>Decomposition\<close>

record dec_card =
  dc_title :: string
  dc_status :: string
  dc_content :: string
  dc_containerIndex :: int
  dc_x :: rat
  dc_y :: rat
  dc_w :: rat
  dc_h :: rat

record dec_edge =
  de_type :: string
  de_from :: int
  de_to :: int

record decomposed =
  dec_cards :: "dec_card list"
  dec_edges :: "dec_edge list"

definition zero_edge :: edge where
  "zero_edge = \<lparr>edge_id = '''', edge_type = '''', edge_from = '''', edge_to = ''''\<rparr>"

definition dec_card_at :: "nat \<Rightarrow> dec_card \<Rightarrow> card" where
  "dec_card_at i c =
     \<lparr>card_id = card_key (i + 1), card_title = dc_title c, card_status = dc_status c,
      card_content = dc_content c, card_position = Some \<lparr>pos_x = dc_x c, pos_y = dc_y c\<rparr>,
      card_size = Some \<lparr>sz_w = dc_w c, sz_h = dc_h c\<rparr>, card_sourceRefs = [],
      card_note = None, card_links = Some []\<rparr>"

definition dec_edge_at :: "string list \<Rightarrow> nat \<Rightarrow> dec_edge \<Rightarrow> edge" where
  "dec_edge_at cardIDs i e =
     (if 0 \<le> de_from e \<and> de_from e < int (length cardIDs) \<and>
         0 \<le> de_to e \<and> de_to e < int (length cardIDs)
      then \<lparr>edge_id = edge_key (i + 1), edge_type = de_type e,
            edge_from = cardIDs ! nat (de_from e), edge_to = cardIDs ! nat (de_to e)\<rparr>
      else zero_edge)"

text \<open>
  \<open>make([]T, n)\<close> followed by a loop that assigns each index is a map over the indexed list; an
  edge the loop skips keeps the zero value.
\<close>

definition board_of :: "decomposed \<Rightarrow> board" where
  "board_of d =
     (let cards = map (\<lambda>(i, c). dec_card_at i c) (enumerate 0 (dec_cards d));
          cardIDs = map card_id cards
      in \<lparr>brd_id = '''', brd_name = '''', brd_repo = '''', brd_updatedAt = '''',
          brd_cards = cards,
          brd_edges = map (\<lambda>(i, e). dec_edge_at cardIDs i e) (enumerate 0 (dec_edges d))\<rparr>)"

definition decomposeSpec ::
    "(llm_http \<Rightarrow> llm_outcome) \<Rightarrow> (string \<Rightarrow> string + decomposed) \<Rightarrow> string \<Rightarrow> llm_cfg \<Rightarrow>
     string \<Rightarrow> string + board" where
  "decomposeSpec post parse decomposePrompt cfg specContent =
     (case complete post cfg decomposePrompt
             (''Decompose this specification into a Project Board:'' @ [CHR 0x0A, CHR 0x0A] @
              specContent) of
        Inl e \<Rightarrow> Inl (''LLM decomposition: '' @ e)
      | Inr response \<Rightarrow>
         (case parse response of
            Inl e \<Rightarrow> Inl (''parse LLM response: '' @ e @ '' (response: '' @
                          take 200 response @ '')'')
          | Inr d \<Rightarrow> Inr (board_of d)))"

section \<open>Properties\<close>

lemma board_of_cards: "map card_id (brd_cards (board_of d)) =
    map (\<lambda>i. card_key (Suc i)) [0..<length (dec_cards d)]"
  by (rule nth_equalityI) (simp_all add: board_of_def Let_def dec_card_at_def nth_enumerate_eq)

lemma board_of_edge:
  assumes "j < length (dec_edges d)"
  shows "brd_edges (board_of d) ! j =
    (let e = dec_edges d ! j; n = int (length (dec_cards d)) in
     if 0 \<le> de_from e \<and> de_from e < n \<and> 0 \<le> de_to e \<and> de_to e < n
     then \<lparr>edge_id = edge_key (Suc j), edge_type = de_type e,
           edge_from = card_key (Suc (nat (de_from e))), edge_to = card_key (Suc (nat (de_to e)))\<rparr>
     else zero_edge)"
proof -
  have ids: "map card_id (map (\<lambda>(i, c). dec_card_at i c) (enumerate 0 (dec_cards d))) =
      map (\<lambda>i. card_key (Suc i)) [0..<length (dec_cards d)]"
    using board_of_cards [of d] by (simp only: board_of_def Let_def board.simps)
  have "brd_edges (board_of d) ! j =
      dec_edge_at (map (\<lambda>i. card_key (Suc i)) [0..<length (dec_cards d)]) j (dec_edges d ! j)"
    using assms by (simp add: board_of_def Let_def nth_enumerate_eq ids del: map_map)
  moreover have "map f [0..<n] ! nat k = f (nat k)" if "0 \<le> k" "k < int n"
    for f :: "nat \<Rightarrow> string" and n k
    using that by (simp add: nat_less_iff)
  ultimately show ?thesis by (auto simp: dec_edge_at_def Let_def)
qed

text \<open>
  C33: a specification that decomposes gives a board whose cards are those of the answer,
  numbered without gaps. An edge of the answer both of whose indices name a card joins those
  two cards; any other edge is left as a blank edge, which stays in the board.
\<close>

theorem decomposed_board:
  assumes "decomposeSpec post parse prompt cfg spec = Inr b"
  shows "\<exists>answer d. complete post cfg prompt
        (''Decompose this specification into a Project Board:'' @ [CHR 0x0A, CHR 0x0A] @ spec) =
        Inr answer \<and> parse answer = Inr d \<and>
    map card_title (brd_cards b) = map dc_title (dec_cards d) \<and>
    map card_id (brd_cards b) = map (\<lambda>i. card_key (Suc i)) [0..<length (dec_cards d)] \<and>
    length (brd_edges b) = length (dec_edges d) \<and>
    (\<forall>j < length (dec_edges d).
       let e = dec_edges d ! j; n = int (length (dec_cards d)) in
       brd_edges b ! j =
         (if 0 \<le> de_from e \<and> de_from e < n \<and> 0 \<le> de_to e \<and> de_to e < n
          then \<lparr>edge_id = edge_key (Suc j), edge_type = de_type e,
                edge_from = card_key (Suc (nat (de_from e))),
                edge_to = card_key (Suc (nat (de_to e)))\<rparr>
          else zero_edge))"
proof -
  from assms obtain answer d where run: "complete post cfg prompt
      (''Decompose this specification into a Project Board:'' @ [CHR 0x0A, CHR 0x0A] @ spec) = Inr answer"
    "parse answer = Inr d" and b: "b = board_of d"
    by (auto simp: decomposeSpec_def split: sum.splits)
  have "map card_title (brd_cards (board_of d)) = map dc_title (dec_cards d)"
    by (rule nth_equalityI) (simp_all add: board_of_def Let_def dec_card_at_def nth_enumerate_eq)
  moreover have "length (brd_edges (board_of d)) = length (dec_edges d)"
    by (simp add: board_of_def Let_def)
  ultimately show ?thesis
    unfolding b using run board_of_cards [of d] board_of_edge [of _ d]
    by (intro exI [of _ answer] exI [of _ d]) (simp add: Let_def)
qed

definition demo_decomposed :: decomposed where
  "demo_decomposed =
     \<lparr>dec_cards = [\<lparr>dc_title = ''A'', dc_status = ''todo'', dc_content = '''', dc_containerIndex = 0,
        dc_x = 0, dc_y = 0, dc_w = 1, dc_h = 1\<rparr>],
      dec_edges = [\<lparr>de_type = ''DependsOn'', de_from = 99, de_to = 0\<rparr>]\<rparr>"

theorem decomposed_board_witness:
  "\<exists>b. decomposeSpec (\<lambda>q. Answer 200 '''' (Inr [\<lparr>cb_type = ''text'', cb_text = ''j''\<rparr>]))
       (\<lambda>t. Inr demo_decomposed) ''p'' \<lparr>endpoint = ''e'', apiKey = ''k'', model = ''m''\<rparr> ''spec'' = Inr b \<and>
     length (brd_edges b) = 1"
proof -
  let ?post = "\<lambda>q. Answer 200 '''' (Inr [\<lparr>cb_type = ''text'', cb_text = ''j''\<rparr>])"
  let ?parse = "\<lambda>t :: string. Inr demo_decomposed :: string + decomposed"
  let ?cfg = "\<lparr>endpoint = ''e'', apiKey = ''k'', model = ''m''\<rparr>"
  have run: "decomposeSpec ?post ?parse ''p'' ?cfg ''spec'' = Inr (board_of demo_decomposed)"
    by (simp add: decomposeSpec_def complete_def)
  from decomposed_board [OF run] have "length (brd_edges (board_of demo_decomposed)) = 1"
    by (auto simp: demo_decomposed_def)
  with run show ?thesis by blast
qed

text \<open>
  The system prompt that describes the JSON the model has to produce is not part of any
  request: the service is sent the same request, and the result is the same, whatever the
  prompt is.
\<close>

theorem system_prompt_never_sent:
  "complete post cfg systemPrompt userPrompt = complete post cfg '''' userPrompt \<and>
   decomposeSpec post parse systemPrompt cfg spec = decomposeSpec post parse '''' cfg spec"
  by (simp add: complete_def decomposeSpec_def)

end
