(* ===== verification/Ide.thy ===== *)
theory Ide
  imports Llm "HOL-Library.AList" "HOL-Library.Multiset"
begin

text \<open>
  IDE projects and their files (\<^verbatim>\<open>internal/ide\<close>): store, handlers, routes.

  The nested Go map of files is an association list of association lists, updated with
  \<open>AList.update\<close> and \<open>AList.delete\<close>, so that every listing computes; a project that has no
  entry is Go's nil inner map. Strings are byte strings, so \<open>length\<close> is Go's \<open>len\<close>. The order in
  which Go ranges over the files and the answer of \<open>llm.DecomposeSpec\<close> come from outside, in
  \<open>ide_world\<close>.
\<close>

section \<open>Store\<close>

record project =
  prj_id :: string
  prj_name :: string
  prj_repo :: string
  prj_spec :: string
  prj_board :: string
  prj_agent :: string

record file_content =
  fc_path :: string
  fc_content :: string
  fc_language :: string
  fc_updatedAt :: string

record file_entry =
  fe_name :: string
  fe_type :: string
  fe_size :: nat
  fe_path :: string

type_synonym file_map = "(string \<times> file_content) list"

record ide_store =
  projects :: "project list"
  files :: "(string \<times> file_map) list"

definition newline :: string where
  "newline = [CHR 0x0A]"

definition ide_newStore :: "string \<Rightarrow> ide_store" where
  "ide_newStore now =
     \<lparr>projects =
        [\<lparr>prj_id = ''prj-001'', prj_name = ''demo-app'', prj_repo = ''repo-001'',
          prj_spec = ''SPECIFICATION.md'', prj_board = ''brd-001'', prj_agent = ''''\<rparr>],
      files =
        [(''prj-001'',
          [(''SPECIFICATION.md'', \<lparr>fc_path = ''SPECIFICATION.md'',
              fc_content = ''# Demo App'' @ newline @ newline @ ''A sample application.'',
              fc_language = ''markdown'', fc_updatedAt = now\<rparr>),
           (''src/main.ts'', \<lparr>fc_path = ''src/main.ts'',
              fc_content = ''console.log('' @ [CHR 0x27] @ ''hello'' @ [CHR 0x27] @ '');'',
              fc_language = ''typescript'', fc_updatedAt = now\<rparr>)])]\<rparr>"

definition listProjects :: "ide_store \<Rightarrow> project list" where
  "listProjects s = projects s"

definition project_key :: "nat \<Rightarrow> string" where
  "project_key n = ''prj-'' @ sprintf_0d 3 n"

definition createProject :: "string \<Rightarrow> string \<Rightarrow> ide_store \<Rightarrow> project \<times> ide_store" where
  "createProject now name s =
     (let n = length (projects s) + 1;
          p = \<lparr>prj_id = project_key n, prj_name = name, prj_repo = ''repo-'' @ sprintf_0d 3 n,
               prj_spec = ''SPECIFICATION.md'', prj_board = '''', prj_agent = ''''\<rparr>;
          spec = \<lparr>fc_path = ''SPECIFICATION.md'',
                  fc_content = ''# '' @ name @ newline @ newline @
                    ''Describe your application here.'',
                  fc_language = ''markdown'', fc_updatedAt = now\<rparr>
      in (p, s\<lparr>projects := projects s @ [p],
               files := AList.update (prj_id p) [(''SPECIFICATION.md'', spec)] (files s)\<rparr>))"

definition deleteProject :: "string \<Rightarrow> ide_store \<Rightarrow> bool \<times> ide_store" where
  "deleteProject i s =
     (case find_key prj_id i (projects s) of
        None \<Rightarrow> (False, s)
      | Some _ \<Rightarrow> (True, s\<lparr>projects := del_key prj_id i (projects s),
                           files := AList.delete i (files s)\<rparr>))"

text \<open>The four pointer arguments: \<open>None\<close> is a nil pointer, which leaves the field alone.\<close>

record project_patch =
  pp_name :: "string option"
  pp_repo :: "string option"
  pp_board :: "string option"
  pp_agent :: "string option"

definition patchProject :: "project_patch \<Rightarrow> project \<Rightarrow> project" where
  "patchProject u p =
     (let p = (case pp_name u of None \<Rightarrow> p | Some x \<Rightarrow> p\<lparr>prj_name := x\<rparr>);
          p = (case pp_repo u of None \<Rightarrow> p | Some x \<Rightarrow> p\<lparr>prj_repo := x\<rparr>);
          p = (case pp_board u of None \<Rightarrow> p | Some x \<Rightarrow> p\<lparr>prj_board := x\<rparr>)
      in (case pp_agent u of None \<Rightarrow> p | Some x \<Rightarrow> p\<lparr>prj_agent := x\<rparr>))"

definition updateProject :: "string \<Rightarrow> project_patch \<Rightarrow> ide_store \<Rightarrow> project option \<times> ide_store" where
  "updateProject i u s =
     (case find_key prj_id i (projects s) of
        None \<Rightarrow> (None, s)
      | Some p \<Rightarrow>
          let p' = patchProject u p
          in (Some p', s\<lparr>projects := upd_key prj_id i p' (projects s)\<rparr>))"

text \<open>\<open>s.files[projectID]\<close>: the empty map for a project without an entry.\<close>

definition files_of :: "string \<Rightarrow> ide_store \<Rightarrow> file_map" where
  "files_of projectID s =
     (case map_of (files s) projectID of None \<Rightarrow> [] | Some m \<Rightarrow> m)"

definition listTree :: "(file_entry list \<Rightarrow> file_entry list) \<Rightarrow> string \<Rightarrow> ide_store \<Rightarrow>
    file_entry list" where
  "listTree rng projectID s =
     rng (map (\<lambda>(path, f). \<lparr>fe_name = path, fe_type = ''file'',
                              fe_size = length (fc_content f), fe_path = path\<rparr>)
              (files_of projectID s))"

definition getFile :: "string \<Rightarrow> string \<Rightarrow> ide_store \<Rightarrow> file_content option" where
  "getFile projectID path s =
     (case map_of (files s) projectID of None \<Rightarrow> None | Some m \<Rightarrow> map_of m path)"

definition putFile :: "string \<Rightarrow> string \<Rightarrow> string \<Rightarrow> string \<Rightarrow> ide_store \<Rightarrow>
    file_content \<times> ide_store" where
  "putFile now projectID path content s =
     (let f = \<lparr>fc_path = path, fc_content = content, fc_language = '''', fc_updatedAt = now\<rparr>
      in (f, s\<lparr>files := AList.update projectID (AList.update path f (files_of projectID s))
                          (files s)\<rparr>))"

definition deleteFile :: "string \<Rightarrow> string \<Rightarrow> ide_store \<Rightarrow> bool \<times> ide_store" where
  "deleteFile projectID path s =
     (case map_of (files s) projectID of
        None \<Rightarrow> (False, s)
      | Some m \<Rightarrow>
         (case map_of m path of
            None \<Rightarrow> (False, s)
          | Some _ \<Rightarrow>
              (True, s\<lparr>files := AList.update projectID (AList.delete path m) (files s)\<rparr>)))"

definition renameFile :: "string \<Rightarrow> string \<Rightarrow> string \<Rightarrow> string \<Rightarrow> ide_store \<Rightarrow>
    file_content option \<times> ide_store" where
  "renameFile now projectID oldPath newPath s =
     (case map_of (files s) projectID of
        None \<Rightarrow> (None, s)
      | Some m \<Rightarrow>
         (case map_of m oldPath of
            None \<Rightarrow> (None, s)
          | Some f \<Rightarrow>
             (case map_of m newPath of
                Some _ \<Rightarrow> (None, s)
              | None \<Rightarrow>
                  let f' = f\<lparr>fc_path := newPath, fc_updatedAt := now\<rparr>
                  in (Some f', s\<lparr>files := AList.update projectID
                        (AList.update newPath f' (AList.delete oldPath m)) (files s)\<rparr>))))"

section \<open>Handlers and routes\<close>

record ide_world =
  iw_range :: "file_entry list \<Rightarrow> file_entry list"
  iw_decompose :: "string \<Rightarrow> string + board"

record ide_body =
  ib_name :: string
  ib_patch :: project_patch
  ib_content :: string
  ib_oldPath :: string
  ib_newPath :: string

datatype ide_payload =
    IdeProjects "project page" | IdeProject project | IdeTree "file_entry list"
  | IdeFile file_content | IdeBoard board

type_synonym ide_handler_t = "(ide_body, ide_store, ide_payload) handler"

definition ide_not_found :: "string \<Rightarrow> ide_store \<Rightarrow> ide_payload reply \<times> ide_store" where
  "ide_not_found msg s = write_error 404 ''not_found'' msg s"

definition ide_listProjects :: ide_handler_t where
  "ide_listProjects r s = write_page IdeProjects (listProjects s) r s"

definition ide_createProject :: ide_handler_t where
  "ide_createProject = with_body (\<lambda>req r s.
     let (p, s) = createProject (rq_now r) (ib_name req) s in write_json 201 (IdeProject p) s)"

definition ide_updateProject :: ide_handler_t where
  "ide_updateProject = with_body (\<lambda>req r s.
     case updateProject (rq_path r ''projectId'') (ib_patch req) s of
       (None, s) \<Rightarrow> ide_not_found ''project not found'' s
     | (Some p, s) \<Rightarrow> write_json 200 (IdeProject p) s)"

definition ide_deleteProject :: ide_handler_t where
  "ide_deleteProject r s =
     (case deleteProject (rq_path r ''projectId'') s of
        (False, s) \<Rightarrow> ide_not_found ''project not found'' s
      | (True, s) \<Rightarrow> (Status 204, s))"

definition ide_tree :: "ide_world \<Rightarrow> ide_handler_t" where
  "ide_tree w r s = write_json 200 (IdeTree (listTree (iw_range w) (rq_path r ''projectId'') s)) s"

definition ide_getFile :: ide_handler_t where
  "ide_getFile r s =
     (case getFile (rq_path r ''projectId'') (rq_path r ''path'') s of
        None \<Rightarrow> ide_not_found ''file not found'' s
      | Some f \<Rightarrow> write_json 200 (IdeFile f) s)"

definition ide_putFile :: ide_handler_t where
  "ide_putFile = with_body (\<lambda>req r s.
     let (f, s) = putFile (rq_now r) (rq_path r ''projectId'') (rq_path r ''path'')
                    (ib_content req) s
     in write_json 200 (IdeFile f) s)"

definition ide_deleteFile :: ide_handler_t where
  "ide_deleteFile r s =
     (case deleteFile (rq_path r ''projectId'') (rq_path r ''path'') s of
        (False, s) \<Rightarrow> ide_not_found ''file not found'' s
      | (True, s) \<Rightarrow> (Status 204, s))"

definition ide_renameFile :: ide_handler_t where
  "ide_renameFile = with_body (\<lambda>req r s.
     case renameFile (rq_now r) (rq_path r ''projectId'') (ib_oldPath req) (ib_newPath req) s of
       (None, s) \<Rightarrow> ide_not_found ''file not found or destination exists'' s
     | (Some f, s) \<Rightarrow> write_json 200 (IdeFile f) s)"

definition ide_renderBoard :: "ide_world \<Rightarrow> ide_handler_t" where
  "ide_renderBoard w r s =
     (case getFile (rq_path r ''projectId'') ''SPECIFICATION.md'' s of
        None \<Rightarrow> ide_not_found ''SPECIFICATION.md not found in project'' s
      | Some spec \<Rightarrow>
         (case iw_decompose w (fc_content spec) of
            Inl e \<Rightarrow> write_error 500 ''llm_error'' e s
          | Inr b \<Rightarrow>
              write_json 202 (IdeBoard (b\<lparr>brd_id := ''brd-rendered'',
                                           brd_name := ''Rendered Board''\<rparr>)) s))"

datatype ide_route =
    IdeListProjects | IdeCreateProject | IdeTreeOf | IdeGetFile | IdePutFile | IdeDeleteFile
  | IdeRenameFile | IdeUpdateProject | IdeDeleteProject | IdeRenderBoard

fun ide_role :: "ide_route \<Rightarrow> string" where
  "ide_role IdeListProjects = ''ide-view''"
| "ide_role IdeCreateProject = ''ide-update''"
| "ide_role IdeTreeOf = ''ide-view''"
| "ide_role IdeGetFile = ''ide-view''"
| "ide_role IdePutFile = ''ide-update''"
| "ide_role IdeDeleteFile = ''ide-update''"
| "ide_role IdeRenameFile = ''ide-update''"
| "ide_role IdeUpdateProject = ''ide-update''"
| "ide_role IdeDeleteProject = ''ide-update''"
| "ide_role IdeRenderBoard = ''ide-update''"

fun ide_handle :: "ide_world \<Rightarrow> ide_route \<Rightarrow> ide_handler_t" where
  "ide_handle w IdeListProjects = ide_listProjects"
| "ide_handle w IdeCreateProject = ide_createProject"
| "ide_handle w IdeTreeOf = ide_tree w"
| "ide_handle w IdeGetFile = ide_getFile"
| "ide_handle w IdePutFile = ide_putFile"
| "ide_handle w IdeDeleteFile = ide_deleteFile"
| "ide_handle w IdeRenameFile = ide_renameFile"
| "ide_handle w IdeUpdateProject = ide_updateProject"
| "ide_handle w IdeDeleteProject = ide_deleteProject"
| "ide_handle w IdeRenderBoard = ide_renderBoard w"

definition ide_serve :: "ide_world \<Rightarrow> bao_env \<Rightarrow> ide_route \<Rightarrow> ide_handler_t" where
  "ide_serve w env rt = guarded env (ide_role rt) (ide_handle w rt)"

section \<open>Contracts\<close>

definition project_ids :: "ide_store \<Rightarrow> string list" where
  "project_ids s = map prj_id (projects s)"

definition getProject :: "string \<Rightarrow> ide_store \<Rightarrow> project option" where
  "getProject i s = find_key prj_id i (projects s)"

lemma patchProject_id [simp]: "prj_id (patchProject u p) = prj_id p"
  by (simp add: patchProject_def Let_def split: option.split)

interpretation prj: counted_store project_ids getProject "\<lambda>u k. updateProject k u"
  "\<lambda>_ s. project_key (length (projects s) + 1)"
  "\<lambda>c. createProject (fst c) (snd c)" deleteProject "''prj-''" 3
proof (unfold_locales, goal_cases)
  case (1 k s) show ?case by (simp add: getProject_def project_ids_def find_key_None)
next
  case (2 u k s) show ?case
    by (simp add: updateProject_def project_ids_def Let_def upd_found split: option.split)
next
  case (3 u k s) show ?case
    by (simp add: updateProject_def getProject_def Let_def upd_found split: option.split)
next
  case (4 k' k u s) then show ?case
    by (simp add: updateProject_def getProject_def Let_def upd_found split: option.split)
next
  case (5 c s) show ?case by (simp add: createProject_def project_ids_def Let_def)
next
  case (6 c s) then have "getProject (project_key (length (projects s) + 1)) s = None"
    by (simp add: getProject_def project_ids_def find_key_None)
  then show ?case by (simp add: createProject_def getProject_def find_key_append Let_def)
next
  case (7 k s c) then have "getProject k s \<noteq> None"
    by (simp add: getProject_def project_ids_def find_key_None)
  then show ?case by (auto simp: createProject_def getProject_def find_key_append Let_def)
next
  case (8 k s) show ?case
    using find_key_None [of prj_id k "projects s"]
    by (auto simp: deleteProject_def project_ids_def split: option.split)
next
  case (9 k s) show ?case
    using find_key_None [of prj_id k "projects s"]
    by (auto simp: deleteProject_def project_ids_def map_del_key remove1_idem split: option.split)
next
  case (10 k' k s) then show ?case
    by (simp add: deleteProject_def getProject_def find_key_del_other split: option.split)
next
  case (11 c s) show ?case by (simp add: project_key_def project_ids_def)
qed

lemmas ide_handler_defs = ide_listProjects_def ide_createProject_def ide_updateProject_def
  ide_deleteProject_def ide_tree_def ide_getFile_def ide_putFile_def ide_deleteFile_def
  ide_renameFile_def ide_renderBoard_def ide_not_found_def

interpretation ider: rbac_component "ide_handle w" ide_role "''ide-view''" for w
proof
  fix rt r s assume "ide_role rt = ''ide-view''"
  then show "snd (ide_handle w rt r s) = s"
    by (cases rt) (simp_all add: ide_handler_defs split: option.split)
qed

section \<open>Files as one map\<close>

text \<open>
  The abstract state: one partial map from project and path to file. Each operation on the
  nested map is one update of it.
\<close>

definition file_view :: "ide_store \<Rightarrow> string \<times> string \<Rightarrow> file_content option" where
  "file_view s = (\<lambda>(p, path). getFile p path s)"

lemma files_of_view: "map_of (files_of p s) path = getFile p path s"
  by (simp add: files_of_def getFile_def split: option.split)

lemma getFile_update:
  "getFile p path (s\<lparr>files := AList.update q m (files s)\<rparr>) =
     (if p = q then map_of m path else getFile p path s)"
  by (simp add: getFile_def update_conv')

lemma view_put:
  "file_view (snd (putFile now p path content s)) =
     (file_view s)((p, path) \<mapsto> fst (putFile now p path content s))"
  by (auto simp: fun_eq_iff file_view_def putFile_def Let_def getFile_update update_conv'
      files_of_view)

lemma view_delete:
  "file_view (snd (deleteFile p path s)) = (file_view s)((p, path) := None)"
proof (cases "map_of (files s) p")
  case None
  then show ?thesis by (auto simp: fun_eq_iff file_view_def deleteFile_def getFile_def)
next
  case (Some m)
  then show ?thesis
    by (auto simp: fun_eq_iff file_view_def deleteFile_def getFile_update getFile_def
        AList.delete_conv' update_conv' split: option.split)
qed

lemma view_rename:
  "file_view (snd (renameFile now p old new s)) =
     (case (getFile p old s, getFile p new s) of
        (Some f, None) \<Rightarrow>
          (file_view s)((p, old) := None, (p, new) \<mapsto> f\<lparr>fc_path := new, fc_updatedAt := now\<rparr>)
      | _ \<Rightarrow> file_view s)"
proof (cases "map_of (files s) p")
  case None
  then show ?thesis by (simp add: renameFile_def getFile_def)
next
  case (Some m)
  then show ?thesis
    by (auto simp: fun_eq_iff file_view_def renameFile_def getFile_update getFile_def Let_def
        AList.delete_conv' update_conv' split: option.split)
qed

definition spec_file :: "string \<Rightarrow> string \<Rightarrow> file_content" where
  "spec_file now name =
     \<lparr>fc_path = ''SPECIFICATION.md'',
      fc_content = ''# '' @ name @ newline @ newline @ ''Describe your application here.'',
      fc_language = ''markdown'', fc_updatedAt = now\<rparr>"

lemma view_create:
  "file_view (snd (createProject now name s)) =
     (\<lambda>(p, path). if p = project_key (length (projects s) + 1)
        then (if path = ''SPECIFICATION.md'' then Some (spec_file now name) else None)
        else file_view s (p, path))"
  by (auto simp: fun_eq_iff file_view_def createProject_def Let_def getFile_def update_conv'
      spec_file_def)

lemma view_delete_project:
  "file_view (snd (deleteProject i s)) =
     (if i \<in> set (project_ids s)
      then (\<lambda>(p, path). if p = i then None else file_view s (p, path)) else file_view s)"
  using find_key_None [of prj_id i "projects s"]
  by (auto simp: fun_eq_iff file_view_def deleteProject_def getFile_def AList.delete_conv'
      project_ids_def split: option.split)

text \<open>
  C10: the nested maps of the store implement one map from project and path to file. Writing
  a file sets one entry, deleting clears one, renaming moves the entry and never overwrites
  another file, deleting a project clears its files and no others, and creating one gives
  its identifier a specification as its only file, whatever was filed under it.
\<close>

theorem files_refine_map:
  "file_view (snd (putFile now p path content s)) =
     (file_view s)((p, path) \<mapsto> \<lparr>fc_path = path, fc_content = content, fc_language = '''',
                                 fc_updatedAt = now\<rparr>) \<and>
   deleteFile p path s =
     (file_view s (p, path) \<noteq> None, snd (deleteFile p path s)) \<and>
   file_view (snd (deleteFile p path s)) = (file_view s)((p, path) := None) \<and>
   file_view (snd (renameFile now p old new s)) =
     (case (file_view s (p, old), file_view s (p, new)) of
        (Some f, None) \<Rightarrow>
          (file_view s)((p, old) := None, (p, new) \<mapsto> f\<lparr>fc_path := new, fc_updatedAt := now\<rparr>)
      | _ \<Rightarrow> file_view s) \<and>
   file_view (snd (deleteProject i s)) =
     (if i \<in> set (project_ids s)
      then (\<lambda>(p, path). if p = i then None else file_view s (p, path)) else file_view s) \<and>
   file_view (snd (createProject now name s)) =
     (\<lambda>(p, path). if p = project_key (length (projects s) + 1)
        then (if path = ''SPECIFICATION.md'' then Some (spec_file now name) else None)
        else file_view s (p, path))"
proof (intro conjI)
  show "file_view (snd (putFile now p path content s)) =
     (file_view s)((p, path) \<mapsto> \<lparr>fc_path = path, fc_content = content, fc_language = '''',
                                 fc_updatedAt = now\<rparr>)"
    by (simp add: view_put) (simp add: putFile_def Let_def)
  show "deleteFile p path s = (file_view s (p, path) \<noteq> None, snd (deleteFile p path s))"
    by (simp add: deleteFile_def file_view_def getFile_def split: option.split)
  show "file_view (snd (renameFile now p old new s)) =
     (case (file_view s (p, old), file_view s (p, new)) of
        (Some f, None) \<Rightarrow>
          (file_view s)((p, old) := None, (p, new) \<mapsto> f\<lparr>fc_path := new, fc_updatedAt := now\<rparr>)
      | _ \<Rightarrow> file_view s)"
    by (simp add: view_rename file_view_def [of s, THEN fun_cong])
qed (rule view_delete view_delete_project view_create)+

section \<open>Well-formed files, over every history\<close>

definition ide_wf :: "ide_store \<Rightarrow> bool" where
  "ide_wf s \<longleftrightarrow> distinct (map fst (files s)) \<and>
     (\<forall>(p, m) \<in> set (files s). distinct (map fst m) \<and> (\<forall>(path, f) \<in> set m. fc_path f = path))"


lemma set_update_subset: "set (AList.update k v al) \<subseteq> insert (k, v) (set al)"
  by (induction al) (auto split: if_splits)

lemma set_delete_subset: "set (AList.delete k al) \<subseteq> set al"
  by (simp add: AList.delete_eq)

definition file_map_ok :: "file_map \<Rightarrow> bool" where
  "file_map_ok m \<longleftrightarrow> distinct (map fst m) \<and> (\<forall>(path, f) \<in> set m. fc_path f = path)"

lemma ide_wf_alt:
  "ide_wf s \<longleftrightarrow> distinct (map fst (files s)) \<and> (\<forall>m \<in> snd ` set (files s). file_map_ok m)"
  by (auto simp: ide_wf_def file_map_ok_def split_beta)

lemma file_map_ok_update: "file_map_ok m \<Longrightarrow> fc_path f = path \<Longrightarrow> file_map_ok (AList.update path f m)"
  using set_update_subset [of path f m] by (auto simp: file_map_ok_def distinct_update)

lemma file_map_ok_delete: "file_map_ok m \<Longrightarrow> file_map_ok (AList.delete path m)"
  using set_delete_subset [of path m] by (auto simp: file_map_ok_def distinct_delete)

lemma ide_wf_update:
  "ide_wf s \<Longrightarrow> file_map_ok m \<Longrightarrow> ide_wf (s\<lparr>files := AList.update p m (files s)\<rparr>)"
  using set_update_subset [of p m "files s"] by (auto simp: ide_wf_alt distinct_update)

lemma ide_wf_get: "ide_wf s \<Longrightarrow> map_of (files s) p = Some m \<Longrightarrow> file_map_ok m"
  by (auto simp: ide_wf_alt dest: map_of_SomeD)

lemma ide_wf_files_of: "ide_wf s \<Longrightarrow> file_map_ok (files_of p s)"
  by (auto simp: files_of_def ide_wf_get split: option.split) (simp add: file_map_ok_def)

lemma ide_wf_ops:
  assumes wf: "ide_wf s"
  shows "ide_wf (snd (createProject now name s))" "ide_wf (snd (deleteProject i s))"
    "ide_wf (snd (updateProject i u s))" "ide_wf (snd (putFile now p path content s))"
    "ide_wf (snd (deleteFile p path s))" "ide_wf (snd (renameFile now p old new s))"
proof -
  have base: "ide_wf (s\<lparr>projects := ps\<rparr>)" for ps
    using wf by (simp add: ide_wf_def)
  show "ide_wf (snd (createProject now name s))"
    using ide_wf_update [OF base] by (simp add: createProject_def Let_def file_map_ok_def)
  show "ide_wf (snd (deleteProject i s))"
    using wf set_delete_subset [of i "files s"]
    by (auto simp: deleteProject_def ide_wf_alt distinct_delete split: option.split)
  show "ide_wf (snd (updateProject i u s))"
    using wf base by (simp add: updateProject_def Let_def split: option.split)
  show "ide_wf (snd (putFile now p path content s))"
    by (simp add: putFile_def Let_def ide_wf_update file_map_ok_update ide_wf_files_of wf)
  show "ide_wf (snd (deleteFile p path s))"
    using ide_wf_get [OF wf]
    by (simp add: deleteFile_def wf ide_wf_update file_map_ok_delete split: option.split)
  show "ide_wf (snd (renameFile now p old new s))"
    using ide_wf_get [OF wf]
    by (simp add: renameFile_def Let_def wf ide_wf_update file_map_ok_delete file_map_ok_update
        split: option.split)
qed

lemma ide_handle_store:
  "snd (ide_handle w rt r s) =
    (let p = rq_path r ''projectId''; f = rq_path r ''path''; now = rq_now r in
     case (rt, rq_body r) of
       (IdeCreateProject, Some q) \<Rightarrow> snd (createProject now (ib_name q) s)
     | (IdeUpdateProject, Some q) \<Rightarrow> snd (updateProject p (ib_patch q) s)
     | (IdeDeleteProject, _) \<Rightarrow> snd (deleteProject p s)
     | (IdePutFile, Some q) \<Rightarrow> snd (putFile now p f (ib_content q) s)
     | (IdeDeleteFile, _) \<Rightarrow> snd (deleteFile p f s)
     | (IdeRenameFile, Some q) \<Rightarrow> snd (renameFile now p (ib_oldPath q) (ib_newPath q) s)
     | _ \<Rightarrow> s)"
  by (cases rt) (simp_all add: ide_handler_defs snd_with_body Let_def
      split: option.split prod.split bool.split sum.split)

lemma ide_handle_wf: "ide_wf s \<Longrightarrow> ide_wf (snd (ide_handle w rt r s))"
  unfolding ide_handle_store Let_def
  by (cases rt) (simp_all add: ide_wf_ops split: option.split)

lemma ide_wf_newStore: "ide_wf (ide_newStore now)"
  by (simp add: ide_wf_def ide_newStore_def)

text \<open>
  After every history of requests, the tree of a project lists exactly the files that can
  be fetched from it, each once, under the path stored in the file and with its size, in
  whatever order Go ranges over the map.
\<close>

theorem tree_lists_the_files:
  assumes "s = serve_all (ide_serve w) qs (ide_newStore now)"
    and "\<And>xs. mset (rng xs) = mset xs"
  shows "distinct (map fe_path (listTree rng p s)) \<and>
    (\<forall>e. e \<in> set (listTree rng p s) \<longleftrightarrow>
       (\<exists>f. getFile p (fe_path e) s = Some f \<and> fc_path f = fe_path e \<and>
            e = \<lparr>fe_name = fc_path f, fe_type = ''file'', fe_size = length (fc_content f),
                 fe_path = fc_path f\<rparr>))"
proof -
  have "ide_wf s"
    unfolding assms(1)
    by (rule serve_all_keeps [where I = ide_wf])
      (simp_all add: ide_serve_def guarded_keeps ide_handle_wf ide_wf_newStore)
  then have ok: "distinct (map fst (files_of p s))" "\<forall>(path, f) \<in> set (files_of p s). fc_path f = path"
    using ide_wf_files_of [of s p] by (auto simp: file_map_ok_def)
  define entry where "entry = (\<lambda>(path :: string, f :: file_content). \<lparr>fe_name = path, fe_type = ''file'',
      fe_size = length (fc_content f), fe_path = path\<rparr>)"
  have ms: "mset (listTree rng p s) = mset (map entry (files_of p s))"
    by (simp add: listTree_def assms(2) entry_def)
  have "mset (map fe_path (listTree rng p s)) = mset (map fst (files_of p s))"
  proof -
    have "mset (map fe_path (listTree rng p s)) = mset (map fe_path (map entry (files_of p s)))"
      unfolding mset_map ms ..
    also have "map fe_path (map entry (files_of p s)) = map fst (files_of p s)"
      by (simp add: entry_def split_beta)
    finally show ?thesis .
  qed
  then have d: "distinct (map fe_path (listTree rng p s))"
    using ok(1) by (metis mset_eq_imp_distinct_iff)
  have mem: "(path, f) \<in> set (files_of p s) \<longleftrightarrow> getFile p path s = Some f" for path f
    using ok(1) files_of_view [of p s path] by (metis map_of_eq_Some_iff)
  have "set (listTree rng p s) = entry ` set (files_of p s)"
    using mset_eq_setD [OF ms] by simp
  then have "e \<in> set (listTree rng p s) \<longleftrightarrow> (\<exists>path f. getFile p path s = Some f \<and> e = entry (path, f))"
    for e by (auto simp: mem [symmetric])
  moreover have "getFile p path s = Some f \<Longrightarrow> fc_path f = path" for path f
    using ok(2) mem by fastforce
  ultimately show ?thesis using d by (auto simp: entry_def)
qed

theorem tree_lists_the_files_witness:
  "distinct (map fe_path (listTree rev ''prj-001''
     (serve_all (ide_serve \<lparr>iw_range = rev, iw_decompose = Inl\<rparr>) [] (ide_newStore ''t''))))"
  by (rule tree_lists_the_files [OF refl, THEN conjunct1]) simp

text \<open>
  Creating a project can destroy the files of another one. When projects are numbered
  without gaps and any project but the newest is deleted, the next project created gets the
  identifier of the newest one: that project is still listed, and all its files are gone but
  a fresh specification.
\<close>

theorem create_project_wipes_files:
  assumes "project_ids s = map (\<lambda>i. project_key (Suc i)) [0..<length (projects s)]"
    and "i \<in> set (project_ids s)" and "i \<noteq> project_key (length (projects s))"
    and "deleteProject i s = (ok, s1)" and "createProject now name s1 = (p, s2)"
  shows "prj_id p = project_key (length (projects s)) \<and>
    getProject (prj_id p) s2 = getProject (prj_id p) s \<and> getProject (prj_id p) s \<noteq> None \<and>
    (\<forall>path. getFile (prj_id p) path s2 =
       (if path = ''SPECIFICATION.md'' then Some (spec_file now name) else None))"
proof -
  let ?n = "length (projects s)"
  have num: "project_ids s = prj.numbered ?n"
    using assms(1) by (simp add: prj.numbered_def project_key_def)
  have s1: "s1 = snd (deleteProject i s)" and s2: "s2 = snd (createProject now name s1)"
    and p: "p = fst (createProject now name s1)" using assms(4,5) by simp_all
  have new: "project_key (length (projects s1) + 1) = project_key ?n"
    using prj.create_after_delete_reuses [OF num assms(2)] by (simp add: s1 project_key_def)
  have in1: "project_key ?n \<in> set (project_ids s1)"
    using prj.create_after_delete_collides [OF num assms(2)] assms(3) new
    by (simp add: s1 project_key_def)
  have id: "prj_id p = project_key ?n"
    using new by (simp add: p createProject_def Let_def)
  have keep: "getProject (project_key ?n) s1 = getProject (project_key ?n) s"
    using prj.delete_other [of "project_key ?n" i s] assms(3) by (simp add: s1)
  have "getProject (project_key ?n) s2 = getProject (project_key ?n) s"
    using prj.create_old [OF in1, of "(now, name)"] keep by (simp add: s2)
  moreover have "getProject (project_key ?n) s \<noteq> None"
    using in1 prj.lookup_None [of "project_key ?n" s1] keep by simp
  moreover have "getFile (project_key ?n) path s2 =
      (if path = ''SPECIFICATION.md'' then Some (spec_file now name) else None)" for path
    using view_create [of now name s1] new by (auto simp: file_view_def fun_eq_iff s2)
  ultimately show ?thesis using id by simp
qed

theorem create_project_wipes_files_witness:
  "let s0 = snd (createProject ''t1'' ''second'' (ide_newStore ''t0''));
       s = snd (putFile ''t2'' ''prj-002'' ''main.go'' ''package main'' s0);
       s2 = snd (createProject ''t3'' ''third'' (snd (deleteProject ''prj-001'' s)))
   in getFile ''prj-002'' ''main.go'' s \<noteq> None \<and> getFile ''prj-002'' ''main.go'' s2 = None"
proof -
  let ?base = "snd (createProject ''t1'' ''second'' (ide_newStore ''t0''))"
  let ?s = "snd (putFile ''t2'' ''prj-002'' ''main.go'' ''package main'' ?base)"
  have keys: "project_key 1 = ''prj-001''" "project_key 2 = ''prj-002''" by code_simp+
  have ids: "project_ids ?s = [''prj-001'', ''prj-002'']" "length (projects ?s) = 2"
    using keys by (simp_all add: project_ids_def putFile_def createProject_def ide_newStore_def Let_def
        numeral_2_eq_2)
  then have num: "project_ids ?s = map (\<lambda>i. project_key (Suc i)) [0..<length (projects ?s)]"
    using keys by (simp add: numeral_2_eq_2)
  obtain ok s1 where d: "deleteProject ''prj-001'' ?s = (ok, s1)"
    by (cases "deleteProject ''prj-001'' ?s")
  obtain p s2 where c: "createProject ''t3'' ''third'' s1 = (p, s2)"
    by (cases "createProject ''t3'' ''third'' s1")
  have "getFile ''prj-002'' ''main.go'' s2 = None"
    using create_project_wipes_files [OF num _ _ d c] ids keys by auto
  moreover have "getFile ''prj-002'' ''main.go'' ?s \<noteq> None"
    using view_put [of "''t2''" "''prj-002''" "''main.go''" "''package main''" ?base]
    by (simp add: file_view_def fun_eq_iff)
  ultimately show ?thesis using d c by (simp add: Let_def)
qed

end
