(* ===== verification/AgentPods.thy ===== *)
theory AgentPods
  imports Middleware
begin

text \<open>
  Agent pods in Kubernetes (\<^verbatim>\<open>internal/k8s/agents.go\<close> and \<open>podToAgent\<close>): the pod the server
  builds for an agent, and the sequences of API calls that create, stop, reconfigure and
  delete it.

  The Kubernetes API server is outside the repository. \<open>'w kube\<close> holds one function per API
  call the code makes, over an arbitrary state \<open>'w\<close> of the cluster; a call that can fail
  returns its error text. \<open>kb_quantity\<close> says which strings \<open>resource.MustParse\<close> accepts; on any
  other it panics, which is \<open>None\<close> in the results below.
\<close>

section \<open>Requests\<close>

record agent =
  agt_id :: string
  agt_project :: string
  agt_node :: string
  agt_status :: string
  agt_expose :: string
  agt_owner :: string

record agent_resources =
  ar_cpuRequest :: string
  ar_cpuLimit :: string
  ar_memoryRequest :: string
  ar_memoryLimit :: string
  ar_storageSize :: string

record agent_mount =
  amt_hostPath :: string
  amt_mountPath :: string
  amt_readOnly :: bool

record agent_security =
  as_capabilities :: "string list"
  as_dockerAccess :: bool
  as_additionalMounts :: "agent_mount list"

record create_agent_request =
  car_project :: string
  car_node :: string
  car_image :: string
  car_claudeFlags :: "string list"
  car_resources :: "agent_resources option"
  car_security :: "agent_security option"
  car_logging :: bool
  car_anthropicApiKey :: string
  car_claudeMd :: string

section \<open>Kubernetes objects\<close>

record pvc =
  pvc_name :: string
  pvc_agent :: string
  pvc_storage :: string

record config_map =
  cm_name :: string
  cm_agent :: string
  cm_data :: "(string \<rightharpoonup> string) option"   \<comment> \<open>\<open>None\<close> is a nil map\<close>

record secret =
  sec_name :: string
  sec_agent :: string
  sec_data :: "(string \<times> string) list"

record certificate =
  crt_name :: string
  crt_secretName :: string
  crt_issuer :: string
  crt_dnsNames :: "string list"

datatype env_source = EnvValue string | EnvField string | EnvSecret string string

type_synonym env_var = "string \<times> env_source"

record volume_mount =
  vm_name :: string
  vm_path :: string
  vm_subPath :: string
  vm_readOnly :: bool

datatype volume_source =
    FromPVC string
  | FromConfigMap string
  | FromSecret string bool
  | EmptyDirMemory
  | HostPath string "string option"

type_synonym volume = "string \<times> volume_source"

record container_security =
  cs_allowPrivilegeEscalation :: bool
  cs_readOnlyRootFilesystem :: bool
  cs_drop :: "string list"
  cs_add :: "string list"

record probe =
  prb_scheme :: string
  prb_path :: string
  prb_port :: nat
  prb_initialDelay :: nat
  prb_period :: nat
  prb_failures :: nat

record pod =
  pod_name :: string
  pod_labels :: "(string \<times> string) list"
  pod_serviceAccount :: string
  pod_gracePeriod :: nat
  pod_runAsNonRoot :: bool
  pod_runAsUser :: nat
  pod_runAsGroup :: nat
  pod_seccomp :: string
  pod_image :: string
  pod_command :: "string list"
  pod_env :: "env_var list"
  pod_port :: nat
  pod_requests :: "string \<times> string"      \<comment> \<open>CPU and memory\<close>
  pod_limits :: "string \<times> string"
  pod_mounts :: "volume_mount list"
  pod_security :: container_security
  pod_liveness :: probe
  pod_readiness :: probe
  pod_volumes :: "volume list"
  pod_restart :: string
  pod_nodeSelector :: "(string \<times> string) list"

text \<open>A pod as the API server reports it.\<close>

record pod_status =
  ps_name :: string
  ps_labels :: "string \<rightharpoonup> string"
  ps_nodeName :: string
  ps_phase :: string

datatype kind = KPod | KPVC | KConfigMap | KSecret | KCertificate

record 'w kube =
  kb_create_pvc :: "pvc \<Rightarrow> 'w \<Rightarrow> string option \<times> 'w"
  kb_create_cm :: "config_map \<Rightarrow> 'w \<Rightarrow> string option \<times> 'w"
  kb_get_cm :: "string \<Rightarrow> 'w \<Rightarrow> string + config_map"
  kb_update_cm :: "config_map \<Rightarrow> 'w \<Rightarrow> string option \<times> 'w"
  kb_create_secret :: "secret \<Rightarrow> 'w \<Rightarrow> string option \<times> 'w"
  kb_create_cert :: "certificate \<Rightarrow> 'w \<Rightarrow> string option \<times> 'w"
  kb_create_pod :: "pod \<Rightarrow> 'w \<Rightarrow> (string + pod_status) \<times> 'w"
  kb_get_pod :: "string \<Rightarrow> 'w \<Rightarrow> string + pod_status"
  kb_list_pods :: "string \<Rightarrow> 'w \<Rightarrow> string + pod_status list"
  kb_delete :: "kind \<Rightarrow> string \<Rightarrow> 'w \<Rightarrow> string option \<times> 'w"
  kb_dyn :: bool
  kb_quantity :: "string \<Rightarrow> bool"

section \<open>Reading pods\<close>

definition label :: "(string \<rightharpoonup> string) \<Rightarrow> string \<Rightarrow> string" where
  "label ls k = meta_get ls k"

definition podToAgent :: "pod_status \<Rightarrow> agent" where
  "podToAgent p =
     \<lparr>agt_id = ps_name p, agt_project = label (ps_labels p) ''convocate.io/project'',
      agt_node = ps_nodeName p,
      agt_status =
        (if ps_phase p = ''Running'' then ''running''
         else if ps_phase p = ''Pending'' then ''migrating''
         else ''stopped''),
      agt_expose = '''', agt_owner = label (ps_labels p) ''convocate.io/owner''\<rparr>"

definition listAgentPods :: "'w kube \<Rightarrow> 'w \<Rightarrow> string + agent list" where
  "listAgentPods kb w =
     (case kb_list_pods kb ''convocate.io/type=agent'' w of
        Inl e \<Rightarrow> Inl (''list agent pods: '' @ e)
      | Inr ps \<Rightarrow> Inr (map podToAgent ps))"

definition getAgentPod :: "'w kube \<Rightarrow> string \<Rightarrow> 'w \<Rightarrow> string + agent" where
  "getAgentPod kb name w =
     (case kb_get_pod kb name w of
        Inl e \<Rightarrow> Inl (''get agent pod '' @ name @ '': '' @ e)
      | Inr p \<Rightarrow> Inr (podToAgent p))"

section \<open>Supporting objects\<close>

definition agentNamespace :: string where
  "agentNamespace = ''convocate-agents''"

definition defaultStorageSize :: string where
  "defaultStorageSize = ''2Gi''"

definition defaultClaudeMd :: string where
  "defaultClaudeMd = ''# Convocate Agent'' @ [CHR 0x0A, CHR 0x0A] @
     ''You are a Convocate agent. Follow all instructions carefully.'' @ [CHR 0x0A]"

text \<open>An error other than one that says the object already exists.\<close>

definition hard_error :: "string \<Rightarrow> string option \<Rightarrow> string option" where
  "hard_error what e =
     (case e of
        None \<Rightarrow> None
      | Some m \<Rightarrow> if contains m ''already exists'' then None else Some (what @ m))"

definition createAgentPVC ::
    "'w kube \<Rightarrow> string \<Rightarrow> string \<Rightarrow> 'w \<Rightarrow> string option option \<times> 'w" where
  "createAgentPVC kb podName storageSize w =
     (let storageSize = (if storageSize = '''' then defaultStorageSize else storageSize)
      in if \<not> kb_quantity kb storageSize then (None, w)
         else let (e, w) = kb_create_pvc kb
                    \<lparr>pvc_name = ''pvc-'' @ podName, pvc_agent = podName,
                     pvc_storage = storageSize\<rparr> w
              in (Some (hard_error ''create agent PVC: '' e), w))"

definition createAgentConfigMap :: "'w kube \<Rightarrow> string \<Rightarrow> string \<Rightarrow> 'w \<Rightarrow> string option \<times> 'w" where
  "createAgentConfigMap kb podName claudeMd w =
     (let claudeMd = (if claudeMd = '''' then defaultClaudeMd else claudeMd);
          (e, w) = kb_create_cm kb
            \<lparr>cm_name = ''cm-'' @ podName, cm_agent = podName,
             cm_data = Some [''CLAUDE.md'' \<mapsto> claudeMd]\<rparr> w
      in (hard_error ''create agent ConfigMap: '' e, w))"

text \<open>Assigning to a key of a nil map panics: \<open>None\<close>.\<close>

definition updateAgentConfigMap ::
    "'w kube \<Rightarrow> string \<Rightarrow> string \<Rightarrow> 'w \<Rightarrow> string option option \<times> 'w" where
  "updateAgentConfigMap kb podName claudeMd w =
     (case kb_get_cm kb (''cm-'' @ podName) w of
        Inl e \<Rightarrow> (Some (Some (''get agent ConfigMap: '' @ e)), w)
      | Inr cm \<Rightarrow>
         (case cm_data cm of
            None \<Rightarrow> (None, w)
          | Some d \<Rightarrow>
              let (e, w) = kb_update_cm kb (cm\<lparr>cm_data := Some (d(''CLAUDE.md'' \<mapsto> claudeMd))\<rparr>) w
              in (Some e, w)))"

definition createAgentSecret :: "'w kube \<Rightarrow> string \<Rightarrow> string \<Rightarrow> 'w \<Rightarrow> string option \<times> 'w" where
  "createAgentSecret kb podName apiKey w =
     (if apiKey = '''' then (None, w)
      else let (e, w) = kb_create_secret kb
                 \<lparr>sec_name = ''secret-'' @ podName, sec_agent = podName,
                  sec_data = [(''ANTHROPIC_API_KEY'', apiKey)]\<rparr> w
           in (hard_error ''create agent Secret: '' e, w))"

definition createAgentCertificate :: "'w kube \<Rightarrow> string \<Rightarrow> 'w \<Rightarrow> string option \<times> 'w" where
  "createAgentCertificate kb podName w =
     (if \<not> kb_dyn kb then (None, w)
      else let (e, w) = kb_create_cert kb
                 \<lparr>crt_name = ''tls-'' @ podName, crt_secretName = ''tls-'' @ podName,
                  crt_issuer = ''convocate-agent-pod-ca'',
                  crt_dnsNames = [podName, podName @ ''.'' @ agentNamespace @
                                  ''.svc.cluster.local'']\<rparr> w
           in (hard_error ''create agent certificate: '' e, w))"

section \<open>The pod of an agent\<close>

definition valueOr ::
    "agent_resources option \<Rightarrow> (agent_resources \<Rightarrow> string) \<Rightarrow> string \<Rightarrow> string" where
  "valueOr r getter d =
     (case r of None \<Rightarrow> d | Some x \<Rightarrow> if getter x \<noteq> '''' then getter x else d)"

definition agent_env :: "create_agent_request \<Rightarrow> string \<Rightarrow> env_var list" where
  "agent_env req podName =
     (let env = [(''POD_NAME'', EnvField ''metadata.name''),
                 (''NODE_NAME'', EnvField ''spec.nodeName''),
                 (''CLAUDE_FLAGS'', EnvValue (join_space (car_claudeFlags req))),
                 (''LISTEN_ADDR'', EnvValue '':8443''),
                 (''WORK_DIR'', EnvValue ''/home/claude/workspace''),
                 (''CLAUDE_MD_PATH'', EnvValue ''/home/claude/CLAUDE.md'')];
          env = (if car_anthropicApiKey req \<noteq> ''''
                 then env @ [(''ANTHROPIC_API_KEY'',
                              EnvSecret (''secret-'' @ podName) ''ANTHROPIC_API_KEY'')]
                 else env)
      in if car_logging req then env @ [(''LOGGING_ENABLED'', EnvValue ''true'')] else env)"

definition base_mounts :: "volume_mount list" where
  "base_mounts =
     [\<lparr>vm_name = ''workspace'', vm_path = ''/home/claude/workspace'', vm_subPath = '''',
       vm_readOnly = False\<rparr>,
      \<lparr>vm_name = ''claude-md'', vm_path = ''/home/claude/CLAUDE.md'', vm_subPath = ''CLAUDE.md'',
       vm_readOnly = True\<rparr>,
      \<lparr>vm_name = ''tls'', vm_path = ''/etc/tls'', vm_subPath = '''', vm_readOnly = True\<rparr>,
      \<lparr>vm_name = ''tmp'', vm_path = ''/tmp'', vm_subPath = '''', vm_readOnly = False\<rparr>]"

definition base_volumes :: "string \<Rightarrow> volume list" where
  "base_volumes podName =
     [(''workspace'', FromPVC (''pvc-'' @ podName)),
      (''claude-md'', FromConfigMap (''cm-'' @ podName)),
      (''tls'', FromSecret (''tls-'' @ podName) True),
      (''tmp'', EmptyDirMemory)]"

text \<open>The loop over \<open>AdditionalMounts\<close>: the running number of mounts names the next one.\<close>

fun extra_mounts ::
    "agent_mount list \<Rightarrow> volume_mount list \<times> volume list \<Rightarrow> volume_mount list \<times> volume list" where
  "extra_mounts [] (ms, vs) = (ms, vs)"
| "extra_mounts (m # rest) (ms, vs) =
     (let mountName = ''extra-'' @ digits (length ms)
      in extra_mounts rest
           (ms @ [\<lparr>vm_name = mountName, vm_path = amt_mountPath m, vm_subPath = '''',
                   vm_readOnly = amt_readOnly m\<rparr>],
            vs @ [(mountName, HostPath (amt_hostPath m) (Some ''Directory''))]))"

definition docker_sock :: string where
  "docker_sock = ''/var/run/docker.sock''"

definition agent_volumes ::
    "agent_security option \<Rightarrow> string \<Rightarrow> volume_mount list \<times> volume list" where
  "agent_volumes sec podName =
     (let base = (base_mounts, base_volumes podName)
      in case sec of
           None \<Rightarrow> base
         | Some s \<Rightarrow>
             let (ms, vs) = base;
                 (ms, vs) = (if as_dockerAccess s
                    then (ms @ [\<lparr>vm_name = ''docker-sock'', vm_path = docker_sock,
                                 vm_subPath = '''', vm_readOnly = False\<rparr>],
                          vs @ [(''docker-sock'', HostPath docker_sock None)])
                    else (ms, vs))
             in extra_mounts (as_additionalMounts s) (ms, vs))"

definition agent_container_security :: "agent_security option \<Rightarrow> container_security" where
  "agent_container_security sec =
     \<lparr>cs_allowPrivilegeEscalation = False, cs_readOnlyRootFilesystem = True,
      cs_drop = [''ALL''],
      cs_add = (case sec of
                  None \<Rightarrow> []
                | Some s \<Rightarrow> if length (as_capabilities s) > 0 then as_capabilities s else [])\<rparr>"

definition defaultAgentImage :: string where
  "defaultAgentImage = ''ghcr.io/asymmetric-effort/convocate/agent:latest''"

definition agent_podName :: "create_agent_request \<Rightarrow> string" where
  "agent_podName req = ''agent-'' @ car_project req"

definition agent_pod :: "'w kube \<Rightarrow> create_agent_request \<Rightarrow> string \<Rightarrow> pod option" where
  "agent_pod kb req owner =
     (let podName = agent_podName req;
          cpuReq = valueOr (car_resources req) ar_cpuRequest ''500m'';
          memReq = valueOr (car_resources req) ar_memoryRequest ''512Mi'';
          cpuLim = valueOr (car_resources req) ar_cpuLimit ''2'';
          memLim = valueOr (car_resources req) ar_memoryLimit ''2Gi'';
          (mounts, volumes) = agent_volumes (car_security req) podName
      in if \<not> list_all (kb_quantity kb) [cpuReq, memReq, cpuLim, memLim] then None
         else Some
           \<lparr>pod_name = podName,
            pod_labels = [(''convocate.io/type'', ''agent''),
                          (''convocate.io/project'', car_project req),
                          (''convocate.io/owner'', owner), (''app'', ''convocate-agent'')],
            pod_serviceAccount = ''convocate-agent'', pod_gracePeriod = 30,
            pod_runAsNonRoot = True, pod_runAsUser = 1337, pod_runAsGroup = 1337,
            pod_seccomp = ''RuntimeDefault'',
            pod_image = (if car_image req = '''' then defaultAgentImage else car_image req),
            pod_command = [''/usr/bin/convocate-agent-wrapper''],
            pod_env = agent_env req podName, pod_port = 8443,
            pod_requests = (cpuReq, memReq), pod_limits = (cpuLim, memLim),
            pod_mounts = mounts,
            pod_security = agent_container_security (car_security req),
            pod_liveness = \<lparr>prb_scheme = ''HTTP'', prb_path = ''/healthz'', prb_port = 8443, prb_initialDelay = 10,
                            prb_period = 10, prb_failures = 3\<rparr>,
            pod_readiness = \<lparr>prb_scheme = ''HTTP'', prb_path = ''/readyz'', prb_port = 8443, prb_initialDelay = 5,
                             prb_period = 5, prb_failures = 3\<rparr>,
            pod_volumes = volumes, pod_restart = ''Never'',
            pod_nodeSelector = (if car_node req \<noteq> ''''
                                then [(''kubernetes.io/hostname'', car_node req)] else [])\<rparr>)"

section \<open>Life cycle\<close>

definition createAgentPod ::
    "'w kube \<Rightarrow> create_agent_request \<Rightarrow> string \<Rightarrow> 'w \<Rightarrow> (string + agent) option \<times> 'w" where
  "createAgentPod kb req owner w =
     (let podName = agent_podName req;
          storageSize = (case car_resources req of
                           None \<Rightarrow> defaultStorageSize
                         | Some r \<Rightarrow> if ar_storageSize r \<noteq> '''' then ar_storageSize r
                                     else defaultStorageSize)
      in case createAgentPVC kb podName storageSize w of
           (None, w) \<Rightarrow> (None, w)
         | (Some (Some e), w) \<Rightarrow> (Some (Inl e), w)
         | (Some None, w) \<Rightarrow>
      (case createAgentConfigMap kb podName (car_claudeMd req) w of
           (Some e, w) \<Rightarrow> (Some (Inl e), w)
         | (None, w) \<Rightarrow>
      (case createAgentSecret kb podName (car_anthropicApiKey req) w of
           (Some e, w) \<Rightarrow> (Some (Inl e), w)
         | (None, w) \<Rightarrow>
             let (_, w) = createAgentCertificate kb podName w
             in case agent_pod kb req owner of
                  None \<Rightarrow> (None, w)
                | Some pod \<Rightarrow>
                   (case kb_create_pod kb pod w of
                      (Inl e, w) \<Rightarrow> (Some (Inl (''create agent pod: '' @ e)), w)
                    | (Inr created, w) \<Rightarrow> (Some (Inr (podToAgent created)), w)))))"

text \<open>
  \<open>DeleteAgentPod\<close> logs the failures of the clean-up calls and returns the error of the first
  one only.
\<close>

definition agent_deletions :: "'w kube \<Rightarrow> string \<Rightarrow> (kind \<times> string) list" where
  "agent_deletions kb name =
     [(KPVC, ''pvc-'' @ name), (KConfigMap, ''cm-'' @ name), (KSecret, ''secret-'' @ name)] @
     (if kb_dyn kb then [(KCertificate, ''tls-'' @ name)] else []) @
     [(KSecret, ''tls-'' @ name)]"

definition deleteAgentPod :: "'w kube \<Rightarrow> string \<Rightarrow> 'w \<Rightarrow> string option \<times> 'w" where
  "deleteAgentPod kb name w =
     (let (err, w) = kb_delete kb KPod name w
      in (err, fold (\<lambda>(k, n) w. snd (kb_delete kb k n w)) (agent_deletions kb name) w))"

definition stopAgentPod :: "'w kube \<Rightarrow> string \<Rightarrow> 'w \<Rightarrow> string option \<times> 'w" where
  "stopAgentPod kb name w = kb_delete kb KPod name w"

section \<open>Properties\<close>

fun host_path :: "volume_source \<Rightarrow> string list" where
  "host_path (HostPath p _) = [p]"
| "host_path _ = []"

definition host_paths :: "volume list \<Rightarrow> string list" where
  "host_paths vs = concat (map (host_path \<circ> snd) vs)"

text \<open>What the host exposes to a pod with the given overrides, and the capabilities it adds.\<close>

definition granted_paths :: "agent_security option \<Rightarrow> string list" where
  "granted_paths sec =
     (case sec of
        None \<Rightarrow> []
      | Some s \<Rightarrow> (if as_dockerAccess s then [docker_sock] else []) @
                  map amt_hostPath (as_additionalMounts s))"

definition granted_capabilities :: "agent_security option \<Rightarrow> string list" where
  "granted_capabilities sec = (case sec of None \<Rightarrow> [] | Some s \<Rightarrow> as_capabilities s)"

lemma digits_inj [simp]: "digits m = digits n \<longleftrightarrow> m = n"
  by (metis dec_val_digits)

definition mounts_ok :: "nat \<Rightarrow> volume_mount list \<Rightarrow> volume list \<Rightarrow> bool" where
  "mounts_ok n ms vs \<longleftrightarrow> map vm_name ms = map fst vs \<and> distinct (map fst vs) \<and>
     set (map fst vs) \<subseteq> {''workspace'', ''claude-md'', ''tls'', ''tmp'', ''docker-sock''} \<union>
       (\<lambda>i. ''extra-'' @ digits i) ` {..<n} \<and> length ms = n"

lemma extra_mounts_ok:
  "mounts_ok n ms vs \<Longrightarrow> extra_mounts xs (ms, vs) = (ms', vs') \<Longrightarrow>
     mounts_ok (n + length xs) ms' vs' \<and> host_paths vs' = host_paths vs @ map amt_hostPath xs"
proof (induction xs arbitrary: n ms vs)
  case Nil
  then show ?case by simp
next
  case (Cons x xs)
  let ?m = "''extra-'' @ digits (length ms)"
  let ?ms = "ms @ [\<lparr>vm_name = ?m, vm_path = amt_mountPath x, vm_subPath = '''',
    vm_readOnly = amt_readOnly x\<rparr>]"
  let ?vs = "vs @ [(?m, HostPath (amt_hostPath x) (Some ''Directory''))]"
  have new: "?m \<notin> set (map fst vs)"
    using Cons.prems(1) by (auto simp: mounts_ok_def)
  have "mounts_ok (Suc n) ?ms ?vs"
    using Cons.prems(1) new by (auto simp: mounts_ok_def less_Suc_eq)
  from Cons.IH [OF this] Cons.prems(2) show ?case
    by (simp add: Let_def host_paths_def)
qed

lemma agent_volumes_ok:
  assumes "agent_volumes sec name = (ms, vs)"
  shows "map vm_name ms = map fst vs" "distinct (map fst vs)" "host_paths vs = granted_paths sec"
proof -
  have base: "mounts_ok 4 base_mounts (base_volumes name)"
    by (auto simp: mounts_ok_def base_mounts_def base_volumes_def)
  have base5: "mounts_ok 5
      (base_mounts @ [\<lparr>vm_name = ''docker-sock'', vm_path = docker_sock, vm_subPath = '''',
         vm_readOnly = False\<rparr>])
      (base_volumes name @ [(''docker-sock'', HostPath docker_sock None)])"
    by (auto simp: mounts_ok_def base_mounts_def base_volumes_def)
  have h0: "host_paths (base_volumes name) = []"
    by (simp add: host_paths_def base_volumes_def)
  have "(\<exists>n. mounts_ok n ms vs) \<and> host_paths vs = granted_paths sec"
  proof (cases sec)
    case None
    with assms base h0 show ?thesis by (auto simp: agent_volumes_def granted_paths_def)
  next
    case (Some s)
    show ?thesis
    proof (cases "as_dockerAccess s")
      case True
      with assms Some extra_mounts_ok [OF base5, of "as_additionalMounts s" ms vs] h0
      show ?thesis
        by (auto simp: agent_volumes_def granted_paths_def Let_def host_paths_def)
    next
      case False
      with assms Some extra_mounts_ok [OF base, of "as_additionalMounts s" ms vs] h0
      show ?thesis by (auto simp: agent_volumes_def granted_paths_def Let_def)
    qed
  qed
  then show "map vm_name ms = map fst vs" "distinct (map fst vs)" "host_paths vs = granted_paths sec"
    by (auto simp: mounts_ok_def)
qed

text \<open>
  C8: the pod of an agent is confined. It runs as a fixed non-root user without privilege
  escalation, on a read-only file system, with every capability dropped; it sees exactly the
  host paths and gets exactly the capabilities of the security overrides in the request,
  none when there are none; and its volume names are distinct and match its mounts.
\<close>

theorem agent_pod_confined:
  "case agent_pod kb req owner of
     None \<Rightarrow> \<exists>q. \<not> kb_quantity kb q
   | Some p \<Rightarrow>
       pod_runAsNonRoot p \<and> pod_runAsUser p = 1337 \<and>
       \<not> cs_allowPrivilegeEscalation (pod_security p) \<and>
       cs_readOnlyRootFilesystem (pod_security p) \<and> cs_drop (pod_security p) = [''ALL''] \<and>
       cs_add (pod_security p) = granted_capabilities (car_security req) \<and>
       host_paths (pod_volumes p) = granted_paths (car_security req) \<and>
       map vm_name (pod_mounts p) = map fst (pod_volumes p) \<and> distinct (map fst (pod_volumes p))"
proof (cases "agent_pod kb req owner")
  case None
  then show ?thesis
    by (auto simp: agent_pod_def Let_def split: if_splits prod.splits)
next
  case (Some p)
  obtain ms vs where v: "agent_volumes (car_security req) (agent_podName req) = (ms, vs)"
    by (cases "agent_volumes (car_security req) (agent_podName req)")
  from Some v have "pod_runAsNonRoot p \<and> pod_runAsUser p = 1337 \<and>
      pod_security p = agent_container_security (car_security req) \<and>
      pod_volumes p = vs \<and> pod_mounts p = ms"
    by (auto simp: agent_pod_def Let_def split: if_splits)
  with Some agent_volumes_ok [OF v] show ?thesis
    by (auto simp: agent_container_security_def granted_capabilities_def split: option.split)
qed

text \<open>
  A cluster that writes down what is created and deleted: the calls of \<open>kb\<close>, with a log.
\<close>

type_synonym obj_log = "(kind \<times> string) list"

definition note_call :: "(kind \<times> string) \<Rightarrow> ('w \<Rightarrow> 'r \<times> 'w) \<Rightarrow> 'w \<times> obj_log \<Rightarrow> 'r \<times> 'w \<times> obj_log" where
  "note_call k f wl = (let (r, w) = f (fst wl) in (r, w, snd wl @ [k]))"

definition logged :: "'w kube \<Rightarrow> ('w \<times> obj_log) kube" where
  "logged kb =
     \<lparr>kb_create_pvc = (\<lambda>p. note_call (KPVC, pvc_name p) (kb_create_pvc kb p)),
      kb_create_cm = (\<lambda>c. note_call (KConfigMap, cm_name c) (kb_create_cm kb c)),
      kb_get_cm = (\<lambda>n wl. kb_get_cm kb n (fst wl)),
      kb_update_cm = (\<lambda>c wl. let (e, w) = kb_update_cm kb c (fst wl) in (e, w, snd wl)),
      kb_create_secret = (\<lambda>x. note_call (KSecret, sec_name x) (kb_create_secret kb x)),
      kb_create_cert = (\<lambda>c. note_call (KCertificate, crt_name c) (kb_create_cert kb c)),
      kb_create_pod = (\<lambda>p. note_call (KPod, pod_name p) (kb_create_pod kb p)),
      kb_get_pod = (\<lambda>n wl. kb_get_pod kb n (fst wl)),
      kb_list_pods = (\<lambda>l wl. kb_list_pods kb l (fst wl)),
      kb_delete = (\<lambda>k n. note_call (k, n) (kb_delete kb k n)),
      kb_dyn = kb_dyn kb, kb_quantity = kb_quantity kb\<rparr>"

definition log_of :: "'r \<times> 'w \<times> obj_log \<Rightarrow> obj_log" where
  "log_of x = snd (snd x)"

lemma delete_log:
  "log_of (deleteAgentPod (logged kb) name (w, l)) = l @ (KPod, name) # agent_deletions kb name"
proof -
  have fold: "snd (fold (\<lambda>(k, n) w. snd (kb_delete (logged kb) k n w)) xs (w, l)) = l @ xs"
    for xs w l
    by (induction xs arbitrary: w l)
      (auto simp: logged_def note_call_def split: prod.split)
  have "agent_deletions (logged kb) name = agent_deletions kb name"
    by (simp add: agent_deletions_def logged_def)
  then show ?thesis
    by (simp add: deleteAgentPod_def log_of_def fold split: prod.split)
      (auto simp: logged_def note_call_def fold split: prod.split)
qed

text \<open>The objects creation may ask for, and which call asks for which.\<close>

definition agent_objects :: "bool \<Rightarrow> string \<Rightarrow> (kind \<times> string) set" where
  "agent_objects dyn n =
     {(KPod, n), (KPVC, ''pvc-'' @ n), (KConfigMap, ''cm-'' @ n), (KSecret, ''secret-'' @ n)} \<union>
     (if dyn then {(KCertificate, ''tls-'' @ n)} else {})"

lemma create_logs:
  "set (log_of (createAgentPVC (logged kb) n st wl)) \<subseteq> set (snd wl) \<union> {(KPVC, ''pvc-'' @ n)}"
  "set (log_of (createAgentConfigMap (logged kb) n md wl)) \<subseteq>
     set (snd wl) \<union> {(KConfigMap, ''cm-'' @ n)}"
  "set (log_of (createAgentSecret (logged kb) n key wl)) \<subseteq>
     set (snd wl) \<union> {(KSecret, ''secret-'' @ n)}"
  "set (log_of (createAgentCertificate (logged kb) n wl)) \<subseteq>
     set (snd wl) \<union> (if kb_dyn kb then {(KCertificate, ''tls-'' @ n)} else {})"
  "set (log_of (kb_create_pod (logged kb) p wl)) \<subseteq> set (snd wl) \<union> {(KPod, pod_name p)}"
  by (auto simp: createAgentPVC_def createAgentConfigMap_def createAgentSecret_def
      createAgentCertificate_def log_of_def logged_def note_call_def Let_def
      split: prod.splits if_splits)

lemma agent_pod_name: "agent_pod kb req owner = Some p \<Longrightarrow> pod_name p = agent_podName req"
  by (auto simp: agent_pod_def Let_def split: if_splits prod.splits)

lemma create_log:
  "set (log_of (createAgentPod (logged kb) req owner (w, []))) \<subseteq>
     agent_objects (kb_dyn kb) (agent_podName req)"
proof -
  let ?n = "agent_podName req" and ?L = "logged kb"
  let ?O = "agent_objects (kb_dyn kb) ?n"
  have step: "set (log_of x) \<subseteq> ?O" if "set (log_of x) \<subseteq> set l \<union> A" "set l \<subseteq> ?O" "A \<subseteq> ?O"
    for x :: "'r \<times> 'w \<times> obj_log" and l A using that by blast
  have pvc: "set (log_of (createAgentPVC ?L ?n st (w, []))) \<subseteq> ?O" for st
    by (rule step [OF create_logs(1)]) (auto simp: agent_objects_def)
  have cm: "set (log_of (createAgentConfigMap ?L ?n md wl)) \<subseteq> ?O" if "set (snd wl) \<subseteq> ?O" for md wl
    by (rule step [OF create_logs(2) that]) (auto simp: agent_objects_def)
  have sec: "set (log_of (createAgentSecret ?L ?n key wl)) \<subseteq> ?O" if "set (snd wl) \<subseteq> ?O" for key wl
    by (rule step [OF create_logs(3) that]) (auto simp: agent_objects_def)
  have crt: "set (log_of (createAgentCertificate ?L ?n wl)) \<subseteq> ?O" if "set (snd wl) \<subseteq> ?O" for wl
    by (rule step [OF create_logs(4) that]) (auto simp: agent_objects_def)
  have pod: "set (log_of (kb_create_pod ?L p wl)) \<subseteq> ?O"
    if "set (snd wl) \<subseteq> ?O" "agent_pod ?L req owner = Some p" for p wl
    by (rule step [OF create_logs(5) that(1)]) (auto simp: agent_objects_def agent_pod_name [OF that(2)])
  define st where "st = (case car_resources req of None \<Rightarrow> defaultStorageSize
      | Some r \<Rightarrow> if ar_storageSize r \<noteq> '''' then ar_storageSize r else defaultStorageSize)"
  obtain r1 wl1 where 1: "createAgentPVC ?L ?n st (w, []) = (r1, wl1)" by (cases "createAgentPVC ?L ?n st (w, [])")
  obtain r2 wl2 where 2: "createAgentConfigMap ?L ?n (car_claudeMd req) wl1 = (r2, wl2)"
    by (cases "createAgentConfigMap ?L ?n (car_claudeMd req) wl1")
  obtain r3 wl3 where 3: "createAgentSecret ?L ?n (car_anthropicApiKey req) wl2 = (r3, wl3)"
    by (cases "createAgentSecret ?L ?n (car_anthropicApiKey req) wl2")
  obtain r4 wl4 where 4: "createAgentCertificate ?L ?n wl3 = (r4, wl4)"
    by (cases "createAgentCertificate ?L ?n wl3")
  have s1: "set (snd wl1) \<subseteq> ?O" using pvc [of st] 1 by (simp add: log_of_def)
  have s2: "set (snd wl2) \<subseteq> ?O" using cm [OF s1, of "car_claudeMd req"] 2 by (simp add: log_of_def)
  have s3: "set (snd wl3) \<subseteq> ?O"
    using sec [OF s2, of "car_anthropicApiKey req"] 3 by (simp add: log_of_def)
  have s4: "set (snd wl4) \<subseteq> ?O" using crt [OF s3] 4 by (simp add: log_of_def)
  have s5: "set (snd (snd (kb_create_pod ?L p wl4))) \<subseteq> ?O" if "agent_pod ?L req owner = Some p" for p
    using pod [OF s4 that] by (simp add: log_of_def)
  show ?thesis
    unfolding createAgentPod_def Let_def st_def [symmetric] 1 2 3 4 prod.case
    using s1 s2 s3 s4 s5
    by (auto simp: log_of_def 2 3 4 split: option.split prod.splits sum.splits)
qed

text \<open>
  Deleting an agent leaves nothing behind. Whatever the cluster answers, every object that
  creating the agent asked for (pod, claim, configuration, API key secret, certificate) is
  among the objects the deletion asks to delete, under the same name, and no failing deletion
  stops the following ones; the pod's own deletion alone decides the result.
\<close>

theorem delete_covers_create:
  "set (log_of (createAgentPod (logged kb) req owner (w1, []))) \<subseteq>
     set (log_of (deleteAgentPod (logged kb) (agent_podName req) (w2, []))) \<and>
   fst (deleteAgentPod kb name w2) = fst (kb_delete kb KPod name w2)"
proof -
  have "agent_objects (kb_dyn kb) n \<subseteq> set ((KPod, n) # agent_deletions kb n)" for n
    by (auto simp: agent_objects_def agent_deletions_def)
  with create_log [of kb req owner w1] show ?thesis
    unfolding delete_log by (auto simp: deleteAgentPod_def split: prod.split)
qed

text \<open>
  A resource quantity that Kubernetes cannot parse makes the server panic, and it does so
  only after the claim, the configuration and the secret have been created: nothing checks
  the request before and nothing removes them after. More generally creating an agent never
  deletes anything, however it fails.
\<close>

theorem bad_quantity_panics:
  assumes "\<not> kb_quantity kb (valueOr (car_resources req) ar_cpuRequest ''500m'')"
    and "car_resources req = Some r" and "ar_storageSize r = ''''" and "kb_quantity kb ''2Gi''"
    and "createAgentPVC kb (agent_podName req) ''2Gi'' w = (Some None, w1)"
    and "createAgentConfigMap kb (agent_podName req) (car_claudeMd req) w1 = (None, w2)"
    and "createAgentSecret kb (agent_podName req) (car_anthropicApiKey req) w2 = (None, w3)"
  shows "createAgentPod kb req owner w =
      (None, snd (createAgentCertificate kb (agent_podName req) w3)) \<and>
    createAgentPod (kb\<lparr>kb_delete := d\<rparr>) req' owner w' = createAgentPod kb req' owner w'"
proof
  have "agent_pod kb req owner = None"
    using assms(1) by (simp add: agent_pod_def Let_def split: prod.split)
  with assms(2-7) show "createAgentPod kb req owner w =
      (None, snd (createAgentCertificate kb (agent_podName req) w3))"
    by (simp add: createAgentPod_def defaultStorageSize_def Let_def split: prod.split)
  have "createAgentPVC (kb\<lparr>kb_delete := d\<rparr>) = createAgentPVC kb"
    "createAgentConfigMap (kb\<lparr>kb_delete := d\<rparr>) = createAgentConfigMap kb"
    "createAgentSecret (kb\<lparr>kb_delete := d\<rparr>) = createAgentSecret kb"
    "createAgentCertificate (kb\<lparr>kb_delete := d\<rparr>) = createAgentCertificate kb"
    "agent_pod (kb\<lparr>kb_delete := d\<rparr>) = agent_pod kb"
    "kb_create_pod (kb\<lparr>kb_delete := d\<rparr>) = kb_create_pod kb"
    by (simp_all add: fun_eq_iff createAgentPVC_def createAgentConfigMap_def createAgentSecret_def
        createAgentCertificate_def agent_pod_def)
  note same = this
  show "createAgentPod (kb\<lparr>kb_delete := d\<rparr>) req' owner w' = createAgentPod kb req' owner w'"
    unfolding createAgentPod_def same ..
qed

text \<open>A small cluster for the witnesses: its state is the objects it holds.\<close>

definition demo_kube :: "(kind \<times> string) list kube" where
  "demo_kube =
    (let create = (\<lambda>k w. if k \<in> set w then (Some ''already exists'', w) else (None, k # w)) in
     \<lparr>kb_create_pvc = (\<lambda>p. create (KPVC, pvc_name p)),
      kb_create_cm = (\<lambda>c. create (KConfigMap, cm_name c)),
      kb_get_cm = (\<lambda>n w. Inl ''not found''),
      kb_update_cm = (\<lambda>c w. (Some ''not found'', w)),
      kb_create_secret = (\<lambda>x. create (KSecret, sec_name x)),
      kb_create_cert = (\<lambda>c. create (KCertificate, crt_name c)),
      kb_create_pod = (\<lambda>p w. if (KPod, pod_name p) \<in> set w then (Inl ''already exists'', w)
         else (Inr \<lparr>ps_name = pod_name p, ps_labels = map_of (pod_labels p), ps_nodeName = '''',
                    ps_phase = ''Pending''\<rparr>, (KPod, pod_name p) # w)),
      kb_get_pod = (\<lambda>n w. if (KPod, n) \<in> set w
         then Inr \<lparr>ps_name = n, ps_labels = Map.empty, ps_nodeName = '''', ps_phase = ''Failed''\<rparr>
         else Inl ''not found''),
      kb_list_pods = (\<lambda>l w. Inr []),
      kb_delete = (\<lambda>k n w. if (k, n) \<in> set w then (None, remove1 (k, n) w)
                              else (Some ''not found'', w)),
      kb_dyn = False, kb_quantity = (\<lambda>q. q \<in> {''500m'', ''512Mi'', ''2'', ''2Gi''})\<rparr>)"

definition demo_create :: create_agent_request where
  "demo_create =
     \<lparr>car_project = ''demo'', car_node = '''', car_image = '''', car_claudeFlags = [],
      car_resources = Some \<lparr>ar_cpuRequest = ''lots'', ar_cpuLimit = '''', ar_memoryRequest = '''',
         ar_memoryLimit = '''', ar_storageSize = ''''\<rparr>,
      car_security = None, car_logging = False, car_anthropicApiKey = ''key'', car_claudeMd = ''''\<rparr>"

theorem bad_quantity_panics_witness:
  "createAgentPod demo_kube demo_create ''ann'' [] =
     (None, [(KSecret, ''secret-agent-demo''), (KConfigMap, ''cm-agent-demo''),
             (KPVC, ''pvc-agent-demo'')])"
proof -
  let ?n = "agent_podName demo_create"
  have pvc: "createAgentPVC demo_kube ?n ''2Gi'' [] = (Some None, [(KPVC, ''pvc-agent-demo'')])"
    by (simp add: createAgentPVC_def demo_kube_def agent_podName_def demo_create_def hard_error_def)
  have cm: "createAgentConfigMap demo_kube ?n (car_claudeMd demo_create) [(KPVC, ''pvc-agent-demo'')] =
      (None, [(KConfigMap, ''cm-agent-demo''), (KPVC, ''pvc-agent-demo'')])"
    by (simp add: createAgentConfigMap_def demo_kube_def agent_podName_def demo_create_def hard_error_def)
  have sec: "createAgentSecret demo_kube ?n (car_anthropicApiKey demo_create)
      [(KConfigMap, ''cm-agent-demo''), (KPVC, ''pvc-agent-demo'')] =
      (None, [(KSecret, ''secret-agent-demo''), (KConfigMap, ''cm-agent-demo''), (KPVC, ''pvc-agent-demo'')])"
    by (simp add: createAgentSecret_def demo_kube_def agent_podName_def demo_create_def hard_error_def)
  obtain r where r: "car_resources demo_create = Some r" "ar_storageSize r = ''''"
    by (simp add: demo_create_def)
  have "createAgentPod demo_kube demo_create ''ann'' [] = (None, snd (createAgentCertificate demo_kube ?n
      [(KSecret, ''secret-agent-demo''), (KConfigMap, ''cm-agent-demo''), (KPVC, ''pvc-agent-demo'')]))"
    by (rule bad_quantity_panics [OF _ r _ pvc cm sec, THEN conjunct1])
      (simp_all add: demo_create_def demo_kube_def valueOr_def)
  then show ?thesis by (simp add: createAgentCertificate_def demo_kube_def)
qed

end
