(* ===== verification/Agents.thy ===== *)
theory Agents
  imports AgentPods Store_Contracts
begin

text \<open>
  The agent manager (\<^verbatim>\<open>internal/amgr\<close>): its in-memory store, the \<open>AgentManager\<close> interface
  with its Kubernetes implementation, the handlers and the routes.

  The Go interface is the record \<open>agent_mgr\<close> of functions over the cluster state; the
  production implementation \<open>k8s_agent_mgr\<close> is built from \<open>AgentPods\<close>. A handler runs against
  the cluster when \<open>ac_useK8s\<close> holds and against the store otherwise. The wrapper inside an agent
  pod, to which the proxy routes forward, is the function \<open>ac_forward\<close> from the outgoing request
  to its response.
\<close>

section \<open>Store\<close>

record agent_store =
  agents :: "agent list"

definition seed_agent :: "string \<Rightarrow> string \<Rightarrow> string \<Rightarrow> string \<Rightarrow> agent" where
  "seed_agent i project status expose =
     \<lparr>agt_id = i, agt_project = project, agt_node = ''cnn-7f3a'', agt_status = status,
      agt_expose = expose, agt_owner = ''admin:admins''\<rparr>"

definition amgr_newStore :: agent_store where
  "amgr_newStore =
     \<lparr>agents =
        [seed_agent ''agt-7f3a-01'' ''demo-app'' ''running'' ''demo.convocate.local:3000'',
         seed_agent ''agt-7f3a-02'' ''api-svc'' ''stopped'' '''',
         seed_agent ''agt-7f3a-03'' ''ml-pipeline'' ''running'' '''']\<rparr>"

definition agst_list :: "agent_store \<Rightarrow> agent list" where
  "agst_list s = agents s"

definition agst_get :: "string \<Rightarrow> agent_store \<Rightarrow> agent option" where
  "agst_get i s = find_key agt_id i (agents s)"

definition agent_key :: "nat \<Rightarrow> string" where
  "agent_key n = ''agt-'' @ sprintf_0d 4 n"

definition agst_create :: "agent \<Rightarrow> agent_store \<Rightarrow> agent \<times> agent_store" where
  "agst_create a s =
     (let a = a\<lparr>agt_id := agent_key (length (agents s) + 1)\<rparr>;
          a = a\<lparr>agt_status := ''running''\<rparr>
      in (a, s\<lparr>agents := agents s @ [a]\<rparr>))"

record agent_patch =
  ap_project :: "string option"
  ap_node :: "string option"
  ap_expose :: "string option"

definition patchAgent :: "agent_patch \<Rightarrow> agent \<Rightarrow> agent" where
  "patchAgent u a =
     (let a = (case ap_project u of None \<Rightarrow> a | Some x \<Rightarrow> a\<lparr>agt_project := x\<rparr>);
          a = (case ap_node u of None \<Rightarrow> a | Some x \<Rightarrow> a\<lparr>agt_node := x\<rparr>)
      in (case ap_expose u of None \<Rightarrow> a | Some x \<Rightarrow> a\<lparr>agt_expose := x\<rparr>))"

definition agst_update :: "string \<Rightarrow> agent_patch \<Rightarrow> agent_store \<Rightarrow> agent option \<times> agent_store" where
  "agst_update i u s =
     (case find_key agt_id i (agents s) of
        None \<Rightarrow> (None, s)
      | Some a \<Rightarrow>
          let a' = patchAgent u a
          in (Some a', s\<lparr>agents := upd_key agt_id i a' (agents s)\<rparr>))"

definition agst_delete :: "string \<Rightarrow> agent_store \<Rightarrow> bool \<times> agent_store" where
  "agst_delete i s =
     (case find_key agt_id i (agents s) of
        None \<Rightarrow> (False, s)
      | Some _ \<Rightarrow> (True, s\<lparr>agents := del_key agt_id i (agents s)\<rparr>))"

definition agst_setStatus :: "string \<Rightarrow> string \<Rightarrow> agent_store \<Rightarrow> bool \<times> agent_store" where
  "agst_setStatus i st s =
     (case find_key agt_id i (agents s) of
        None \<Rightarrow> (False, s)
      | Some a \<Rightarrow>
          (True, s\<lparr>agents := upd_key agt_id i (a\<lparr>agt_status := st\<rparr>) (agents s)\<rparr>))"

section \<open>The AgentManager interface\<close>

record 'w agent_mgr =
  am_list :: "'w \<Rightarrow> string + agent list"
  am_get :: "string \<Rightarrow> 'w \<Rightarrow> string + agent"
  am_create :: "create_agent_request \<Rightarrow> string \<Rightarrow> 'w \<Rightarrow> (string + agent) option \<times> 'w"
  am_delete :: "string \<Rightarrow> 'w \<Rightarrow> string option \<times> 'w"
  am_stop :: "string \<Rightarrow> 'w \<Rightarrow> string option \<times> 'w"
  am_updateCM :: "string \<Rightarrow> string \<Rightarrow> 'w \<Rightarrow> string option option \<times> 'w"
  am_podIP :: "string \<Rightarrow> 'w \<Rightarrow> string + string"

text \<open>\<open>kb_podIP\<close> reads a pod's address, the empty string while it has none.\<close>

definition getAgentPodIP_k8s :: "(string \<Rightarrow> 'w \<Rightarrow> string + string) \<Rightarrow> string \<Rightarrow> 'w \<Rightarrow> string + string"
  where
  "getAgentPodIP_k8s podIP name w =
     (case podIP name w of
        Inl e \<Rightarrow> Inl (''agent not found: '' @ e)
      | Inr ip \<Rightarrow> if ip = '''' then Inl ''agent pod has no IP (not yet running)'' else Inr ip)"

definition k8s_agent_mgr :: "'w kube \<Rightarrow> (string \<Rightarrow> 'w \<Rightarrow> string + string) \<Rightarrow> 'w agent_mgr" where
  "k8s_agent_mgr kb podIP =
     \<lparr>am_list = listAgentPods kb, am_get = getAgentPod kb, am_create = createAgentPod kb,
      am_delete = deleteAgentPod kb, am_stop = stopAgentPod kb,
      am_updateCM = updateAgentConfigMap kb, am_podIP = getAgentPodIP_k8s podIP\<rparr>"

section \<open>Handlers\<close>

record configure_agent_request =
  cfg_patch :: agent_patch
  cfg_security :: "agent_security option"
  cfg_claudeMd :: "string option"

text \<open>The body as each handler decodes it (\<open>None\<close> when that fails), and as raw bytes.\<close>

record amgr_body =
  ab_create :: "create_agent_request option"
  ab_config :: "configure_agent_request option"
  ab_raw :: string

record proxy_request =
  px_method :: string
  px_url :: string
  px_authorization :: string
  px_saToken :: "string option"
  px_body :: string

record proxy_response =
  pr_status :: nat
  pr_contentType :: string
  pr_body :: string

record 'w amgr_config =
  ac_useK8s :: bool
  ac_saToken :: string
  ac_mgr :: "'w agent_mgr"
  ac_forward :: "proxy_request \<Rightarrow> string + proxy_response"

record 'w amgr_state =
  ag_store :: agent_store
  ag_world :: 'w

datatype amgr_payload =
    AgPage "agent page" | AgOne agent | AgStream "string option" string

type_synonym 'w amgr_handler_t = "(amgr_body, 'w amgr_state, amgr_payload) handler"

definition ag_not_found :: "'w amgr_state \<Rightarrow> amgr_payload reply \<times> 'w amgr_state" where
  "ag_not_found s = write_error 404 ''not_found'' ''agent not found'' s"

definition bad_body :: "'s \<Rightarrow> 'r reply \<times> 's" where
  "bad_body s = write_error 400 ''validation_failed'' ''invalid request body'' s"

definition ag_list :: "'w amgr_config \<Rightarrow> 'w amgr_handler_t" where
  "ag_list c r s =
     (if ac_useK8s c
      then (case am_list (ac_mgr c) (ag_world s) of
              Inl e \<Rightarrow> write_error 500 ''k8s_error'' e s
            | Inr as \<Rightarrow> write_page AgPage as r s)
      else write_page AgPage (agst_list (ag_store s)) r s)"

definition is_admin :: "principal option \<Rightarrow> bool" where
  "is_admin p = (case p of None \<Rightarrow> False | Some p \<Rightarrow> list_ex (\<lambda>ro. ro = ''admin'') (p_roles p))"

definition owner_of :: "principal option \<Rightarrow> string" where
  "owner_of p = (case p of None \<Rightarrow> ''system'' | Some p \<Rightarrow> p_username p)"

definition no_override :: "'s \<Rightarrow> 'r reply \<times> 's" where
  "no_override s = write_error 403 ''forbidden'' ''security overrides require admin role'' s"

definition ag_create :: "'w amgr_config \<Rightarrow> 'w amgr_handler_t" where
  "ag_create c r s =
     (case Option.bind (rq_body r) ab_create of
        None \<Rightarrow> bad_body s
      | Some req \<Rightarrow>
          if car_security req \<noteq> None \<and> \<not> is_admin (rq_principal r) then no_override s
          else if ac_useK8s c
          then (case am_create (ac_mgr c) req (owner_of (rq_principal r)) (ag_world s) of
                  (None, w) \<Rightarrow> (Panic, s\<lparr>ag_world := w\<rparr>)
                | (Some (Inl e), w) \<Rightarrow>
                    write_error 400 ''create_failed'' e (s\<lparr>ag_world := w\<rparr>)
                | (Some (Inr a), w) \<Rightarrow> write_json 201 (AgOne a) (s\<lparr>ag_world := w\<rparr>))
          else let (a, st) = agst_create
                     \<lparr>agt_id = '''', agt_project = car_project req, agt_node = car_node req,
                      agt_status = '''', agt_expose = '''', agt_owner = ''admin:admins''\<rparr> (ag_store s)
               in write_json 201 (AgOne a) (s\<lparr>ag_store := st\<rparr>))"

definition ag_get :: "'w amgr_config \<Rightarrow> 'w amgr_handler_t" where
  "ag_get c r s =
     (let i = rq_path r ''agentId''
      in if ac_useK8s c
         then (case am_get (ac_mgr c) i (ag_world s) of
                 Inl _ \<Rightarrow> ag_not_found s
               | Inr a \<Rightarrow> write_json 200 (AgOne a) s)
         else (case agst_get i (ag_store s) of
                 None \<Rightarrow> ag_not_found s
               | Some a \<Rightarrow> write_json 200 (AgOne a) s))"

text \<open>The end of \<open>update\<close> against the cluster: the agent as it now is.\<close>

definition ag_current :: "'w amgr_config \<Rightarrow> string \<Rightarrow> 'w amgr_state \<Rightarrow>
    amgr_payload reply \<times> 'w amgr_state" where
  "ag_current c i s =
     (case am_get (ac_mgr c) i (ag_world s) of
        Inl _ \<Rightarrow> ag_not_found s
      | Inr a \<Rightarrow> write_json 200 (AgOne a) s)"

definition ag_update :: "'w amgr_config \<Rightarrow> 'w amgr_handler_t" where
  "ag_update c r s =
     (let i = rq_path r ''agentId''
      in case Option.bind (rq_body r) ab_config of
           None \<Rightarrow> bad_body s
         | Some req \<Rightarrow>
             if cfg_security req \<noteq> None \<and> \<not> is_admin (rq_principal r) then no_override s
             else if ac_useK8s c
             then (case cfg_claudeMd req of
                     None \<Rightarrow> ag_current c i s
                   | Some md \<Rightarrow>
                      (case am_updateCM (ac_mgr c) i md (ag_world s) of
                         (None, w) \<Rightarrow> (Panic, s\<lparr>ag_world := w\<rparr>)
                       | (Some (Some e), w) \<Rightarrow>
                           write_error 500 ''update_failed'' e (s\<lparr>ag_world := w\<rparr>)
                       | (Some None, w) \<Rightarrow> ag_current c i (s\<lparr>ag_world := w\<rparr>)))
             else (case agst_update i (cfg_patch req) (ag_store s) of
                     (None, st) \<Rightarrow> ag_not_found (s\<lparr>ag_store := st\<rparr>)
                   | (Some a, st) \<Rightarrow> write_json 200 (AgOne a) (s\<lparr>ag_store := st\<rparr>)))"

definition ag_del :: "'w amgr_config \<Rightarrow> 'w amgr_handler_t" where
  "ag_del c r s =
     (let i = rq_path r ''agentId''
      in if ac_useK8s c
         then (case am_delete (ac_mgr c) i (ag_world s) of
                 (Some _, w) \<Rightarrow> ag_not_found (s\<lparr>ag_world := w\<rparr>)
               | (None, w) \<Rightarrow> (Status 204, s\<lparr>ag_world := w\<rparr>))
         else (case agst_delete i (ag_store s) of
                 (False, st) \<Rightarrow> ag_not_found (s\<lparr>ag_store := st\<rparr>)
               | (True, st) \<Rightarrow> (Status 204, s\<lparr>ag_store := st\<rparr>)))"

text \<open>\<open>start\<close> asks for a pod with every setting but the project at its default.\<close>

definition default_request :: "string \<Rightarrow> create_agent_request" where
  "default_request project =
     \<lparr>car_project = project, car_node = '''', car_image = '''', car_claudeFlags = [],
      car_resources = None, car_security = None, car_logging = False,
      car_anthropicApiKey = '''', car_claudeMd = ''''\<rparr>"

definition project_of_id :: "string \<Rightarrow> string" where
  "project_of_id i = (if length i > 6 \<and> take 6 i = ''agent-'' then drop 6 i else i)"

definition ag_start :: "'w amgr_config \<Rightarrow> 'w amgr_handler_t" where
  "ag_start c r s =
     (let i = rq_path r ''agentId''
      in if ac_useK8s c
         then (case am_get (ac_mgr c) i (ag_world s) of
                 Inr _ \<Rightarrow> write_error 409 ''conflict'' ''agent is already running'' s
               | Inl _ \<Rightarrow>
                  (case am_create (ac_mgr c) (default_request (project_of_id i))
                          (owner_of (rq_principal r)) (ag_world s) of
                     (None, w) \<Rightarrow> (Panic, s\<lparr>ag_world := w\<rparr>)
                   | (Some (Inl e), w) \<Rightarrow>
                       write_error 500 ''start_failed'' e (s\<lparr>ag_world := w\<rparr>)
                   | (Some (Inr _), w) \<Rightarrow> (Status 202, s\<lparr>ag_world := w\<rparr>)))
         else (case agst_setStatus i ''running'' (ag_store s) of
                 (False, st) \<Rightarrow> ag_not_found (s\<lparr>ag_store := st\<rparr>)
               | (True, st) \<Rightarrow> (Status 202, s\<lparr>ag_store := st\<rparr>)))"

definition ag_stop :: "'w amgr_config \<Rightarrow> 'w amgr_handler_t" where
  "ag_stop c r s =
     (let i = rq_path r ''agentId''
      in if ac_useK8s c
         then (case am_stop (ac_mgr c) i (ag_world s) of
                 (Some _, w) \<Rightarrow> ag_not_found (s\<lparr>ag_world := w\<rparr>)
               | (None, w) \<Rightarrow> (Status 202, s\<lparr>ag_world := w\<rparr>))
         else (case agst_setStatus i ''stopping'' (ag_store s) of
                 (False, st) \<Rightarrow> ag_not_found (s\<lparr>ag_store := st\<rparr>)
               | (True, st) \<Rightarrow> (Status 202, s\<lparr>ag_store := st\<rparr>)))"

section \<open>Proxying to the agent wrapper\<close>

definition getAgentPodIP :: "'w amgr_config \<Rightarrow> string \<Rightarrow> 'w \<Rightarrow> string + string" where
  "getAgentPodIP c i w =
     (if \<not> ac_useK8s c then Inl ''proxy not available in non-K8s mode''
      else am_podIP (ac_mgr c) i w)"

definition proxy_req :: "'w amgr_config \<Rightarrow> amgr_body request \<Rightarrow> string \<Rightarrow> string \<Rightarrow> string \<Rightarrow> string \<Rightarrow>
    proxy_request" where
  "proxy_req c r method ip path body =
     \<lparr>px_method = method, px_url = ''http://'' @ ip @ '':8443/'' @ path,
      px_authorization = rq_header r ''Authorization'',
      px_saToken = (if ac_saToken c \<noteq> '''' then Some (ac_saToken c) else None),
      px_body = body\<rparr>"

definition proxy_call ::
    "'w amgr_config \<Rightarrow> amgr_body request \<Rightarrow> string \<Rightarrow> string \<Rightarrow> string \<Rightarrow>
     (proxy_response \<Rightarrow> string option) \<Rightarrow> 'w amgr_state \<Rightarrow> amgr_payload reply \<times> 'w amgr_state" where
  "proxy_call c r method path body ctype s =
     (case getAgentPodIP c (rq_path r ''agentId'') (ag_world s) of
        Inl e \<Rightarrow> write_error 404 ''not_found'' e s
      | Inr ip \<Rightarrow>
         (case ac_forward c (proxy_req c r method ip path body) of
            Inl e \<Rightarrow> write_error 502 ''proxy_error'' e s
          | Inr resp \<Rightarrow> (Reply (pr_status resp) (AgStream (ctype resp) (pr_body resp)), s)))"

definition raw_body :: "amgr_body request \<Rightarrow> string" where
  "raw_body r = (case rq_body r of None \<Rightarrow> '''' | Some b \<Rightarrow> ab_raw b)"

definition ag_proxyStdin :: "'w amgr_config \<Rightarrow> 'w amgr_handler_t" where
  "ag_proxyStdin c r s = proxy_call c r ''POST'' ''stdin'' (raw_body r) (\<lambda>_. None) s"

definition ag_proxyStream :: "'w amgr_config \<Rightarrow> string \<Rightarrow> 'w amgr_handler_t" where
  "ag_proxyStream c stream r s =
     proxy_call c r ''GET'' stream '''' (\<lambda>resp. Some (pr_contentType resp)) s"

definition ag_proxyMetrics :: "'w amgr_config \<Rightarrow> 'w amgr_handler_t" where
  "ag_proxyMetrics c r s =
     proxy_call c r ''GET'' ''metrics'' '''' (\<lambda>_. Some ''application/json'') s"

section \<open>Routes\<close>

datatype amgr_route =
    AgList | AgCreate | AgGet | AgUpdate | AgDelete | AgStart | AgStop | AgShell
  | AgStdin | AgStdout | AgStderr | AgMetrics

fun amgr_role :: "amgr_route \<Rightarrow> string" where
  "amgr_role AgList = ''agent-view''"
| "amgr_role AgCreate = ''agent-update''"
| "amgr_role AgGet = ''agent-view''"
| "amgr_role AgUpdate = ''agent-update''"
| "amgr_role AgDelete = ''agent-update''"
| "amgr_role AgStart = ''agent-update''"
| "amgr_role AgStop = ''agent-update''"
| "amgr_role AgShell = ''agent-view''"
| "amgr_role AgStdin = ''agent-update''"
| "amgr_role AgStdout = ''agent-view''"
| "amgr_role AgStderr = ''agent-view''"
| "amgr_role AgMetrics = ''agent-view''"

fun amgr_handle :: "'w amgr_config \<Rightarrow> amgr_route \<Rightarrow> 'w amgr_handler_t" where
  "amgr_handle c AgList = ag_list c"
| "amgr_handle c AgCreate = ag_create c"
| "amgr_handle c AgGet = ag_get c"
| "amgr_handle c AgUpdate = ag_update c"
| "amgr_handle c AgDelete = ag_del c"
| "amgr_handle c AgStart = ag_start c"
| "amgr_handle c AgStop = ag_stop c"
| "amgr_handle c AgShell = ag_proxyStream c ''stdout''"
| "amgr_handle c AgStdin = ag_proxyStdin c"
| "amgr_handle c AgStdout = ag_proxyStream c ''stdout''"
| "amgr_handle c AgStderr = ag_proxyStream c ''stderr''"
| "amgr_handle c AgMetrics = ag_proxyMetrics c"

definition amgr_serve :: "'w amgr_config \<Rightarrow> bao_env \<Rightarrow> amgr_route \<Rightarrow> 'w amgr_handler_t" where
  "amgr_serve c env rt = guarded env (amgr_role rt) (amgr_handle c rt)"

section \<open>Contracts\<close>

definition agent_ids :: "agent_store \<Rightarrow> string list" where
  "agent_ids s = map agt_id (agents s)"

lemma patchAgent_id [simp]: "agt_id (patchAgent u a) = agt_id a"
  by (simp add: patchAgent_def Let_def split: option.split)

interpretation agt: counted_store agent_ids agst_get "\<lambda>u k. agst_update k u"
  "\<lambda>_ s. agent_key (length (agents s) + 1)" agst_create agst_delete "''agt-''" 4
proof (unfold_locales, goal_cases)
  case (1 k s) show ?case by (simp add: agst_get_def agent_ids_def find_key_None)
next
  case (2 u k s) show ?case
    by (simp add: agst_update_def agent_ids_def Let_def upd_found split: option.split)
next
  case (3 u k s) show ?case
    by (simp add: agst_update_def agst_get_def Let_def upd_found split: option.split)
next
  case (4 k' k u s) then show ?case
    by (simp add: agst_update_def agst_get_def Let_def upd_found split: option.split)
next
  case (5 c s) show ?case by (simp add: agst_create_def agent_ids_def Let_def)
next
  case (6 c s) then have "agst_get (agent_key (length (agents s) + 1)) s = None"
    by (simp add: agst_get_def agent_ids_def find_key_None)
  then show ?case by (simp add: agst_create_def agst_get_def find_key_append Let_def)
next
  case (7 k s c) then have "agst_get k s \<noteq> None"
    by (simp add: agst_get_def agent_ids_def find_key_None)
  then show ?case by (auto simp: agst_create_def agst_get_def find_key_append Let_def)
next
  case (8 k s) show ?case
    using find_key_None [of agt_id k "agents s"]
    by (auto simp: agst_delete_def agent_ids_def split: option.split)
next
  case (9 k s) show ?case
    using find_key_None [of agt_id k "agents s"]
    by (auto simp: agst_delete_def agent_ids_def map_del_key remove1_idem split: option.split)
next
  case (10 k' k s) then show ?case
    by (simp add: agst_delete_def agst_get_def find_key_del_other split: option.split)
next
  case (11 c s) show ?case by (simp add: agent_key_def agent_ids_def)
qed

lemmas ag_handler_defs = ag_list_def ag_create_def ag_get_def ag_update_def ag_del_def
  ag_start_def ag_stop_def ag_proxyStdin_def ag_proxyStream_def ag_proxyMetrics_def
  ag_not_found_def ag_current_def proxy_call_def

interpretation agr: rbac_component "amgr_handle c" amgr_role "''agent-view''" for c :: "'w amgr_config"
proof
  fix rt r and s :: "'w amgr_state" assume "amgr_role rt = ''agent-view''"
  then show "snd (amgr_handle c rt r s) = s"
    by (cases rt) (simp_all add: ag_handler_defs Let_def split: option.split sum.split)
qed

section \<open>Properties\<close>

text \<open>A request that asks for security overrides.\<close>

definition carries_override :: "amgr_route \<Rightarrow> amgr_body request \<Rightarrow> bool" where
  "carries_override rt r =
     (case (rt, rq_body r) of
        (AgCreate, Some b) \<Rightarrow> (case ab_create b of Some q \<Rightarrow> car_security q \<noteq> None | None \<Rightarrow> False)
      | (AgUpdate, Some b) \<Rightarrow> (case ab_config b of Some q \<Rightarrow> cfg_security q \<noteq> None | None \<Rightarrow> False)
      | _ \<Rightarrow> False)"

lemma is_admin_iff: "is_admin (Some p) \<longleftrightarrow> ''admin'' \<in> set (p_roles p)"
  by (auto simp: is_admin_def list_ex_iff)

lemma override_refused:
  assumes "carries_override rt r" and "\<not> is_admin (rq_principal r)"
  shows "amgr_handle c rt r s = no_override s"
  using assms
  by (cases rt) (auto simp: carries_override_def ag_create_def ag_update_def Let_def
      split: option.splits)

text \<open>
  C32: security overrides (host paths, the Docker socket, added capabilities) need the role
  \<^verbatim>\<open>admin\<close> itself. A create or update request that carries any and does not come from such a
  caller is answered 401 or 403 and reaches neither the store nor the cluster, even when the
  caller holds \<^verbatim>\<open>admin-policy\<close>, which every role check otherwise treats as administrator.
\<close>

theorem overrides_need_admin:
  assumes "carries_override rt r"
    and "\<And>p. authenticate env r = Some p \<Longrightarrow> ''admin'' \<notin> set (p_roles p)"
  shows "snd (amgr_serve c env rt r s) = s \<and>
    reply_code (fst (amgr_serve c env rt r s)) \<in> {Some 401, Some 403}"
proof (cases "authenticate env r")
  case None
  then show ?thesis
    using auth_rejects [of env r "rbac (amgr_role rt) (amgr_handle c rt)" s]
    by (auto simp: amgr_serve_def guarded_def)
next
  case (Some p)
  let ?r = "r\<lparr>rq_principal := Some p\<rparr>"
  have "carries_override rt ?r" using assms(1) by (simp add: carries_override_def)
  moreover have "\<not> is_admin (rq_principal ?r)" using assms(2) [OF Some] by (simp add: is_admin_iff)
  ultimately have "amgr_handle c rt ?r s = no_override s" by (rule override_refused)
  with Some show ?thesis
    by (auto simp: amgr_serve_def guarded_def auth_accepts rbac_def write_error_def no_override_def)
qed

definition demo_override :: "amgr_body request" where
  "demo_override = demo_req (\<lambda>k. '''')
     (Some \<lparr>ab_create = Some (demo_create\<lparr>car_security :=
              Some \<lparr>as_capabilities = [], as_dockerAccess = True, as_additionalMounts = []\<rparr>\<rparr>),
            ab_config = None, ab_raw = ''''\<rparr>)"

definition demo_amgr :: "(kind \<times> string) list amgr_config" where
  "demo_amgr = \<lparr>ac_useK8s = True, ac_saToken = ''sa'',
     ac_mgr = k8s_agent_mgr demo_kube (\<lambda>n w. Inr ''10.0.0.1''), ac_forward = (\<lambda>q. Inl ''down'')\<rparr>"

theorem overrides_need_admin_witness:
  "snd (amgr_serve demo_amgr (demo_env [''admin-policy'']) AgCreate demo_override
     \<lparr>ag_store = amgr_newStore, ag_world = []\<rparr>) = \<lparr>ag_store = amgr_newStore, ag_world = []\<rparr>"
proof -
  have "carries_override AgCreate demo_override"
    by (simp add: carries_override_def demo_override_def demo_req_def)
  moreover have "''admin'' \<notin> set (p_roles p)"
    if p: "authenticate (demo_env [''admin-policy'']) demo_override = Some p" for p
  proof -
    obtain p' where "authenticate (demo_env [''admin-policy'']) demo_override = Some p'"
      "set (p_roles p') = set [''admin-policy''] - {''''}"
      using demo_authenticate unfolding demo_override_def by blast
    with p show ?thesis by simp
  qed
  ultimately show ?thesis by (rule overrides_need_admin [THEN conjunct1])
qed

text \<open>
  Starting a stopped agent again does not restore it. The pod that \<open>start\<close> submits has the
  agent's name, claim and configuration, but none of the other settings the agent was created
  with: it carries no API key (although the secret still exists), is not placed on the chosen
  node, and runs the default image.
\<close>

theorem start_forgets_settings:
  assumes "ac_useK8s c" and "ac_mgr c = k8s_agent_mgr kb ip" and "car_project req \<noteq> ''''"
    and "rq_path r ''agentId'' = agent_podName req"
    and "kb_get_pod kb (agent_podName req) (ag_world s) = Inl e"
  shows "snd (ag_start c r s) = s\<lparr>ag_world := snd (createAgentPod kb
      (default_request (car_project req)) (owner_of (rq_principal r)) (ag_world s))\<rparr> \<and>
    (case agent_pod kb (default_request (car_project req)) owner of
       None \<Rightarrow> \<exists>q. \<not> kb_quantity kb q
     | Some p \<Rightarrow> pod_name p = agent_podName req \<and> ''ANTHROPIC_API_KEY'' \<notin> fst ` set (pod_env p) \<and>
         pod_nodeSelector p = [] \<and> pod_image p = defaultAgentImage)"
proof
  have id: "project_of_id (agent_podName req) = car_project req"
    using assms(3) by (simp add: project_of_id_def agent_podName_def)
  show "snd (ag_start c r s) = s\<lparr>ag_world := snd (createAgentPod kb
      (default_request (car_project req)) (owner_of (rq_principal r)) (ag_world s))\<rparr>"
    using assms by (simp add: ag_start_def Let_def k8s_agent_mgr_def getAgentPod_def id
        split: prod.split option.split sum.split)
  show "case agent_pod kb (default_request (car_project req)) owner of
       None \<Rightarrow> \<exists>q. \<not> kb_quantity kb q
     | Some p \<Rightarrow> pod_name p = agent_podName req \<and> ''ANTHROPIC_API_KEY'' \<notin> fst ` set (pod_env p) \<and>
         pod_nodeSelector p = [] \<and> pod_image p = defaultAgentImage"
  proof (cases "agent_pod kb (default_request (car_project req)) owner")
    case None
    then show ?thesis by (auto simp: agent_pod_def Let_def split: if_splits prod.splits)
  next
    case (Some p)
    then show ?thesis
      by (auto simp: agent_pod_def Let_def default_request_def agent_env_def agent_podName_def
          split: if_splits prod.splits)
  qed
qed

theorem start_forgets_settings_witness:
  "snd (ag_start demo_amgr (demo_req (\<lambda>k. ''agent-demo'') None)
      \<lparr>ag_store = amgr_newStore, ag_world = [(KSecret, ''secret-agent-demo'')]\<rparr>) =
    \<lparr>ag_store = amgr_newStore,
     ag_world = snd (createAgentPod demo_kube (default_request ''demo'') ''system''
                       [(KSecret, ''secret-agent-demo'')])\<rparr>"
  using start_forgets_settings [of demo_amgr demo_kube "\<lambda>n w. Inr ''10.0.0.1''" demo_create
      "demo_req (\<lambda>k. ''agent-demo'') None"
      "\<lparr>ag_store = amgr_newStore, ag_world = [(KSecret, ''secret-agent-demo'')]\<rparr>" "''not found''"]
  by (simp add: demo_amgr_def demo_create_def demo_req_def agent_podName_def demo_kube_def owner_of_def)

text \<open>
  An agent whose pod has ended cannot be started. The pod still exists (pods are never
  restarted), the server reports the agent as stopped, and \<open>start\<close> answers 409, ``agent is
  already running'', without doing anything.
\<close>

theorem ended_agent_cannot_start:
  assumes "ac_useK8s c" and "ac_mgr c = k8s_agent_mgr kb ip"
    and "kb_get_pod kb (rq_path r ''agentId'') (ag_world s) = Inr p"
    and "ps_phase p \<in> {''Failed'', ''Succeeded''}"
  shows "ag_start c r s = (Failure 409 ''conflict'' ''agent is already running'', s) \<and>
    (\<exists>a. ag_get c r s = (Reply 200 (AgOne a), s) \<and> agt_status a = ''stopped'')"
  using assms
  by (auto simp: ag_start_def ag_get_def Let_def k8s_agent_mgr_def getAgentPod_def write_error_def
      write_json_def podToAgent_def)

theorem ended_agent_cannot_start_witness:
  "ag_start demo_amgr (demo_req (\<lambda>k. ''agent-demo'') None)
      \<lparr>ag_store = amgr_newStore, ag_world = [(KPod, ''agent-demo'')]\<rparr> =
    (Failure 409 ''conflict'' ''agent is already running'',
     \<lparr>ag_store = amgr_newStore, ag_world = [(KPod, ''agent-demo'')]\<rparr>)"
  by (rule ended_agent_cannot_start [THEN conjunct1, of _ demo_kube "\<lambda>n w. Inr ''10.0.0.1''" _ _
        "\<lparr>ps_name = ''agent-demo'', ps_labels = Map.empty, ps_nodeName = '''', ps_phase = ''Failed''\<rparr>"])
    (simp_all add: demo_amgr_def demo_kube_def demo_req_def)

text \<open>
  Against the cluster, a PATCH of an agent applies its CLAUDE.md and nothing else: the
  project, the node and the exposed address of the request, which the in-memory store would
  apply, are dropped, and the caller is answered as if they had been applied.
\<close>

theorem patch_dropped_on_cluster:
  assumes "ac_useK8s c" and "rq_body r = Some b" and "ab_config b = Some q"
    and "cfg_security q = None"
  shows "ag_update c r s =
      ag_update c (r\<lparr>rq_body := Some (b\<lparr>ab_config := Some (q\<lparr>cfg_patch := u\<rparr>)\<rparr>)\<rparr>) s \<and>
    ag_store (snd (ag_update c r s)) = ag_store s \<and>
    (cfg_claudeMd q = None \<longrightarrow> snd (ag_update c r s) = s)"
  using assms
  by (auto simp: ag_update_def ag_current_def ag_not_found_def Let_def
      split: option.split sum.split prod.split)

theorem patch_dropped_on_cluster_witness:
  "let q = \<lparr>cfg_patch = \<lparr>ap_project = Some ''other'', ap_node = Some ''node-9'', ap_expose = None\<rparr>,
            cfg_security = None, cfg_claudeMd = None\<rparr>;
       r = demo_req (\<lambda>k. ''agent-demo'') (Some \<lparr>ab_create = None, ab_config = Some q, ab_raw = ''''\<rparr>)
   in snd (ag_update demo_amgr r \<lparr>ag_store = amgr_newStore, ag_world = [(KPod, ''agent-demo'')]\<rparr>) =
        \<lparr>ag_store = amgr_newStore, ag_world = [(KPod, ''agent-demo'')]\<rparr>"
proof -
  let ?q = "\<lparr>cfg_patch = \<lparr>ap_project = Some ''other'', ap_node = Some ''node-9'', ap_expose = None\<rparr>,
            cfg_security = None, cfg_claudeMd = None\<rparr>"
  let ?b = "\<lparr>ab_create = None, ab_config = Some ?q, ab_raw = ''''\<rparr>"
  show ?thesis
    unfolding Let_def
    using patch_dropped_on_cluster [of demo_amgr "demo_req (\<lambda>k. ''agent-demo'') (Some ?b)" ?b ?q]
    by (simp add: demo_amgr_def demo_req_def)
qed

end
