(* ===== verification/Nodes.thy ===== *)
theory Nodes
  imports Complex_Main AgentPods Store_Contracts
begin

text \<open>
  The node manager (\<^verbatim>\<open>internal/nmgr\<close>): its store of nodes and notes, the \<open>NodeManager\<close> and
  \<open>NoteDB\<close> interfaces, the handlers and routes, the metrics overlay, and the goroutines that
  \<open>create\<close> starts.

  \<open>nmgr_state\<close> holds the store, the state \<open>'w\<close> of cluster and database, the metrics reports by
  node, the clock (nanoseconds), the goroutines still to run and the events published so
  far. Measurements are rationals. Handlers take a request in one go, except that
  \<open>create\<close> is also available as its two halves, the checks and the insertion, between which the
  code holds no lock.
\<close>

section \<open>Data\<close>

record load_avg =
  la_one :: rat
  la_five :: rat
  la_fifteen :: rat

record node =
  nd_id :: string
  nd_location :: string
  nd_ip :: string
  nd_status :: string
  nd_agents :: int
  nd_load :: load_avg
  nd_memUsed :: rat
  nd_memTotal :: rat
  nd_diskUsed :: rat
  nd_diskTotal :: rat
  nd_tags :: "string list"

text \<open>\<open>types.Node\<close>, which the cluster reports, has more fields.\<close>

record cluster_node = node +
  cn_swapUsed :: rat
  cn_swapTotal :: rat
  cn_uptime :: int
  cn_kubelet :: string
  cn_cpus :: int

record node_note =
  nt_author :: string
  nt_createdAt :: string
  nt_text :: string

record node_store =
  nodes :: "node list"
  noteMap :: "string \<rightharpoonup> node_note list"

record metrics_report =
  mr_node :: string
  mr_load :: load_avg
  mr_memUsed :: int
  mr_memTotal :: int
  mr_swapUsed :: int
  mr_swapTotal :: int
  mr_diskUsed :: int
  mr_diskTotal :: int
  mr_uptime :: int
  mr_kubelet :: string
  mr_cpus :: int

record metrics_entry =
  me_report :: metrics_report
  me_received :: int

record provision_request =
  pq_host :: string
  pq_user :: string
  pq_password :: string
  pq_location :: string

section \<open>The store\<close>

definition nmgr_newStore :: node_store where
  "nmgr_newStore = \<lparr>nodes = [], noteMap = Map.empty\<rparr>"

definition ns_list :: "node_store \<Rightarrow> node list" where
  "ns_list s = nodes s"

definition ns_get :: "string \<Rightarrow> node_store \<Rightarrow> node option" where
  "ns_get i s = find_key nd_id i (nodes s)"

definition node_key :: "nat \<Rightarrow> string" where
  "node_key n = ''cnn-'' @ sprintf_0d 4 n"

definition ns_create :: "node \<Rightarrow> node_store \<Rightarrow> node \<times> node_store" where
  "ns_create n s =
     (let n = (if nd_id n = '''' then n\<lparr>nd_id := node_key (length (nodes s) + 1)\<rparr> else n);
          n = (if nd_status n = '''' then n\<lparr>nd_status := ''Pending''\<rparr> else n)
      in (n, s\<lparr>nodes := nodes s @ [n]\<rparr>))"

definition patch_node :: "string option \<times> string list option \<Rightarrow> node \<Rightarrow> node" where
  "patch_node u n =
     (let n = (case fst u of None \<Rightarrow> n | Some l \<Rightarrow> n\<lparr>nd_location := l\<rparr>)
      in (case snd u of None \<Rightarrow> n | Some ts \<Rightarrow> n\<lparr>nd_tags := ts\<rparr>))"

definition ns_update :: "string option \<times> string list option \<Rightarrow> string \<Rightarrow> node_store \<Rightarrow>
    node option \<times> node_store" where
  "ns_update u i s =
     (case find_key nd_id i (nodes s) of
        None \<Rightarrow> (None, s)
      | Some n \<Rightarrow>
          let n' = patch_node u n
          in (Some n', s\<lparr>nodes := upd_key nd_id i n' (nodes s)\<rparr>))"

definition ns_delete :: "string \<Rightarrow> node_store \<Rightarrow> bool \<times> node_store" where
  "ns_delete i s =
     (case find_key nd_id i (nodes s) of
        None \<Rightarrow> (False, s)
      | Some _ \<Rightarrow> (True, s\<lparr>nodes := del_key nd_id i (nodes s)\<rparr>))"

definition ns_setStatus :: "string \<Rightarrow> string \<Rightarrow> node_store \<Rightarrow> bool \<times> node_store" where
  "ns_setStatus i st s =
     (case find_key nd_id i (nodes s) of
        None \<Rightarrow> (False, s)
      | Some n \<Rightarrow>
          (True, s\<lparr>nodes := upd_key nd_id i (n\<lparr>nd_status := st\<rparr>) (nodes s)\<rparr>))"

definition ns_notes :: "string \<Rightarrow> node_store \<Rightarrow> node_note list" where
  "ns_notes i s = (case noteMap s i of None \<Rightarrow> [] | Some ns \<Rightarrow> ns)"

definition ns_addNote :: "string \<Rightarrow> string \<Rightarrow> node_note \<Rightarrow> node_store \<Rightarrow> node_note \<times> node_store" where
  "ns_addNote now i n s =
     (let n = n\<lparr>nt_createdAt := now\<rparr>
      in (n, s\<lparr>noteMap := (noteMap s)(i \<mapsto> ns_notes i s @ [n])\<rparr>))"

text \<open>
  \<open>JitterMetrics\<close>: five draws of \<open>rand.Float64()\<close> for each ready node, as the list of draws.
\<close>

type_synonym draws = "rat \<times> rat \<times> rat \<times> rat \<times> rat"

definition jitter_node :: "draws \<Rightarrow> node \<Rightarrow> node" where
  "jitter_node d n =
     (if nd_status n \<noteq> ''Ready'' then n
      else let (a, b, c, e, f) = d; l = nd_load n
           in n\<lparr>nd_load := \<lparr>la_one = max 0 (la_one l + (a - 1/2) * (3/10)),
                             la_five = max 0 (la_five l + (b - 1/2) * (2/10)),
                             la_fifteen = max 0 (la_fifteen l + (c - 1/2) * (1/10))\<rparr>,
                nd_memUsed := max 0 (min (nd_memTotal n) (nd_memUsed n + (e - 1/2) * 1)),
                nd_diskUsed := max 0 (min (nd_diskTotal n) (nd_diskUsed n + (f - 1/2) * (5/10)))\<rparr>)"

definition jitterMetrics :: "(nat \<Rightarrow> draws) \<Rightarrow> node_store \<Rightarrow> node_store" where
  "jitterMetrics rnd s =
     s\<lparr>nodes := map (\<lambda>(i, n). jitter_node (rnd i) n) (enumerate 0 (nodes s))\<rparr>"

section \<open>Interfaces\<close>

record node_detail =
  dt_node :: cluster_node
  dt_agents :: "agent list"
  dt_notes :: "node_note list"

record 'w node_mgr =
  nm_listNodes :: "'w \<Rightarrow> string + cluster_node list"
  nm_getNode :: "string \<Rightarrow> 'w \<Rightarrow> string + cluster_node"
  nm_getDetail :: "string \<Rightarrow> 'w \<Rightarrow> string + node_detail"
  nm_cordon :: "string \<Rightarrow> 'w \<Rightarrow> string option \<times> 'w"
  nm_uncordon :: "string \<Rightarrow> 'w \<Rightarrow> string option \<times> 'w"
  nm_countPods :: "string \<Rightarrow> 'w \<Rightarrow> int"      \<comment> \<open>0 with an error, which the callers drop\<close>
  nm_listPods :: "string \<Rightarrow> 'w \<Rightarrow> agent list"
  nm_drain :: "string \<Rightarrow> 'w \<Rightarrow> string option \<times> 'w"
  nm_provision :: "provision_request \<Rightarrow> 'w \<Rightarrow> string option \<times> 'w"

record 'w note_db =
  db_list :: "string \<Rightarrow> 'w \<Rightarrow> string + node_note list"
  db_add :: "string \<Rightarrow> string \<Rightarrow> string \<Rightarrow> 'w \<Rightarrow> (string + string) \<times> 'w"

record 'w nmgr_config =
  nc_useK8s :: bool
  nc_mgr :: "'w node_mgr"
  nc_db :: "'w note_db option"     \<comment> \<open>\<open>None\<close> when \<open>HasDB\<close> is false\<close>

datatype task = MockReady node | Provisioning node provision_request

datatype node_event =
    EvPending node | EvReady node | EvReadyId string | EvError string string
  | EvMetrics "cluster_node list"

record 'w nmgr_state =
  nm_store :: node_store
  nm_world :: 'w
  nm_metrics :: "string \<rightharpoonup> metrics_entry"
  nm_clock :: int
  nm_tasks :: "task list"
  nm_events :: "node_event list"

definition publish_event :: "node_event \<Rightarrow> 'w nmgr_state \<Rightarrow> 'w nmgr_state" where
  "publish_event e s = s\<lparr>nm_events := nm_events s @ [e]\<rparr>"

section \<open>Metrics\<close>

definition gb :: "int \<Rightarrow> rat" where
  "gb n = of_int n / 1073741824"

definition mergeNodeMetrics :: "'w nmgr_state \<Rightarrow> cluster_node \<Rightarrow> cluster_node" where
  "mergeNodeMetrics s n =
     (case nm_metrics s (nd_id n) of
        None \<Rightarrow> n
      | Some e \<Rightarrow>
          if nm_clock s - me_received e > 10 * 10 ^ 9 then n
          else let r = me_report e;
                   n = n\<lparr>nd_load := mr_load r\<rparr>;
                   n = (if mr_memTotal r > 0
                        then n\<lparr>nd_memUsed := gb (mr_memUsed r), nd_memTotal := gb (mr_memTotal r)\<rparr>
                        else n);
                   n = (if mr_swapTotal r > 0
                        then n\<lparr>cn_swapUsed := gb (mr_swapUsed r), cn_swapTotal := gb (mr_swapTotal r)\<rparr>
                        else n);
                   n = (if mr_diskTotal r > 0
                        then n\<lparr>nd_diskUsed := gb (mr_diskUsed r), nd_diskTotal := gb (mr_diskTotal r)\<rparr>
                        else n);
                   n = n\<lparr>cn_uptime := mr_uptime r\<rparr>;
                   n = (if mr_kubelet r \<noteq> '''' then n\<lparr>cn_kubelet := mr_kubelet r\<rparr> else n)
               in if mr_cpus r > 0 then n\<lparr>cn_cpus := mr_cpus r\<rparr> else n)"

definition blank_cluster_node :: "string \<Rightarrow> string \<Rightarrow> string \<Rightarrow> int \<Rightarrow> cluster_node" where
  "blank_cluster_node i ip st ag =
     \<lparr>nd_id = i, nd_location = '''', nd_ip = ip, nd_status = st, nd_agents = ag,
      nd_load = \<lparr>la_one = 0, la_five = 0, la_fifteen = 0\<rparr>, nd_memUsed = 0, nd_memTotal = 0,
      nd_diskUsed = 0, nd_diskTotal = 0, nd_tags = [], cn_swapUsed = 0, cn_swapTotal = 0,
      cn_uptime = 0, cn_kubelet = '''', cn_cpus = 0\<rparr>"

definition collectAndPublishMetrics ::
    "'w nmgr_config \<Rightarrow> (nat \<Rightarrow> draws) \<Rightarrow> 'w nmgr_state \<Rightarrow> 'w nmgr_state" where
  "collectAndPublishMetrics c rnd s =
     (let finish = (\<lambda>ns s. let ns = map (mergeNodeMetrics s) ns
                          in if length ns > 0 then publish_event (EvMetrics ns) s else s)
      in if nc_useK8s c
         then (case nm_listNodes (nc_mgr c) (nm_world s) of
                 Inl _ \<Rightarrow> s
               | Inr ns \<Rightarrow> finish ns s)
         else let s = s\<lparr>nm_store := jitterMetrics rnd (nm_store s)\<rparr>;
                  ns = map (\<lambda>sn. (blank_cluster_node (nd_id sn) (nd_ip sn) (nd_status sn) (nd_agents sn))
                              \<lparr>nd_load := nd_load sn, nd_memUsed := nd_memUsed sn,
                               nd_memTotal := nd_memTotal sn, nd_diskUsed := nd_diskUsed sn,
                               nd_diskTotal := nd_diskTotal sn\<rparr>) (ns_list (nm_store s))
              in finish ns s)"

section \<open>Handlers\<close>

record create_node =
  cq_name :: string
  cq_host :: string
  cq_user :: string
  cq_password :: string
  cq_location :: string
  cq_tags :: "string list"

record nmgr_body =
  nb_create :: "create_node option"
  nb_patch :: "(string option \<times> string list option) option"
  nb_text :: string
  nb_report :: "metrics_report option"

datatype nmgr_payload =
    NmPage "node page" | NmClusterPage "cluster_node page" | NmNode node
  | NmStoreDetail node "node_note list" | NmDetail node_detail
  | NmNotes "node_note list option" | NmNote node_note

type_synonym 'w nmgr_handler_t = "(nmgr_body, 'w nmgr_state, nmgr_payload) handler"

definition nm_not_found :: "'w nmgr_state \<Rightarrow> nmgr_payload reply \<times> 'w nmgr_state" where
  "nm_not_found s = write_error 404 ''not_found'' ''node not found'' s"

definition nm_invalid :: "string \<Rightarrow> nmgr_payload reply" where
  "nm_invalid msg = Failure 400 ''validation_failed'' msg"

definition nm_conflict :: "string \<Rightarrow> nmgr_payload reply" where
  "nm_conflict msg = Failure 409 ''conflict'' msg"

definition merge_pending :: "cluster_node list \<Rightarrow> node list \<Rightarrow> cluster_node list" where
  "merge_pending ks ss =
     (let known = map nd_id ks @ map nd_ip ks
      in ks @ map (\<lambda>sn. blank_cluster_node (nd_id sn) (nd_ip sn) (nd_status sn) (nd_agents sn))
               (filter (\<lambda>sn. nd_id sn \<notin> set known \<and> nd_ip sn \<notin> set known) ss))"

definition nm_list :: "'w nmgr_config \<Rightarrow> 'w nmgr_handler_t" where
  "nm_list c r s =
     (if nc_useK8s c
      then (case nm_listNodes (nc_mgr c) (nm_world s) of
              Inl e \<Rightarrow> write_error 500 ''k8s_error'' e s
            | Inr ns \<Rightarrow>
                let ns = map (\<lambda>n. n\<lparr>nd_agents := nm_countPods (nc_mgr c) (nd_id n) (nm_world s)\<rparr>) ns;
                    ns = merge_pending ns (ns_list (nm_store s));
                    ns = map (mergeNodeMetrics s) ns
                in write_page NmClusterPage ns r s)
      else write_page NmPage (ns_list (nm_store s)) r s)"

definition name_char :: "char \<Rightarrow> bool" where
  "name_char ch \<longleftrightarrow>
     (let n = (of_char ch :: nat)
      in (97 \<le> n \<and> n \<le> 122) \<or> (48 \<le> n \<and> n \<le> 57) \<or> ch = CHR ''-'')"

text \<open>The checks of \<open>create\<close>, in the order of the code; \<open>None\<close> lets the request through.\<close>

definition create_checks :: "'w nmgr_config \<Rightarrow> create_node \<Rightarrow> 'w nmgr_state \<Rightarrow>
    nmgr_payload reply option" where
  "create_checks c q s =
     (if cq_host q = '''' then Some (nm_invalid ''host is required'')
      else if cq_user q = '''' then Some (nm_invalid ''user is required'')
      else if cq_name q \<noteq> '''' \<and> \<not> list_all name_char (cq_name q)
        then Some (nm_invalid ''node name must contain only lowercase letters, digits, and hyphens'')
      else if cq_name q \<noteq> '''' \<and> (hd (cq_name q) = CHR ''-'' \<or> last (cq_name q) = CHR ''-'')
        then Some (nm_invalid ''node name must not start or end with a hyphen'')
      else if cq_name q \<noteq> '''' \<and> length (cq_name q) > 63
        then Some (nm_invalid ''node name must be 63 characters or fewer'')
      else if length (cq_host q) > 253
        then Some (nm_invalid ''host must be 253 characters or fewer'')
      else if cq_name q \<noteq> '''' \<and> ns_get (cq_name q) (nm_store s) \<noteq> None
        then Some (nm_conflict ''a node with this name already exists or is being provisioned'')
      else if cq_name q \<noteq> '''' \<and> nc_useK8s c \<and>
              (case nm_getNode (nc_mgr c) (cq_name q) (nm_world s) of Inl _ \<Rightarrow> False | Inr _ \<Rightarrow> True)
        then Some (nm_conflict ''a node with this name already exists in the cluster'')
      else if nc_useK8s c \<and>
              (case nm_listNodes (nc_mgr c) (nm_world s) of
                 Inl _ \<Rightarrow> False
               | Inr ns \<Rightarrow> list_ex (\<lambda>n. nd_ip n = cq_host q) ns)
        then Some (nm_conflict ''a node with this IP address already exists in the cluster'')
      else if list_ex (\<lambda>n. nd_ip n = cq_host q) (ns_list (nm_store s))
        then Some (nm_conflict ''a node with this IP address is already being provisioned'')
      else None)"

definition new_node :: "create_node \<Rightarrow> string \<Rightarrow> node" where
  "new_node q status =
     \<lparr>nd_id = cq_name q, nd_location = cq_location q, nd_ip = cq_host q, nd_status = status,
      nd_agents = 0, nd_load = \<lparr>la_one = 0, la_five = 0, la_fifteen = 0\<rparr>, nd_memUsed = 0,
      nd_memTotal = 0, nd_diskUsed = 0, nd_diskTotal = 0, nd_tags = cq_tags q\<rparr>"

text \<open>The rest of \<open>create\<close>: insert the node, announce it, start the goroutine, answer 202.\<close>

definition create_insert :: "'w nmgr_config \<Rightarrow> create_node \<Rightarrow> 'w nmgr_state \<Rightarrow>
    nmgr_payload reply \<times> 'w nmgr_state" where
  "create_insert c q s =
     (if nc_useK8s c \<and> cq_password q \<noteq> ''''
      then let (n, st) = ns_create (new_node q ''Pending'') (nm_store s);
               s = publish_event (EvPending n) (s\<lparr>nm_store := st\<rparr>);
               pq = \<lparr>pq_host = cq_host q, pq_user = cq_user q, pq_password = cq_password q,
                     pq_location = cq_location q\<rparr>
           in write_json 202 (NmNode n) (s\<lparr>nm_tasks := nm_tasks s @ [Provisioning n pq]\<rparr>)
      else let (n, st) = ns_create (new_node q '''') (nm_store s);
               s = publish_event (EvPending n) (s\<lparr>nm_store := st\<rparr>)
           in write_json 202 (NmNode n) (s\<lparr>nm_tasks := nm_tasks s @ [MockReady n]\<rparr>))"

definition nm_create :: "'w nmgr_config \<Rightarrow> 'w nmgr_handler_t" where
  "nm_create c r s =
     (case Option.bind (rq_body r) nb_create of
        None \<Rightarrow> write_error 400 ''validation_failed'' ''invalid request body'' s
      | Some q \<Rightarrow>
         (case create_checks c q s of
            Some refusal \<Rightarrow> (refusal, s)
          | None \<Rightarrow> create_insert c q s))"

text \<open>What a goroutine of \<open>create\<close> does when it comes to run.\<close>

definition run_task :: "'w nmgr_config \<Rightarrow> task \<Rightarrow> 'w nmgr_state \<Rightarrow> 'w nmgr_state" where
  "run_task c t s =
     (case t of
        MockReady n \<Rightarrow>
          (case ns_setStatus (nd_id n) ''Ready'' (nm_store s) of
             (True, st) \<Rightarrow> publish_event (EvReady (n\<lparr>nd_status := ''Ready''\<rparr>)) (s\<lparr>nm_store := st\<rparr>)
           | (False, st) \<Rightarrow> s\<lparr>nm_store := st\<rparr>)
      | Provisioning n pq \<Rightarrow>
          (case nm_provision (nc_mgr c) pq (nm_world s) of
             (Some e, w) \<Rightarrow>
               publish_event (EvError (nd_id n) e)
                 (s\<lparr>nm_world := w, nm_store := snd (ns_setStatus (nd_id n) ''Error'' (nm_store s))\<rparr>)
           | (None, w) \<Rightarrow>
               publish_event (EvReadyId (nd_id n))
                 (s\<lparr>nm_world := w, nm_store := snd (ns_delete (nd_id n) (nm_store s))\<rparr>)))"

definition getNotesFromDB :: "'w nmgr_config \<Rightarrow> string \<Rightarrow> 'w nmgr_state \<Rightarrow> node_note list option" where
  "getNotesFromDB c i s =
     (case nc_db c of
        None \<Rightarrow> (case ns_notes i (nm_store s) of [] \<Rightarrow> None | ns \<Rightarrow> Some ns)
      | Some db \<Rightarrow> (case db_list db i (nm_world s) of Inl _ \<Rightarrow> None | Inr ns \<Rightarrow> Some ns))"

definition nm_get :: "'w nmgr_config \<Rightarrow> 'w nmgr_handler_t" where
  "nm_get c r s =
     (let i = rq_path r ''nodeId'';
          from_store = (case ns_get i (nm_store s) of
                          None \<Rightarrow> nm_not_found s
                        | Some n \<Rightarrow> write_json 200 (NmStoreDetail n (ns_notes i (nm_store s))) s)
      in if nc_useK8s c
         then (case nm_getDetail (nc_mgr c) i (nm_world s) of
                 Inr d \<Rightarrow>
                   let ags = nm_listPods (nc_mgr c) i (nm_world s);
                       n = mergeNodeMetrics s ((dt_node d)\<lparr>nd_agents := int (length ags)\<rparr>)
                   in write_json 200 (NmDetail (d\<lparr>dt_node := n, dt_agents := ags,
                        dt_notes := (case getNotesFromDB c i s of None \<Rightarrow> [] | Some ns \<Rightarrow> ns)\<rparr>)) s
               | Inl _ \<Rightarrow> from_store)
         else from_store)"

definition nm_update :: "'w nmgr_config \<Rightarrow> 'w nmgr_handler_t" where
  "nm_update c r s =
     (case Option.bind (rq_body r) nb_patch of
        None \<Rightarrow> write_error 400 ''validation_failed'' ''invalid request body'' s
      | Some u \<Rightarrow>
         (case ns_update u (rq_path r ''nodeId'') (nm_store s) of
            (None, st) \<Rightarrow> nm_not_found (s\<lparr>nm_store := st\<rparr>)
          | (Some n, st) \<Rightarrow> write_json 200 (NmNode n) (s\<lparr>nm_store := st\<rparr>)))"

definition ready_count :: "'a node_scheme list \<Rightarrow> nat" where
  "ready_count ns = length (filter (\<lambda>n. nd_status n = ''Ready'') ns)"

definition countReadyNodes :: "'w nmgr_config \<Rightarrow> 'w nmgr_state \<Rightarrow> nat" where
  "countReadyNodes c s =
     (if nc_useK8s c
      then (case nm_listNodes (nc_mgr c) (nm_world s) of Inl _ \<Rightarrow> 0 | Inr ns \<Rightarrow> ready_count ns)
      else ready_count (ns_list (nm_store s)))"

definition minReadyNodes :: nat where
  "minReadyNodes = 4"

definition nm_del :: "'w nmgr_config \<Rightarrow> 'w nmgr_handler_t" where
  "nm_del c r s =
     (let i = rq_path r ''nodeId''
      in case ns_delete i (nm_store s) of
           (True, st) \<Rightarrow> (Status 202, s\<lparr>nm_store := st\<rparr>)
         | (False, _) \<Rightarrow>
             if nc_useK8s c
             then if countReadyNodes c s < minReadyNodes
                  then write_error 409 ''insufficient_nodes''
                         ''cannot delete: cluster must maintain at least 3 Ready nodes'' s
                  else (case nm_drain (nc_mgr c) i (nm_world s) of
                          (Some e, w) \<Rightarrow> write_error 500 ''delete_failed'' e (s\<lparr>nm_world := w\<rparr>)
                        | (None, w) \<Rightarrow> (Status 202, s\<lparr>nm_world := w\<rparr>))
             else nm_not_found s)"

definition nm_start :: "'w nmgr_config \<Rightarrow> 'w nmgr_handler_t" where
  "nm_start c r s =
     (let i = rq_path r ''nodeId''
      in if nc_useK8s c
         then (case nm_uncordon (nc_mgr c) i (nm_world s) of
                 (Some _, w) \<Rightarrow> nm_not_found (s\<lparr>nm_world := w\<rparr>)
               | (None, w) \<Rightarrow> (Status 202, s\<lparr>nm_world := w\<rparr>))
         else (case ns_setStatus i ''Ready'' (nm_store s) of
                 (False, st) \<Rightarrow> nm_not_found (s\<lparr>nm_store := st\<rparr>)
               | (True, st) \<Rightarrow> (Status 202, s\<lparr>nm_store := st\<rparr>)))"

definition nm_stop :: "'w nmgr_config \<Rightarrow> 'w nmgr_handler_t" where
  "nm_stop c r s =
     (let i = rq_path r ''nodeId''
      in if countReadyNodes c s < minReadyNodes
         then write_error 409 ''insufficient_nodes''
                ''cannot stop: cluster must maintain at least 3 Ready nodes'' s
         else if nc_useK8s c
         then (case nm_cordon (nc_mgr c) i (nm_world s) of
                 (Some _, w) \<Rightarrow> nm_not_found (s\<lparr>nm_world := w\<rparr>)
               | (None, w) \<Rightarrow> (Status 202, s\<lparr>nm_world := w\<rparr>))
         else (case ns_setStatus i ''SchedulingDisabled'' (nm_store s) of
                 (False, st) \<Rightarrow> nm_not_found (s\<lparr>nm_store := st\<rparr>)
               | (True, st) \<Rightarrow> (Status 202, s\<lparr>nm_store := st\<rparr>)))"

definition nm_listNotes :: "'w nmgr_config \<Rightarrow> 'w nmgr_handler_t" where
  "nm_listNotes c r s =
     (let i = rq_path r ''nodeId''
      in case nc_db c of
           Some _ \<Rightarrow> write_json 200 (NmNotes (getNotesFromDB c i s)) s
         | None \<Rightarrow> write_json 200 (NmNotes (Some (ns_notes i (nm_store s)))) s)"

definition nm_addNote :: "'w nmgr_config \<Rightarrow> 'w nmgr_handler_t" where
  "nm_addNote c r s =
     (let i = rq_path r ''nodeId'';
          author = (case rq_principal r of None \<Rightarrow> ''system'' | Some p \<Rightarrow> p_username p)
      in case rq_body r of
           None \<Rightarrow> write_error 400 ''validation_failed'' ''text is required'' s
         | Some b \<Rightarrow>
             if nb_text b = '''' then write_error 400 ''validation_failed'' ''text is required'' s
             else (case nc_db c of
                     Some db \<Rightarrow>
                      (case db_add db i author (nb_text b) (nm_world s) of
                         (Inl e, w) \<Rightarrow> write_error 500 ''db_error'' e (s\<lparr>nm_world := w\<rparr>)
                       | (Inr created, w) \<Rightarrow>
                           write_json 201 (NmNote \<lparr>nt_author = author, nt_createdAt = created,
                             nt_text = nb_text b\<rparr>) (s\<lparr>nm_world := w\<rparr>))
                   | None \<Rightarrow>
                       let (n, st) = ns_addNote (rq_now r) i
                             \<lparr>nt_author = author, nt_createdAt = '''', nt_text = nb_text b\<rparr> (nm_store s)
                       in write_json 201 (NmNote n) (s\<lparr>nm_store := st\<rparr>)))"

definition nm_ingestMetrics :: "'w nmgr_handler_t" where
  "nm_ingestMetrics r s =
     (case Option.bind (rq_body r) nb_report of
        None \<Rightarrow> write_error 400 ''validation_failed'' ''invalid metrics report'' s
      | Some rep \<Rightarrow>
          if mr_node rep = '''' then write_error 400 ''validation_failed'' ''nodeName is required'' s
          else (Status 204, s\<lparr>nm_metrics := (nm_metrics s)(mr_node rep \<mapsto>
                  \<lparr>me_report = rep, me_received = nm_clock s\<rparr>)\<rparr>))"

section \<open>Routes\<close>

datatype nmgr_route =
    NmList | NmCreate | NmGet | NmUpdate | NmDelete | NmStart | NmStop | NmListNotes | NmAddNote

fun nmgr_role :: "nmgr_route \<Rightarrow> string" where
  "nmgr_role NmList = ''node-view''"
| "nmgr_role NmCreate = ''node-create''"
| "nmgr_role NmGet = ''node-view''"
| "nmgr_role NmUpdate = ''node-update''"
| "nmgr_role NmDelete = ''node-delete''"
| "nmgr_role NmStart = ''node-update''"
| "nmgr_role NmStop = ''node-update''"
| "nmgr_role NmListNotes = ''node-view''"
| "nmgr_role NmAddNote = ''node-update''"

fun nmgr_handle :: "'w nmgr_config \<Rightarrow> nmgr_route \<Rightarrow> 'w nmgr_handler_t" where
  "nmgr_handle c NmList = nm_list c"
| "nmgr_handle c NmCreate = nm_create c"
| "nmgr_handle c NmGet = nm_get c"
| "nmgr_handle c NmUpdate = nm_update c"
| "nmgr_handle c NmDelete = nm_del c"
| "nmgr_handle c NmStart = nm_start c"
| "nmgr_handle c NmStop = nm_stop c"
| "nmgr_handle c NmListNotes = nm_listNotes c"
| "nmgr_handle c NmAddNote = nm_addNote c"

definition nmgr_serve :: "'w nmgr_config \<Rightarrow> bao_env \<Rightarrow> nmgr_route \<Rightarrow> 'w nmgr_handler_t" where
  "nmgr_serve c env rt = guarded env (nmgr_role rt) (nmgr_handle c rt)"

text \<open>The metrics endpoint is guarded by the shared key instead of a role.\<close>

definition nmgr_ingest :: "string \<Rightarrow> 'w nmgr_handler_t" where
  "nmgr_ingest key = chain nm_ingestMetrics [internalAuth key]"

section \<open>Contracts\<close>

definition node_ids :: "node_store \<Rightarrow> string list" where
  "node_ids s = map nd_id (nodes s)"

lemma patch_node_id [simp]: "nd_id (patch_node u n) = nd_id n"
  by (simp add: patch_node_def Let_def split: option.split)

definition created_key :: "node \<Rightarrow> node_store \<Rightarrow> string" where
  "created_key n s = (if nd_id n = '''' then node_key (length (nodes s) + 1) else nd_id n)"

interpretation nd: creating_store node_ids ns_get ns_update created_key ns_create
proof (unfold_locales, goal_cases)
  case (1 k s) show ?case by (simp add: ns_get_def node_ids_def find_key_None)
next
  case (2 u k s) show ?case
    by (simp add: ns_update_def node_ids_def Let_def upd_found split: option.split)
next
  case (3 u k s) show ?case
    by (simp add: ns_update_def ns_get_def Let_def upd_found split: option.split)
next
  case (4 k' k u s) then show ?case
    by (simp add: ns_update_def ns_get_def Let_def upd_found split: option.split)
next
  case (5 c s) show ?case by (simp add: ns_create_def node_ids_def created_key_def Let_def)
next
  case (6 c s) then have "ns_get (created_key c s) s = None"
    by (simp add: ns_get_def node_ids_def find_key_None)
  then show ?case
    by (simp add: ns_create_def ns_get_def find_key_append created_key_def Let_def)
next
  case (7 k s c) then have "ns_get k s \<noteq> None"
    by (simp add: ns_get_def node_ids_def find_key_None)
  then show ?case by (auto simp: ns_create_def ns_get_def find_key_append Let_def)
qed

interpretation ndd: deleting_store node_ids ns_get ns_update ns_delete
proof (unfold_locales, goal_cases)
  case (1 k s) show ?case
    using find_key_None [of nd_id k "nodes s"]
    by (auto simp: ns_delete_def node_ids_def split: option.split)
next
  case (2 k s) show ?case
    using find_key_None [of nd_id k "nodes s"]
    by (auto simp: ns_delete_def node_ids_def map_del_key remove1_idem split: option.split)
next
  case (3 k' k s) then show ?case
    by (simp add: ns_delete_def ns_get_def find_key_del_other split: option.split)
qed

lemmas nm_handler_defs = nm_list_def nm_create_def nm_get_def nm_update_def nm_del_def
  nm_start_def nm_stop_def nm_listNotes_def nm_addNote_def nm_not_found_def

interpretation ndr: rbac_component "nmgr_handle c" nmgr_role "''node-view''" for c :: "'w nmgr_config"
proof
  fix rt r and s :: "'w nmgr_state" assume "nmgr_role rt = ''node-view''"
  then show "snd (nmgr_handle c rt r s) = s"
    by (cases rt) (simp_all add: nm_handler_defs Let_def split: option.split sum.split)
qed

section \<open>The system over time\<close>

text \<open>
  One step: a guarded request, a metrics report, a goroutine of \<open>create\<close> coming to run, a metrics
  cycle, or the outside world (cluster, database, clock) moving on.
\<close>

inductive nmgr_step :: "'w nmgr_config \<Rightarrow> 'w nmgr_state \<Rightarrow> 'w nmgr_state \<Rightarrow> bool" for c where
  serve: "nmgr_step c s (snd (nmgr_serve c env rt r s))"
| ingest: "nmgr_step c s (snd (nmgr_ingest key r s))"
| task: "t \<in> set (nm_tasks s) \<Longrightarrow>
    nmgr_step c s (run_task c t (s\<lparr>nm_tasks := remove1 t (nm_tasks s)\<rparr>))"
| collect: "nmgr_step c s (collectAndPublishMetrics c rnd s)"
| outside: "0 \<le> d \<Longrightarrow> nmgr_step c s (s\<lparr>nm_world := w, nm_clock := nm_clock s + d\<rparr>)"

text \<open>
  \<open>publishMetrics\<close>: a cycle for every tick of its clock. A tick brings the draws of the cycle, the time since
  the last one, and the cluster as it is then. So the loop is made of the steps above.
\<close>

fun publishMetrics :: "'w nmgr_config \<Rightarrow> ((nat \<Rightarrow> draws) \<times> int \<times> 'w) list \<Rightarrow> 'w nmgr_state \<Rightarrow> 'w nmgr_state" where
  "publishMetrics c [] s = s"
| "publishMetrics c ((rnd, d, w) # ticks) s =
     publishMetrics c ticks (collectAndPublishMetrics c rnd (s\<lparr>nm_world := w, nm_clock := nm_clock s + d\<rparr>))"

lemma publishing_steps:
  "\<forall>(rnd, d, w) \<in> set ticks. 0 \<le> d \<Longrightarrow> (nmgr_step c)\<^sup>*\<^sup>* s (publishMetrics c ticks s)"
proof (induction ticks arbitrary: s)
  case (Cons t ticks)
  obtain rnd d w where t: "t = (rnd, d, w)" by (cases t)
  let ?s = "s\<lparr>nm_world := w, nm_clock := nm_clock s + d\<rparr>"
  have "nmgr_step c s ?s" using Cons.prems by (intro nmgr_step.outside) (simp add: t)
  moreover have "nmgr_step c ?s (collectAndPublishMetrics c rnd ?s)" by (rule nmgr_step.collect)
  moreover have "(nmgr_step c)\<^sup>*\<^sup>* (collectAndPublishMetrics c rnd ?s) (publishMetrics c (t # ticks) s)"
    using Cons by (simp add: t)
  ultimately show ?case by (meson converse_rtranclp_into_rtranclp)
qed simp

definition nmgr_init :: "'w \<Rightarrow> 'w nmgr_state" where
  "nmgr_init w = \<lparr>nm_store = nmgr_newStore, nm_world = w, nm_metrics = Map.empty, nm_clock = 0,
     nm_tasks = [], nm_events = []\<rparr>"

text \<open>Every stored node has its own address, a name and one of four states.\<close>

definition node_ok :: "node \<Rightarrow> bool" where
  "node_ok n \<longleftrightarrow> nd_ip n \<noteq> '''' \<and> nd_id n \<noteq> '''' \<and>
     nd_status n \<in> {''Pending'', ''Ready'', ''SchedulingDisabled'', ''Error''}"

definition ns_ok :: "node_store \<Rightarrow> bool" where
  "ns_ok st \<longleftrightarrow> distinct (map nd_ip (nodes st)) \<and> list_all node_ok (nodes st)"

lemma ns_ok_upd:
  assumes "ns_ok st" and "find_key nd_id i (nodes st) = Some n"
    and "nd_ip n' = nd_ip n" and "node_ok n'"
  shows "ns_ok (st\<lparr>nodes := upd_key nd_id i n' (nodes st)\<rparr>)"
proof -
  have ips: "map nd_ip (upd_key nd_id i n' xs) = map nd_ip xs"
    if "find_key nd_id i xs = Some n" for xs
    using that assms(3) by (induction xs) (auto split: if_splits)
  have "set (upd_key nd_id i n' (nodes st)) \<subseteq> insert n' (set (nodes st))"
    by (rule set_upd_key_subset)
  with assms ips [OF assms(2)] show ?thesis
    by (auto simp: ns_ok_def list_all_iff)
qed

lemma ns_ok_find: "ns_ok st \<Longrightarrow> find_key nd_id i (nodes st) = Some n \<Longrightarrow> node_ok n"
  using find_key_mem [of nd_id i "nodes st" n] by (auto simp: ns_ok_def list_all_iff)

lemma ns_ok_ops:
  assumes "ns_ok st"
  shows "ns_ok (snd (ns_update u i st))"
    and "status \<in> {''Pending'', ''Ready'', ''SchedulingDisabled'', ''Error''} \<Longrightarrow>
      ns_ok (snd (ns_setStatus i status st))"
    and "ns_ok (snd (ns_delete i st))" and "ns_ok (snd (ns_addNote now i note st))"
proof -
  have patch: "nd_ip (patch_node u n) = nd_ip n" "nd_status (patch_node u n) = nd_status n" for n
    by (simp_all add: patch_node_def Let_def split: option.split)
  show "ns_ok (snd (ns_update u i st))"
    using assms ns_ok_upd [OF assms] ns_ok_find [OF assms]
    by (simp add: ns_update_def Let_def patch node_ok_def split: option.split)
  show "status \<in> {''Pending'', ''Ready'', ''SchedulingDisabled'', ''Error''} \<Longrightarrow>
      ns_ok (snd (ns_setStatus i status st))"
    using assms ns_ok_upd [OF assms] ns_ok_find [OF assms]
    by (simp add: ns_setStatus_def node_ok_def split: option.split)
  have "distinct (map nd_ip (del_key nd_id i xs)) \<and> set (del_key nd_id i xs) \<subseteq> set xs"
    if "distinct (map nd_ip xs)" for xs
    using that set_del_key_subset [of nd_id i] by (induction xs) (auto dest: subsetD)
  then show "ns_ok (snd (ns_delete i st))"
    using assms by (auto simp: ns_delete_def ns_ok_def list_all_iff split: option.split)
  show "ns_ok (snd (ns_addNote now i note st))"
    using assms by (simp add: ns_addNote_def ns_ok_def Let_def)
qed

lemma ns_ok_create:
  assumes "ns_ok st" and "nd_ip n \<noteq> ''''" and "nd_ip n \<notin> set (map nd_ip (nodes st))"
    and "nd_status n \<in> {'''', ''Pending''}"
  shows "ns_ok (snd (ns_create n st))"
  using assms by (auto simp: ns_create_def ns_ok_def node_ok_def Let_def node_key_def)

lemma ns_ok_jitter: "ns_ok st \<Longrightarrow> ns_ok (jitterMetrics rnd st)"
proof -
  have j: "nd_ip (jitter_node d n) = nd_ip n" "nd_id (jitter_node d n) = nd_id n"
    "nd_status (jitter_node d n) = nd_status n" for d n
    by (simp_all add: jitter_node_def Let_def split: prod.split)
  have ips: "map nd_ip (map (\<lambda>(i, n). jitter_node (rnd i) n) (enumerate k xs)) = map nd_ip xs" for k xs
    by (induction xs arbitrary: k) (simp_all add: j)
  have ok: "list_all node_ok xs \<Longrightarrow>
      list_all node_ok (map (\<lambda>(i, n). jitter_node (rnd i) n) (enumerate k xs))" for k xs
    by (induction xs arbitrary: k) (simp_all add: j node_ok_def)
  show "ns_ok st \<Longrightarrow> ns_ok (jitterMetrics rnd st)"
    using ips [of 0 "nodes st"] ok [of "nodes st" 0] by (simp add: ns_ok_def jitterMetrics_def)
qed

lemma checks_pass:
  assumes "create_checks c q s = None"
  shows "cq_host q \<noteq> ''''" and "cq_host q \<notin> set (map nd_ip (nodes (nm_store s)))"
    and "cq_name q \<noteq> '''' \<Longrightarrow> ns_get (cq_name q) (nm_store s) = None"
  using assms by (auto simp: create_checks_def ns_list_def list_ex_iff split: if_splits)

lemma create_insert_store:
  "nm_store (snd (create_insert c q s)) = snd (ns_create
     (new_node q (if nc_useK8s c \<and> cq_password q \<noteq> '''' then ''Pending'' else '''')) (nm_store s))"
  by (simp add: create_insert_def publish_event_def write_json_def Let_def split: prod.split)

lemma nmgr_handle_ok:
  assumes "ns_ok (nm_store s)"
  shows "ns_ok (nm_store (snd (nmgr_handle c rt r s)))"
proof (cases rt)
  case NmCreate
  have "ns_ok (nm_store (snd (create_insert c q s)))" if "create_checks c q s = None" for q
    unfolding create_insert_store
    by (rule ns_ok_create [OF assms]) (use checks_pass [OF that] in \<open>auto simp: new_node_def\<close>)
  with NmCreate assms show ?thesis by (simp add: nm_create_def split: option.split)
next
  case NmUpdate
  with assms ns_ok_ops(1) [OF assms] show ?thesis
    by (auto simp: nm_handler_defs split: option.split prod.split) (metis snd_conv)+
next
  case NmDelete
  with assms ns_ok_ops(3) [OF assms, of "rq_path r ''nodeId''"] show ?thesis
    by (auto simp: nm_handler_defs Let_def split: option.split prod.split bool.split)
next
  case NmStart
  with assms ns_ok_ops(2) [OF assms, of "''Ready''" "rq_path r ''nodeId''"] show ?thesis
    by (auto simp: nm_handler_defs Let_def split: option.split prod.split bool.split)
next
  case NmStop
  with assms ns_ok_ops(2) [OF assms, of "''SchedulingDisabled''" "rq_path r ''nodeId''"] show ?thesis
    by (auto simp: nm_handler_defs Let_def split: option.split prod.split bool.split)
next
  case NmAddNote
  with assms ns_ok_ops(4) [OF assms] show ?thesis
    by (auto simp: nm_handler_defs Let_def split: option.split prod.split sum.split) (metis snd_conv)+
qed (use assms in \<open>simp_all add: nm_handler_defs Let_def split: option.split sum.split\<close>)

lemma nmgr_step_ok: "nmgr_step c s s' \<Longrightarrow> ns_ok (nm_store s) \<Longrightarrow> ns_ok (nm_store s')"
proof (induction rule: nmgr_step.induct)
  case (serve s env rt r)
  then show ?case
    unfolding nmgr_serve_def
    by (intro guarded_keeps [where I = "\<lambda>s. ns_ok (nm_store s)"])
      (use guarded_cases [of env r "nmgr_role rt" "nmgr_handle c rt" s] in
        \<open>auto intro: nmgr_handle_ok\<close>)
next
  case (ingest s key r)
  then show ?case
    by (simp add: nmgr_ingest_def internalAuth_def nm_ingestMetrics_def write_error_def Let_def
        split: option.split)
next
  case (task t s)
  then show ?case
    using ns_ok_ops(2) [of "nm_store s" "''Ready''"] ns_ok_ops(2) [of "nm_store s" "''Error''"]
      ns_ok_ops(3) [of "nm_store s"]
    by (auto simp: run_task_def publish_event_def split: task.split prod.split bool.split option.split)
      (metis snd_conv)+
next
  case (collect s rnd)
  then show ?case
    by (simp add: collectAndPublishMetrics_def publish_event_def ns_ok_jitter Let_def
        split: sum.split)
qed simp

lemma nmgr_steps_ok: "(nmgr_step c)\<^sup>*\<^sup>* s s' \<Longrightarrow> ns_ok (nm_store s) \<Longrightarrow> ns_ok (nm_store s')"
  by (induction rule: rtranclp_induct) (auto dest: nmgr_step_ok)

section \<open>Properties\<close>


definition demo_mgr :: "string list node_mgr" where
  "demo_mgr =
     \<lparr>nm_listNodes = (\<lambda>w. Inr []), nm_getNode = (\<lambda>n w. Inl ''not found''),
      nm_getDetail = (\<lambda>n w. Inl ''not found''), nm_cordon = (\<lambda>n w. (None, w)),
      nm_uncordon = (\<lambda>n w. (None, w)), nm_countPods = (\<lambda>n w. 0), nm_listPods = (\<lambda>n w. []),
      nm_drain = (\<lambda>n w. (None, w)), nm_provision = (\<lambda>q w. (None, pq_host q # w))\<rparr>"

definition demo_nmgr :: "bool \<Rightarrow> string list nmgr_config" where
  "demo_nmgr k8s = \<lparr>nc_useK8s = k8s, nc_mgr = demo_mgr, nc_db = None\<rparr>"

definition demo_node :: "string \<Rightarrow> create_node" where
  "demo_node name = \<lparr>cq_name = name, cq_host = ''10.0.0.7'', cq_user = ''root'', cq_password = '''',
     cq_location = '''', cq_tags = []\<rparr>"


text \<open>
  Uniqueness of nodes rests on requests not overlapping. If two create requests for the
  same host, or under the same name, both run their checks before either inserts its node,
  both are accepted and the store holds the host (or the name) twice.
\<close>

theorem create_race:
  assumes "create_checks c q s = None" and "create_checks c q' s = None"
    and "cq_host q = cq_host q' \<or> cq_name q = cq_name q' \<and> cq_name q \<noteq> ''''"
  shows "let (reply1, s1) = create_insert c q s; (reply2, s2) = create_insert c q' s1
    in reply_code reply1 = Some 202 \<and> reply_code reply2 = Some 202 \<and>
       (\<not> distinct (map nd_ip (nodes (nm_store s2))) \<or> \<not> distinct (map nd_id (nodes (nm_store s2))))"
proof -
  have code: "reply_code (fst (create_insert c q s)) = Some 202" for q s
    by (simp add: create_insert_def write_json_def Let_def split: prod.split)
  have ips: "map nd_ip (nodes (nm_store (snd (create_insert c q s)))) =
      map nd_ip (nodes (nm_store s)) @ [cq_host q]" for q s
    unfolding create_insert_store by (simp add: ns_create_def new_node_def Let_def)
  have ids: "cq_name q \<noteq> '''' \<Longrightarrow> map nd_id (nodes (nm_store (snd (create_insert c q s)))) =
      map nd_id (nodes (nm_store s)) @ [cq_name q]" for q s
    unfolding create_insert_store by (simp add: ns_create_def new_node_def Let_def)
  show ?thesis
    using assms(3) ids [of q s] ids [of q' "snd (create_insert c q s)"]
    unfolding Let_def split_beta by (auto simp: code ips)
qed

theorem create_race_witness:
  "let c = demo_nmgr True; s = nmgr_init [];
       s2 = snd (create_insert c (demo_node ''n2'') (snd (create_insert c (demo_node ''n1'') s)))
   in \<not> distinct (map nd_ip (nodes (nm_store s2))) \<or> \<not> distinct (map nd_id (nodes (nm_store s2)))"
proof -
  have ok: "create_checks (demo_nmgr True) (demo_node [CHR ''n'', x]) (nmgr_init []) = None"
    if "x = CHR ''1'' \<or> x = CHR ''2''" for x
    using that by (auto simp: create_checks_def demo_node_def demo_nmgr_def demo_mgr_def nmgr_init_def
        nmgr_newStore_def ns_get_def ns_list_def name_char_def)
  show ?thesis
    using create_race [OF ok [of "CHR ''1''"] ok [of "CHR ''2''"]]
    by (simp add: demo_node_def Let_def split_beta)
qed

lemma ready_count_upd:
  "ready_count xs \<le> Suc (ready_count (upd_key nd_id i n' xs))"
  by (induction xs) (auto simp: ready_count_def)


text \<open>
  Deletion does not keep that minimum. A node that is in the store is deleted at once,
  whatever its state and however few ready nodes there are: the last ready node can be
  deleted, although stopping it would be refused.
\<close>

theorem delete_ignores_minimum:
  assumes "\<not> nc_useK8s c" and "ns_get (rq_path r ''nodeId'') (nm_store s) = Some n"
    and "nd_status n = ''Ready''" and "countReadyNodes c s = 1"
  shows "fst (nm_del c r s) = Status 202 \<and> countReadyNodes c (snd (nm_del c r s)) = 0 \<and>
    reply_code (fst (nm_stop c r s)) = Some 409"
proof -
  have "ready_count xs = Suc (ready_count (del_key nd_id i xs))"
    if "find_key nd_id i xs = Some n" for i xs
    using that assms(3) by (induction xs) (auto simp: ready_count_def split: if_splits)
  with assms show ?thesis
    by (auto simp: nm_del_def nm_stop_def ns_delete_def ns_get_def countReadyNodes_def ns_list_def
        minReadyNodes_def write_error_def Let_def)
qed

definition demo_ready :: "string list nmgr_state" where
  "demo_ready = (nmgr_init [])\<lparr>nm_store := nmgr_newStore\<lparr>nodes := [new_node (demo_node ''n1'') ''Ready'']\<rparr>\<rparr>"

theorem delete_ignores_minimum_witness:
  "countReadyNodes (demo_nmgr False) (snd (nm_del (demo_nmgr False) (demo_req (\<lambda>k. ''n1'') None) demo_ready)) = 0"
proof -
  have "fst (nm_del (demo_nmgr False) (demo_req (\<lambda>k. ''n1'') None) demo_ready) = Status 202 \<and>
    countReadyNodes (demo_nmgr False) (snd (nm_del (demo_nmgr False) (demo_req (\<lambda>k. ''n1'') None) demo_ready)) = 0 \<and>
    reply_code (fst (nm_stop (demo_nmgr False) (demo_req (\<lambda>k. ''n1'') None) demo_ready)) = Some 409"
    by (rule delete_ignores_minimum [where n = "new_node (demo_node ''n1'') ''Ready''"])
      (simp_all add: demo_nmgr_def demo_req_def demo_ready_def ns_get_def new_node_def demo_node_def
        countReadyNodes_def ns_list_def ready_count_def nmgr_init_def nmgr_newStore_def)
  then show ?thesis by simp
qed

text \<open>
  Against the cluster, a create request without a password provisions nothing and yet
  ends with a ready node: it is accepted, its goroutine makes no call to the cluster, and once
  that has run the node is reported ready.
\<close>

theorem ready_without_provisioning:
  assumes "nc_useK8s c" and "cq_password q = ''''" and "cq_name q \<noteq> ''''"
    and "create_checks c q s = None" and "nm_tasks s = []"
  shows "let s1 = snd (create_insert c q s); n = new_node q ''Pending'';
             s2 = run_task c (MockReady n) (s1\<lparr>nm_tasks := []\<rparr>)
    in fst (create_insert c q s) = Reply 202 (NmNode n) \<and> nm_tasks s1 = [MockReady n] \<and>
       nm_world s2 = nm_world s \<and> ns_get (cq_name q) (nm_store s2) = Some (new_node q ''Ready'')"
proof -
  let ?n = "new_node q ''Pending''"
  let ?st = "(nm_store s)\<lparr>nodes := nodes (nm_store s) @ [?n]\<rparr>"
  have ins: "ns_create (new_node q '''') (nm_store s) = (?n, ?st)"
    using assms(3) by (simp add: ns_create_def new_node_def Let_def)
  have run: "create_insert c q s = (Reply 202 (NmNode ?n), s\<lparr>nm_store := ?st,
      nm_events := nm_events s @ [EvPending ?n], nm_tasks := [MockReady ?n]\<rparr>)"
    using assms(2,5) by (simp add: create_insert_def ins publish_event_def write_json_def)
  have find: "find_key nd_id (cq_name q) (nodes ?st) = Some ?n"
    using checks_pass(3) [OF assms(4,3)]
    by (simp add: ns_get_def find_key_append) (simp add: new_node_def)
  have id: "nd_id ?n = cq_name q" and st: "?n\<lparr>nd_status := ''Ready''\<rparr> = new_node q ''Ready''"
    by (simp_all add: new_node_def)
  have "find_key nd_id (cq_name q) (upd_key nd_id (cq_name q) (new_node q ''Ready'') (nodes ?st)) =
      Some (new_node q ''Ready'')"
    by (rule upd_found(2) [OF find]) (simp add: new_node_def)
  then show ?thesis
    unfolding Let_def run fst_conv snd_conv
    by (simp add: run_task_def ns_setStatus_def id find [simplified] st publish_event_def ns_get_def)
qed

theorem ready_without_provisioning_witness:
  "let s1 = snd (create_insert (demo_nmgr True) (demo_node ''n1'') (nmgr_init []));
       s2 = run_task (demo_nmgr True) (MockReady (new_node (demo_node ''n1'') ''Pending''))
              (s1\<lparr>nm_tasks := []\<rparr>)
   in nm_world s2 = [] \<and> ns_get ''n1'' (nm_store s2) = Some (new_node (demo_node ''n1'') ''Ready'')"
proof -
  have ok: "create_checks (demo_nmgr True) (demo_node ''n1'') (nmgr_init []) = None"
    by (simp add: create_checks_def demo_node_def demo_nmgr_def demo_mgr_def nmgr_init_def
        nmgr_newStore_def ns_get_def ns_list_def name_char_def)
  have "nc_useK8s (demo_nmgr True)" "cq_password (demo_node ''n1'') = ''''"
    "cq_name (demo_node ''n1'') \<noteq> ''''" "nm_tasks (nmgr_init ([] :: string list)) = []"
    "nm_world (nmgr_init ([] :: string list)) = []" "cq_name (demo_node ''n1'') = ''n1''"
    by (simp_all add: demo_nmgr_def demo_node_def nmgr_init_def)
  with ready_without_provisioning [OF this(1-3) ok this(4)] show ?thesis
    by (simp add: Let_def)
qed

text \<open>
  The metrics overlay never changes which node it is or how it stands: name, address,
  location, state and agents are kept. A report older than ten seconds changes nothing; a
  fresh one sets the load, and a total of zero leaves the reading it belongs to alone.
\<close>

theorem metrics_overlay:
  "let n' = mergeNodeMetrics s n
   in (nd_id n', nd_ip n', nd_location n', nd_status n', nd_agents n', nd_tags n') =
        (nd_id n, nd_ip n, nd_location n, nd_status n, nd_agents n, nd_tags n) \<and>
      (case nm_metrics s (nd_id n) of
         None \<Rightarrow> n' = n
       | Some e \<Rightarrow>
           if nm_clock s > me_received e + 10000000000 then n' = n
           else nd_load n' = mr_load (me_report e) \<and> cn_uptime n' = mr_uptime (me_report e) \<and>
             (nd_memUsed n', nd_memTotal n') =
               (if mr_memTotal (me_report e) > 0
                then (gb (mr_memUsed (me_report e)), gb (mr_memTotal (me_report e)))
                else (nd_memUsed n, nd_memTotal n)) \<and>
             (nd_diskUsed n', nd_diskTotal n') =
               (if mr_diskTotal (me_report e) > 0
                then (gb (mr_diskUsed (me_report e)), gb (mr_diskTotal (me_report e)))
                else (nd_diskUsed n, nd_diskTotal n)))"
  by (cases "nm_metrics s (nd_id n)") (simp_all add: mergeNodeMetrics_def Let_def)

end
