(* ===== verification/Frames.thy ===== *)
theory Frames
  imports "HOL-Library.Word" Conv_Prelude
begin

text \<open>
  WebSocket framing. \<open>framing\<close> is the contract of a routine that wraps a payload into one
  unmasked text frame: a reader that follows RFC 6455 gets the payload back and is left at
  the first byte after the frame. \<open>read_frame\<close> is that reader. The API server and the agent wrapper
  each have a routine of this kind.
\<close>

type_synonym byte = "8 word"

section \<open>Big-endian numbers\<close>

definition byte_of :: "nat \<Rightarrow> byte" where
  "byte_of n = word_of_nat n"

fun be_val :: "byte list \<Rightarrow> nat" where
  "be_val bs = foldl (\<lambda>a b. 256 * a + unat b) 0 bs"

text \<open>\<open>binary.BigEndian.PutUint64\<close>: the eight bytes of a 64-bit number, highest first.\<close>

definition put_uint64 :: "64 word \<Rightarrow> byte list" where
  "put_uint64 v = map (\<lambda>i. ucast (drop_bit (8 * (7 - i)) v)) [0..<8]"

lemma unat_byte_of: "unat (byte_of n) = n mod 256"
  by (simp add: byte_of_def unat_of_nat)

lemma unat_drop_byte: "unat (ucast (drop_bit k v) :: byte) = (unat v div 2 ^ k) mod 256"
  for v :: "64 word"
proof -
  have "unat (ucast (drop_bit k v) :: byte) = take_bit 8 (drop_bit k (unat v))"
    by (simp only: unsigned_ucast_eq unsigned_drop_bit_eq)
      (use unsigned_less [where ?'a = nat and w = v] in \<open>simp add: take_bit_nat_eq_self\<close>)
  then show ?thesis by (simp add: drop_bit_eq_div take_bit_eq_mod)
qed

lemma be_val_put_uint64: "be_val (put_uint64 v) = unat v"
proof -
  let ?n = "unat v"
  have bound: "?n < 256 ^ 8" using unsigned_less [where ?'a = nat and w = v] by simp
  have be: "be_val (put_uint64 v) =
      256 * (256 * (256 * (256 * (256 * (256 * (256 * ((?n div 2 ^ 56) mod 256) +
        (?n div 2 ^ 48) mod 256) + (?n div 2 ^ 40) mod 256) + (?n div 2 ^ 32) mod 256) +
        (?n div 2 ^ 24) mod 256) + (?n div 2 ^ 16) mod 256) + (?n div 2 ^ 8) mod 256) + ?n mod 256"
    using unat_drop_byte [of 0 v] by (simp add: put_uint64_def upt_conv_Cons unat_drop_byte)
  have step: "256 * (n div (k * 256)) + (n div k) mod 256 = n div k" for n k :: nat
    by (simp add: div_mult2_eq)
  have top: "(?n div 2 ^ 56) mod 256 = ?n div 2 ^ 56"
    using bound by (simp add: less_mult_imp_div_less)
  have s0: "256 * (?n div 2 ^ 56) + (?n div 2 ^ 48) mod 256 = ?n div 2 ^ 48"
    using step [of ?n "2 ^ 48"] by simp
  have s1: "256 * (?n div 2 ^ 48) + (?n div 2 ^ 40) mod 256 = ?n div 2 ^ 40"
    using step [of ?n "2 ^ 40"] by simp
  have s2: "256 * (?n div 2 ^ 40) + (?n div 2 ^ 32) mod 256 = ?n div 2 ^ 32"
    using step [of ?n "2 ^ 32"] by simp
  have s3: "256 * (?n div 2 ^ 32) + (?n div 2 ^ 24) mod 256 = ?n div 2 ^ 24"
    using step [of ?n "2 ^ 24"] by simp
  have s4: "256 * (?n div 2 ^ 24) + (?n div 2 ^ 16) mod 256 = ?n div 2 ^ 16"
    using step [of ?n "2 ^ 16"] by simp
  have s5: "256 * (?n div 2 ^ 16) + (?n div 2 ^ 8) mod 256 = ?n div 2 ^ 8"
    using step [of ?n "2 ^ 8"] by simp
  have s6: "256 * (?n div 2 ^ 8) + ?n mod 256 = ?n"
    using step [of ?n 1] by simp
  show ?thesis unfolding be top s0 s1 s2 s3 s4 s5 s6 ..
qed

section \<open>Reading a frame\<close>

text \<open>
  The reader of the other side, for unmasked frames: first byte, length byte, extended length,
  payload. The first component is the first byte.
\<close>

definition take_exact :: "nat \<Rightarrow> byte list \<Rightarrow> (byte list \<times> byte list) option" where
  "take_exact n bs = (if n \<le> length bs then Some (take n bs, drop n bs) else None)"

definition read_payload :: "byte \<Rightarrow> nat \<Rightarrow> byte list \<Rightarrow> (byte \<times> byte list \<times> byte list) option" where
  "read_payload b0 n bs = map_option (\<lambda>(p, rest). (b0, p, rest)) (take_exact n bs)"

fun read_frame :: "byte list \<Rightarrow> (byte \<times> byte list \<times> byte list) option" where
  "read_frame (b0 # b1 # bs) =
     (let n = unat b1 in
      if n < 126 then read_payload b0 n bs
      else if n = 126
      then (case take_exact 2 bs of None \<Rightarrow> None | Some (l, bs') \<Rightarrow> read_payload b0 (be_val l) bs')
      else if n = 127
      then (case take_exact 8 bs of None \<Rightarrow> None | Some (l, bs') \<Rightarrow> read_payload b0 (be_val l) bs')
      else None)"
| "read_frame _ = None"

lemma take_exact_append [simp]: "take_exact (length p) (p @ rest) = Some (p, rest)"
  by (simp add: take_exact_def)

lemma read_payload_append [simp]: "read_payload b0 (length p) (p @ rest) = Some (b0, p, rest)"
  by (simp add: read_payload_def)

text \<open>Reading a given number of frames off a stream.\<close>

fun read_stream :: "nat \<Rightarrow> byte list \<Rightarrow> byte list list option" where
  "read_stream 0 bs = Some []"
| "read_stream (Suc n) bs =
     (case read_frame bs of
        None \<Rightarrow> None
      | Some (b, p, rest) \<Rightarrow> map_option ((#) p) (read_stream n rest))"

section \<open>The contract\<close>

locale framing =
  fixes frame :: "byte list \<Rightarrow> byte list"
    and first :: byte
  assumes read_back:
    "length p < 2 ^ 63 \<Longrightarrow> read_frame (frame p @ rest) = Some (first, p, rest)"
begin

text \<open>A reader of the whole stream gets every payload back, in order and unmerged.\<close>

lemma stream_back:
  "\<forall>p \<in> set ps. length p < 2 ^ 63 \<Longrightarrow> read_stream (length ps) (concat (map frame ps)) = Some ps"
  by (induction ps) (simp_all add: read_back)

lemma frame_inj:
  "length p < 2 ^ 63 \<Longrightarrow> length q < 2 ^ 63 \<Longrightarrow> frame p = frame q \<Longrightarrow> p = q"
  using read_back [of p "[]"] read_back [of q "[]"] by simp

end

text \<open>
  The routine both programs use, up to the first byte: a length below 126 in one byte, below
  65536 in three, any other in nine.
\<close>

definition frame_length :: "nat \<Rightarrow> byte list" where
  "frame_length n =
     (if n < 126 then [byte_of n]
      else if n < 65536 then [126, byte_of (n div 256), byte_of n]
      else 127 # put_uint64 (word_of_nat n))"

lemma read_frame_length:
  assumes "length p < 2 ^ 63"
  shows "read_frame (b0 # frame_length (length p) @ p @ rest) = Some (b0, p, rest)"
proof -
  let ?n = "length p"
  consider "?n < 126" | "126 \<le> ?n" "?n < 65536" | "65536 \<le> ?n" by linarith
  then show ?thesis
  proof cases
    case 1
    then show ?thesis by (simp add: frame_length_def unat_byte_of)
  next
    case 2
    then have "be_val [byte_of (?n div 256), byte_of ?n] = ?n"
      by (simp add: unat_byte_of)
    with 2 show ?thesis
      by (simp add: frame_length_def take_exact_def Let_def del: be_val.simps)
  next
    case 3
    have "unat (word_of_nat ?n :: 64 word) = ?n"
      using assms by (simp add: unat_of_nat)
    moreover have "length (put_uint64 v) = 8" for v by (simp add: put_uint64_def)
    ultimately show ?thesis
      using 3 by (simp add: frame_length_def take_exact_def be_val_put_uint64 Let_def del: be_val.simps)
  qed
qed

end
