(* ===== verification/Streams.thy ===== *)
theory Streams
  imports Main "HOL-Library.Sublist"
begin

text \<open>
  A consumer behind a bounded queue, as the event hub and the agent wrapper both have it: producers offer pieces
  without waiting, a piece is queued when there is room and dropped otherwise, and the consumer takes them in
  order. The locale says what one step does to the stream of a consumer, that is what it has taken
  followed by what waits; the lemma says what a run does.
\<close>

locale bounded_stream =
  fixes step :: "'op \<Rightarrow> 's \<Rightarrow> 's"
    and attached :: "'s \<Rightarrow> bool"
    and keeps :: "'op \<Rightarrow> bool"
    and stream :: "'s \<Rightarrow> 'm list"
    and waiting :: "'s \<Rightarrow> nat"
    and offered :: "'s \<Rightarrow> 'op \<Rightarrow> 'm list"
    and room :: nat
  assumes attached_step: "attached s \<Longrightarrow> keeps x \<Longrightarrow> attached (step x s)"
    and offered_step: "attached s \<Longrightarrow> keeps x \<Longrightarrow> offered (step x s) = offered s"
    and waiting_step: "attached s \<Longrightarrow> keeps x \<Longrightarrow> waiting (step x s) \<le> waiting s + length (offered s x)"
    and stream_step: "attached s \<Longrightarrow> keeps x \<Longrightarrow>
      stream (step x s) = stream s @ offered s x \<or> stream (step x s) = stream s \<and> room \<le> waiting s"
begin

lemma attached_run: "attached s \<Longrightarrow> \<forall>x \<in> set xs. keeps x \<Longrightarrow> attached (fold step xs s)"
  by (induction xs arbitrary: s) (simp_all add: attached_step)

text \<open>
  After a run the stream has grown by some of what was offered, in order, and by all of it when that fits
  into the queue.
\<close>

lemma stream_run:
  assumes "attached s" and "\<forall>x \<in> set xs. keeps x"
  shows "(\<exists>zs. subseq zs (concat (map (offered s) xs)) \<and> stream (fold step xs s) = stream s @ zs) \<and>
    (waiting s + length (concat (map (offered s) xs)) \<le> room \<longrightarrow>
       stream (fold step xs s) = stream s @ concat (map (offered s) xs))"
  using assms
proof (induction xs arbitrary: s)
  case Nil
  then show ?case by simp
next
  case (Cons x xs)
  let ?t = "step x s" and ?u = "fold step (x # xs) s"
  let ?y = "offered s x" and ?ys = "concat (map (offered s) xs)"
  have x: "keeps x" using Cons.prems(2) by simp
  note one = stream_step [OF Cons.prems(1) x] and few = waiting_step [OF Cons.prems(1) x]
  have IH: "(\<exists>zs. subseq zs ?ys \<and> stream ?u = stream ?t @ zs) \<and>
     (waiting ?t + length ?ys \<le> room \<longrightarrow> stream ?u = stream ?t @ ?ys)"
    using Cons.IH [OF attached_step [OF Cons.prems(1) x]] Cons.prems(2)
    by (simp add: offered_step [OF Cons.prems(1) x])
  then obtain zs where zs: "subseq zs ?ys" "stream ?u = stream ?t @ zs" by blast
  have "\<exists>ws. subseq ws (?y @ ?ys) \<and> stream ?u = stream s @ ws"
  proof (cases "stream ?t = stream s @ ?y")
    case True
    with zs show ?thesis by (intro exI [of _ "?y @ zs"]) (simp add: list_emb_append_mono)
  next
    case False
    with one have "stream ?t = stream s" by blast
    with zs show ?thesis by (intro exI [of _ zs]) (simp add: list_emb_append2)
  qed
  moreover have "stream ?u = stream s @ ?y @ ?ys" if fits: "waiting s + length (?y @ ?ys) \<le> room"
  proof -
    from fits few have "waiting ?t + length ?ys \<le> room" by simp
    with IH have u: "stream ?u = stream ?t @ ?ys" by blast
    have "stream ?t = stream s @ ?y"
    proof (cases ?y)
      case Nil
      with one show ?thesis by auto
    next
      case (Cons d ds)
      with fits have "\<not> room \<le> waiting s" by simp
      with one show ?thesis by blast
    qed
    with u show ?thesis by simp
  qed
  ultimately show ?case by simp
qed

end

end
