(* ===== verification/Events.thy ===== *)
theory Events
  imports Middleware Frames Streams "HOL-Library.AList"
begin

text \<open>
  The event hub and its HTTP endpoint (\<^verbatim>\<open>internal/events\<close>).

  Subscribers are heap objects in Go, shared between the hub and the goroutine that serves the
  connection; here they live in \<open>hub_heap\<close> and a pointer is an index into it. \<open>hub_subs\<close> is the map
  from channel to set of pointers. A subscriber carries the buffer of its Go channel,
  capacity 64, and \<open>sub_sent\<close>, the messages its connection has taken out of the buffer so far.
  Every hub method runs under the hub's lock, so a run of the hub is a sequence of \<open>hub_op\<close>s.
\<close>

section \<open>The hub\<close>

record event =
  ev_type :: string
  ev_timestamp :: string
  ev_payload :: string

record subscriber =
  sub_types :: "string list option"
  sub_buf :: "string list"
  sub_sent :: "string list"
  sub_closed :: bool
  sub_closes :: nat          \<comment> \<open>how often \<open>done\<close> has been closed\<close>

record hub =
  hub_subs :: "(string \<times> nat list) list"
  hub_heap :: "subscriber list"

definition defaultHub :: hub where
  "defaultHub = \<lparr>hub_subs = [], hub_heap = []\<rparr>"

definition subs_of :: "string \<Rightarrow> hub \<Rightarrow> nat list" where
  "subs_of ch h = (case map_of (hub_subs h) ch of None \<Rightarrow> [] | Some ps \<Rightarrow> ps)"

definition capacity :: nat where
  "capacity = 64"

definition subscribe :: "string \<Rightarrow> string list \<Rightarrow> hub \<Rightarrow> nat \<times> hub" where
  "subscribe ch typeFilter h =
     (let sub = \<lparr>sub_types = (if length typeFilter > 0 then Some typeFilter else None),
                 sub_buf = [], sub_sent = [], sub_closed = False, sub_closes = 0\<rparr>;
          p = length (hub_heap h)
      in (p, h\<lparr>hub_subs := AList.update ch (subs_of ch h @ [p]) (hub_subs h),
               hub_heap := hub_heap h @ [sub]\<rparr>))"

definition close_sub :: "subscriber \<Rightarrow> subscriber" where
  "close_sub s =
     (if \<not> sub_closed s then s\<lparr>sub_closed := True, sub_closes := sub_closes s + 1\<rparr> else s)"

definition unsubscribe :: "string \<Rightarrow> nat \<Rightarrow> hub \<Rightarrow> hub" where
  "unsubscribe ch p h =
     (let h = (case map_of (hub_subs h) ch of
                 None \<Rightarrow> h
               | Some subs \<Rightarrow>
                   let subs = removeAll p subs
                   in if length subs = 0 then h\<lparr>hub_subs := AList.delete ch (hub_subs h)\<rparr>
                      else h\<lparr>hub_subs := AList.update ch subs (hub_subs h)\<rparr>)
      in h\<lparr>hub_heap := (hub_heap h)[p := close_sub (hub_heap h ! p)]\<rparr>)"

definition wants :: "string \<Rightarrow> subscriber \<Rightarrow> bool" where
  "wants ty s = (case sub_types s of None \<Rightarrow> True | Some ts \<Rightarrow> ty \<in> set ts)"

definition offer :: "string \<Rightarrow> string \<Rightarrow> subscriber \<Rightarrow> subscriber" where
  "offer ty data s =
     (if wants ty s then s\<lparr>sub_buf := try_send capacity (sub_buf s) data\<rparr> else s)"

text \<open>\<open>marshal\<close> is \<open>json.Marshal\<close>: \<open>None\<close> when the event cannot be encoded, which drops it.\<close>

definition publish :: "(event \<Rightarrow> string option) \<Rightarrow> string \<Rightarrow> string \<Rightarrow> string \<Rightarrow> string \<Rightarrow> hub \<Rightarrow> hub"
  where
  "publish marshal now ch ty payload h =
     (case marshal \<lparr>ev_type = ty, ev_timestamp = now, ev_payload = payload\<rparr> of
        None \<Rightarrow> h
      | Some data \<Rightarrow>
          h\<lparr>hub_heap := fold (\<lambda>p heap. heap[p := offer ty data (heap ! p)]) (subs_of ch h)
                             (hub_heap h)\<rparr>)"

text \<open>The serving goroutine takes one message out of its channel and writes it.\<close>

definition deliver :: "nat \<Rightarrow> hub \<Rightarrow> hub" where
  "deliver p h =
     (let s = hub_heap h ! p
      in case sub_buf s of
           [] \<Rightarrow> h
         | d # rest \<Rightarrow>
             h\<lparr>hub_heap := (hub_heap h)[p := s\<lparr>sub_buf := rest, sub_sent := sub_sent s @ [d]\<rparr>]\<rparr>)"

section \<open>The endpoint\<close>

definition is_space :: "char \<Rightarrow> bool" where
  "is_space c \<longleftrightarrow> (of_char c :: nat) \<in> {9, 10, 11, 12, 13, 32}"

definition trim_space :: "string \<Rightarrow> string" where
  "trim_space s = rev (dropWhile is_space (rev (dropWhile is_space s)))"

definition parseTypeFilter :: "(string \<Rightarrow> string) \<Rightarrow> string list" where
  "parseTypeFilter q =
     (if q ''filter'' = '''' then []
      else filter (\<lambda>t. t \<noteq> '''') (map trim_space (split_on CHR '','' (q ''filter''))))"

datatype stream_kind = SSE | WebSocket string

text \<open>
  The part of a connection's life the handler decides: refused, or a stream with its
  subscription. \<open>accept\<close> is the base64 of the SHA-1 of the key and the GUID; \<open>can_hijack\<close> and
  \<open>can_flush\<close> say what the response writer supports.
\<close>

record ws_env =
  we_accept :: "string \<Rightarrow> string"
  we_hijack :: bool
  we_flush :: bool

datatype opened =
    Refused nat string
  | NoStream
  | Streaming stream_kind nat

definition wsGUID :: string where
  "wsGUID = ''258EAFA5-E914-47DA-95CA-5AB5DC085B11''"

definition upgradeWebSocket :: "ws_env \<Rightarrow> 'b request \<Rightarrow> (nat \<times> string) + string" where
  "upgradeWebSocket we r =
     (let key = rq_header r ''Sec-WebSocket-Key''
      in if key = '''' then Inl (400, ''missing Sec-WebSocket-Key'')
         else if \<not> we_hijack we then Inl (500, ''hijack not supported'')
         else Inr (we_accept we (key @ wsGUID)))"

definition handleSSE :: "ws_env \<Rightarrow> string \<Rightarrow> string list \<Rightarrow> hub \<Rightarrow> opened \<times> hub" where
  "handleSSE we channel typeFilter h =
     (if \<not> we_flush we then (NoStream, h)
      else let (p, h) = subscribe channel typeFilter h in (Streaming SSE p, h))"

definition handleEvents :: "ws_env \<Rightarrow> 'b request \<Rightarrow> hub \<Rightarrow> opened \<times> hub" where
  "handleEvents we r h =
     (let fullChannel = rq_path r ''applet'' @ ''/'' @ rq_path r ''channel'';
          typeFilter = parseTypeFilter (rq_query r)
      in if to_lower (rq_header r ''Upgrade'') \<noteq> ''websocket''
         then handleSSE we fullChannel typeFilter h
         else (case upgradeWebSocket we r of
                 Inl (status, msg) \<Rightarrow> (Refused status msg, h)
               | Inr key \<Rightarrow>
                   let (p, h) = subscribe fullChannel typeFilter h
                   in (Streaming (WebSocket key) p, h)))"

definition events_handler :: "ws_env \<Rightarrow> (unit, hub, opened) handler" where
  "events_handler we r h = (let (o', h) = handleEvents we r h in (Reply 200 o', h))"

text \<open>The endpoint is registered behind \<open>Auth\<close> alone.\<close>

definition events_serve :: "bao_env \<Rightarrow> ws_env \<Rightarrow> (unit, hub, opened) handler" where
  "events_serve env we = chain (events_handler we) [auth env]"

section \<open>Frames on the wire\<close>

definition wsWrite :: "byte list \<Rightarrow> byte list" where
  "wsWrite data =
     (let frame = [0x81];
          frame =
            (if length data < 126 then frame @ [byte_of (length data)]
             else if length data < 65536
             then (frame @ [126]) @ [byte_of (length data div 2 ^ 8), byte_of (length data)]
             else (frame @ [127]) @ put_uint64 (word_of_nat (length data)))
      in frame @ data)"

definition wsWritePing :: "byte list" where
  "wsWritePing = [0x89, 0x00]"

lemma wsWrite_eq: "wsWrite p = 0x81 # frame_length (length p) @ p"
  by (simp add: wsWrite_def frame_length_def Let_def)

interpretation evf: framing wsWrite "0x81"
  by unfold_locales (simp only: wsWrite_eq append_Cons append_assoc read_frame_length)

section \<open>Runs of the hub\<close>

datatype hub_op =
    Subscribe string "string list"
  | Unsubscribe string nat
  | Publish string string string string   \<comment> \<open>time, channel, type, payload\<close>
  | Deliver nat

fun hub_step :: "(event \<Rightarrow> string option) \<Rightarrow> hub_op \<Rightarrow> hub \<Rightarrow> hub" where
  "hub_step marshal (Subscribe ch ts) h = snd (subscribe ch ts h)"
| "hub_step marshal (Unsubscribe ch p) h = unsubscribe ch p h"
| "hub_step marshal (Publish now ch ty payload) h = publish marshal now ch ty payload h"
| "hub_step marshal (Deliver p) h = deliver p h"

fun hub_run :: "(event \<Rightarrow> string option) \<Rightarrow> hub_op list \<Rightarrow> hub \<Rightarrow> hub" where
  "hub_run marshal [] h = h"
| "hub_run marshal (x # xs) h = hub_run marshal xs (hub_step marshal x h)"

section \<open>What the operations do to one subscriber\<close>

definition stream_of :: "subscriber \<Rightarrow> string list" where
  "stream_of s = sub_sent s @ sub_buf s"

definition on_channel :: "string \<Rightarrow> nat \<Rightarrow> hub \<Rightarrow> bool" where
  "on_channel ch p h \<longleftrightarrow> p < length (hub_heap h) \<and> (\<forall>c. p \<in> set (subs_of c h) \<longleftrightarrow> c = ch)"

definition off_channels :: "nat \<Rightarrow> hub \<Rightarrow> bool" where
  "off_channels p h \<longleftrightarrow> p < length (hub_heap h) \<and> (\<forall>c. p \<notin> set (subs_of c h))"

text \<open>The set of subscribers of each channel has no repetitions.\<close>

definition hub_sets :: "hub \<Rightarrow> bool" where
  "hub_sets h \<longleftrightarrow> (\<forall>c. distinct (subs_of c h) \<and> (\<forall>q \<in> set (subs_of c h). q < length (hub_heap h)))"

lemma subs_of_subscribe:
  "subs_of c (snd (subscribe ch ts h)) =
     (if c = ch then subs_of ch h @ [length (hub_heap h)] else subs_of c h)"
  by (simp add: subscribe_def Let_def subs_of_def update_conv')

lemma subs_of_unsubscribe:
  "subs_of c (unsubscribe ch p h) = (if c = ch then removeAll p (subs_of ch h) else subs_of c h)"
  by (simp add: unsubscribe_def Let_def subs_of_def update_conv' AList.delete_conv' split: option.split)

lemma subs_of_other [simp]:
  "subs_of c (publish marshal now ch ty payload h) = subs_of c h"
  "subs_of c (deliver p h) = subs_of c h"
  by (simp_all add: publish_def deliver_def subs_of_def Let_def split: option.split list.split)

lemma length_fold_update [simp]:
  "length (fold (\<lambda>p heap. heap[p := f (heap ! p)]) ps heap) = length heap"
  by (induction ps arbitrary: heap) simp_all

lemma nth_fold_update:
  "distinct ps \<Longrightarrow> p < length heap \<Longrightarrow>
     fold (\<lambda>p heap. heap[p := f (heap ! p)]) ps heap ! p =
       (if p \<in> set ps then f (heap ! p) else heap ! p)"
proof (induction ps arbitrary: heap)
  case Nil
  then show ?case by simp
next
  case (Cons q qs)
  then show ?case by (cases "q = p") simp_all
qed

lemma length_heap:
  "length (hub_heap (snd (subscribe ch ts h))) = Suc (length (hub_heap h))"
  "length (hub_heap (unsubscribe ch p h)) = length (hub_heap h)"
  "length (hub_heap (publish marshal now ch ty payload h)) = length (hub_heap h)"
  "length (hub_heap (deliver p h)) = length (hub_heap h)"
  by (simp_all add: subscribe_def unsubscribe_def publish_def deliver_def Let_def
      split: option.split list.split)

lemma heap_after:
  assumes "p < length (hub_heap h)"
  shows "hub_heap (snd (subscribe ch ts h)) ! p = hub_heap h ! p"
    and "hub_heap (unsubscribe ch q h) ! p =
      (if p = q then close_sub (hub_heap h ! p) else hub_heap h ! p)"
    and "hub_heap (deliver q h) ! p =
      (if p = q \<and> sub_buf (hub_heap h ! p) \<noteq> []
       then (hub_heap h ! p)\<lparr>sub_buf := tl (sub_buf (hub_heap h ! p)),
              sub_sent := sub_sent (hub_heap h ! p) @ [hd (sub_buf (hub_heap h ! p))]\<rparr>
       else hub_heap h ! p)"
proof -
  show "hub_heap (snd (subscribe ch ts h)) ! p = hub_heap h ! p"
    using assms by (simp add: subscribe_def Let_def nth_append)
  show "hub_heap (unsubscribe ch q h) ! p =
      (if p = q then close_sub (hub_heap h ! p) else hub_heap h ! p)"
    using assms by (simp add: unsubscribe_def Let_def nth_list_update split: option.split)
  show "hub_heap (deliver q h) ! p =
      (if p = q \<and> sub_buf (hub_heap h ! p) \<noteq> []
       then (hub_heap h ! p)\<lparr>sub_buf := tl (sub_buf (hub_heap h ! p)),
              sub_sent := sub_sent (hub_heap h ! p) @ [hd (sub_buf (hub_heap h ! p))]\<rparr>
       else hub_heap h ! p)"
    using assms by (simp add: deliver_def Let_def nth_list_update split: list.split)
qed

text \<open>The message a publication offers to a subscriber, if it wants it.\<close>

definition published :: "(event \<Rightarrow> string option) \<Rightarrow> string \<Rightarrow> subscriber \<Rightarrow> hub_op \<Rightarrow> string list" where
  "published marshal ch s x =
     (case x of
        Publish now c ty payload \<Rightarrow>
          (case marshal \<lparr>ev_type = ty, ev_timestamp = now, ev_payload = payload\<rparr> of
             Some data \<Rightarrow> if c = ch \<and> wants ty s then [data] else []
           | None \<Rightarrow> [])
      | _ \<Rightarrow> [])"

lemma heap_publish:
  assumes "p < length (hub_heap h)" and "hub_sets h"
  shows "hub_heap (publish marshal now c ty payload h) ! p =
    (case published marshal c (hub_heap h ! p) (Publish now c ty payload) of
       [data] \<Rightarrow> if p \<in> set (subs_of c h) then offer ty data (hub_heap h ! p) else hub_heap h ! p
     | _ \<Rightarrow> hub_heap h ! p)"
proof (cases "marshal \<lparr>ev_type = ty, ev_timestamp = now, ev_payload = payload\<rparr>")
  case None
  then show ?thesis by (simp add: publish_def published_def)
next
  case (Some data)
  have "distinct (subs_of c h)" using assms(2) by (simp add: hub_sets_def)
  with Some assms(1) show ?thesis
    by (cases "wants ty (hub_heap h ! p)")
      (simp_all add: publish_def published_def nth_fold_update, simp_all add: offer_def)
qed

lemma hub_sets_step: "hub_sets h \<Longrightarrow> hub_sets (hub_step marshal x h)"
  by (cases x)
    (auto simp: hub_sets_def subs_of_subscribe subs_of_unsubscribe length_heap
      distinct_removeAll less_Suc_eq)

lemma on_channel_step:
  "on_channel ch p h \<Longrightarrow> (\<forall>c. x \<noteq> Unsubscribe c p) \<Longrightarrow> on_channel ch p (hub_step marshal x h)"
  by (cases x) (auto simp: on_channel_def subs_of_subscribe subs_of_unsubscribe length_heap)

lemma off_channels_step: "off_channels p h \<Longrightarrow> off_channels p (hub_step marshal x h)"
  by (cases x) (auto simp: off_channels_def subs_of_subscribe subs_of_unsubscribe length_heap)


lemma wants_same:
  "sub_types s' = sub_types s \<Longrightarrow> published marshal ch s' x = published marshal ch s x"
  by (auto simp: published_def wants_def split: hub_op.split option.split)

text \<open>One step of the hub, seen from a subscriber of a channel.\<close>

lemma stream_step:
  fixes marshal :: "event \<Rightarrow> string option"
  assumes on: "on_channel ch p h" and sets: "hub_sets h" and x: "\<forall>c. x \<noteq> Unsubscribe c p"
  defines "s \<equiv> hub_heap h ! p" and "s' \<equiv> hub_heap (hub_step marshal x h) ! p"
  shows "sub_types s' = sub_types s \<and> length (sub_buf s') \<le> length (sub_buf s) + length (published marshal ch s x) \<and>
    (stream_of s' = stream_of s @ published marshal ch s x \<or>
     stream_of s' = stream_of s \<and> capacity \<le> length (sub_buf s))"
proof -
  have p: "p < length (hub_heap h)" using on by (simp add: on_channel_def)
  show ?thesis
  proof (cases x)
    case (Subscribe c ts)
    with p show ?thesis by (simp add: s_def s'_def heap_after published_def)
  next
    case (Unsubscribe c q)
    with p x show ?thesis by (auto simp: s_def s'_def heap_after published_def)
  next
    case (Deliver q)
    with p show ?thesis
      by (cases "sub_buf s") (auto simp: s_def s'_def heap_after published_def stream_of_def)
  next
    case (Publish now c ty payload)
    show ?thesis
    proof (cases "c = ch")
      case False
      then have "p \<notin> set (subs_of c h)" using on by (simp add: on_channel_def)
      with Publish False show ?thesis
        by (simp add: s_def s'_def heap_publish [OF p sets] published_def
            split: option.split list.split)
    next
      case True
      then have "p \<in> set (subs_of c h)" using on by (simp add: on_channel_def)
      with Publish True show ?thesis
        by (simp add: s_def s'_def heap_publish [OF p sets] published_def offer_def try_send_def
            stream_of_def split: option.split list.split)
    qed
  qed
qed

text \<open>A subscriber of a channel is a consumer behind a queue of 64.\<close>

interpretation evs: bounded_stream "hub_step marshal" "\<lambda>h. on_channel ch p h \<and> hub_sets h" "\<lambda>x. \<forall>c. x \<noteq> Unsubscribe c p"
  "\<lambda>h. stream_of (hub_heap h ! p)" "\<lambda>h. length (sub_buf (hub_heap h ! p))"
  "\<lambda>h. published marshal ch (hub_heap h ! p)" capacity
  for marshal :: "event \<Rightarrow> string option" and ch :: string and p :: nat
proof
  fix h x
  assume h: "on_channel ch p h \<and> hub_sets h" and x: "\<forall>c. x \<noteq> Unsubscribe c p"
  note one = stream_step [OF conjunct1 [OF h] conjunct2 [OF h] x, of marshal]
  show "on_channel ch p (hub_step marshal x h) \<and> hub_sets (hub_step marshal x h)"
    using on_channel_step [OF conjunct1 [OF h] x] hub_sets_step [OF conjunct2 [OF h]] by blast
  show "published marshal ch (hub_heap (hub_step marshal x h) ! p) = published marshal ch (hub_heap h ! p)"
    by (rule ext) (rule wants_same [OF conjunct1 [OF one]])
  show "length (sub_buf (hub_heap (hub_step marshal x h) ! p))
      \<le> length (sub_buf (hub_heap h ! p)) + length (published marshal ch (hub_heap h ! p) x)"
    by (rule conjunct1 [OF conjunct2 [OF one]])
  show "stream_of (hub_heap (hub_step marshal x h) ! p) =
        stream_of (hub_heap h ! p) @ published marshal ch (hub_heap h ! p) x \<or>
      stream_of (hub_heap (hub_step marshal x h) ! p) = stream_of (hub_heap h ! p) \<and>
      capacity \<le> length (sub_buf (hub_heap h ! p))"
    by (rule conjunct2 [OF conjunct2 [OF one]])
qed

lemma hub_run_fold: "hub_run marshal xs h = fold (hub_step marshal) xs h"
  by (induction xs arbitrary: h) simp_all

lemma hub_stream_run:
  assumes "on_channel ch p h" and "hub_sets h" and "\<forall>c. Unsubscribe c p \<notin> set xs"
  shows "let s = hub_heap h ! p; s' = hub_heap (hub_run marshal xs h) ! p;
             ys = concat (map (published marshal ch s) xs)
    in (\<exists>zs. subseq zs ys \<and> stream_of s' = stream_of s @ zs) \<and>
       (length (sub_buf s) + length ys \<le> capacity \<longrightarrow> stream_of s' = stream_of s @ ys)"
proof -
  have "\<forall>x \<in> set xs. \<forall>c. x \<noteq> Unsubscribe c p" using assms(3) by blast
  from evs.stream_run [OF conjI [OF assms(1,2)] this, of marshal] show ?thesis
    unfolding hub_run_fold Let_def .
qed

section \<open>Properties\<close>

lemma hub_sets_default: "hub_sets defaultHub"
  by (simp add: hub_sets_def defaultHub_def subs_of_def)

lemma hub_sets_run: "hub_sets h \<Longrightarrow> hub_sets (hub_run marshal xs h)"
  by (induction xs arbitrary: h) (simp_all add: hub_sets_step)

lemma on_channel_subscribe:
  "hub_sets h \<Longrightarrow> on_channel ch (length (hub_heap h)) (snd (subscribe ch ts h))"
  by (auto simp: on_channel_def subs_of_subscribe length_heap hub_sets_def)



text \<open>What no run of the hub breaks.\<close>

definition sub_ok :: "subscriber \<Rightarrow> bool" where
  "sub_ok s \<longleftrightarrow> length (sub_buf s) \<le> 64 \<and> sub_closes s = (if sub_closed s then 1 else 0)"

definition hub_ok :: "hub \<Rightarrow> bool" where
  "hub_ok h \<longleftrightarrow> list_all sub_ok (hub_heap h) \<and> list_all (\<lambda>(c, ps). ps \<noteq> []) (hub_subs h)"

lemma sub_ok_ops:
  "sub_ok s \<Longrightarrow> sub_ok (close_sub s)" "sub_ok s \<Longrightarrow> sub_ok (offer ty data s)"
  by (auto simp: sub_ok_def close_sub_def offer_def capacity_def try_send_bound)

lemma list_all_update: "list_all P xs \<Longrightarrow> P y \<Longrightarrow> list_all P (xs[i := y])"
  by (auto simp: list_all_iff dest!: set_update_subset_insert [THEN subsetD])

lemma list_all_nth: "list_all P xs \<Longrightarrow> i < length xs \<Longrightarrow> P (xs ! i)"
  by (simp add: list_all_length)

lemma list_all_modify:
  assumes "\<And>s. P s \<Longrightarrow> P (f s)" and "list_all P heap"
  shows "list_all P (heap[p := f (heap ! p)])"
proof (cases "p < length heap")
  case True
  with assms show ?thesis by (intro list_all_update) (auto intro: list_all_nth)
next
  case False
  with assms(2) show ?thesis by (simp add: list_update_beyond)
qed

lemma list_all_fold_modify:
  "(\<And>s. P s \<Longrightarrow> P (f s)) \<Longrightarrow> list_all P heap \<Longrightarrow>
     list_all P (fold (\<lambda>p heap. heap[p := f (heap ! p)]) ps heap)"
  by (induction ps arbitrary: heap) (simp_all add: list_all_modify)

lemma list_all_alist:
  "list_all (\<lambda>(c, ps). ps \<noteq> []) al \<Longrightarrow> v \<noteq> [] \<Longrightarrow> list_all (\<lambda>(c, ps). ps \<noteq> []) (AList.update k v al)"
  "list_all (\<lambda>(c, ps). ps \<noteq> []) al \<Longrightarrow> list_all (\<lambda>(c, ps). ps \<noteq> []) (AList.delete k al)"
  by (induction al) auto

lemma hub_ok_step: "hub_ok h \<Longrightarrow> hub_ok (hub_step marshal x h)"
proof -
  assume ok: "hub_ok h"
  show ?thesis
  proof (cases x)
    case (Subscribe c ts)
    with ok show ?thesis
      by (simp add: hub_ok_def subscribe_def Let_def list_all_alist sub_ok_def)
  next
    case (Unsubscribe c p)
    with ok show ?thesis
      by (auto simp: hub_ok_def unsubscribe_def Let_def
          intro!: list_all_modify sub_ok_ops list_all_alist split: option.split)
  next
    case (Publish now c ty payload)
    with ok show ?thesis
      by (auto simp: hub_ok_def publish_def intro!: list_all_fold_modify sub_ok_ops split: option.split)
  next
    case (Deliver p)
    let ?take = "\<lambda>s. case sub_buf s of [] \<Rightarrow> s
      | d # rest \<Rightarrow> s\<lparr>sub_buf := rest, sub_sent := sub_sent s @ [d]\<rparr>"
    have "hub_heap (deliver p h) = (hub_heap h)[p := ?take (hub_heap h ! p)]"
      by (simp add: deliver_def Let_def split: list.split)
    moreover have "sub_ok s \<Longrightarrow> sub_ok (?take s)" for s
      by (auto simp: sub_ok_def split: list.split)
    ultimately have "list_all sub_ok (hub_heap (deliver p h))"
      using ok list_all_modify [of sub_ok ?take "hub_heap h" p] by (simp add: hub_ok_def)
    moreover have "hub_subs (deliver p h) = hub_subs h"
      by (simp add: deliver_def Let_def split: list.split)
    ultimately show ?thesis using ok Deliver by (simp add: hub_ok_def)
  qed
qed

lemma hub_ok_run: "hub_ok h \<Longrightarrow> hub_ok (hub_run marshal xs h)"
  by (induction xs arbitrary: h) (simp_all add: hub_ok_step)

lemma gone_stays:
  "off_channels p h \<Longrightarrow> hub_sets h \<Longrightarrow>
     stream_of (hub_heap (hub_run marshal xs h) ! p) = stream_of (hub_heap h ! p)"
proof (induction xs arbitrary: h)
  case Nil
  then show ?case by simp
next
  case (Cons x xs)
  have p: "p < length (hub_heap h)" and off: "\<And>c. p \<notin> set (subs_of c h)"
    using Cons.prems by (simp_all add: off_channels_def)
  have "stream_of (hub_heap (hub_step marshal x h) ! p) = stream_of (hub_heap h ! p)"
    using off
    by (cases x) (auto simp: heap_after [OF p] heap_publish [OF p Cons.prems(2)] stream_of_def close_sub_def
        split: list.split)
  with Cons.IH [OF off_channels_step [OF Cons.prems(1)] hub_sets_step [OF Cons.prems(2)], of marshal x]
  show ?case by simp
qed


text \<open>
  C19: the frames the server writes on a WebSocket connection can be read back: any sequence
  of payloads, of any length a message can have, comes out of a frame reader unchanged, in
  order and unmerged.
\<close>

theorem frames_read_back:
  assumes "\<forall>p \<in> set ps. length p < 2 ^ 63"
  shows "read_stream (length ps) (concat (map wsWrite ps)) = Some ps"
  using assms by (rule evf.stream_back)

theorem frames_read_back_witness:
  "read_stream 2 (concat (map wsWrite [[1, 2, 3], replicate 300 7])) = Some [[1, 2, 3], replicate 300 7]"
proof -
  let ?ps = "[[1, 2, 3], replicate 300 7] :: byte list list"
  have "read_stream (length ?ps) (concat (map wsWrite ?ps)) = Some ?ps"
    by (rule frames_read_back) simp
  moreover have "length ?ps = 2" by simp
  ultimately show ?thesis by metis
qed

text \<open>
  The event endpoint checks who the caller is and nothing more: an authenticated caller
  without any role opens a stream of any channel of any applet, whatever role reading the
  same data over the other routes asks for.
\<close>

theorem events_need_no_role:
  assumes "authenticate env r = Some p" and "hub_sets h" and "we_flush we"
    and "to_lower (rq_header r ''Upgrade'') \<noteq> ''websocket''"
  shows "on_channel (rq_path r ''applet'' @ ''/'' @ rq_path r ''channel'') (length (hub_heap h))
    (snd (events_serve env we r h))"
proof -
  have run: "events_serve env we r h = events_handler we (r\<lparr>rq_principal := Some p\<rparr>) h"
    using auth_accepts [OF assms(1)] by (simp add: events_serve_def)
  have "snd (events_serve env we r h) =
      snd (subscribe (rq_path r ''applet'' @ ''/'' @ rq_path r ''channel'') (parseTypeFilter (rq_query r)) h)"
    using assms(3,4) by (simp add: run events_handler_def handleEvents_def handleSSE_def Let_def
        split: prod.split)
  with on_channel_subscribe [OF assms(2)] show ?thesis by simp
qed

definition demo_stream_rq :: "unit request" where
  "demo_stream_rq = demo_req (\<lambda>k. if k = ''applet'' then ''nmgr'' else ''status'') None"

theorem events_need_no_role_witness:
  "on_channel ''nmgr/status'' 0 (snd (events_serve (demo_env [])
     \<lparr>we_accept = id, we_hijack = True, we_flush = True\<rparr> demo_stream_rq defaultHub))"
proof -
  obtain p where p: "authenticate (demo_env []) demo_stream_rq = Some p"
    using demo_authenticate [of "[]"] unfolding demo_stream_rq_def by blast
  show ?thesis
    using events_need_no_role [OF p hub_sets_default, of "\<lparr>we_accept = id, we_hijack = True, we_flush = True\<rparr>"]
    by (simp add: demo_stream_rq_def demo_req_def to_lower_def) (simp add: defaultHub_def)
qed

end
