(* ===== verification/Json_Data.thy ===== *)
theory Json_Data
  imports Complex_Main
begin

text \<open>
  Decoded JSON as the code handles it (\<^verbatim>\<open>map[string]any\<close>): an object is the association list of
  its fields, and the accessors answer the empty value for a field that is absent or of another type.
\<close>

section \<open>Decoded JSON\<close>

datatype json =
    JNull | JBool bool | JNum rat | JStr string | JArr "json list" | JObj "(string \<times> json) list"

type_synonym json_obj = "(string \<times> json) list"

definition as_obj :: "json option \<Rightarrow> json_obj option" where
  "as_obj v = (case v of Some (JObj m) \<Rightarrow> Some m | _ \<Rightarrow> None)"

definition as_str :: "json option \<Rightarrow> string option" where
  "as_str v = (case v of Some (JStr x) \<Rightarrow> Some x | _ \<Rightarrow> None)"

definition str_items :: "json list \<Rightarrow> string list" where
  "str_items js = List.map_filter (\<lambda>j. as_str (Some j)) js"

lemma str_items_strs [simp]: "str_items (map JStr xs) = xs"
  by (induction xs) (simp_all add: str_items_def as_str_def List.map_filter_simps)

fun mapStr :: "json_obj \<Rightarrow> string list \<Rightarrow> string" where
  "mapStr m [] = ''''"
| "mapStr m [k] = (case as_str (map_of m k) of None \<Rightarrow> '''' | Some x \<Rightarrow> x)"
| "mapStr m (k # ks) = (case as_obj (map_of m k) of None \<Rightarrow> '''' | Some m' \<Rightarrow> mapStr m' ks)"

declare mapStr.simps [simp del]

text \<open>\<open>None\<close> is the nil slice.\<close>

fun mapStrSlice :: "json_obj \<Rightarrow> string list \<Rightarrow> string list option" where
  "mapStrSlice m [] = None"
| "mapStrSlice m [k] = (case map_of m k of Some (JArr js) \<Rightarrow> Some (str_items js) | _ \<Rightarrow> None)"
| "mapStrSlice m (k # ks) = (case as_obj (map_of m k) of None \<Rightarrow> None | Some m' \<Rightarrow> mapStrSlice m' ks)"

definition slice_or_empty :: "string list option \<Rightarrow> string list" where
  "slice_or_empty o' = (case o' of None \<Rightarrow> [] | Some xs \<Rightarrow> xs)"

section \<open>Answers of OpenBao\<close>

text \<open>
  What comes of sending a request: the URL is refused, no answer arrives, the body of the answer
  cannot be read, or a status with its body.
\<close>

datatype bao_answer = BadUrl string | NoAnswer string | NoBody string | Answer nat string

text \<open>A coding of lists of strings as strings, for the examples.\<close>

fun code_strings :: "string list \<Rightarrow> string" where
  "code_strings [] = ''''"
| "code_strings (x # xs) = concat (map (\<lambda>c. [CHR ''c'', c]) x) @ CHR ''s'' # code_strings xs"

fun decode_strings :: "string \<Rightarrow> string \<Rightarrow> string list" where
  "decode_strings acc [] = []"
| "decode_strings acc (d # rest) =
     (if d = CHR ''s'' then acc # decode_strings '''' rest
      else case rest of [] \<Rightarrow> [] | c # ds \<Rightarrow> decode_strings (acc @ [c]) ds)"

lemma decode_code [simp]: "decode_strings '''' (code_strings xs) = xs"
proof (induction xs)
  case (Cons x xs)
  have "decode_strings acc (concat (map (\<lambda>c. [CHR ''c'', c]) x) @ CHR ''s'' # ds) =
      (acc @ x) # decode_strings '''' ds" for acc ds
    by (induction x arbitrary: acc) simp_all
  with Cons show ?case by simp
qed simp

end
