(* ===== verification/Access.thy ===== *)
theory Access
  imports Middleware Json_Data
begin

text \<open>
  The access-control applet (\<^verbatim>\<open>internal/ac\<close>): users, groups and settings kept in
  OpenBao.

  OpenBao is a parameter: a state of any type \<open>'w\<close> with reads (GET, LIST), which leave it as it is,
  and writes (PUT, POST, DELETE). Every function of \<^verbatim>\<open>ac/store.go\<close> is here under its own name, then the
  handlers and routes of \<^verbatim>\<open>ac/handler.go\<close>.
\<close>

section \<open>Requests to OpenBao\<close>

text \<open>
  \<open>bo_object\<close> decodes a body to an object or fails, \<open>bo_range\<close> is the order in which Go iterates over a map.
\<close>

record 'w bao =
  bo_get :: "string \<Rightarrow> 'w \<Rightarrow> bao_answer"
  bo_list :: "string \<Rightarrow> 'w \<Rightarrow> bao_answer"
  bo_write :: "string \<Rightarrow> string \<Rightarrow> json option \<Rightarrow> 'w \<Rightarrow> bao_answer \<times> 'w"
  bo_object :: "string \<Rightarrow> string + json_obj"
  bo_range :: "json_obj \<Rightarrow> json_obj"
  bo_method :: string     \<comment> \<open>\<open>OPENBAO_MFA_METHOD_ID\<close>\<close>

definition bao_result :: "(string \<Rightarrow> string + json_obj) \<Rightarrow> string \<Rightarrow> string \<Rightarrow> bao_answer \<Rightarrow> string + json_obj"
  where
  "bao_result object method path a =
     (case a of
        BadUrl e \<Rightarrow> Inl (''create request: '' @ e)
      | NoAnswer e \<Rightarrow> Inl (''openbao request '' @ method @ '' '' @ path @ '': '' @ e)
      | NoBody e \<Rightarrow> Inl (''read response: '' @ e)
      | Answer status raw \<Rightarrow>
          if status = 204 then Inr []
          else (case (if length raw > 0 then object raw else Inr []) of
                  Inl e \<Rightarrow> Inl (''decode response: '' @ e)
                | Inr result \<Rightarrow>
                    if status \<ge> 400
                    then Inl (''openbao '' @ method @ '' '' @ path @ '' returned '' @ digits status @ '': '' @ raw)
                    else Inr result))"

definition bao_get :: "'w bao \<Rightarrow> string \<Rightarrow> 'w \<Rightarrow> string + json_obj" where
  "bao_get b path w = bao_result (bo_object b) ''GET'' path (bo_get b path w)"

definition bao_write :: "'w bao \<Rightarrow> string \<Rightarrow> string \<Rightarrow> json option \<Rightarrow> 'w \<Rightarrow> (string + json_obj) \<times> 'w" where
  "bao_write b method path body w =
     (let (a, w) = bo_write b method path body w in (bao_result (bo_object b) method path a, w))"

definition baoList :: "'w bao \<Rightarrow> string \<Rightarrow> 'w \<Rightarrow> string + string list" where
  "baoList b path w =
     (case bo_list b path w of
        BadUrl e \<Rightarrow> Inl (''create list request: '' @ e)
      | NoAnswer e \<Rightarrow> Inl (''openbao LIST '' @ path @ '': '' @ e)
      | NoBody e \<Rightarrow> Inl (''read response: '' @ e)
      | Answer status raw \<Rightarrow>
          if status = 404 then Inr []
          else if status \<ge> 400
          then Inl (''openbao LIST '' @ path @ '' returned '' @ digits status @ '': '' @ raw)
          else (case bo_object b raw of
                  Inl e \<Rightarrow> Inl (''decode list response: '' @ e)
                | Inr result \<Rightarrow>
                    (case as_obj (map_of result ''data'') of
                       None \<Rightarrow> Inr []
                     | Some data \<Rightarrow>
                         (case map_of data ''keys'' of
                            Some (JArr ks) \<Rightarrow> Inr (str_items ks)
                          | _ \<Rightarrow> Inr []))))"

definition data_of :: "json_obj \<Rightarrow> json_obj option" where
  "data_of resp = as_obj (map_of resp ''data'')"

section \<open>Users\<close>

record user =
  us_id :: string
  us_email :: string
  us_name :: string
  us_password :: string
  us_status :: string
  us_groups :: "string list option"    \<comment> \<open>\<open>None\<close> when the slice is nil\<close>

definition entity_path :: "string \<Rightarrow> string" where
  "entity_path i = ''/v1/identity/entity/id/'' @ i"

definition userpass_path :: "string \<Rightarrow> string" where
  "userpass_path username = ''/v1/auth/userpass/users/'' @ username"

definition group_path :: "string \<Rightarrow> string" where
  "group_path i = ''/v1/identity/group/id/'' @ i"

definition bare_user :: "string \<Rightarrow> user" where
  "bare_user username =
     \<lparr>us_id = username, us_email = '''', us_name = username, us_password = '''',
      us_status = ''active'', us_groups = Some []\<rparr>"

definition getUser :: "'w bao \<Rightarrow> string \<Rightarrow> 'w \<Rightarrow> string + user" where
  "getUser b username w =
     (case bao_get b (''/v1/identity/entity/name/'' @ username) w of
        Inl _ \<Rightarrow> Inr (bare_user username)
      | Inr entity \<Rightarrow>
         (case data_of entity of
            None \<Rightarrow> Inr (bare_user username)
          | Some data \<Rightarrow>
              let uid = mapStr data [''id''];
                  uid = (if uid = '''' then username else uid);
                  name = mapStr data [''metadata'', ''name''];
                  name = (if name = '''' then username else name)
              in Inr \<lparr>us_id = uid, us_email = mapStr data [''metadata'', ''email''], us_name = name,
                      us_password = '''',
                      us_status = (if map_of data ''disabled'' = Some (JBool True) then ''disabled''
                                   else ''active''),
                      us_groups = Some (slice_or_empty (mapStrSlice data [''group_ids'']))\<rparr>))"

fun users_loop :: "'w bao \<Rightarrow> 'w \<Rightarrow> string list \<Rightarrow> string + user list" where
  "users_loop b w [] = Inr []"
| "users_loop b w (n # ns) =
     (case getUser b n w of
        Inl e \<Rightarrow> Inl (''get user '' @ n @ '': '' @ e)
      | Inr u \<Rightarrow> map_sum id (\<lambda>us. u # us) (users_loop b w ns))"

definition listUsers :: "'w bao \<Rightarrow> 'w \<Rightarrow> string + user list" where
  "listUsers b w =
     (case baoList b ''/v1/auth/userpass/users'' w of
        Inl e \<Rightarrow> Inl (''list userpass users: '' @ e)
      | Inr names \<Rightarrow> users_loop b w names)"

fun first_accessor :: "json_obj \<Rightarrow> string option" where
  "first_accessor [] = None"
| "first_accessor ((key, val) # rest) =
     (if \<not> prefix ''userpass'' key then first_accessor rest
      else case as_obj (Some val) of
             None \<Rightarrow> first_accessor rest
           | Some m \<Rightarrow> (case as_str (map_of m ''accessor'') of
                           None \<Rightarrow> first_accessor rest
                         | Some accessor \<Rightarrow> Some accessor))"

definition getUserpassAccessor :: "'w bao \<Rightarrow> 'w \<Rightarrow> string + string" where
  "getUserpassAccessor b w =
     (case bao_get b ''/v1/sys/auth'' w of
        Inl e \<Rightarrow> Inl (''list auth mounts: '' @ e)
      | Inr resp \<Rightarrow>
         (case first_accessor (bo_range b resp) of
            None \<Rightarrow> Inl ''userpass auth mount not found''
          | Some a \<Rightarrow> Inr a))"

text \<open>The alias that links login and entity; its result is discarded.\<close>

definition link_alias :: "'w bao \<Rightarrow> string \<Rightarrow> string \<Rightarrow> 'w \<Rightarrow> 'w" where
  "link_alias b username uid w =
     (case getUserpassAccessor b w of
        Inl _ \<Rightarrow> w
      | Inr accessor \<Rightarrow>
          if accessor = '''' then w
          else snd (bao_write b ''POST'' ''/v1/identity/entity-alias''
                 (Some (JObj [(''name'', JStr username), (''canonical_id'', JStr uid),
                              (''mount_accessor'', JStr accessor)])) w))"

definition login_name :: "user \<Rightarrow> string" where
  "login_name u = (if us_name u = '''' then us_email u else us_name u)"

definition default_password :: string where
  "default_password = ''changeme''"

definition set_login :: "'w bao \<Rightarrow> string \<Rightarrow> string \<Rightarrow> 'w \<Rightarrow> (string + json_obj) \<times> 'w" where
  "set_login b username password =
     bao_write b ''PUT'' (userpass_path username) (Some (JObj [(''password'', JStr password)]))"

definition createUser :: "'w bao \<Rightarrow> user \<Rightarrow> 'w \<Rightarrow> (string + user) \<times> 'w" where
  "createUser b u w =
     (let username = login_name u;
          password = (if us_password u = '''' then default_password else us_password u)
      in case set_login b username password w of
           (Inl e, w) \<Rightarrow> (Inl (''create userpass user: '' @ e), w)
         | (Inr _, w) \<Rightarrow>
            (case bao_write b ''POST'' ''/v1/identity/entity''
                    (Some (JObj [(''name'', JStr username),
                                 (''metadata'', JObj [(''email'', JStr (us_email u)), (''name'', JStr (us_name u))])])) w of
               (Inl e, w) \<Rightarrow> (Inl (''create identity entity: '' @ e), w)
             | (Inr resp, w) \<Rightarrow>
                 let eid = mapStr resp [''data'', ''id''];
                     uid = (if eid \<noteq> '''' then eid else username);
                     w = link_alias b username uid w
                 in (Inr \<lparr>us_id = uid, us_email = us_email u, us_name = us_name u, us_password = '''',
                          us_status = ''active'', us_groups = Some []\<rparr>, w)))"

section \<open>Groups\<close>

record group =
  gr_id :: string
  gr_name :: string
  gr_builtin :: bool
  gr_userCount :: nat
  gr_roles :: "string list option"

definition builtin_group :: "json_obj \<Rightarrow> bool" where
  "builtin_group data \<longleftrightarrow>
     (case as_obj (map_of data ''metadata'') of
        None \<Rightarrow> False
      | Some m \<Rightarrow> as_str (map_of m ''builtin'') = Some ''true'')"

definition members_of :: "json_obj \<Rightarrow> string list" where
  "members_of data = slice_or_empty (mapStrSlice data [''member_entity_ids''])"

definition group_view :: "string \<Rightarrow> string \<Rightarrow> json_obj \<Rightarrow> group" where
  "group_view i name data =
     \<lparr>gr_id = i, gr_name = name, gr_builtin = builtin_group data,
      gr_userCount = length (members_of data),
      gr_roles = Some (slice_or_empty (mapStrSlice data [''policies'']))\<rparr>"

fun groups_loop :: "'w bao \<Rightarrow> 'w \<Rightarrow> string list \<Rightarrow> group list" where
  "groups_loop b w [] = []"
| "groups_loop b w (n # ns) =
     (case bao_get b (''/v1/identity/group/name/'' @ n) w of
        Inl _ \<Rightarrow> groups_loop b w ns
      | Inr resp \<Rightarrow>
         (case data_of resp of
            None \<Rightarrow> groups_loop b w ns
          | Some data \<Rightarrow> group_view (mapStr data [''id'']) n data # groups_loop b w ns))"

definition listGroups :: "'w bao \<Rightarrow> 'w \<Rightarrow> string + group list" where
  "listGroups b w =
     (case baoList b ''/v1/identity/group/name'' w of
        Inl e \<Rightarrow> Inl (''list identity groups: '' @ e)
      | Inr names \<Rightarrow> Inr (groups_loop b w names))"

definition createGroup :: "'w bao \<Rightarrow> string \<Rightarrow> string list option \<Rightarrow> 'w \<Rightarrow> (string + group) \<times> 'w" where
  "createGroup b name roles w =
     (let roles = slice_or_empty roles
      in case bao_write b ''POST'' ''/v1/identity/group''
                (Some (JObj [(''name'', JStr name), (''policies'', JArr (map JStr roles)),
                             (''type'', JStr ''internal'')])) w of
           (Inl e, w) \<Rightarrow> (Inl (''create group: '' @ e), w)
         | (Inr resp, w) \<Rightarrow>
             (Inr \<lparr>gr_id = mapStr resp [''data'', ''id''], gr_name = name, gr_builtin = False,
                   gr_userCount = 0, gr_roles = Some roles\<rparr>, w))"

text \<open>
  The methods that answer \<open>(value, found, err)\<close> yield \<open>Inr None\<close> for not found.
\<close>

definition updateGroup :: "'w bao \<Rightarrow> string \<Rightarrow> string \<Rightarrow> 'w \<Rightarrow> (string + group option) \<times> 'w" where
  "updateGroup b i name w =
     (case bao_get b (group_path i) w of
        Inl _ \<Rightarrow> (Inr None, w)
      | Inr resp \<Rightarrow>
         (case data_of resp of
            None \<Rightarrow> (Inr None, w)
          | Some data \<Rightarrow>
              if builtin_group data then (Inl ''cannot rename builtin group'', w)
              else (case bao_write b ''POST'' (group_path i) (Some (JObj [(''name'', JStr name)])) w of
                      (Inl e, w) \<Rightarrow> (Inl (''update group name: '' @ e), w)
                    | (Inr _, w) \<Rightarrow>
                       (case bao_get b (group_path i) w of
                          Inl e \<Rightarrow> (Inl (''read back group: '' @ e), w)
                        | Inr resp \<Rightarrow>
                           (case data_of resp of
                              None \<Rightarrow> (Inr None, w)
                            | Some data \<Rightarrow> (Inr (Some (group_view i name data)), w))))))"

definition deleteGroup :: "'w bao \<Rightarrow> string \<Rightarrow> 'w \<Rightarrow> (string + bool) \<times> 'w" where
  "deleteGroup b i w =
     (case bao_get b (group_path i) w of
        Inl _ \<Rightarrow> (Inr False, w)
      | Inr resp \<Rightarrow>
          if (case data_of resp of None \<Rightarrow> False | Some data \<Rightarrow> builtin_group data) then (Inr False, w)
          else (case bao_write b ''DELETE'' (group_path i) None w of
                  (Inl e, w) \<Rightarrow> (Inl (''delete group: '' @ e), w)
                | (Inr _, w) \<Rightarrow> (Inr True, w)))"

definition set_group :: "'w bao \<Rightarrow> string \<Rightarrow> string \<Rightarrow> string \<Rightarrow> json \<Rightarrow> 'w \<Rightarrow> (string + group option) \<times> 'w" where
  "set_group b what i field v w =
     (case bao_write b ''POST'' (group_path i) (Some (JObj [(field, v)])) w of
        (Inl e, w) \<Rightarrow> (Inl (''set group '' @ what @ '': '' @ e), w)
      | (Inr _, w) \<Rightarrow>
         (case bao_get b (group_path i) w of
            Inl e \<Rightarrow> (Inl (''read back group: '' @ e), w)
          | Inr resp \<Rightarrow>
             (case data_of resp of
                None \<Rightarrow> (Inr None, w)
              | Some data \<Rightarrow> (Inr (Some (group_view i (mapStr data [''name'']) data)), w))))"

text \<open>A nil slice is sent as \<open>null\<close>.\<close>

definition slice_json :: "string list option \<Rightarrow> json" where
  "slice_json o' = (case o' of None \<Rightarrow> JNull | Some xs \<Rightarrow> JArr (map JStr xs))"

definition setGroupUsers :: "'w bao \<Rightarrow> string \<Rightarrow> string list option \<Rightarrow> 'w \<Rightarrow> (string + group option) \<times> 'w" where
  "setGroupUsers b i entityIDs = set_group b ''members'' i ''member_entity_ids'' (slice_json entityIDs)"

definition setGroupRoles :: "'w bao \<Rightarrow> string \<Rightarrow> string list option \<Rightarrow> 'w \<Rightarrow> (string + group option) \<times> 'w" where
  "setGroupRoles b i roles = set_group b ''roles'' i ''policies'' (slice_json roles)"

section \<open>Updating and deleting users\<close>

definition set_members :: "'w bao \<Rightarrow> string \<Rightarrow> string list \<Rightarrow> 'w \<Rightarrow> 'w" where
  "set_members b g ms w =
     snd (bao_write b ''POST'' (group_path g)
            (Some (JObj [(''member_entity_ids'', JArr (map JStr ms))])) w)"

text \<open>The body of the loop over the groups: add the user, take it out, or leave the group alone.\<close>

definition member_step :: "'w bao \<Rightarrow> string \<Rightarrow> string list \<Rightarrow> string \<Rightarrow> 'w \<Rightarrow> 'w" where
  "member_step b uid desired g w =
     (case bao_get b (group_path g) w of
        Inl _ \<Rightarrow> w
      | Inr resp \<Rightarrow>
         (case data_of resp of
            None \<Rightarrow> w
          | Some gData \<Rightarrow>
              let currentMembers = members_of gData;
                  hasMember = list_ex (\<lambda>m. m = uid) currentMembers
              in if g \<in> set desired \<and> \<not> hasMember then set_members b g (currentMembers @ [uid]) w
                 else if g \<notin> set desired \<and> hasMember
                 then set_members b g (filter (\<lambda>m. m \<noteq> uid) currentMembers) w
                 else w))"

definition status_change :: "'w bao \<Rightarrow> string \<Rightarrow> string \<Rightarrow> 'w \<Rightarrow> 'w" where
  "status_change b username status w =
     (if status = ''disabled'' then snd (bao_write b ''DELETE'' (userpass_path username) None w)
      else if status = ''active'' then snd (set_login b username default_password w)
      else w)"

definition update_groups :: "'w bao \<Rightarrow> string \<Rightarrow> string list option \<Rightarrow> 'w \<Rightarrow> string option \<times> 'w" where
  "update_groups b uid groups w =
     (case groups of
        None \<Rightarrow> (None, w)
      | Some desired \<Rightarrow>
         (case listGroups b w of
            Inl e \<Rightarrow> (Some (''list groups for membership update: '' @ e), w)
          | Inr allGroups \<Rightarrow> (None, fold (\<lambda>g. member_step b uid desired (gr_id g)) allGroups w)))"

definition update_metadata :: "'w bao \<Rightarrow> string \<Rightarrow> json_obj \<Rightarrow> user \<Rightarrow> 'w \<Rightarrow> (string + json_obj) \<times> 'w" where
  "update_metadata b uid data u =
     (let email = (if us_email u \<noteq> '''' then us_email u else mapStr data [''metadata'', ''email'']);
          name = (if us_name u \<noteq> '''' then us_name u else mapStr data [''metadata'', ''name''])
      in bao_write b ''POST'' (entity_path uid)
           (Some (JObj [(''metadata'', JObj [(''email'', JStr email), (''name'', JStr name)])])))"

definition read_back :: "'w bao \<Rightarrow> string \<Rightarrow> 'w \<Rightarrow> string + user option" where
  "read_back b username w =
     (case getUser b username w of
        Inl e \<Rightarrow> Inl (''read back user: '' @ e)
      | Inr u \<Rightarrow> Inr (Some u))"

text \<open>The part of \<open>UpdateUser\<close> after the metadata: login, group memberships, reading back.\<close>

definition update_rest :: "'w bao \<Rightarrow> string \<Rightarrow> string \<Rightarrow> user \<Rightarrow> 'w \<Rightarrow> (string + user option) \<times> 'w" where
  "update_rest b uid username u w =
     (case update_groups b uid (us_groups u) (status_change b username (us_status u) w) of
        (Some e, w) \<Rightarrow> (Inl e, w)
      | (None, w) \<Rightarrow> (read_back b username w, w))"

definition updateUser :: "'w bao \<Rightarrow> string \<Rightarrow> user \<Rightarrow> 'w \<Rightarrow> (string + user option) \<times> 'w" where
  "updateUser b uid u w =
     (case bao_get b (entity_path uid) w of
        Inl _ \<Rightarrow> (Inr None, w)
      | Inr entity \<Rightarrow>
         (case data_of entity of
            None \<Rightarrow> (Inr None, w)
          | Some data \<Rightarrow>
              if mapStr data [''name''] = '''' then (Inr None, w)
              else (case update_metadata b uid data u w of
                      (Inl e, w) \<Rightarrow> (Inl (''update entity metadata: '' @ e), w)
                    | (Inr _, w) \<Rightarrow> update_rest b uid (mapStr data [''name'']) u w)))"

definition deleteUser :: "'w bao \<Rightarrow> string \<Rightarrow> 'w \<Rightarrow> (string + bool) \<times> 'w" where
  "deleteUser b uid w =
     (case bao_get b (entity_path uid) w of
        Inl _ \<Rightarrow> (Inr False, w)
      | Inr entity \<Rightarrow>
         (case data_of entity of
            None \<Rightarrow> (Inr False, w)
          | Some data \<Rightarrow>
              let username = mapStr data [''name''];
                  w = (if username \<noteq> '''' then snd (bao_write b ''DELETE'' (userpass_path username) None w) else w)
              in case bao_write b ''DELETE'' (entity_path uid) None w of
                   (Inl e, w) \<Rightarrow> (Inl (''delete entity: '' @ e), w)
                 | (Inr _, w) \<Rightarrow> (Inr True, w)))"

section \<open>MFA, roles, settings\<close>

record mfa_result =
  mf_url :: string
  mf_barcode :: string

definition mfa_body :: "string \<Rightarrow> string \<Rightarrow> json" where
  "mfa_body methodID entityID = JObj [(''method_id'', JStr methodID), (''entity_id'', JStr entityID)]"

definition enrollMFA :: "'w bao \<Rightarrow> string \<Rightarrow> 'w \<Rightarrow> (string + mfa_result) \<times> 'w" where
  "enrollMFA b entityID w =
     (if bo_method b = '''' then (Inl ''OPENBAO_MFA_METHOD_ID not configured'', w)
      else (case bao_write b ''POST'' ''/v1/identity/mfa/method/totp/admin-generate''
                   (Some (mfa_body (bo_method b) entityID)) w of
              (Inl e, w) \<Rightarrow> (Inl (''enroll MFA: '' @ e), w)
            | (Inr resp, w) \<Rightarrow>
               (case data_of resp of
                  None \<Rightarrow> (Inl ''enroll MFA: empty response data'', w)
                | Some data \<Rightarrow>
                    (Inr \<lparr>mf_url = mapStr data [''url''], mf_barcode = mapStr data [''barcode'']\<rparr>, w))))"

definition destroyMFA :: "'w bao \<Rightarrow> string \<Rightarrow> 'w \<Rightarrow> string option \<times> 'w" where
  "destroyMFA b entityID w =
     (if bo_method b = '''' then (Some ''OPENBAO_MFA_METHOD_ID not configured'', w)
      else (case bao_write b ''POST'' ''/v1/identity/mfa/method/totp/admin-destroy''
                   (Some (mfa_body (bo_method b) entityID)) w of
              (Inl e, w) \<Rightarrow> (Some (''destroy MFA: '' @ e), w)
            | (Inr _, w) \<Rightarrow> (None, w)))"

definition getMFAStatus :: "'w bao \<Rightarrow> string \<Rightarrow> 'w \<Rightarrow> string + bool" where
  "getMFAStatus b entityID w =
     (case bao_get b (entity_path entityID) w of
        Inl e \<Rightarrow> Inl (''get entity for MFA status: '' @ e)
      | Inr resp \<Rightarrow>
         (case data_of resp of
            None \<Rightarrow> Inr False
          | Some data \<Rightarrow>
             (case as_obj (map_of data ''mfa_secrets'') of
                None \<Rightarrow> Inr False
              | Some secrets \<Rightarrow>
                  if length secrets = 0 then Inr False
                  else if bo_method b = '''' then Inr False
                  else Inr (map_of secrets (bo_method b) \<noteq> None))))"

record role_info =
  ro_id :: string
  ro_description :: string
  ro_applet :: string

definition ac_roles :: "role_info list" where
  "ac_roles = map (\<lambda>(i, d, a). \<lparr>ro_id = i, ro_description = d, ro_applet = a\<rparr>)
     [(''admin'', ''Full access to all features'', ''all''),
      (''node-view'', ''View nodes'', ''nmgr''),
      (''node-create'', ''Provision nodes'', ''nmgr''),
      (''node-update'', ''Start/stop/edit nodes'', ''nmgr''),
      (''node-delete'', ''Decommission nodes'', ''nmgr''),
      (''agent-view'', ''View agents'', ''amgr''),
      (''agent-update'', ''Create/start/stop/configure agents'', ''amgr''),
      (''pb-view'', ''View project boards'', ''pb''),
      (''pb-update'', ''Edit boards, cards, containers, edges'', ''pb''),
      (''pb-execute'', ''Implement/send cards to agents'', ''pb''),
      (''ide-view'', ''View projects and files'', ''ide''),
      (''ide-update'', ''Edit files and create projects'', ''ide''),
      (''repo-view'', ''View repositories and PRs'', ''repo''),
      (''repo-update'', ''Create repositories'', ''repo''),
      (''repo-merge'', ''Merge pull requests'', ''repo''),
      (''access-view'', ''View users, groups, settings'', ''ac''),
      (''access-update'', ''Manage users, groups, settings'', ''ac''),
      (''support-view'', ''View and create tickets'', ''sup'')]"

definition listRoles :: "role_info list" where
  "listRoles = ac_roles"

record global_settings =
  gs_requireMFA :: bool
  gs_sessionTimeoutMin :: int
  gs_passwordMinLength :: int

definition default_settings :: global_settings where
  "default_settings = \<lparr>gs_requireMFA = False, gs_sessionTimeoutMin = 30, gs_passwordMinLength = 12\<rparr>"

text \<open>\<open>int(v)\<close> of a \<open>float64\<close> truncates towards zero.\<close>

definition float_to_int :: "rat \<Rightarrow> int" where
  "float_to_int v = (if 0 \<le> v then \<lfloor>v\<rfloor> else \<lceil>v\<rceil>)"

definition num_or :: "json option \<Rightarrow> int \<Rightarrow> int" where
  "num_or v d = (case v of Some (JNum x) \<Rightarrow> float_to_int x | _ \<Rightarrow> d)"

definition settings_of :: "json_obj \<Rightarrow> global_settings" where
  "settings_of inner =
     \<lparr>gs_requireMFA = (case map_of inner ''requireMfa'' of Some (JBool x) \<Rightarrow> x | _ \<Rightarrow> False),
      gs_sessionTimeoutMin = num_or (map_of inner ''sessionTimeoutMinutes'') 30,
      gs_passwordMinLength = num_or (map_of inner ''passwordMinLength'') 12\<rparr>"

definition settings_path :: string where
  "settings_path = ''/v1/convocate/data/settings''"

definition getSettings :: "'w bao \<Rightarrow> 'w \<Rightarrow> string + global_settings" where
  "getSettings b w =
     (case bao_get b settings_path w of
        Inl _ \<Rightarrow> Inr default_settings
      | Inr resp \<Rightarrow>
         (case data_of resp of
            None \<Rightarrow> Inr default_settings
          | Some data \<Rightarrow>
             (case as_obj (map_of data ''data'') of
                None \<Rightarrow> Inr default_settings
              | Some inner \<Rightarrow> Inr (settings_of inner))))"

definition settings_json :: "global_settings \<Rightarrow> json" where
  "settings_json gs =
     JObj [(''requireMfa'', JBool (gs_requireMFA gs)),
           (''sessionTimeoutMinutes'', JNum (of_int (gs_sessionTimeoutMin gs))),
           (''passwordMinLength'', JNum (of_int (gs_passwordMinLength gs)))]"

definition setSettings :: "'w bao \<Rightarrow> global_settings \<Rightarrow> 'w \<Rightarrow> (string + global_settings) \<times> 'w" where
  "setSettings b gs w =
     (case bao_write b ''PUT'' settings_path (Some (JObj [(''data'', settings_json gs)])) w of
        (Inl e, w) \<Rightarrow> (Inl (''write settings to openbao: '' @ e), w)
      | (Inr _, w) \<Rightarrow> (Inr gs, w))"

section \<open>Handlers\<close>

record ac_body =
  cb_user :: user
  cb_name :: string
  cb_roles :: "string list option"
  cb_userIds :: "string list option"
  cb_settings :: global_settings

datatype ac_payload =
    AcUsers "user page" | AcUser user | AcGroups "group page" | AcGroup group
  | AcRoles "role_info page" | AcSettings global_settings | AcMFA mfa_result | AcEnrolled bool

type_synonym 'w ac_handler_t = "(ac_body, 'w, ac_payload) handler"

definition backend_error :: "string \<Rightarrow> 'w \<Rightarrow> ac_payload reply \<times> 'w" where
  "backend_error e w = write_error 502 ''backend_error'' e w"

text \<open>The endings the handlers share: a value or an error, the same with not found, and deletion.\<close>

definition answer :: "nat \<Rightarrow> ('a \<Rightarrow> ac_payload) \<Rightarrow> (string + 'a) \<times> 'w \<Rightarrow> ac_payload reply \<times> 'w" where
  "answer status f rw =
     (case rw of (Inl e, w) \<Rightarrow> backend_error e w | (Inr x, w) \<Rightarrow> write_json status (f x) w)"

definition answer_found ::
    "string \<Rightarrow> ('a \<Rightarrow> ac_payload) \<Rightarrow> (string + 'a option) \<times> 'w \<Rightarrow> ac_payload reply \<times> 'w" where
  "answer_found missing f rw =
     (case rw of
        (Inl e, w) \<Rightarrow> backend_error e w
      | (Inr None, w) \<Rightarrow> write_error 404 ''not_found'' missing w
      | (Inr (Some x), w) \<Rightarrow> write_json 200 (f x) w)"

definition answer_gone :: "string \<Rightarrow> (string + bool) \<times> 'w \<Rightarrow> ac_payload reply \<times> 'w" where
  "answer_gone missing rw =
     (case rw of
        (Inl e, w) \<Rightarrow> backend_error e w
      | (Inr False, w) \<Rightarrow> write_error 404 ''not_found'' missing w
      | (Inr True, w) \<Rightarrow> (Status 204, w))"

definition ac_listUsers :: "'w bao \<Rightarrow> 'w ac_handler_t" where
  "ac_listUsers b r w =
     (case listUsers b w of
        Inl e \<Rightarrow> backend_error e w
      | Inr us \<Rightarrow> write_page AcUsers us r w)"

definition ac_createUser :: "'w bao \<Rightarrow> 'w ac_handler_t" where
  "ac_createUser b = with_body (\<lambda>req r w. answer 201 AcUser (createUser b (cb_user req) w))"

definition ac_updateUser :: "'w bao \<Rightarrow> 'w ac_handler_t" where
  "ac_updateUser b = with_body (\<lambda>req r w.
     answer_found ''user not found'' AcUser (updateUser b (rq_path r ''userId'') (cb_user req) w))"

definition ac_deleteUser :: "'w bao \<Rightarrow> 'w ac_handler_t" where
  "ac_deleteUser b r w = answer_gone ''user not found'' (deleteUser b (rq_path r ''userId'') w)"

definition ac_listGroups :: "'w bao \<Rightarrow> 'w ac_handler_t" where
  "ac_listGroups b r w =
     (case listGroups b w of
        Inl e \<Rightarrow> backend_error e w
      | Inr gs \<Rightarrow> write_page AcGroups gs r w)"

definition ac_createGroup :: "'w bao \<Rightarrow> 'w ac_handler_t" where
  "ac_createGroup b = with_body (\<lambda>req r w.
     answer 201 AcGroup (createGroup b (cb_name req) (cb_roles req) w))"

definition ac_updateGroup :: "'w bao \<Rightarrow> 'w ac_handler_t" where
  "ac_updateGroup b = with_body (\<lambda>req r w.
     if cb_name req = '''' then write_error 400 ''validation_failed'' ''name is required'' w
     else answer_found ''group not found'' AcGroup (updateGroup b (rq_path r ''groupId'') (cb_name req) w))"

definition ac_deleteGroup :: "'w bao \<Rightarrow> 'w ac_handler_t" where
  "ac_deleteGroup b r w =
     answer_gone ''group not found or is builtin'' (deleteGroup b (rq_path r ''groupId'') w)"

definition ac_setGroupUsers :: "'w bao \<Rightarrow> 'w ac_handler_t" where
  "ac_setGroupUsers b = with_body (\<lambda>req r w.
     answer_found ''group not found'' AcGroup (setGroupUsers b (rq_path r ''groupId'') (cb_userIds req) w))"

definition ac_setGroupRoles :: "'w bao \<Rightarrow> 'w ac_handler_t" where
  "ac_setGroupRoles b = with_body (\<lambda>req r w.
     answer_found ''group not found'' AcGroup (setGroupRoles b (rq_path r ''groupId'') (cb_roles req) w))"

definition ac_listRoles :: "'w ac_handler_t" where
  "ac_listRoles r w = write_page AcRoles listRoles r w"

definition ac_getSettings :: "'w bao \<Rightarrow> 'w ac_handler_t" where
  "ac_getSettings b r w = answer 200 AcSettings (getSettings b w, w)"

definition ac_putSettings :: "'w bao \<Rightarrow> 'w ac_handler_t" where
  "ac_putSettings b = with_body (\<lambda>req r w. answer 200 AcSettings (setSettings b (cb_settings req) w))"

definition ac_enrollMFA :: "'w bao \<Rightarrow> 'w ac_handler_t" where
  "ac_enrollMFA b r w = answer 200 AcMFA (enrollMFA b (rq_path r ''userId'') w)"

definition ac_destroyMFA :: "'w bao \<Rightarrow> 'w ac_handler_t" where
  "ac_destroyMFA b r w =
     (case destroyMFA b (rq_path r ''userId'') w of
        (Some e, w) \<Rightarrow> backend_error e w
      | (None, w) \<Rightarrow> (Status 204, w))"

definition ac_mfaStatus :: "'w bao \<Rightarrow> 'w ac_handler_t" where
  "ac_mfaStatus b r w = answer 200 AcEnrolled (getMFAStatus b (rq_path r ''userId'') w, w)"

section \<open>Routes\<close>

datatype ac_route =
    AcListUsers | AcCreateUser | AcUpdateUser | AcDeleteUser | AcListGroups | AcCreateGroup
  | AcUpdateGroup | AcDeleteGroup | AcSetGroupUsers | AcSetGroupRoles | AcListRoles
  | AcEnrollMFA | AcDestroyMFA | AcMfaStatus | AcGetSettings | AcPutSettings

fun ac_role :: "ac_route \<Rightarrow> string" where
  "ac_role AcListUsers = ''access-view''"
| "ac_role AcCreateUser = ''access-update''"
| "ac_role AcUpdateUser = ''access-update''"
| "ac_role AcDeleteUser = ''access-update''"
| "ac_role AcListGroups = ''access-view''"
| "ac_role AcCreateGroup = ''access-update''"
| "ac_role AcUpdateGroup = ''access-update''"
| "ac_role AcDeleteGroup = ''access-update''"
| "ac_role AcSetGroupUsers = ''access-update''"
| "ac_role AcSetGroupRoles = ''access-update''"
| "ac_role AcListRoles = ''access-view''"
| "ac_role AcEnrollMFA = ''access-update''"
| "ac_role AcDestroyMFA = ''access-update''"
| "ac_role AcMfaStatus = ''access-update''"
| "ac_role AcGetSettings = ''access-view''"
| "ac_role AcPutSettings = ''access-update''"

fun ac_handle :: "'w bao \<Rightarrow> ac_route \<Rightarrow> 'w ac_handler_t" where
  "ac_handle b AcListUsers = ac_listUsers b"
| "ac_handle b AcCreateUser = ac_createUser b"
| "ac_handle b AcUpdateUser = ac_updateUser b"
| "ac_handle b AcDeleteUser = ac_deleteUser b"
| "ac_handle b AcListGroups = ac_listGroups b"
| "ac_handle b AcCreateGroup = ac_createGroup b"
| "ac_handle b AcUpdateGroup = ac_updateGroup b"
| "ac_handle b AcDeleteGroup = ac_deleteGroup b"
| "ac_handle b AcSetGroupUsers = ac_setGroupUsers b"
| "ac_handle b AcSetGroupRoles = ac_setGroupRoles b"
| "ac_handle b AcListRoles = ac_listRoles"
| "ac_handle b AcEnrollMFA = ac_enrollMFA b"
| "ac_handle b AcDestroyMFA = ac_destroyMFA b"
| "ac_handle b AcMfaStatus = ac_mfaStatus b"
| "ac_handle b AcGetSettings = ac_getSettings b"
| "ac_handle b AcPutSettings = ac_putSettings b"

definition ac_serve :: "'w bao \<Rightarrow> bao_env \<Rightarrow> ac_route \<Rightarrow> 'w ac_handler_t" where
  "ac_serve b env rt = guarded env (ac_role rt) (ac_handle b rt)"

interpretation acr: rbac_component "ac_handle b" ac_role "''access-view''" for b :: "'w bao"
proof
  fix rt r and w :: 'w assume "ac_role rt = ''access-view''"
  then show "snd (ac_handle b rt r w) = w"
    by (cases rt) (simp_all add: ac_listUsers_def ac_listGroups_def ac_listRoles_def ac_getSettings_def
        answer_def backend_error_def write_error_def write_json_def split: sum.split)
qed

section \<open>The writes an operation sends\<close>

text \<open>
  OpenBao with a log: every write is recorded with its method, path and body, so the log of a run
  is what the operation sends.
\<close>

type_synonym bao_call = "string \<times> string \<times> json option"

definition logged_bao :: "'w bao \<Rightarrow> ('w \<times> bao_call list) bao" where
  "logged_bao b =
     \<lparr>bo_get = (\<lambda>p wl. bo_get b p (fst wl)), bo_list = (\<lambda>p wl. bo_list b p (fst wl)),
      bo_write = (\<lambda>m p body wl.
        let (a, w) = bo_write b m p body (fst wl) in (a, (w, snd wl @ [(m, p, body)]))),
      bo_object = bo_object b, bo_range = bo_range b, bo_method = bo_method b\<rparr>"

lemma logged_fields [simp]:
  "bo_get (logged_bao b) p wl = bo_get b p (fst wl)"
  "bo_list (logged_bao b) p wl = bo_list b p (fst wl)"
  "bo_object (logged_bao b) = bo_object b"
  "bo_range (logged_bao b) = bo_range b"
  "bo_method (logged_bao b) = bo_method b"
  by (simp_all add: logged_bao_def)

lemma logged_reads [simp]:
  "bao_get (logged_bao b) p wl = bao_get b p (fst wl)"
  "baoList (logged_bao b) p wl = baoList b p (fst wl)"
  by (simp add: bao_get_def) (simp add: baoList_def split: bao_answer.split sum.split)

lemma logged_write [simp]:
  "bao_write (logged_bao b) m p body wl =
     (fst (bao_write b m p body (fst wl)), snd (bao_write b m p body (fst wl)), snd wl @ [(m, p, body)])"
  by (simp add: bao_write_def logged_bao_def Let_def split: prod.split)

lemma logged_getUser [simp]: "getUser (logged_bao b) n wl = getUser b n (fst wl)"
  by (simp add: getUser_def)

lemma logged_groups_loop [simp]: "groups_loop (logged_bao b) wl ns = groups_loop b (fst wl) ns"
  by (induction ns) (simp_all split: sum.split option.split)

lemma logged_listGroups [simp]: "listGroups (logged_bao b) wl = listGroups b (fst wl)"
  by (simp add: listGroups_def split: sum.split)

text \<open>A state of the logged OpenBao after some more writes, all of which satisfy \<open>P\<close>.\<close>

definition sent :: "(bao_call \<Rightarrow> bool) \<Rightarrow> 'w \<times> bao_call list \<Rightarrow> 'w \<times> bao_call list \<Rightarrow> bool" where
  "sent P wl wl' \<longleftrightarrow> (\<exists>xs. snd wl' = snd wl @ xs \<and> list_all P xs)"

lemma sent_refl [simp]: "sent P wl wl"
  by (simp add: sent_def)

lemma sent_trans: "sent P u v \<Longrightarrow> sent P v w \<Longrightarrow> sent P u w"
  by (auto simp: sent_def)

lemma sent_write: "P (m, p, body) \<Longrightarrow> sent P wl (snd (bao_write (logged_bao b) m p body wl))"
  by (simp add: sent_def)

lemma sent_fold: "(\<And>x wl. sent P wl (f x wl)) \<Longrightarrow> sent P wl (fold f xs wl)"
proof (induction xs arbitrary: wl)
  case (Cons x xs)
  show ?case using sent_trans [OF Cons.prems [of wl x] Cons.IH [OF Cons.prems]] by simp
qed simp

definition login_write :: "string \<Rightarrow> string \<Rightarrow> bao_call" where
  "login_write n pw = (''PUT'', userpass_path n, Some (JObj [(''password'', JStr pw)]))"

definition members_write :: "string \<Rightarrow> string list \<Rightarrow> bao_call" where
  "members_write g ms = (''POST'', group_path g, Some (JObj [(''member_entity_ids'', JArr (map JStr ms))]))"

definition metadata_write :: "string \<Rightarrow> string \<Rightarrow> string \<Rightarrow> bao_call" where
  "metadata_write uid e m = (''POST'', entity_path uid,
     Some (JObj [(''metadata'', JObj [(''email'', JStr e), (''name'', JStr m)])]))"

text \<open>The writes an update of user \<open>uid\<close> with login \<open>n\<close> may send.\<close>

definition update_write :: "string \<Rightarrow> string \<Rightarrow> bao_call \<Rightarrow> bool" where
  "update_write uid n x \<longleftrightarrow>
     (\<exists>e m. x = metadata_write uid e m) \<or> x = (''DELETE'', userpass_path n, None) \<or>
     x = login_write n ''changeme'' \<or> (\<exists>g ms. x = members_write g ms)"

lemma sent_members: "sent (update_write uid n) wl (set_members (logged_bao b) g ms wl)"
  unfolding set_members_def by (rule sent_write) (auto simp: update_write_def members_write_def)

lemma sent_member_step: "sent (update_write uid n) wl (member_step (logged_bao b) uid desired g wl)"
  by (simp add: member_step_def Let_def sent_members split: sum.split option.split)

lemma sent_status: "sent (update_write uid n) wl (status_change (logged_bao b) n st wl)"
  unfolding status_change_def set_login_def default_password_def
  by (auto intro!: sent_write simp: update_write_def login_write_def simp del: logged_write)

lemma sent_groups: "sent (update_write uid n) wl (snd (update_groups (logged_bao b) uid gs wl))"
  by (simp add: update_groups_def sent_fold sent_member_step split: option.split sum.split)

lemma sent_metadata: "sent (update_write uid n) wl (snd (update_metadata (logged_bao b) uid data u wl))"
  unfolding update_metadata_def Let_def
  by (rule sent_write) (auto simp: update_write_def metadata_write_def)

lemma sent_rest: "sent (update_write uid n) wl (snd (update_rest (logged_bao b) uid n u wl))"
  by (auto simp: update_rest_def split_beta intro: sent_trans [OF sent_status sent_groups] split: option.split)

lemma update_writes:
  assumes "bao_get b (entity_path uid) (fst wl) = Inr entity" and "data_of entity = Some data"
  shows "sent (update_write uid (mapStr data [''name''])) wl (snd (updateUser (logged_bao b) uid u wl))"
  using assms
  by (auto simp: updateUser_def split_beta intro: sent_metadata sent_trans [OF sent_metadata sent_rest]
      split: sum.split)


section \<open>Memberships\<close>

text \<open>
  What the group endpoints of OpenBao promise, with \<open>mem\<close> reading the members of a group out of
  its state: a group is read back with its members, storing members stores them for that group
  alone, and writes elsewhere leave all members alone.
\<close>

definition serves_groups :: "'w bao \<Rightarrow> ('w \<Rightarrow> string \<rightharpoonup> string list) \<Rightarrow> bool" where
  "serves_groups b mem \<longleftrightarrow>
     (\<forall>w g. case mem w g of
        None \<Rightarrow> (\<exists>e. bao_get b (group_path g) w = Inl e)
      | Some ms \<Rightarrow> (\<exists>resp d. bao_get b (group_path g) w = Inr resp \<and> data_of resp = Some d \<and>
          members_of d = ms)) \<and>
     (\<forall>w g ms. mem w g \<noteq> None \<longrightarrow> mem (set_members b g ms w) = (mem w)(g \<mapsto> ms)) \<and>
     (\<forall>w m p body. p \<notin> range group_path \<longrightarrow> mem (snd (bao_write b m p body w)) = mem w)"

text \<open>The members a group ends with, out of those it had.\<close>

definition wanted_members :: "string \<Rightarrow> string list \<Rightarrow> string \<Rightarrow> string list \<Rightarrow> string list" where
  "wanted_members uid desired g ms =
     (if g \<in> set desired then (if uid \<in> set ms then ms else ms @ [uid])
      else filter (\<lambda>m. m \<noteq> uid) ms)"

lemma wanted_idem [simp]:
  "wanted_members uid desired g (wanted_members uid desired g ms) = wanted_members uid desired g ms"
  by (simp add: wanted_members_def)

lemma serves_groups_get:
  "serves_groups b mem \<Longrightarrow> mem w g = None \<Longrightarrow> \<exists>e. bao_get b (group_path g) w = Inl e"
  "serves_groups b mem \<Longrightarrow> mem w g = Some ms \<Longrightarrow>
     \<exists>resp d. bao_get b (group_path g) w = Inr resp \<and> data_of resp = Some d \<and> members_of d = ms"
  by (auto simp: serves_groups_def dest!: spec [of _ w] spec [of _ g])

lemma serves_groups_set:
  "serves_groups b mem \<Longrightarrow> mem w g = Some ms \<Longrightarrow> mem (set_members b g ms' w) = (mem w)(g \<mapsto> ms')"
  unfolding serves_groups_def by blast

lemma mem_member_step:
  assumes "serves_groups b mem"
  shows "mem (member_step b uid desired g w) =
    (mem w)(g := map_option (wanted_members uid desired g) (mem w g))"
proof (cases "mem w g")
  case None
  from serves_groups_get(1) [OF assms None] obtain e where "bao_get b (group_path g) w = Inl e" ..
  with None show ?thesis by (simp add: member_step_def fun_upd_idem)
next
  case (Some ms)
  obtain resp d where get: "bao_get b (group_path g) w = Inr resp" "data_of resp = Some d"
    and ms: "members_of d = ms"
    using serves_groups_get(2) [OF assms Some] by blast
  have set: "mem (set_members b g ms' w) = (mem w)(g \<mapsto> ms')" for ms'
    by (rule serves_groups_set [OF assms Some])
  have other: "filter (\<lambda>m. m \<noteq> uid) ms = ms" if "uid \<notin> set ms"
    using that by (auto simp: filter_id_conv)
  have step: "member_step b uid desired g w =
      (if g \<in> set desired \<and> uid \<notin> set ms then set_members b g (ms @ [uid]) w
       else if g \<notin> set desired \<and> uid \<in> set ms then set_members b g (filter (\<lambda>m. m \<noteq> uid) ms) w
       else w)"
    by (simp add: member_step_def get ms Let_def list_ex_iff)
  show ?thesis
    unfolding step wanted_members_def Some option.map(2)
    by (simp add: set other Some fun_upd_idem)
qed

lemma mem_member_steps:
  assumes "serves_groups b mem"
  shows "mem (fold (\<lambda>g. member_step b uid desired (gr_id g)) gs w) =
    (\<lambda>g. if g \<in> gr_id ` set gs then map_option (wanted_members uid desired g) (mem w g) else mem w g)"
proof (induction gs arbitrary: w)
  case (Cons x gs)
  show ?case
    by (auto simp: Cons.IH mem_member_step [OF assms] fun_eq_iff option.map_comp comp_def)
qed simp

lemma no_group_path [simp]:
  "entity_path uid \<notin> range group_path" "userpass_path n \<notin> range group_path"
  by (auto simp: entity_path_def userpass_path_def group_path_def)

lemma mem_metadata: "serves_groups b mem \<Longrightarrow> mem (snd (update_metadata b uid data u w)) = mem w"
  by (simp add: serves_groups_def update_metadata_def Let_def)

lemma mem_status: "serves_groups b mem \<Longrightarrow> mem (status_change b n st w) = mem w"
  by (simp add: serves_groups_def status_change_def set_login_def)

section \<open>Properties\<close>



text \<open>
  All that an update of a user writes to OpenBao is the user's metadata, its login and
  memberships of groups. In particular disabling a user deletes the login and nothing else: no
  token is revoked and the entity is not marked disabled, so its sessions go on and the user is
  still listed as active. Setting the status active (again) resets the password to a fixed one.
\<close>

theorem updates_of_a_user:
  assumes "bao_get b (entity_path uid) w = Inr resp" and "data_of resp = Some data"
    and "n = mapStr data [''name'']"
  shows "let sent' = snd (snd (updateUser (logged_bao b) uid u (w, [])))
    in (\<forall>x \<in> set sent'. (\<exists>e m. x = metadata_write uid e m) \<or> x = (''DELETE'', userpass_path n, None) \<or>
          x = login_write n ''changeme'' \<or> (\<exists>g ms. x = members_write g ms)) \<and>
       (us_status u = ''active'' \<and> n \<noteq> '''' \<and> (\<exists>x. fst (update_metadata b uid data u w) = Inr x) \<longrightarrow>
          login_write n ''changeme'' \<in> set sent')"
proof -
  have "sent (update_write uid n) (w, []) (snd (updateUser (logged_bao b) uid u (w, [])))"
    using update_writes [of b uid "(w, [])"] assms by simp
  then have "\<forall>x \<in> set (snd (snd (updateUser (logged_bao b) uid u (w, [])))). update_write uid n x"
    by (auto simp: sent_def list_all_iff)
  moreover have "login_write n ''changeme'' \<in> set (snd (snd (updateUser (logged_bao b) uid u (w, []))))"
    if "us_status u = ''active''" "n \<noteq> ''''" "fst (update_metadata b uid data u w) = Inr x" for x
  proof -
    let ?wl = "snd (update_metadata (logged_bao b) uid data u (w, []))"
    let ?wl2 = "status_change (logged_bao b) n ''active'' ?wl"
    have "fst (update_metadata (logged_bao b) uid data u (w, [])) = Inr x"
      using that(3) by (simp add: update_metadata_def Let_def)
    then have "snd (updateUser (logged_bao b) uid u (w, [])) =
        snd (update_groups (logged_bao b) uid (us_groups u) ?wl2)"
      using assms that(1,2) by (auto simp: updateUser_def update_rest_def split_beta split: option.split)
    moreover have "login_write n ''changeme'' \<in> set (snd ?wl2)"
      by (simp add: status_change_def set_login_def login_write_def default_password_def)
    moreover have "set (snd ?wl2) \<subseteq> set (snd (snd (update_groups (logged_bao b) uid (us_groups u) ?wl2)))"
      using sent_groups [of uid n ?wl2 b "us_groups u"] by (auto simp: sent_def)
    ultimately show ?thesis by auto
  qed
  ultimately show ?thesis unfolding Let_def update_write_def by blast
qed

text \<open>
  An example OpenBao for the witnesses: two groups whose members it stores, one entity with the
  login \<open>ann\<close>. A body is coded by a letter for what it holds.
\<close>

definition demo_object :: "string \<Rightarrow> string + json_obj" where
  "demo_object raw =
     (case raw of
        [] \<Rightarrow> Inl ''empty''
      | c # rest \<Rightarrow>
          let data = (if c = CHR ''E'' then [(''name'', JStr rest)]
                      else if c = CHR ''N'' then [(''id'', JStr rest)]
                      else if c = CHR ''K'' then [(''keys'', JArr (map JStr (decode_strings '''' rest)))]
                      else [(''member_entity_ids'', JArr (map JStr (decode_strings '''' rest)))])
          in Inr [(''data'', JObj data)])"

type_synonym demo_groups = "string \<rightharpoonup> string list"

definition demo_get :: "string \<Rightarrow> demo_groups \<Rightarrow> bao_answer" where
  "demo_get p w =
     (if p = entity_path ''e1'' then Answer 200 ''Eann''
      else if prefix ''/v1/identity/group/name/'' p then Answer 200 (CHR ''N'' # drop 24 p)
      else if prefix ''/v1/identity/group/id/'' p
      then (case w (drop 22 p) of None \<Rightarrow> NoAnswer ''no group'' | Some ms \<Rightarrow> Answer 200 (CHR ''M'' # code_strings ms))
      else NoAnswer ''not found'')"

definition demo_write :: "string \<Rightarrow> string \<Rightarrow> json option \<Rightarrow> demo_groups \<Rightarrow> bao_answer \<times> demo_groups" where
  "demo_write m p body w =
     (Answer 204 '''',
      (case body of
         Some (JObj [(f, JArr js)]) \<Rightarrow>
           if prefix ''/v1/identity/group/id/'' p \<and> w (drop 22 p) \<noteq> None
           then w(drop 22 p \<mapsto> str_items js) else w
       | _ \<Rightarrow> w))"

definition demo_bao :: "demo_groups bao" where
  "demo_bao =
     \<lparr>bo_get = demo_get, bo_list = (\<lambda>p w. Answer 200 (CHR ''K'' # code_strings [''admins'', ''devs''])),
      bo_write = demo_write, bo_object = demo_object, bo_range = (\<lambda>m. m), bo_method = ''''\<rparr>"

lemma demo_serves: "serves_groups demo_bao (\<lambda>w. w)"
proof -
  have read: "case w g of None \<Rightarrow> (\<exists>e. bao_get demo_bao (group_path g) w = Inl e)
      | Some ms \<Rightarrow> (\<exists>resp d. bao_get demo_bao (group_path g) w = Inr resp \<and> data_of resp = Some d \<and>
          members_of d = ms)" for w g
    by (simp add: bao_get_def bao_result_def demo_bao_def demo_get_def group_path_def entity_path_def
        demo_object_def data_of_def as_obj_def members_of_def slice_or_empty_def split: option.split)
  have other: "snd (bao_write demo_bao m p body w) = w" if "p \<notin> range group_path" for m p body w
  proof -
    have "\<not> prefix ''/v1/identity/group/id/'' p"
      using that by (auto simp: group_path_def prefix_def)
    then show ?thesis
      by (auto simp: bao_write_def demo_bao_def demo_write_def split: option.split json.split list.split)
  qed
  show ?thesis
    unfolding serves_groups_def using read other
    by (auto simp: set_members_def bao_write_def demo_bao_def demo_write_def group_path_def)
qed

definition demo_user :: user where
  "demo_user = \<lparr>us_id = '''', us_email = ''ann@x'', us_name = '''', us_password = '''',
     us_status = ''active'', us_groups = Some [''devs'']\<rparr>"

definition demo_members :: demo_groups where
  "demo_members = [''admins'' \<mapsto> [''e1'', ''e2''], ''devs'' \<mapsto> []]"

lemma demo_listing: "listGroups demo_bao w = Inr
    [\<lparr>gr_id = ''admins'', gr_name = ''admins'', gr_builtin = False, gr_userCount = 0, gr_roles = Some []\<rparr>,
     \<lparr>gr_id = ''devs'', gr_name = ''devs'', gr_builtin = False, gr_userCount = 0, gr_roles = Some []\<rparr>]"
  by (simp add: listGroups_def baoList_def demo_bao_def demo_object_def as_obj_def str_items_strs [of "[_, _]", simplified]
      bao_get_def bao_result_def demo_get_def entity_path_def data_of_def group_view_def builtin_group_def
      members_of_def slice_or_empty_def mapStr.simps as_str_def)



definition demo_builtin :: "unit bao" where
  "demo_builtin =
     \<lparr>bo_get = (\<lambda>p w. Answer 200 ''B''), bo_list = (\<lambda>p w. NoAnswer ''down''),
      bo_write = (\<lambda>m p body w. (Answer 204 '''', w)),
      bo_object = (\<lambda>raw. Inr [(''data'', JObj [(''metadata'', JObj [(''builtin'', JStr ''true'')]),
                                              (''name'', JStr ''ann'')])]),
      bo_range = (\<lambda>m. m), bo_method = ''''\<rparr>"


theorem updates_of_a_user_witness:
  "login_write ''ann'' ''changeme'' \<in>
     set (snd (snd (updateUser (logged_bao demo_bao) ''e1'' demo_user (demo_members, []))))"
proof -
  have get: "bao_get demo_bao (entity_path ''e1'') demo_members = Inr [(''data'', JObj [(''name'', JStr ''ann'')])]"
    by (simp add: bao_get_def bao_result_def demo_bao_def demo_get_def demo_object_def)
  have "data_of [(''data'', JObj [(''name'', JStr ''ann'')])] = Some [(''name'', JStr ''ann'')]"
    and "''ann'' = mapStr [(''name'', JStr ''ann'')] [''name'']"
    by (simp_all add: data_of_def as_obj_def mapStr.simps as_str_def)
  note sent' = updates_of_a_user [OF get this, of demo_user, unfolded Let_def, THEN conjunct2]
  have "\<exists>x. fst (update_metadata demo_bao ''e1'' d demo_user demo_members) = Inr x" for d
    by (simp add: update_metadata_def Let_def bao_write_def bao_result_def demo_bao_def demo_write_def)
  with sent' show ?thesis by (simp add: demo_user_def)
qed

text \<open>
  Creating a user is not atomic. When OpenBao refuses the entity, the request is answered
  502, but the login exists already, with the requested password or \<open>changeme\<close>: nothing takes it
  back, and since users are found by their entity, the user that is then listed under the login
  name cannot be deleted under it either.
\<close>

theorem creation_leaves_login:
  assumes "rq_body r = Some q" and "login_name (cb_user q) = n"
    and "(if us_password (cb_user q) = '''' then ''changeme'' else us_password (cb_user q)) = pw"
    and "set_login b n pw w = (Inr resp, w1)"
    and "bao_write b ''POST'' ''/v1/identity/entity''
      (Some (JObj [(''name'', JStr n), (''metadata'', JObj [(''email'', JStr (us_email (cb_user q))),
         (''name'', JStr (us_name (cb_user q)))])])) w1 = (Inl e, w1)"
    and "bao_get b (''/v1/identity/entity/name/'' @ n) w1 = Inl e1" and "bao_get b (entity_path n) w1 = Inl e2"
    and "rq_path r' ''userId'' = n"
  shows "reply_code (fst (ac_handle b AcCreateUser r w)) = Some 502 \<and>
    snd (ac_handle b AcCreateUser r w) = w1 \<and> getUser b n w1 = Inr (bare_user n) \<and>
    ac_handle b AcDeleteUser r' w1 = (Failure 404 ''not_found'' ''user not found'', w1)"
proof -
  have "createUser b (cb_user q) w = (Inl (''create identity entity: '' @ e), w1)"
    unfolding createUser_def Let_def default_password_def assms(2,3) assms(4,5) prod.case sum.case ..
  then show ?thesis
    using assms(1,6-8)
    by (simp add: ac_createUser_def with_body_def answer_def backend_error_def write_error_def
        getUser_def ac_deleteUser_def deleteUser_def answer_gone_def)
qed

definition demo_refusing :: "string list bao" where
  "demo_refusing =
     \<lparr>bo_get = (\<lambda>p w. Answer 404 ''{}''), bo_list = (\<lambda>p w. Answer 404 ''''),
      bo_write = (\<lambda>m p body w. if m = ''PUT'' then (Answer 204 '''', w @ [p]) else (Answer 503 ''{}'', w)),
      bo_object = (\<lambda>raw. Inr []), bo_range = (\<lambda>m. m), bo_method = ''''\<rparr>"

definition demo_new_user :: ac_body where
  "demo_new_user = \<lparr>cb_user = \<lparr>us_id = '''', us_email = ''bob@x'', us_name = ''bob'', us_password = '''',
     us_status = '''', us_groups = None\<rparr>, cb_name = '''', cb_roles = None, cb_userIds = None,
     cb_settings = default_settings\<rparr>"

theorem creation_leaves_login_witness:
  "snd (ac_handle demo_refusing AcCreateUser (demo_req (\<lambda>k. '''') (Some demo_new_user)) []) =
     [''/v1/auth/userpass/users/bob'']"
proof -
  let ?body = "Some (JObj [(''name'', JStr ''bob''), (''metadata'', JObj [(''email'', JStr ''bob@x''),
     (''name'', JStr ''bob'')])])"
  have login: "set_login demo_refusing ''bob'' ''changeme'' [] = (Inr [], [''/v1/auth/userpass/users/bob''])"
    by (simp add: set_login_def bao_write_def demo_refusing_def bao_result_def userpass_path_def)
  have entity: "\<exists>e. bao_write demo_refusing ''POST'' ''/v1/identity/entity'' body w = (Inl e, w)" for body w
    by (simp add: bao_write_def demo_refusing_def bao_result_def)
  have get: "\<exists>e. bao_get demo_refusing p w = Inl e" for p w
    by (simp add: bao_get_def demo_refusing_def bao_result_def)
  obtain e where e: "bao_write demo_refusing ''POST'' ''/v1/identity/entity'' ?body
      [''/v1/auth/userpass/users/bob''] = (Inl e, [''/v1/auth/userpass/users/bob''])"
    using entity by blast
  obtain e1 e2 where "bao_get demo_refusing (''/v1/identity/entity/name/'' @ ''bob'')
        [''/v1/auth/userpass/users/bob''] = Inl e1"
    and "bao_get demo_refusing (entity_path ''bob'') [''/v1/auth/userpass/users/bob''] = Inl e2"
    using get by metis
  note leaves = creation_leaves_login [of "demo_req (\<lambda>k. '''') (Some demo_new_user)" demo_new_user "''bob''"
      "''changeme''", OF _ _ _ login _ this, of e "demo_req (\<lambda>k. ''bob'') None"]
  show ?thesis
    by (rule leaves [THEN conjunct2, THEN conjunct1])
      (simp_all add: demo_req_def demo_new_user_def login_name_def e)
qed

end
