(* ===== verification/Jwt.thy ===== *)
theory Jwt
  imports Httputil
begin

text \<open>
  The session tokens of the SAML login (\<^verbatim>\<open>internal/auth/jwt.go\<close>): unpadded URL-safe Base64, the
  fixed-size encoding of an ECDSA signature, signing and verification.

  A Go string is a string of bytes here, one character per byte. JSON coding of the claims and the
  signature scheme are parameters, the keys being unset (\<open>None\<close>) until \<open>InitJWT\<close> has run.
\<close>

section \<open>Base64\<close>

definition b64_char :: "nat \<Rightarrow> char" where
  "b64_char n =
     (if n < 26 then char_of (65 + n) else if n < 52 then char_of (71 + n)
      else if n < 62 then char_of (n - 4) else if n = 62 then CHR ''-'' else CHR ''_'')"

definition b64_val :: "char \<Rightarrow> nat option" where
  "b64_val c =
     (let n = (of_char c :: nat)
      in if 65 \<le> n \<and> n \<le> 90 then Some (n - 65) else if 97 \<le> n \<and> n \<le> 122 then Some (n - 71)
         else if 48 \<le> n \<and> n \<le> 57 then Some (n + 4) else if n = 45 then Some 62
         else if n = 95 then Some 63 else None)"

fun b64_sextets :: "nat list \<Rightarrow> nat list" where
  "b64_sextets [] = []"
| "b64_sextets [a] = [a div 4, (a mod 4) * 16]"
| "b64_sextets [a, b] = [a div 4, (a mod 4) * 16 + b div 16, (b mod 16) * 4]"
| "b64_sextets (a # b # c # rest) =
     a div 4 # ((a mod 4) * 16 + b div 16) # ((b mod 16) * 4 + c div 64) # c mod 64 # b64_sextets rest"

fun b64_bytes :: "nat list \<Rightarrow> nat list option" where
  "b64_bytes [] = Some []"
| "b64_bytes [a] = None"
| "b64_bytes [a, b] = Some [a * 4 + b div 16]"
| "b64_bytes [a, b, c] = Some [a * 4 + b div 16, (b mod 16) * 16 + c div 4]"
| "b64_bytes (a # b # c # d # rest) =
     map_option (\<lambda>bs. (a * 4 + b div 16) # ((b mod 16) * 16 + c div 4) # ((c mod 4) * 64 + d) # bs)
       (b64_bytes rest)"

definition b64_encode :: "string \<Rightarrow> string" where
  "b64_encode s = map b64_char (b64_sextets (map of_char s))"

text \<open>Decoding skips line breaks, as Go's decoder does.\<close>

definition b64_decode :: "string \<Rightarrow> string option" where
  "b64_decode s =
     (let vs = map b64_val (filter (\<lambda>c. (of_char c :: nat) \<notin> {10, 13}) s)
      in if None \<in> set vs then None
         else map_option (map char_of) (b64_bytes (map the vs)))"

lemma b64_val_char [simp]: "n < 64 \<Longrightarrow> b64_val (b64_char n) = Some n"
  by (auto simp: b64_val_def b64_char_def Let_def)

lemma b64_char_not_break: "n < 64 \<Longrightarrow> (of_char (b64_char n) :: nat) \<notin> {10, 13, 46}"
  by (auto simp: b64_char_def)

lemma b64_sextets_bound:
  "\<forall>x \<in> set bs. x < 256 \<Longrightarrow> \<forall>x \<in> set (b64_sextets bs). x < 64"
proof (induction bs rule: b64_sextets.induct)
  case (4 a b c rest)
  then have "a div 4 < 64" "(a mod 4) * 16 + b div 16 < 64" "(b mod 16) * 4 + c div 64 < 64" by simp_all linarith+
  with 4 show ?case by simp
qed (simp_all, linarith+)

lemma b64_bytes_sextets:
  "\<forall>x \<in> set bs. x < 256 \<Longrightarrow> b64_bytes (b64_sextets bs) = Some bs"
proof (induction bs rule: b64_sextets.induct)
  case (2 a)
  then show ?case by (simp add: div_mult_mod_eq)
next
  case (3 a b)
  then have "b div 16 < 16" by (simp add: less_mult_imp_div_less)
  then have "b div 16 div 16 = 0" "b div 16 mod 16 = b div 16" by simp_all
  then show ?case using div_mult_mod_eq [of b 16] div_mult_mod_eq [of a 4]
    by (simp del: div_mult_mod_eq)
next
  case (4 a b c rest)
  then have "b div 16 < 16" "c div 64 < 4" by (simp_all add: less_mult_imp_div_less)
  then have small: "b div 16 div 16 = 0" "b div 16 mod 16 = b div 16" "c div 64 div 4 = 0" "c div 64 mod 4 = c div 64"
    by simp_all
  from 4 show ?case
    by (simp add: small div_mult_mod_eq)
qed simp

lemma b64_roundtrip [simp]: "b64_decode (b64_encode s) = Some s"
proof -
  let ?ns = "b64_sextets (map of_char s)"
  have small: "\<forall>x \<in> set ?ns. x < 64"
    by (rule b64_sextets_bound) simp
  then have keep: "filter (\<lambda>c. (of_char c :: nat) \<notin> {10, 13}) (map b64_char ?ns) = map b64_char ?ns"
    using b64_char_not_break by (auto simp: filter_id_conv)
  have vals: "map b64_val (map b64_char ?ns) = map Some ?ns"
    using small by simp
  have "b64_bytes ?ns = Some (map of_char s)"
    by (rule b64_bytes_sextets) simp
  then show ?thesis
    unfolding b64_decode_def b64_encode_def keep vals Let_def by (simp add: comp_def)
qed

lemma b64_no_dot: "CHR ''.'' \<notin> set (b64_encode s)"
proof
  assume "CHR ''.'' \<in> set (b64_encode s)"
  then obtain n where "n \<in> set (b64_sextets (map of_char s))" "b64_char n = CHR ''.''"
    by (auto simp: b64_encode_def)
  moreover have "\<forall>x \<in> set (b64_sextets (map of_char s)). x < 64"
    by (rule b64_sextets_bound) simp
  ultimately show False using b64_char_not_break [of n] by auto
qed

text \<open>\<open>base64.StdEncoding\<close>: its two own characters, and padding to a multiple of four.\<close>

definition std_val :: "char \<Rightarrow> nat option" where
  "std_val c = (if c = CHR ''+'' then Some 62 else if c = CHR ''/'' then Some 63
     else if c = CHR ''-'' \<or> c = CHR ''_'' then None else b64_val c)"

definition strip_pad :: "string \<Rightarrow> string" where
  "strip_pad s =
     (let strip = (\<lambda>s. if s \<noteq> [] \<and> last s = CHR ''='' then butlast s else s) in strip (strip s))"

definition std_decode :: "string \<Rightarrow> string option" where
  "std_decode s =
     (let s = filter (\<lambda>c. (of_char c :: nat) \<notin> {10, 13}) s;
          vs = map std_val (strip_pad s)
      in if length s mod 4 \<noteq> 0 \<or> None \<in> set vs then None
         else map_option (map char_of) (b64_bytes (map the vs)))"

definition std_char :: "nat \<Rightarrow> char" where
  "std_char n = (if n = 62 then CHR ''+'' else if n = 63 then CHR ''/'' else b64_char n)"

definition std_encode :: "string \<Rightarrow> string" where
  "std_encode s =
     (let b = map std_char (b64_sextets (map of_char s)) in b @ replicate ((4 - length b mod 4) mod 4) CHR ''='')"

lemma of_b64_char:
  "n < 62 \<Longrightarrow> (of_char (b64_char n) :: nat) = (if n < 26 then 65 + n else if n < 52 then 71 + n else n - 4)"
  by (simp add: b64_char_def)

lemma std_val_char: "n < 64 \<Longrightarrow> std_val (std_char n) = Some n"
proof -
  assume "n < 64"
  then consider "n = 62" | "n = 63" | "n < 62" by linarith
  then show ?thesis
  proof cases
    case 3
    have "b64_char n \<noteq> c" if "(of_char c :: nat) \<in> {43, 45, 47, 95}" for c
      using that of_b64_char [OF 3] 3 by (auto split: if_splits)
    with 3 show ?thesis by (simp add: std_val_def std_char_def)
  qed (simp_all add: std_val_def std_char_def)
qed

lemma std_char_not: "n < 64 \<Longrightarrow> (of_char (std_char n) :: nat) \<notin> {10, 13, 34, 61}"
proof -
  assume "n < 64"
  then consider "n = 62" | "n = 63" | "n < 62" by linarith
  then show ?thesis
  proof cases
    case 3
    have "n - 4 \<noteq> 10" "n - 4 \<noteq> 13" "n - 4 \<noteq> 34" "n - 4 \<noteq> 61" if "\<not> n < 52" using that 3 by linarith+
    with 3 show ?thesis using of_b64_char [OF 3] by (simp add: std_char_def)
  qed (simp_all add: std_char_def)
qed

text \<open>Padding comes off again.\<close>

lemma strip_padded:
  assumes "b = [] \<or> last b \<noteq> CHR ''=''" and "k \<le> 2"
  shows "strip_pad (b @ replicate k CHR ''='') = b"
proof -
  have "k = 0 \<or> k = 1 \<or> k = 2" using assms(2) by linarith
  moreover have "strip_pad b = b" "strip_pad (b @ [CHR ''='']) = b" "strip_pad (b @ [CHR ''='', CHR ''='']) = b"
    using assms(1) by (cases b rule: rev_cases; simp add: strip_pad_def butlast_append)+
  ultimately show ?thesis by (elim disjE) (simp_all add: eval_nat_numeral)
qed

lemma length_sextets: "length (b64_sextets bs) mod 4 \<in> {0, 2, 3}"
  by (induction bs rule: b64_sextets.induct) auto

lemma pad_length: "(L + (4 - L mod 4) mod 4) mod 4 = (0 :: nat)"
proof -
  have "L mod 4 < 4" by simp
  then have "L mod 4 = 0 \<or> L mod 4 = 1 \<or> L mod 4 = 2 \<or> L mod 4 = 3" by linarith
  then have "(L mod 4 + (4 - L mod 4) mod 4) mod 4 = 0" by (elim disjE) simp_all
  then show ?thesis by (simp only: mod_add_left_eq)
qed

lemma pad_count: "L mod 4 = 0 \<or> L mod 4 = 2 \<or> L mod 4 = 3 \<Longrightarrow> (4 - L mod 4) mod 4 \<le> (2 :: nat)"
  by (elim disjE) simp_all

lemma std_roundtrip [simp]: "std_decode (std_encode s) = Some s"
proof -
  let ?ns = "b64_sextets (map of_char s)"
  let ?b = "map std_char ?ns" and ?n = "(4 - length ?ns mod 4) mod 4"
  have small: "\<forall>x \<in> set ?ns. x < 64" by (rule b64_sextets_bound) simp
  have ok: "(of_char c :: nat) \<notin> {10, 13, 34, 61}" if c: "c \<in> set ?b" for c
  proof -
    obtain n where "n \<in> set ?ns" "c = std_char n" by (rule imageE [OF c [unfolded set_map]])
    then show ?thesis using small std_char_not by blast
  qed
  have enc: "std_encode s = ?b @ replicate ?n CHR ''=''" by (simp add: std_encode_def)
  have keep: "filter (\<lambda>c. (of_char c :: nat) \<notin> {10, 13}) (std_encode s) = std_encode s"
    unfolding filter_id_conv
  proof
    fix c
    assume "c \<in> set (std_encode s)"
    then have "c \<in> set ?b \<or> c \<in> set (replicate ?n CHR ''='')" by (simp only: enc set_append Un_iff)
    then show "(of_char c :: nat) \<notin> {10, 13}"
    proof
      assume "c \<in> set ?b"
      from ok [OF this] show ?thesis by blast
    next
      assume "c \<in> set (replicate ?n CHR ''='')"
      then have "c = CHR ''=''" by (simp only: in_set_replicate)
      then show ?thesis by simp
    qed
  qed
  have len: "length (std_encode s) mod 4 = 0"
    unfolding enc length_append length_map length_replicate by (rule pad_length)
  have no_eq: "?b = [] \<or> last ?b \<noteq> CHR ''=''"
  proof (cases "?b = []")
    case False
    from ok [OF last_in_set [OF this]] show ?thesis by (intro disjI2) auto
  qed (rule disjI1)
  have "length ?ns mod 4 = 0 \<or> length ?ns mod 4 = 2 \<or> length ?ns mod 4 = 3"
    using length_sextets [of "map of_char s"] by blast
  then have "length ?b mod 4 = 0 \<or> length ?b mod 4 = 2 \<or> length ?b mod 4 = 3" by (simp only: length_map)
  from pad_count [OF this] have "?n \<le> 2" by (simp only: length_map)
  from strip_padded [OF no_eq this] have pad: "strip_pad (std_encode s) = ?b" unfolding enc .
  have vals: "map std_val ?b = map Some ?ns" by (simp only: map_map comp_def, rule map_cong [OF refl]) (use small std_val_char in blast)
  have "b64_bytes ?ns = Some (map of_char s)" by (rule b64_bytes_sextets) simp
  then show ?thesis
    unfolding std_decode_def keep Let_def pad vals len
    by (simp add: comp_def del: b64_bytes.simps b64_sextets.simps)
qed

text \<open>No quote ends an encoded text.\<close>

lemma std_no_quote: "CHR 0x22 \<notin> set (std_encode s)"
proof
  assume "CHR 0x22 \<in> set (std_encode s)"
  then obtain n where "n \<in> set (b64_sextets (map of_char s))" "std_char n = CHR 0x22"
    by (auto simp: std_encode_def Let_def)
  moreover have "\<forall>x \<in> set (b64_sextets (map of_char s)). x < 64" by (rule b64_sextets_bound) simp
  ultimately show False using std_char_not [of n] by auto
qed

section \<open>Numbers as bytes\<close>

text \<open>\<open>big.Int.Bytes\<close> (no leading zero) and \<open>SetBytes\<close>.\<close>

fun int_bytes :: "nat \<Rightarrow> nat list" where
  "int_bytes n = (if n = 0 then [] else int_bytes (n div 256) @ [n mod 256])"

declare int_bytes.simps [simp del]

definition set_bytes :: "nat list \<Rightarrow> nat" where
  "set_bytes bs = foldl (\<lambda>a b. 256 * a + b) 0 bs"

lemma set_bytes_snoc [simp]: "set_bytes (bs @ [b]) = 256 * set_bytes bs + b"
  by (simp add: set_bytes_def)

lemma set_int_bytes [simp]: "set_bytes (int_bytes n) = n"
proof (induction n rule: int_bytes.induct)
  case (1 n)
  then show ?case
    by (cases "n = 0") (simp add: int_bytes.simps [of 0] set_bytes_def, simp add: int_bytes.simps [of n])
qed

lemma set_bytes_zeros [simp]: "set_bytes (replicate k 0 @ bs) = set_bytes bs"
proof -
  have "foldl (\<lambda>a b. 256 * a + b) 0 (replicate k 0) = (0 :: nat)" by (induction k) simp_all
  then show ?thesis by (simp add: set_bytes_def)
qed

lemma int_bytes_small: "\<forall>b \<in> set (int_bytes n). b < 256"
  by (induction n rule: int_bytes.induct) (subst int_bytes.simps, simp)

lemma length_int_bytes: "n < 256 ^ k \<Longrightarrow> length (int_bytes n) \<le> k"
proof (induction k arbitrary: n)
  case 0
  then show ?case by (simp add: int_bytes.simps)
next
  case (Suc k)
  then have "n div 256 < 256 ^ k" by (simp add: less_mult_imp_div_less mult.commute)
  with Suc.IH show ?case by (subst int_bytes.simps) simp
qed

text \<open>
  One half of the signature: the number right-aligned in 32 bytes. \<open>None\<close> is the panic of a
  negative slice bound, for a number of more than 32 bytes.
\<close>

definition sig_half :: "nat \<Rightarrow> nat list option" where
  "sig_half x =
     (let bs = int_bytes x
      in if length bs \<le> 32 then Some (replicate (32 - length bs) 0 @ bs) else None)"

section \<open>Signing and verifying\<close>

record jwt_claims =
  jc_sub :: string
  jc_username :: string
  jc_name :: string
  jc_email :: string
  jc_roles :: "string list"
  jc_applets :: "string list"
  jc_exp :: int
  jc_iat :: int

text \<open>Signing and verifying take the text; the SHA-256 digest in between is part of them.\<close>

record jwt_env =
  je_sign :: "(string \<Rightarrow> nat \<times> nat) option"
  je_verify :: "(string \<Rightarrow> nat \<Rightarrow> nat \<Rightarrow> bool) option"
  je_encode :: "jwt_claims \<Rightarrow> string"
  je_decode :: "string \<Rightarrow> string + jwt_claims"

definition jwt_header :: string where
  "jwt_header = ''{'' @ [CHR 0x22] @ ''alg'' @ [CHR 0x22] @ '':'' @ [CHR 0x22] @ ''ES256'' @ [CHR 0x22] @
     '','' @ [CHR 0x22] @ ''typ'' @ [CHR 0x22] @ '':'' @ [CHR 0x22] @ ''JWT'' @ [CHR 0x22] @ ''}''"

text \<open>Times are in seconds. \<open>None\<close> is a panic, that of signing with a nil key included.\<close>

definition signJWT :: "jwt_env \<Rightarrow> int \<Rightarrow> principal \<Rightarrow> int \<Rightarrow> (string \<times> int) option" where
  "signJWT je now p ttl =
     (let exp = now + ttl;
          claims = \<lparr>jc_sub = p_id p, jc_username = p_username p, jc_name = p_name p,
                    jc_email = p_email p, jc_roles = p_roles p, jc_applets = p_applets p,
                    jc_exp = exp, jc_iat = now\<rparr>;
          signingInput = b64_encode jwt_header @ ''.'' @ b64_encode (je_encode je claims)
      in case je_sign je of
           None \<Rightarrow> None
         | Some sign \<Rightarrow>
             let (r, s) = sign signingInput
             in case (sig_half r, sig_half s) of
                  (Some rs, Some ss) \<Rightarrow>
                    Some (signingInput @ ''.'' @ b64_encode (map char_of (rs @ ss)), exp)
                | _ \<Rightarrow> None)"

text \<open>\<open>strings.SplitN(token, \".\", 3)\<close> when it has three parts.\<close>

fun split_dot :: "string \<Rightarrow> (string \<times> string) option" where
  "split_dot [] = None"
| "split_dot (c # s) = (if c = CHR ''.'' then Some ([], s)
     else map_option (\<lambda>(a, b). (c # a, b)) (split_dot s))"

definition split3 :: "string \<Rightarrow> (string \<times> string \<times> string) option" where
  "split3 token =
     (case split_dot token of
        None \<Rightarrow> None
      | Some (a, rest) \<Rightarrow> map_option (\<lambda>(b, c). (a, b, c)) (split_dot rest))"

definition verifyJWT :: "jwt_env \<Rightarrow> int \<Rightarrow> string \<Rightarrow> (string + jwt_claims) option" where
  "verifyJWT je now token =
     (case split3 token of
        None \<Rightarrow> Some (Inl ''invalid token format'')
      | Some (h, b, sg) \<Rightarrow>
         (case b64_decode sg of
            None \<Rightarrow> Some (Inl ''invalid signature encoding'')
          | Some sigBytes \<Rightarrow>
              if length sigBytes \<noteq> 64 then Some (Inl ''invalid signature encoding'')
              else let r = set_bytes (map of_char (take 32 sigBytes));
                       s = set_bytes (map of_char (drop 32 sigBytes))
                   in case je_verify je of
                        None \<Rightarrow> None
                      | Some verify \<Rightarrow>
                          if \<not> verify (h @ ''.'' @ b) r s then Some (Inl ''invalid signature'')
                          else (case b64_decode b of
                                  None \<Rightarrow> Some (Inl ''decode claims'')
                                | Some json \<Rightarrow>
                                   (case je_decode je json of
                                      Inl e \<Rightarrow> Some (Inl (''parse claims: '' @ e))
                                    | Inr claims \<Rightarrow>
                                        if now > jc_exp claims then Some (Inl ''token expired'')
                                        else Some (Inr claims)))))"

lemma split_dot_append [simp]:
  "CHR ''.'' \<notin> set a \<Longrightarrow> split_dot (a @ CHR ''.'' # b) = Some (a, b)"
  by (induction a) auto

lemma split_dot_text: "split_dot s = Some (a, b) \<Longrightarrow> s = a @ CHR ''.'' # b"
  by (induction s arbitrary: a) (auto split: if_splits)

lemma sig_half_32:
  assumes "x < 2 ^ 256"
  obtains bs where "sig_half x = Some bs" "length bs = 32" "set_bytes bs = x" "\<forall>b \<in> set bs. b < 256"
proof -
  have "x < 256 ^ 32" using assms by simp
  then have "length (int_bytes x) \<le> 32" by (rule length_int_bytes)
  then show thesis
    using int_bytes_small [of x]
    by (intro that [of "replicate (32 - length (int_bytes x)) 0 @ int_bytes x"])
      (auto simp: sig_half_def Let_def)
qed

section \<open>Properties\<close>

text \<open>
  C13: a token that was signed is verified: as long as it has not expired it yields the claims
  of the principal it was made for, afterwards it is refused. This needs of the signature scheme
  that a signature has two numbers of at most 256 bits and verifies for the text it was made
  for, and of the JSON coding of claims that it can be read back; no other assumption on the
  contents is made, whatever characters they hold.
\<close>

theorem jwt_roundtrip:
  assumes "je_sign je = Some sign" and "je_verify je = Some verify"
    and "\<And>m. fst (sign m) < 2 ^ 256 \<and> snd (sign m) < 2 ^ 256 \<and> verify m (fst (sign m)) (snd (sign m))"
    and "claims = \<lparr>jc_sub = p_id p, jc_username = p_username p, jc_name = p_name p,
      jc_email = p_email p, jc_roles = p_roles p, jc_applets = p_applets p,
      jc_exp = now + ttl, jc_iat = now\<rparr>"
    and "je_decode je (je_encode je claims) = Inr claims"
  shows "\<exists>token. signJWT je now p ttl = Some (token, now + ttl) \<and>
    verifyJWT je later token =
      Some (if later > now + ttl then Inl ''token expired'' else Inr claims)"
proof -
  define h where "h = b64_encode jwt_header"
  define b where "b = b64_encode (je_encode je claims)"
  obtain r s where rs: "sign (h @ ''.'' @ b) = (r, s)" by (cases "sign (h @ ''.'' @ b)")
  with assms(3) [of "h @ ''.'' @ b"] have small: "r < 2 ^ 256" "s < 2 ^ 256" and ok: "verify (h @ ''.'' @ b) r s"
    by simp_all
  obtain rb where rb: "sig_half r = Some rb" "length rb = 32" "set_bytes rb = r" "\<forall>x \<in> set rb. x < 256"
    using sig_half_32 [OF small(1)] .
  obtain sb where sb: "sig_half s = Some sb" "length sb = 32" "set_bytes sb = s" "\<forall>x \<in> set sb. x < 256"
    using sig_half_32 [OF small(2)] .
  let ?sig = "map char_of (rb @ sb) :: string"
  let ?token = "(h @ ''.'' @ b) @ ''.'' @ b64_encode ?sig"
  have signed: "signJWT je now p ttl = Some (?token, now + ttl)"
    unfolding signJWT_def Let_def assms(1) assms(4) [symmetric] h_def [symmetric] b_def [symmetric]
      option.case rs prod.case rb(1) sb(1) ..
  have parts: "split3 ?token = Some (h, b, b64_encode ?sig)"
    using b64_no_dot by (simp add: split3_def h_def b_def)
  have halves: "map of_char (take 32 ?sig) = rb" "map of_char (drop 32 ?sig) = sb" "length ?sig = 64"
    using rb sb by (simp_all add: map_idI)
  have "verifyJWT je later ?token =
      Some (if later > now + ttl then Inl ''token expired'' else Inr claims)"
    unfolding verifyJWT_def parts option.case prod.case b64_roundtrip halves Let_def assms(2) rb(3) sb(3)
    using ok by (simp add: b_def assms(5)) (simp add: assms(4))
  with signed show ?thesis by blast
qed

definition demo_principal :: principal where
  "demo_principal = \<lparr>p_id = ''ann'', p_username = ''ann'', p_name = ''Ann'', p_email = '''', p_groups = [],
     p_roles = [''admin''], p_idp = ''saml'', p_applets = []\<rparr>"

definition demo_claims :: jwt_claims where
  "demo_claims = \<lparr>jc_sub = ''ann'', jc_username = ''ann'', jc_name = ''Ann'', jc_email = '''',
     jc_roles = [''admin''], jc_applets = [], jc_exp = 100 + 86400, jc_iat = 100\<rparr>"

definition demo_jwt :: jwt_env where
  "demo_jwt =
     \<lparr>je_sign = Some (\<lambda>m. (length m mod 2 ^ 256, 7)),
      je_verify = Some (\<lambda>m r s. r = length m mod 2 ^ 256 \<and> s = 7),
      je_encode = (\<lambda>c. jc_sub c), je_decode = (\<lambda>t. if t = ''ann'' then Inr demo_claims else Inl ''no'')\<rparr>"

theorem jwt_roundtrip_witness:
  "(\<exists>token. signJWT demo_jwt 100 demo_principal 86400 = Some (token, 86500) \<and>
      verifyJWT demo_jwt 200 token = Some (Inr demo_claims)) \<and>
   (\<exists>token. signJWT demo_jwt 100 demo_principal 86400 = Some (token, 86500) \<and>
      verifyJWT demo_jwt 90000 token = Some (Inl ''token expired''))"
proof -
  have scheme: "je_sign demo_jwt = Some (\<lambda>m. (length m mod 2 ^ 256, 7))"
    "je_verify demo_jwt = Some (\<lambda>m r s. r = length m mod 2 ^ 256 \<and> s = 7)"
    by (simp_all add: demo_jwt_def)
  have claims: "demo_claims = \<lparr>jc_sub = p_id demo_principal, jc_username = p_username demo_principal,
      jc_name = p_name demo_principal, jc_email = p_email demo_principal, jc_roles = p_roles demo_principal,
      jc_applets = p_applets demo_principal, jc_exp = 100 + 86400, jc_iat = 100\<rparr>"
    by (simp add: demo_claims_def demo_principal_def)
  have coding: "je_decode demo_jwt (je_encode demo_jwt demo_claims) = Inr demo_claims"
    by (simp add: demo_jwt_def demo_claims_def)
  note roundtrip = jwt_roundtrip [OF scheme _ claims coding]
  show ?thesis
    using roundtrip [of 200] roundtrip [of 90000] by simp
qed

text \<open>
  A token is accepted only when its signature verifies for the text of its own header and
  claims, and it has not expired; the claims it yields are the ones that text decodes to.
\<close>

theorem jwt_accepts_signed:
  assumes "verifyJWT je now token = Some (Inr claims)"
  shows "\<exists>h b sg verify r s json. token = h @ ''.'' @ b @ ''.'' @ sg \<and> je_verify je = Some verify \<and>
    verify (h @ ''.'' @ b) r s \<and> b64_decode b = Some json \<and> je_decode je json = Inr claims \<and>
    now \<le> jc_exp claims"
proof -
  obtain h b sg where parts: "split3 token = Some (h, b, sg)"
    using assms by (auto simp: verifyJWT_def split: option.splits)
  then have "token = h @ ''.'' @ b @ ''.'' @ sg"
    by (auto simp: split3_def dest!: split_dot_text split: option.splits)
  moreover obtain verify r s json where "je_verify je = Some verify" "verify (h @ ''.'' @ b) r s"
    "b64_decode b = Some json" "je_decode je json = Inr claims" "now \<le> jc_exp claims"
    using assms by (auto simp: verifyJWT_def parts Let_def split: option.splits if_splits sum.splits)
  ultimately show ?thesis by blast
qed

end
