(* ===== verification/Login.thy ===== *)
theory Login
  imports Middleware Json_Data Jwt
begin

text \<open>
  The authentication endpoints (\<^verbatim>\<open>internal/auth\<close>): login against OpenBao in two steps when it asks
  for a second factor, login through the SAML agent, refresh, logout, and the self-service TOTP
  endpoints.

  OpenBao and the SAML agent are the outside world, a state of any type \<open>'w\<close>: GET requests read it,
  POST requests may change it. JSON and XML decoding are parameters; the HTML of the SAML agent
  is taken apart here as the code does it. Instants are in seconds.
\<close>

section \<open>OpenBao\<close>

record login_auth =
  lo_token :: string
  lo_entity :: string
  lo_policies :: "string list"
  lo_metadata :: "string \<rightharpoonup> string"
  lo_lease :: int
  lo_mfa :: "string option"    \<comment> \<open>\<open>mfa_requirement\<close>: its request id\<close>

type_synonym http_answer = "string + nat \<times> string"

record 'w vault =
  va_addr :: string            \<comment> \<open>\<open>OPENBAO_ADDR\<close>\<close>
  va_method :: string          \<comment> \<open>\<open>OPENBAO_MFA_METHOD_ID\<close>\<close>
  va_tokenFile :: string       \<comment> \<open>\<open>OPENBAO_TOKEN_FILE\<close>\<close>
  va_file :: "string \<Rightarrow> string option"
  va_token :: string           \<comment> \<open>\<open>OPENBAO_TOKEN\<close>\<close>
  va_get :: "string \<Rightarrow> string \<Rightarrow> 'w \<Rightarrow> http_answer"
  va_post :: "string \<Rightarrow> string option \<Rightarrow> json option \<Rightarrow> 'w \<Rightarrow> http_answer \<times> 'w"
  va_login :: "string \<Rightarrow> string + login_auth"
  va_entity :: "string \<Rightarrow> string + entity_info"
  va_lookup :: "string \<Rightarrow> string + token_info"
  va_totp :: "string \<Rightarrow> string + string \<times> string"
  va_secrets :: "string \<Rightarrow> string + string list"   \<comment> \<open>the keys of \<open>mfa_secrets\<close>\<close>
  va_range :: "string list \<Rightarrow> string list"

definition vault_url :: "'w vault \<Rightarrow> string \<Rightarrow> string" where
  "vault_url v path = openbaoAddr (va_addr v) @ path"

definition status_error :: "string \<Rightarrow> nat \<Rightarrow> string \<Rightarrow> string" where
  "status_error what status body = what @ digits status @ '': '' @ body"

definition login_result :: "'w vault \<Rightarrow> string \<times> string \<times> string \<times> string \<Rightarrow> http_answer \<Rightarrow> string + login_auth" where
  "login_result v msgs resp =
     (let (unsent, refused, other, undecoded) = msgs
      in case resp of
           Inl e \<Rightarrow> Inl (unsent @ e)
         | Inr (status, body) \<Rightarrow>
             if status = 400 \<or> status = 403 \<or> status = 401 then Inl refused
             else if status \<noteq> 200 then Inl (status_error other status body)
             else map_sum (\<lambda>e. undecoded @ e) id (va_login v body))"

definition openbaoLogin :: "'w vault \<Rightarrow> string \<Rightarrow> string \<Rightarrow> 'w \<Rightarrow> (string + login_auth) \<times> 'w" where
  "openbaoLogin v username password w =
     (let (resp, w) = va_post v (vault_url v (''/v1/auth/userpass/login/'' @ username)) None
                        (Some (JObj [(''password'', JStr password)])) w
      in (login_result v (''login request failed: '', ''authentication failed'', ''unexpected status '',
            ''decode login response: '') resp, w))"

definition openbaoMFAValidate :: "'w vault \<Rightarrow> string \<Rightarrow> string \<Rightarrow> string \<Rightarrow> 'w \<Rightarrow> (string + login_auth) \<times> 'w"
  where
  "openbaoMFAValidate v requestID methodID code w =
     (let (resp, w) = va_post v (vault_url v ''/v1/sys/mfa/validate'') None
                        (Some (JObj [(''mfa_request_id'', JStr requestID),
                                     (''mfa_payload'', JObj [(methodID, JArr [JStr code])])])) w
      in (login_result v (''mfa validate request failed: '', ''mfa validation failed'',
            ''mfa validate unexpected status '', ''decode mfa validate response: '') resp, w))"

definition openbaoLookupEntity :: "'w vault \<Rightarrow> string \<Rightarrow> string \<Rightarrow> 'w \<Rightarrow> string + entity_info" where
  "openbaoLookupEntity v token entityID w =
     (case va_get v (vault_url v (''/v1/identity/entity/id/'' @ entityID)) token w of
        Inl e \<Rightarrow> Inl (''entity lookup failed: '' @ e)
      | Inr (status, body) \<Rightarrow>
          if status \<noteq> 200 then Inl (status_error ''entity lookup status '' status body)
          else map_sum (\<lambda>e. ''decode entity response: '' @ e) id (va_entity v body))"

definition openbaoTokenLookupSelf :: "'w vault \<Rightarrow> string \<Rightarrow> 'w \<Rightarrow> string + token_info" where
  "openbaoTokenLookupSelf v token w =
     (case va_get v (vault_url v ''/v1/auth/token/lookup-self'') token w of
        Inl e \<Rightarrow> Inl (''token lookup failed: '' @ e)
      | Inr (status, body) \<Rightarrow>
          if status \<noteq> 200 then Inl (''token lookup failed with status '' @ digits status)
          else map_sum (\<lambda>e. ''decode token lookup response: '' @ e) id (va_lookup v body))"

definition openbaoRevokeSelf :: "'w vault \<Rightarrow> string \<Rightarrow> 'w \<Rightarrow> string option \<times> 'w" where
  "openbaoRevokeSelf v token w =
     (case va_post v (vault_url v ''/v1/auth/token/revoke-self'') (Some token) None w of
        (Inl e, w) \<Rightarrow> (Some (''revoke request failed: '' @ e), w)
      | (Inr (status, body), w) \<Rightarrow>
          if status \<noteq> 200 \<and> status \<noteq> 204 then (Some (''revoke failed with status '' @ digits status), w)
          else (None, w))"

definition openbaoServiceToken :: "'w vault \<Rightarrow> string" where
  "openbaoServiceToken v =
     (case (if va_tokenFile v \<noteq> '''' then va_file v (va_tokenFile v) else None) of
        Some data \<Rightarrow> trim_spaces data
      | None \<Rightarrow> va_token v)"

definition totp_body :: "string \<Rightarrow> string \<Rightarrow> json" where
  "totp_body methodID entityID = JObj [(''method_id'', JStr methodID), (''entity_id'', JStr entityID)]"

definition openbaoTOTPEnroll :: "'w vault \<Rightarrow> string \<Rightarrow> string \<Rightarrow> 'w \<Rightarrow> (string + string \<times> string) \<times> 'w" where
  "openbaoTOTPEnroll v entityID methodID w =
     (if openbaoServiceToken v = '''' then (Inl ''no service token available'', w)
      else (case va_post v (vault_url v ''/v1/identity/mfa/method/totp/admin-generate'')
                   (Some (openbaoServiceToken v)) (Some (totp_body methodID entityID)) w of
              (Inl e, w) \<Rightarrow> (Inl (''totp enroll request failed: '' @ e), w)
            | (Inr (status, body), w) \<Rightarrow>
                if status \<noteq> 200 then (Inl (status_error ''totp enroll status '' status body), w)
                else (map_sum (\<lambda>e. ''decode totp enroll response: '' @ e) id (va_totp v body), w)))"

definition openbaoTOTPDestroy :: "'w vault \<Rightarrow> string \<Rightarrow> string \<Rightarrow> 'w \<Rightarrow> string option \<times> 'w" where
  "openbaoTOTPDestroy v entityID methodID w =
     (if openbaoServiceToken v = '''' then (Some ''no service token available'', w)
      else (case va_post v (vault_url v ''/v1/identity/mfa/method/totp/admin-destroy'')
                   (Some (openbaoServiceToken v)) (Some (totp_body methodID entityID)) w of
              (Inl e, w) \<Rightarrow> (Some (''totp destroy request failed: '' @ e), w)
            | (Inr (status, body), w) \<Rightarrow>
                if status \<noteq> 200 \<and> status \<noteq> 204
                then (Some (status_error ''totp destroy status '' status body), w)
                else (None, w)))"

definition openbaoGetMFAStatus :: "'w vault \<Rightarrow> string \<Rightarrow> string \<Rightarrow> 'w \<Rightarrow> string + bool" where
  "openbaoGetMFAStatus v entityID methodID w =
     (if openbaoServiceToken v = '''' then Inl ''no service token available''
      else (case va_get v (vault_url v (''/v1/identity/entity/id/'' @ entityID)) (openbaoServiceToken v) w of
              Inl e \<Rightarrow> Inl (''entity lookup for MFA status failed: '' @ e)
            | Inr (status, body) \<Rightarrow>
                if status \<noteq> 200 then Inl (''entity lookup for MFA status returned '' @ digits status)
                else (case va_secrets v body of
                        Inl e \<Rightarrow> Inl (''decode entity for MFA status: '' @ e)
                      | Inr ks \<Rightarrow> if length ks = 0 then Inr False else Inr (methodID \<in> set ks))))"

text \<open>The package has its own copies of the functions that make a principal.\<close>

definition auth_allApplets :: "string list" where
  "auth_allApplets = [''nmgr'', ''amgr'', ''pb'', ''ide'', ''repo'', ''ac'', ''sup'']"

definition auth_applet_of :: "string \<Rightarrow> string option" where
  "auth_applet_of p =
     map_option snd (find (\<lambda>(part, _). contains p part)
       [(''node-'', ''nmgr''), (''agent-'', ''amgr''), (''pb-'', ''pb''), (''ide-'', ''ide''), (''access-'', ''ac''),
        (''repo-'', ''repo''), (''support-'', ''sup'')])"

fun auth_applets_loop :: "string list \<Rightarrow> string list \<Rightarrow> string list option" where
  "auth_applets_loop appletSet [] = Some appletSet"
| "auth_applets_loop appletSet (policy # ps) =
     (let p = to_lower policy
      in if p = ''admin-policy'' \<or> p = ''admin'' then None
         else auth_applets_loop (case auth_applet_of p of None \<Rightarrow> appletSet | Some a \<Rightarrow> List.insert a appletSet) ps)"

definition auth_rolesToApplets :: "(string list \<Rightarrow> string list) \<Rightarrow> string list \<Rightarrow> string list" where
  "auth_rolesToApplets rng policies =
     (case auth_applets_loop [] policies of None \<Rightarrow> auth_allApplets | Some as \<Rightarrow> rng as)"

text \<open>The two copies agree, so the lemmas about the one of the middleware serve here.\<close>

lemma auth_applets_loop_eq: "auth_applets_loop as ps = applets_loop as ps"
proof (induction ps arbitrary: as)
  case (Cons p ps)
  have "auth_applet_of q = applet_of q" for q by (simp add: auth_applet_of_def applet_of_def)
  with Cons show ?case by (simp add: Let_def admin_policy_def split: option.split)
qed simp

lemma auth_rolesToApplets_eq [simp]: "auth_rolesToApplets rng ps = rolesToApplets rng ps"
  by (simp add: auth_rolesToApplets_def rolesToApplets_def auth_applets_loop_eq auth_allApplets_def allApplets_def split: option.split)

definition buildPrincipalFromEntity ::
    "(string list \<Rightarrow> string list) \<Rightarrow> entity_info \<Rightarrow> string list \<Rightarrow> principal" where
  "buildPrincipalFromEntity rng entity policies =
     (let meta = en_metadata entity;
          roles = dedup_roles [] (en_policies entity @ policies);
          name = meta_get meta ''name'';
          name = (if name = '''' then en_name entity else name)
      in \<lparr>p_id = en_id entity, p_username = en_name entity, p_name = name,
          p_email = meta_get meta ''email'', p_groups = en_groups entity, p_roles = roles,
          p_idp = ''openbao'', p_applets = auth_rolesToApplets rng roles\<rparr>)"

section \<open>The SAML agent\<close>

record saml_attribute =
  at_name :: string
  at_values :: "string list"

record saml_info =
  si_nameID :: string
  si_attributes :: "saml_attribute list"

text \<open>
  \<open>sv_login\<close> posts the credentials with a fresh request to the agent and reads the page it
  answers; \<open>sv_xml\<close> is \<open>xml.Unmarshal\<close> into the fields of the assertion.
\<close>

record 'w saml_agent =
  sv_url :: string             \<comment> \<open>\<open>SAML_SCIM_AGENT_URL\<close>\<close>
  sv_login :: "string \<Rightarrow> string \<Rightarrow> string \<Rightarrow> 'w \<Rightarrow> (string + string) \<times> 'w"
  sv_xml :: "string \<Rightarrow> string + saml_info"

definition saml_marker :: string where
  "saml_marker = ''name='' @ [CHR 0x22] @ ''SAMLResponse'' @ [CHR 0x22] @ '' value='' @ [CHR 0x22]"

text \<open>The text after the first occurrence of the marker.\<close>

fun after_marker :: "string \<Rightarrow> string \<Rightarrow> string option" where
  "after_marker m s =
     (if prefix m s then Some (drop (length m) s)
      else case s of [] \<Rightarrow> None | _ # s' \<Rightarrow> after_marker m s')"

declare after_marker.simps [simp del]

definition extractSAMLResponseFromHTML :: "string \<Rightarrow> string + string" where
  "extractSAMLResponseFromHTML html =
     (case after_marker saml_marker html of
        None \<Rightarrow> Inl ''SAMLResponse not found in response''
      | Some rest \<Rightarrow>
          if CHR 0x22 \<in> set rest then Inr (takeWhile (\<lambda>c. c \<noteq> CHR 0x22) rest)
          else Inl ''SAMLResponse value not terminated'')"

fun saml_attrs :: "string \<Rightarrow> string list \<Rightarrow> saml_attribute list \<Rightarrow> string \<times> string list" where
  "saml_attrs email groups [] = (email, groups)"
| "saml_attrs email groups (a # as) =
     (if at_name a = ''email''
      then saml_attrs (if length (at_values a) > 0 then hd (at_values a) else email) groups as
      else if at_name a = ''groups'' then saml_attrs email (groups @ at_values a) as
      else saml_attrs email groups as)"

definition extractPrincipalFromSAML ::
    "(string list \<Rightarrow> string list) \<Rightarrow> (string \<Rightarrow> string + saml_info) \<Rightarrow> string \<Rightarrow> string + principal" where
  "extractPrincipalFromSAML rng xml text =
     (case xml text of
        Inl e \<Rightarrow> Inl (''unmarshal SAMLResponse: '' @ e)
      | Inr info \<Rightarrow>
          let username = si_nameID info;
              (email, groups) = saml_attrs '''' [] (si_attributes info)
          in if username = '''' then Inl ''NameID is empty''
             else Inr \<lparr>p_id = username, p_username = username, p_name = username, p_email = email,
                       p_groups = groups, p_roles = groups, p_idp = ''saml'',
                       p_applets = auth_rolesToApplets rng groups\<rparr>)"

definition samlLoginCore :: "'w vault \<Rightarrow> 'w saml_agent \<Rightarrow> string \<Rightarrow> string \<Rightarrow> 'w \<Rightarrow> (string + principal) \<times> 'w"
  where
  "samlLoginCore v sa username password w =
     (case sv_login sa (sv_url sa @ ''/saml/login'') username password w of
        (Inl e, w) \<Rightarrow> (Inl e, w)
      | (Inr html, w) \<Rightarrow>
          (if \<not> contains html ''SAMLResponse'' then Inl ''authentication failed''
           else (case extractSAMLResponseFromHTML html of
                   Inl e \<Rightarrow> Inl (''extract SAMLResponse: '' @ e)
                 | Inr b64 \<Rightarrow>
                    (case std_decode b64 of
                       None \<Rightarrow> Inl ''decode SAMLResponse''
                     | Some text \<Rightarrow>
                         map_sum (\<lambda>e. ''extract assertions: '' @ e) id
                           (extractPrincipalFromSAML (va_range v) (sv_xml sa) text))), w))"

text \<open>\<open>ErrMFARequired\<close> is told apart from the other errors.\<close>

datatype saml_error = MFARequired | SamlError string

definition samlLogin :: "'w vault \<Rightarrow> 'w saml_agent \<Rightarrow> string \<Rightarrow> string \<Rightarrow> string \<Rightarrow> 'w \<Rightarrow>
    (saml_error + principal) \<times> 'w" where
  "samlLogin v sa username password mfaToken w =
     (case samlLoginCore v sa username password w of
        (Inl e, w) \<Rightarrow> (Inl (SamlError e), w)
      | (Inr p, w) \<Rightarrow>
          if va_method v = '''' then (Inr p, w)
          else (case openbaoGetMFAStatus v (p_id p) (va_method v) w of
                  Inl _ \<Rightarrow> (Inr p, w)
                | Inr enrolled \<Rightarrow>
                    if \<not> enrolled then (Inr p, w)
                    else if mfaToken = '''' then (Inl MFARequired, w)
                    else (case openbaoLogin v username password w of
                            (Inl e, w) \<Rightarrow> (Inl (SamlError (''MFA validation login failed: '' @ e)), w)
                          | (Inr login, w) \<Rightarrow>
                             (case lo_mfa login of
                                None \<Rightarrow> (Inr p, w)
                              | Some requestID \<Rightarrow>
                                  if requestID = '''' then (Inr p, w)
                                  else (case openbaoMFAValidate v requestID (va_method v) mfaToken w of
                                          (Inl e, w) \<Rightarrow> (Inl (SamlError (''invalid MFA code: '' @ e)), w)
                                        | (Inr _, w) \<Rightarrow> (Inr p, w))))))"

section \<open>Handlers\<close>

record login_request =
  lr_username :: string
  lr_password :: string
  lr_mfaToken :: string

record session =
  ss_accessToken :: string
  ss_refreshToken :: string
  ss_expiresAt :: int
  ss_principal :: principal

datatype auth_payload =
    AuSession session | AuPrincipal principal | AuEnroll "string \<times> string" | AuEnrolled bool

record 'w auth_config =
  au_vault :: "'w vault"
  au_saml :: "'w saml_agent"
  au_jwt :: jwt_env
  au_now :: int

type_synonym 'w auth_handler_t = "(login_request, 'w, auth_payload) handler"

definition day :: int where
  "day = 86400"

definition unauthorized :: "string \<Rightarrow> 'w \<Rightarrow> auth_payload reply \<times> 'w" where
  "unauthorized msg w = write_error 401 ''unauthorized'' msg w"

text \<open>The branch of \<open>handleLogin\<close> through the SAML agent.\<close>

definition login_saml :: "'w auth_config \<Rightarrow> login_request \<Rightarrow> 'w \<Rightarrow> auth_payload reply \<times> 'w" where
  "login_saml c q w =
     (case samlLogin (au_vault c) (au_saml c) (lr_username q) (lr_password q) (lr_mfaToken q) w of
        (Inl MFARequired, w) \<Rightarrow> write_error 401 ''mfa_required'' ''MFA code required'' w
      | (Inl (SamlError _), w) \<Rightarrow> unauthorized ''authentication failed'' w
      | (Inr p, w) \<Rightarrow>
         (case signJWT (au_jwt c) (au_now c) p day of
            None \<Rightarrow> (Panic, w)
          | Some (token, expiresAt) \<Rightarrow>
              write_json 200 (AuSession \<lparr>ss_accessToken = token, ss_refreshToken = '''',
                ss_expiresAt = expiresAt, ss_principal = p\<rparr>) w))"

text \<open>The second step of a login against OpenBao, when the answer of the first asks for it.\<close>

definition second_factor :: "'w vault \<Rightarrow> login_request \<Rightarrow> login_auth \<Rightarrow> 'w \<Rightarrow>
    (auth_payload reply + login_auth) \<times> 'w" where
  "second_factor v q login w =
     (case lo_mfa login of
        None \<Rightarrow> (Inr login, w)
      | Some requestID \<Rightarrow>
          if requestID = '''' then (Inr login, w)
          else if lr_mfaToken q = '''' then (Inl (Failure 401 ''mfa_required'' ''MFA code required''), w)
          else if va_method v = '''' then (Inl (Failure 500 ''server_error'' ''MFA not configured''), w)
          else (case openbaoMFAValidate v requestID (va_method v) (lr_mfaToken q) w of
                  (Inl e, w) \<Rightarrow> (Inl (Failure 401 ''unauthorized'' ''MFA validation failed.''), w)
                | (Inr login, w) \<Rightarrow> (Inr login, w)))"

definition login_principal :: "'w vault \<Rightarrow> login_request \<Rightarrow> login_auth \<Rightarrow> 'w \<Rightarrow> principal" where
  "login_principal v q login w =
     (let token = lo_token login;
          entityID = lo_entity login;
          found = (if entityID \<noteq> ''''
                   then (case openbaoLookupEntity v token entityID w of
                           Inl _ \<Rightarrow> None
                         | Inr entity \<Rightarrow> Some (buildPrincipalFromEntity (va_range v) entity (lo_policies login)))
                   else None)
      in case found of
           Some p \<Rightarrow> p
         | None \<Rightarrow>
             let roles = filter (\<lambda>p. p \<noteq> '''') (lo_policies login)
             in \<lparr>p_id = entityID, p_username = lr_username q, p_name = meta_get (lo_metadata login) ''name'',
                 p_email = meta_get (lo_metadata login) ''email'', p_groups = [], p_roles = roles,
                 p_idp = ''openbao'', p_applets = auth_rolesToApplets (va_range v) roles\<rparr>)"

definition login_openbao :: "'w auth_config \<Rightarrow> login_request \<Rightarrow> 'w \<Rightarrow> auth_payload reply \<times> 'w" where
  "login_openbao c q w =
     (case openbaoLogin (au_vault c) (lr_username q) (lr_password q) w of
        (Inl _, w) \<Rightarrow> unauthorized ''User login failed.'' w
      | (Inr login, w) \<Rightarrow>
         (case second_factor (au_vault c) q login w of
            (Inl refusal, w) \<Rightarrow> (refusal, w)
          | (Inr login, w) \<Rightarrow>
              let expiresAt = (if lo_lease login = 0 then au_now c + day else au_now c + lo_lease login)
              in write_json 200 (AuSession \<lparr>ss_accessToken = lo_token login, ss_refreshToken = '''',
                   ss_expiresAt = expiresAt, ss_principal = login_principal (au_vault c) q login w\<rparr>) w))"

definition handleLogin :: "'w auth_config \<Rightarrow> 'w auth_handler_t" where
  "handleLogin c = with_body (\<lambda>q r w.
     if lr_username q = '''' \<or> lr_password q = '''' then unauthorized ''invalid credentials'' w
     else if sv_url (au_saml c) \<noteq> '''' then login_saml c q w
     else login_openbao c q w)"

text \<open>\<open>strings.TrimPrefix(auth, \"Bearer \")\<close> of the header; the query token is not looked at.\<close>

definition header_token :: "'b request \<Rightarrow> string" where
  "header_token r =
     (let auth = rq_header r ''Authorization''
      in if prefix ''Bearer '' auth then drop 7 auth else auth)"

definition handleRefresh :: "'w auth_config \<Rightarrow> 'w auth_handler_t" where
  "handleRefresh c r w =
     (let token = header_token r; v = au_vault c
      in case openbaoTokenLookupSelf v token w of
           Inl _ \<Rightarrow> unauthorized ''token refresh failed'' w
         | Inr info \<Rightarrow>
            (case (if ti_entity info \<noteq> '''' then openbaoLookupEntity v token (ti_entity info) w else Inl '''') of
               Inl _ \<Rightarrow> unauthorized ''token refresh failed'' w
             | Inr entity \<Rightarrow>
                 write_json 200 (AuSession \<lparr>ss_accessToken = token, ss_refreshToken = '''',
                   ss_expiresAt = au_now c + day,
                   ss_principal = buildPrincipalFromEntity (va_range v) entity (ti_policies info)\<rparr>) w))"

definition handleLogout :: "'w auth_config \<Rightarrow> 'w auth_handler_t" where
  "handleLogout c r w =
     (let token = header_token r
      in (Status 204, if token \<noteq> '''' then snd (openbaoRevokeSelf (au_vault c) token w) else w))"

text \<open>The handlers that start from the principal of the context.\<close>

definition with_principal :: "(principal \<Rightarrow> 'w auth_handler_t) \<Rightarrow> 'w auth_handler_t" where
  "with_principal h r w =
     (case rq_principal r of None \<Rightarrow> unauthorized ''no principal in context'' w | Some p \<Rightarrow> h p r w)"

definition handleMe :: "'w auth_handler_t" where
  "handleMe = with_principal (\<lambda>p r w. write_json 200 (AuPrincipal p) w)"

definition handleTOTPEnroll :: "'w auth_config \<Rightarrow> 'w auth_handler_t" where
  "handleTOTPEnroll c = with_principal (\<lambda>p r w.
     if va_method (au_vault c) = '''' then write_error 503 ''mfa_not_configured'' ''MFA not configured'' w
     else (case openbaoTOTPEnroll (au_vault c) (p_id p) (va_method (au_vault c)) w of
             (Inl _, w) \<Rightarrow> write_error 500 ''enrollment_failed'' ''enrollment failed'' w
           | (Inr result, w) \<Rightarrow> write_json 200 (AuEnroll result) w))"

definition handleTOTPStatus :: "'w auth_config \<Rightarrow> 'w auth_handler_t" where
  "handleTOTPStatus c = with_principal (\<lambda>p r w.
     if va_method (au_vault c) = '''' then write_json 200 (AuEnrolled False) w
     else (case openbaoGetMFAStatus (au_vault c) (p_id p) (va_method (au_vault c)) w of
             Inl _ \<Rightarrow> write_error 500 ''status_check_failed'' ''status check failed'' w
           | Inr enrolled \<Rightarrow> write_json 200 (AuEnrolled enrolled) w))"

definition handleTOTPDestroy :: "'w auth_config \<Rightarrow> 'w auth_handler_t" where
  "handleTOTPDestroy c = with_principal (\<lambda>p r w.
     if va_method (au_vault c) = '''' then write_error 503 ''mfa_not_configured'' ''MFA not configured'' w
     else (case openbaoTOTPDestroy (au_vault c) (p_id p) (va_method (au_vault c)) w of
             (Some _, w) \<Rightarrow> write_error 500 ''destroy_failed'' ''destroy failed'' w
           | (None, w) \<Rightarrow> (Status 204, w)))"

section \<open>Routes\<close>

datatype auth_route =
    AuLogin | AuRefresh | AuLogout | AuMe | AuTotpEnroll | AuTotpStatus | AuTotpDestroy

fun auth_handle :: "'w auth_config \<Rightarrow> auth_route \<Rightarrow> 'w auth_handler_t" where
  "auth_handle c AuLogin = handleLogin c"
| "auth_handle c AuRefresh = handleRefresh c"
| "auth_handle c AuLogout = handleLogout c"
| "auth_handle c AuMe = handleMe"
| "auth_handle c AuTotpEnroll = handleTOTPEnroll c"
| "auth_handle c AuTotpStatus = handleTOTPStatus c"
| "auth_handle c AuTotpDestroy = handleTOTPDestroy c"

text \<open>Login is public; every other route is behind \<open>Auth\<close>, none behind a role.\<close>

definition auth_serve :: "'w auth_config \<Rightarrow> bao_env \<Rightarrow> auth_route \<Rightarrow> 'w auth_handler_t" where
  "auth_serve c env rt =
     (if rt = AuLogin then auth_handle c rt else chain (auth_handle c rt) [auth env])"

section \<open>Properties\<close>

lemma own_copy [simp]: "buildPrincipalFromEntity = buildPrincipal"
  by (simp add: buildPrincipalFromEntity_def buildPrincipal_def Let_def fun_eq_iff)

text \<open>
  C4: against OpenBao the second factor cannot be skipped: when OpenBao answers the password with
  a request for it, a session is handed out only after OpenBao has accepted the code of this
  request for that very request id, and the session carries the token of that second answer.
\<close>

theorem second_factor_enforced:
  assumes "sv_url (au_saml c) = ''''" and "rq_body r = Some q"
    and "openbaoLogin (au_vault c) (lr_username q) (lr_password q) w = (Inr login, w1)"
    and "lo_mfa login = Some requestID" and "requestID \<noteq> ''''"
    and "handleLogin c r w = (Reply 200 (AuSession session), w2)"
  shows "\<exists>login2. openbaoMFAValidate (au_vault c) requestID (va_method (au_vault c)) (lr_mfaToken q) w1 =
      (Inr login2, w2) \<and> lr_mfaToken q \<noteq> '''' \<and> ss_accessToken session = lo_token login2"
proof -
  have "login_openbao c q w = (Reply 200 (AuSession session), w2)"
    using assms(1,2,6) by (auto simp: handleLogin_def with_body_def unauthorized_def write_error_def split: if_splits)
  then show ?thesis
    using assms(3-5)
    by (auto simp: login_openbao_def second_factor_def write_json_def Let_def split: if_splits prod.splits sum.splits)
qed

text \<open>
  Through the SAML agent the second factor can be skipped. The status of the second factor is
  read for an entity whose id is the name of the user, and when OpenBao does not answer that with
  200 (it knows entities by ids of its own), the login succeeds whatever code comes with it, none
  included.
\<close>

theorem saml_second_factor_skipped:
  assumes "samlLoginCore v sa username password w = (Inr p, w1)"
    and "\<And>status body. va_get v (vault_url v (''/v1/identity/entity/id/'' @ p_username p)) (openbaoServiceToken v) w1 =
           Inr (status, body) \<Longrightarrow> status \<noteq> 200"
  shows "samlLogin v sa username password code w = (Inr p, w1)"
proof -
  have "p_id p = p_username p"
    using assms(1) by (auto simp: samlLoginCore_def extractPrincipalFromSAML_def Let_def
        split: prod.splits sum.splits if_splits option.splits)
  then have "\<exists>e. openbaoGetMFAStatus v (p_id p) (va_method v) w1 = Inl e"
    using assms(2) by (auto simp: openbaoGetMFAStatus_def split: sum.split prod.split)
  then show ?thesis
    using assms(1) by (auto simp: samlLogin_def)
qed

text \<open>
  As the server is put together, a login through the SAML agent never yields a session:
  nothing calls \<open>InitJWT\<close>, so there is no signing key, and the login of a user whom the agent has
  accepted ends in a panic.
\<close>

theorem saml_login_panics:
  assumes "je_sign (au_jwt c) = None" and "sv_url (au_saml c) \<noteq> ''''"
    and "rq_body r = Some q" and "lr_username q \<noteq> ''''" and "lr_password q \<noteq> ''''"
    and "fst (samlLogin (au_vault c) (au_saml c) (lr_username q) (lr_password q) (lr_mfaToken q) w) = Inr p"
  shows "fst (handleLogin c r w) = Panic"
  using assms
  by (auto simp: handleLogin_def with_body_def login_saml_def signJWT_def Let_def split: prod.split)


text \<open>
  Logging out with the token in the query revokes nothing. Such a request is authenticated
  like any other and answered 204, and the token stays as valid as it was.
\<close>

theorem query_logout_keeps_token:
  assumes "authenticate env r = Some p" and "rq_header r ''Authorization'' = ''''"
  shows "auth_serve c env AuLogout r w = (Status 204, w)"
  using assms by (simp add: auth_serve_def chain_def auth_accepts handleLogout_def header_token_def)

section \<open>Examples\<close>

text \<open>An OpenBao that asks for the second factor and accepts the code \<open>123456\<close>; its state is the calls.\<close>

definition demo_auth :: "string \<Rightarrow> string option \<Rightarrow> login_auth" where
  "demo_auth token mfa = \<lparr>lo_token = token, lo_entity = '''', lo_policies = [''pb-view''],
     lo_metadata = Map.empty, lo_lease = 0, lo_mfa = mfa\<rparr>"

definition demo_vault :: "string list vault" where
  "demo_vault =
     \<lparr>va_addr = ''b'', va_method = ''totp'', va_tokenFile = '''', va_file = (\<lambda>f. None), va_token = ''svc'',
      va_get = (\<lambda>url tok w. Inr (404, '''')),
      va_post = (\<lambda>url tok body w. (Inr (200, if url = ''b/v1/sys/mfa/validate'' then ''V'' else ''L''), w @ [url])),
      va_login = (\<lambda>b. Inr (if b = ''V'' then demo_auth ''tok'' None else demo_auth '''' (Some ''rq1''))),
      va_entity = (\<lambda>b. Inl b), va_lookup = (\<lambda>b. Inl b), va_totp = (\<lambda>b. Inl b), va_secrets = (\<lambda>b. Inl b),
      va_range = (\<lambda>ks. ks)\<rparr>"

definition demo_agent :: "string \<Rightarrow> string list saml_agent" where
  "demo_agent url =
     \<lparr>sv_url = url, sv_login = (\<lambda>url u pw w. (Inr (saml_marker @ ''Zm9v'' @ [CHR 0x22]), w)),
      sv_xml = (\<lambda>t. Inr \<lparr>si_nameID = ''ann'', si_attributes = []\<rparr>)\<rparr>"

definition demo_login_config :: "string \<Rightarrow> string list auth_config" where
  "demo_login_config url = \<lparr>au_vault = demo_vault, au_saml = demo_agent url,
     au_jwt = demo_jwt\<lparr>je_sign := None\<rparr>, au_now = 0\<rparr>"

definition demo_login_rq :: "login_request request" where
  "demo_login_rq = demo_req (\<lambda>k. '''') (Some \<lparr>lr_username = ''ann'', lr_password = ''pw'', lr_mfaToken = ''123456''\<rparr>)"

lemmas demo_login_defs = demo_login_config_def demo_vault_def demo_login_rq_def demo_req_def demo_auth_def

lemma demo_addr [simp]: "openbaoAddr ''b'' = ''b''"
  by (simp add: openbaoAddr_def trim_right_def)

lemma demo_first: "openbaoLogin demo_vault ''ann'' ''pw'' w =
    (Inr (demo_auth '''' (Some ''rq1'')), w @ [''b/v1/auth/userpass/login/ann''])"
  by (simp add: openbaoLogin_def demo_vault_def vault_url_def login_result_def)

lemma demo_second: "openbaoMFAValidate demo_vault ''rq1'' ''totp'' ''123456'' w =
    (Inr (demo_auth ''tok'' None), w @ [''b/v1/sys/mfa/validate''])"
  by (simp add: openbaoMFAValidate_def demo_vault_def vault_url_def login_result_def)

theorem second_factor_enforced_witness:
  "\<exists>login2 w1 w2. openbaoMFAValidate demo_vault ''rq1'' ''totp'' ''123456'' w1 = (Inr login2, w2) \<and>
     lo_token login2 = ''tok''"
proof -
  let ?c = "demo_login_config ''''" and ?q = "\<lparr>lr_username = ''ann'', lr_password = ''pw'', lr_mfaToken = ''123456''\<rparr>"
  have q: "rq_body demo_login_rq = Some ?q" and url: "sv_url (au_saml ?c) = ''''" and v: "au_vault ?c = demo_vault"
    by (simp_all add: demo_login_defs demo_agent_def)
  have m: "va_method demo_vault = ''totp''" by (simp add: demo_vault_def)
  obtain s w2 where run: "handleLogin ?c demo_login_rq [] = (Reply 200 (AuSession s), w2)"
    and token: "ss_accessToken s = ''tok''"
    by (simp add: handleLogin_def with_body_def q url v login_openbao_def demo_first second_factor_def m
        demo_auth_def demo_second [unfolded demo_auth_def] write_json_def Let_def)
  have "openbaoLogin (au_vault ?c) (lr_username ?q) (lr_password ?q) [] =
      (Inr (demo_auth '''' (Some ''rq1'')), [''b/v1/auth/userpass/login/ann''])"
    by (simp add: v demo_first)
  from second_factor_enforced [OF url q this _ _ run, of "''rq1''"] token
  obtain login2 where "openbaoMFAValidate demo_vault ''rq1'' ''totp'' ''123456'' [''b/v1/auth/userpass/login/ann''] =
      (Inr login2, w2)" "lo_token login2 = ''tok''"
    by (auto simp: demo_auth_def v m)
  then show ?thesis by blast
qed

lemma demo_core: "samlLoginCore demo_vault (demo_agent url) u pw w =
    (Inr \<lparr>p_id = ''ann'', p_username = ''ann'', p_name = ''ann'', p_email = '''', p_groups = [], p_roles = [],
          p_idp = ''saml'', p_applets = []\<rparr>, w)"
proof -
  have page: "contains (saml_marker @ ''Zm9v'' @ [CHR 0x22]) ''SAMLResponse''"
    by (simp add: saml_marker_def)
  have html: "extractSAMLResponseFromHTML (saml_marker @ ''Zm9v'' @ [CHR 0x22]) = Inr ''Zm9v''"
    by (simp add: extractSAMLResponseFromHTML_def after_marker.simps)
  obtain x where "std_decode ''Zm9v'' = Some x"
    by (simp add: std_decode_def strip_pad_def std_val_def b64_val_def Let_def)
  with page html show ?thesis
    by (simp add: samlLoginCore_def demo_agent_def demo_vault_def extractPrincipalFromSAML_def rolesToApplets_def Let_def)
qed

theorem saml_second_factor_skipped_witness:
  "\<exists>p. samlLogin demo_vault (demo_agent ''s'') ''ann'' ''pw'' '''' [] = (Inr p, []) \<and> p_username p = ''ann''"
proof -
  have "va_get demo_vault url tok w = Inr (status, body) \<Longrightarrow> status \<noteq> 200" for url tok w status body
    by (simp add: demo_vault_def)
  from saml_second_factor_skipped [OF demo_core this] show ?thesis by auto
qed

theorem saml_login_panics_witness:
  "fst (handleLogin (demo_login_config ''s'') demo_login_rq []) = Panic"
proof -
  let ?c = "demo_login_config ''s''" and ?q = "\<lparr>lr_username = ''ann'', lr_password = ''pw'', lr_mfaToken = ''123456''\<rparr>"
  have "openbaoGetMFAStatus demo_vault i m w = Inl (''entity lookup for MFA status returned '' @ digits 404)" for i m w
    by (simp add: openbaoGetMFAStatus_def openbaoServiceToken_def demo_vault_def)
  then have "fst (samlLogin (au_vault ?c) (au_saml ?c) (lr_username ?q) (lr_password ?q) (lr_mfaToken ?q) []) = Inr
      \<lparr>p_id = ''ann'', p_username = ''ann'', p_name = ''ann'', p_email = '''', p_groups = [], p_roles = [],
          p_idp = ''saml'', p_applets = []\<rparr>"
    by (simp add: samlLogin_def demo_login_config_def demo_core)
  then show ?thesis
    by (rule saml_login_panics [rotated 5])
      (simp_all add: demo_login_config_def demo_agent_def demo_login_rq_def demo_req_def)
qed

theorem query_logout_keeps_token_witness:
  "\<exists>env. auth_serve (demo_login_config '''') env AuLogout
     ((demo_req (\<lambda>k. '''') None)\<lparr>rq_header := \<lambda>h. '''', rq_query := \<lambda>q. ''tok''\<rparr>) [] = (Status 204, [])"
proof -
  obtain p where "authenticate (demo_env []) (demo_req (\<lambda>k. '''') (None :: login_request option)) = Some p"
    using demo_authenticate by blast
  then have "authenticate (demo_env [])
      ((demo_req (\<lambda>k. '''') (None :: login_request option))\<lparr>rq_header := \<lambda>h. '''', rq_query := \<lambda>q. ''tok''\<rparr>) = Some p"
    by (simp add: authenticate_def request_token_def bearer_def demo_req_def)
  from query_logout_keeps_token [OF this] show ?thesis by (intro exI [of _ "demo_env []"]) simp
qed


definition demo_entity :: entity_info where
  "demo_entity = \<lparr>en_id = ''ent-1'', en_name = ''ann'', en_metadata = Map.empty, en_policies = [], en_groups = []\<rparr>"

definition demo_vault2 :: "string list vault" where
  "demo_vault2 = demo_vault\<lparr>va_get := \<lambda>url tok w. Inr (200, ''''), va_entity := \<lambda>b. Inr demo_entity,
     va_login := \<lambda>b. Inr ((demo_auth ''tok'' None)\<lparr>lo_entity := ''ent-1''\<rparr>), va_range := id\<rparr>"


end
