(* ===== verification/Projects.thy ===== *)
theory Projects
  imports Ide
begin

text \<open>
  The unified projects endpoint (\<^verbatim>\<open>internal/projects\<close>). Its handlers keep no state: they call the
  other applets over HTTP at the server's own address, with the server's own token. A call is a
  value of \<open>icall\<close>; what answers it is a parameter, a transformer of any state \<open>'s\<close>, so that the
  root theory can put the server itself in its place. \<open>Inl\<close> is a failure of the transport.
\<close>

section \<open>Internal calls\<close>

datatype icall =
    IcListProjects                        \<comment> \<open>\<open>GET /api/v1/ide/project?limit=200\<close>\<close>
  | IcCreateProject string                \<comment> \<open>\<open>POST /api/v1/ide/project\<close>\<close>
  | IcPatchProject string "project_patch option"  \<comment> \<open>\<open>PATCH /api/v1/ide/project/{id}\<close>\<close>
  | IcDeleteProject string                \<comment> \<open>\<open>DELETE /api/v1/ide/project/{id}\<close>\<close>
  | IcCreateBoard string string           \<comment> \<open>\<open>POST /api/v1/pb/board\<close>: name, repository\<close>
  | IcCreateAgent string "string list"    \<comment> \<open>\<open>POST /api/v1/amgr/agent\<close>: project, flags\<close>
  | IcDeleteAgent string                  \<comment> \<open>\<open>DELETE /api/v1/amgr/agent/{id}\<close>\<close>

text \<open>The body of an answer, as \<open>json.Unmarshal\<close> reads it into what the handlers expect.\<close>

datatype ibody = IbProjects "project list" | IbProject project | IbId string | IbOther

type_synonym 's internal = "icall \<Rightarrow> 's \<Rightarrow> (string + nat \<times> ibody) \<times> 's"

record project_response =
  prr_id :: string
  prr_name :: string
  prr_repo :: string
  prr_board :: string
  prr_agent :: string

datatype project_event = ProjectCreated project_response | ProjectDeleted string

record 's projects_state =
  pj_server :: 's
  pj_events :: "project_event list"

datatype pj_payload = PjRaw ibody | PjProject project_response

record pj_body =
  pjb_name :: string
  pjb_patch :: "project_patch option"    \<comment> \<open>the raw body, as the IDE decodes it\<close>

type_synonym 's pj_handler_t = "(pj_body, 's projects_state, pj_payload) handler"

definition internalCall :: "'s internal \<Rightarrow> icall \<Rightarrow> 's projects_state \<Rightarrow>
    (string + nat \<times> ibody) \<times> 's projects_state" where
  "internalCall call x s = (let (resp, srv) = call x (pj_server s) in (resp, s\<lparr>pj_server := srv\<rparr>))"

definition id_of :: "ibody \<Rightarrow> string" where
  "id_of b = (case b of IbId i \<Rightarrow> i | IbProject p \<Rightarrow> prj_id p | _ \<Rightarrow> '''')"

definition items_of :: "(nat \<times> ibody) \<Rightarrow> project_response list" where
  "items_of resp =
     (case snd resp of
        IbProjects ps \<Rightarrow> map (\<lambda>p. \<lparr>prr_id = prj_id p, prr_name = prj_name p, prr_repo = prj_repo p,
                                    prr_board = prj_board p, prr_agent = prj_agent p\<rparr>) ps
      | _ \<Rightarrow> [])"

definition internal_error :: "string \<Rightarrow> 's projects_state \<Rightarrow> pj_payload reply \<times> 's projects_state" where
  "internal_error e s = write_error 500 ''internal_error'' e s"

section \<open>Handlers\<close>

definition pj_list :: "'s internal \<Rightarrow> 's pj_handler_t" where
  "pj_list call r s =
     (case internalCall call IcListProjects s of
        (Inl e, s) \<Rightarrow> internal_error e s
      | (Inr (status, body), s) \<Rightarrow> (Reply status (PjRaw body), s))"

definition pj_get :: "'s internal \<Rightarrow> 's pj_handler_t" where
  "pj_get call r s =
     (case internalCall call IcListProjects s of
        (Inl e, s) \<Rightarrow> internal_error e s
      | (Inr resp, s) \<Rightarrow>
         (case find_key prr_id (rq_path r ''projectId'') (items_of resp) of
            None \<Rightarrow> write_error 404 ''not_found'' ''project not found'' s
          | Some p \<Rightarrow> write_json 200 (PjProject p) s))"

definition agent_flags :: "string list" where
  "agent_flags = [''--dangerously-skip-permissions'']"

text \<open>The identifier of a creation that was answered 201, the empty string otherwise.\<close>

definition created_id :: "(string + nat \<times> ibody) \<Rightarrow> string" where
  "created_id resp = (case resp of Inr (status, body) \<Rightarrow> if status = 201 then id_of body else '''' | Inl _ \<Rightarrow> '''')"

definition accepted :: "string + nat \<times> ibody \<Rightarrow> bool" where
  "accepted resp = (case resp of Inr (status, _) \<Rightarrow> status = 201 | Inl _ \<Rightarrow> False)"

definition link_patch :: "string \<Rightarrow> string \<Rightarrow> project_patch" where
  "link_patch board agent = \<lparr>pp_name = None, pp_repo = None, pp_board = Some board, pp_agent = Some agent\<rparr>"

definition pj_create :: "'s internal \<Rightarrow> 's pj_handler_t" where
  "pj_create call r s =
     (case rq_body r of
        None \<Rightarrow> write_error 400 ''validation_failed'' ''name is required'' s
      | Some q \<Rightarrow>
          if pjb_name q = '''' then write_error 400 ''validation_failed'' ''name is required'' s
          else
            let (ide, s) = internalCall call (IcCreateProject (pjb_name q)) s
            in if \<not> accepted ide
               then write_error 500 ''create_failed'' ''IDE project creation failed'' s
               else
                 let i = created_id ide;
                     repo = (case ide of Inr (_, IbProject p) \<Rightarrow> prj_repo p | _ \<Rightarrow> '''');
                     (board, s) = internalCall call (IcCreateBoard (pjb_name q) repo) s;
                     (agent, s) = internalCall call (IcCreateAgent (pjb_name q) agent_flags) s;
                     (_, s) = internalCall call
                       (IcPatchProject i (Some (link_patch (created_id board) (created_id agent)))) s;
                     result = \<lparr>prr_id = i, prr_name = pjb_name q, prr_repo = repo,
                               prr_board = created_id board, prr_agent = created_id agent\<rparr>
                 in write_json 201 (PjProject result) (s\<lparr>pj_events := pj_events s @ [ProjectCreated result]\<rparr>))"

definition pj_update :: "'s internal \<Rightarrow> 's pj_handler_t" where
  "pj_update call r s =
     (case internalCall call (IcPatchProject (rq_path r ''projectId'') (Option.bind (rq_body r) pjb_patch)) s of
        (Inl e, s) \<Rightarrow> internal_error e s
      | (Inr (status, body), s) \<Rightarrow> (Reply status (PjRaw body), s))"

definition pj_delete :: "'s internal \<Rightarrow> 's pj_handler_t" where
  "pj_delete call r s =
     (let i = rq_path r ''projectId''
      in case internalCall call IcListProjects s of
           (Inl e, s) \<Rightarrow> internal_error e s
         | (Inr resp, s) \<Rightarrow>
            (case find_key prr_id i (items_of resp) of
               None \<Rightarrow> write_error 404 ''not_found'' ''project not found'' s
             | Some p \<Rightarrow>
                 let s = (if prr_agent p \<noteq> '''' then snd (internalCall call (IcDeleteAgent (prr_agent p)) s) else s);
                     s = snd (internalCall call (IcDeleteProject i) s)
                 in (Status 204, s\<lparr>pj_events := pj_events s @ [ProjectDeleted i]\<rparr>)))"

section \<open>Routes\<close>

datatype pj_route = PjList | PjCreate | PjGet | PjUpdate | PjDelete

fun pj_role :: "pj_route \<Rightarrow> string" where
  "pj_role PjList = ''ide-view''"
| "pj_role PjCreate = ''ide-update''"
| "pj_role PjGet = ''ide-view''"
| "pj_role PjUpdate = ''ide-update''"
| "pj_role PjDelete = ''ide-update''"

fun pj_handle :: "'s internal \<Rightarrow> pj_route \<Rightarrow> 's pj_handler_t" where
  "pj_handle call PjList = pj_list call"
| "pj_handle call PjCreate = pj_create call"
| "pj_handle call PjGet = pj_get call"
| "pj_handle call PjUpdate = pj_update call"
| "pj_handle call PjDelete = pj_delete call"

definition pj_serve :: "'s internal \<Rightarrow> bao_env \<Rightarrow> pj_route \<Rightarrow> 's pj_handler_t" where
  "pj_serve call env rt = guarded env (pj_role rt) (pj_handle call rt)"

end
