(* ===== verification/Server.thy ===== *)
theory Server
  imports Board Tickets Repos Ide Llm Agents Nodes Events Access Login Projects
begin

text \<open>
  The server as a whole (\<^verbatim>\<open>api/main.go\<close>): the applets behind one multiplexer, each with its own store,
  the cluster that agents and nodes share, OpenBao behind access control and login, the event hub
  that the node manager and the projects endpoint publish to, and the calls the projects endpoint
  makes back into the server.
\<close>

section \<open>State, configuration, calls\<close>

datatype api_call =
    PbCall pb_route "pb_body request"
  | SupCall sup_route "ticket request"
  | RepoCall repo_route "repo_body request"
  | IdeCall ide_route "ide_body request"
  | AgentCall amgr_route "amgr_body request"
  | NodeCall nmgr_route "nmgr_body request"
  | EventCall "unit request"
  | AcCall ac_route "ac_body request"
  | AuthCall auth_route "login_request request"
  | ProjectCall pj_route "pj_body request"

record ('w, 'o) api_state =
  st_pb :: pb_store
  st_sup :: sup_store
  st_repo :: repo_store
  st_ide :: ide_store
  st_agents :: agent_store
  st_nodes :: "'w nmgr_state"
  st_hub :: hub
  st_openbao :: 'o

record ('w, 'o) api_config =
  cf_ide :: ide_world
  cf_agents :: "'w amgr_config"
  cf_nodes :: "'w nmgr_config"
  cf_ws :: ws_env
  cf_bao :: "'o bao"
  cf_auth :: "'o auth_config"
  cf_token :: string           \<comment> \<open>\<open>OPENBAO_TOKEN\<close>, the token of the internal calls\<close>
  cf_marshal :: "event \<Rightarrow> string option"
  cf_encode :: "node_event \<Rightarrow> string"
  cf_encode_project :: "project_event \<Rightarrow> string"

section \<open>Events\<close>

fun node_event_type :: "node_event \<Rightarrow> string" where
  "node_event_type (EvPending n) = ''node.pending''"
| "node_event_type (EvReady n) = ''node.ready''"
| "node_event_type (EvReadyId i) = ''node.ready''"
| "node_event_type (EvError i e) = ''node.error''"
| "node_event_type (EvMetrics ns) = ''node.metrics''"

fun project_event_type :: "project_event \<Rightarrow> string" where
  "project_event_type (ProjectCreated p) = ''project.created''"
| "project_event_type (ProjectDeleted i) = ''project.deleted''"

text \<open>The publications a step made, as operations on the hub.\<close>

definition node_publications :: "('w, 'o) api_config \<Rightarrow> string \<Rightarrow> node_event list \<Rightarrow> hub_op list" where
  "node_publications c now es =
     map (\<lambda>e. Publish now ''nmgr/status'' (node_event_type e) (cf_encode c e)) es"

definition project_publications :: "('w, 'o) api_config \<Rightarrow> string \<Rightarrow> project_event list \<Rightarrow> hub_op list" where
  "project_publications c now es =
     map (\<lambda>e. Publish now ''projects/status'' (project_event_type e) (cf_encode_project c e)) es"

definition flush_events :: "('w, 'o) api_config \<Rightarrow> string \<Rightarrow> ('w, 'o) api_state \<Rightarrow> ('w, 'o) api_state" where
  "flush_events c now s =
     s\<lparr>st_hub := hub_run (cf_marshal c) (node_publications c now (nm_events (st_nodes s))) (st_hub s),
       st_nodes := (st_nodes s)\<lparr>nm_events := []\<rparr>\<rparr>"

section \<open>Calls of the server to itself\<close>

definition internal_rq :: "string \<Rightarrow> string \<Rightarrow> (string \<Rightarrow> string) \<Rightarrow> string \<Rightarrow> 'b option \<Rightarrow> 'b request" where
  "internal_rq token now query i body =
     \<lparr>rq_method = '''', rq_header = (\<lambda>h. if h = ''Authorization'' then bearer @ token else ''''),
      rq_query = query, rq_path = (\<lambda>k. i), rq_body = body, rq_principal = None, rq_now = now\<rparr>"

definition no_query :: "string \<Rightarrow> string" where
  "no_query k = ''''"

definition limit_200 :: "string \<Rightarrow> string" where
  "limit_200 k = (if k = ''limit'' then ''200'' else '''')"

text \<open>What the caller sees of a reply; a panicking handler closes the connection.\<close>

definition seen :: "('r \<Rightarrow> ibody) \<Rightarrow> 'r reply \<Rightarrow> string + nat \<times> ibody" where
  "seen f rep =
     (case rep of
        Reply status d \<Rightarrow> Inr (status, f d)
      | Failure status _ _ \<Rightarrow> Inr (status, IbOther)
      | Status status \<Rightarrow> Inr (status, IbOther)
      | Panic \<Rightarrow> Inl ''EOF'')"

fun ide_view :: "ide_payload \<Rightarrow> ibody" where
  "ide_view (IdeProjects pg) = IbProjects (pg_items pg)"
| "ide_view (IdeProject p) = IbProject p"
| "ide_view _ = IbOther"

fun pb_view :: "pb_payload \<Rightarrow> ibody" where
  "pb_view (PBoard b) = IbId (brd_id b)"
| "pb_view _ = IbOther"

fun agent_view :: "amgr_payload \<Rightarrow> ibody" where
  "agent_view (AgOne a) = IbId (agt_id a)"
| "agent_view _ = IbOther"

definition name_body :: "string \<Rightarrow> ide_body" where
  "name_body name = \<lparr>ib_name = name, ib_patch = \<lparr>pp_name = None, pp_repo = None, pp_board = None, pp_agent = None\<rparr>,
     ib_content = '''', ib_oldPath = '''', ib_newPath = ''''\<rparr>"

definition board_body :: "string \<Rightarrow> string \<Rightarrow> pb_body" where
  "board_body name repo =
     \<lparr>pbb_name = name, pbb_repoId = repo, pbb_type = '''',
      pbb_card = \<lparr>card_id = '''', card_title = '''', card_status = '''', card_content = '''', card_position = None,
        card_size = None, card_sourceRefs = [], card_note = None, card_links = None\<rparr>, pbb_edge = zero_edge\<rparr>"

definition agent_body :: "string \<Rightarrow> string list \<Rightarrow> amgr_body" where
  "agent_body project flags =
     \<lparr>ab_create = Some ((default_request project)\<lparr>car_claudeFlags := flags\<rparr>), ab_config = None, ab_raw = ''''\<rparr>"

definition agents_call :: "('w, 'o) api_config \<Rightarrow> bao_env \<Rightarrow> amgr_route \<Rightarrow> amgr_body request \<Rightarrow>
    ('w, 'o) api_state \<Rightarrow> amgr_payload reply \<times> ('w, 'o) api_state" where
  "agents_call c env rt r s =
     (let (rep, a) = amgr_serve (cf_agents c) env rt r \<lparr>ag_store = st_agents s, ag_world = nm_world (st_nodes s)\<rparr>
      in (rep, s\<lparr>st_agents := ag_store a, st_nodes := (st_nodes s)\<lparr>nm_world := ag_world a\<rparr>\<rparr>))"

definition ide_call :: "('w, 'o) api_config \<Rightarrow> bao_env \<Rightarrow> ide_route \<Rightarrow> ide_body request \<Rightarrow>
    ('w, 'o) api_state \<Rightarrow> ide_payload reply \<times> ('w, 'o) api_state" where
  "ide_call c env rt r s =
     (let (rep, t) = ide_serve (cf_ide c) env rt r (st_ide s) in (rep, s\<lparr>st_ide := t\<rparr>))"

definition pb_call :: "bao_env \<Rightarrow> pb_route \<Rightarrow> pb_body request \<Rightarrow> ('w, 'o) api_state \<Rightarrow>
    pb_payload reply \<times> ('w, 'o) api_state" where
  "pb_call env rt r s = (let (rep, t) = pb_serve env rt r (st_pb s) in (rep, s\<lparr>st_pb := t\<rparr>))"

fun server_call :: "('w, 'o) api_config \<Rightarrow> bao_env \<Rightarrow> string \<Rightarrow> ('w, 'o) api_state internal" where
  "server_call c env now IcListProjects s =
     apfst (seen ide_view) (ide_call c env IdeListProjects (internal_rq (cf_token c) now limit_200 '''' None) s)"
| "server_call c env now (IcCreateProject name) s =
     apfst (seen ide_view)
       (ide_call c env IdeCreateProject (internal_rq (cf_token c) now no_query '''' (Some (name_body name))) s)"
| "server_call c env now (IcPatchProject i u) s =
     apfst (seen ide_view)
       (ide_call c env IdeUpdateProject
          (internal_rq (cf_token c) now no_query i (map_option (\<lambda>u. (name_body '''')\<lparr>ib_patch := u\<rparr>) u)) s)"
| "server_call c env now (IcDeleteProject i) s =
     apfst (seen ide_view)
       (ide_call c env IdeDeleteProject (internal_rq (cf_token c) now no_query i None) s)"
| "server_call c env now (IcCreateBoard name repo) s =
     apfst (seen pb_view)
       (pb_call env PbCreateBoard (internal_rq (cf_token c) now no_query '''' (Some (board_body name repo))) s)"
| "server_call c env now (IcCreateAgent project flags) s =
     apfst (seen agent_view)
       (agents_call c env AgCreate (internal_rq (cf_token c) now no_query '''' (Some (agent_body project flags))) s)"
| "server_call c env now (IcDeleteAgent i) s =
     apfst (seen agent_view)
       (agents_call c env AgDelete (internal_rq (cf_token c) now no_query i None) s)"

section \<open>Steps\<close>

definition projects_call :: "('w, 'o) api_config \<Rightarrow> bao_env \<Rightarrow> pj_route \<Rightarrow> pj_body request \<Rightarrow>
    ('w, 'o) api_state \<Rightarrow> pj_payload reply \<times> ('w, 'o) api_state" where
  "projects_call c env rt r s =
     (let (rep, t) = pj_serve (server_call c env (rq_now r)) env rt r \<lparr>pj_server = s, pj_events = []\<rparr>;
          s' = pj_server t
      in (rep, s'\<lparr>st_hub := hub_run (cf_marshal c) (project_publications c (rq_now r) (pj_events t)) (st_hub s')\<rparr>))"

fun api_step :: "('w, 'o) api_config \<Rightarrow> bao_env \<Rightarrow> api_call \<Rightarrow> ('w, 'o) api_state \<Rightarrow> ('w, 'o) api_state" where
  "api_step c env (PbCall rt r) s = snd (pb_call env rt r s)"
| "api_step c env (SupCall rt r) s = s\<lparr>st_sup := snd (sup_serve env rt r (st_sup s))\<rparr>"
| "api_step c env (RepoCall rt r) s = s\<lparr>st_repo := snd (repo_serve env rt r (st_repo s))\<rparr>"
| "api_step c env (IdeCall rt r) s = snd (ide_call c env rt r s)"
| "api_step c env (AgentCall rt r) s = snd (agents_call c env rt r s)"
| "api_step c env (NodeCall rt r) s = flush_events c (rq_now r)
     (s\<lparr>st_nodes := snd (nmgr_serve (cf_nodes c) env rt r (st_nodes s))\<rparr>)"
| "api_step c env (EventCall r) s = s\<lparr>st_hub := snd (events_serve env (cf_ws c) r (st_hub s))\<rparr>"
| "api_step c env (AcCall rt r) s = s\<lparr>st_openbao := snd (ac_serve (cf_bao c) env rt r (st_openbao s))\<rparr>"
| "api_step c env (AuthCall rt r) s = s\<lparr>st_openbao := snd (auth_serve (cf_auth c) env rt r (st_openbao s))\<rparr>"
| "api_step c env (ProjectCall rt r) s = snd (projects_call c env rt r s)"

fun api_run :: "('w, 'o) api_config \<Rightarrow> (bao_env \<times> api_call) list \<Rightarrow> ('w, 'o) api_state \<Rightarrow> ('w, 'o) api_state" where
  "api_run c [] s = s"
| "api_run c ((env, x) # xs) s = api_run c xs (api_step c env x s)"

definition api_init :: "string \<Rightarrow> 'w \<Rightarrow> 'o \<Rightarrow> ('w, 'o) api_state" where
  "api_init now w o' =
     \<lparr>st_pb = pb_newStore now, st_sup = sup_newStore, st_repo = repo_newStore now,
      st_ide = ide_newStore now, st_agents = amgr_newStore, st_nodes = nmgr_init w,
      st_hub = defaultHub, st_openbao = o'\<rparr>"

section \<open>The projects endpoint over the server\<close>

lemma list_call_pure: "snd (server_call c env now IcListProjects s) = s"
proof -
  have "snd (ide_serve (cf_ide c) env IdeListProjects r t) = t" for r t
    using guarded_cases [of env r "ide_role IdeListProjects" "ide_handle (cf_ide c) IdeListProjects" t]
      ider.view_pure [of IdeListProjects "cf_ide c"]
    by (auto simp: ide_serve_def)
  then show ?thesis by (simp add: ide_call_def split_beta)
qed

interpretation pjr: rbac_component "pj_handle (server_call c env' now)" pj_role "''ide-view''"
  for c :: "('w, 'o) api_config" and env' now
proof
  fix rt r and s :: "('w, 'o) api_state projects_state" assume "pj_role rt = ''ide-view''"
  moreover have "snd (internalCall (server_call c env' now) IcListProjects s) = s"
    using list_call_pure [of c env' now "pj_server s"] by (simp add: internalCall_def split_beta)
  ultimately show "snd (pj_handle (server_call c env' now) rt r s) = s"
    by (cases rt) (auto simp: pj_list_def pj_get_def internal_error_def split: prod.split sum.split option.split)
qed

section \<open>Callers without a writing role\<close>

definition writing_roles :: "string list" where
  "writing_roles =
     [''admin'', ''admin-policy'', ''pb-update'', ''pb-execute'', ''support-view'', ''repo-update'',
      ''repo-merge'', ''ide-update'', ''agent-update'', ''node-create'', ''node-update'', ''node-delete'',
      ''access-update'']"

fun caller :: "bao_env \<Rightarrow> api_call \<Rightarrow> principal option" where
  "caller env (PbCall rt r) = authenticate env r"
| "caller env (SupCall rt r) = authenticate env r"
| "caller env (RepoCall rt r) = authenticate env r"
| "caller env (IdeCall rt r) = authenticate env r"
| "caller env (AgentCall rt r) = authenticate env r"
| "caller env (NodeCall rt r) = authenticate env r"
| "caller env (EventCall r) = authenticate env r"
| "caller env (AcCall rt r) = authenticate env r"
| "caller env (AuthCall rt r) = authenticate env r"
| "caller env (ProjectCall rt r) = authenticate env r"

definition may_write :: "bao_env \<Rightarrow> api_call \<Rightarrow> bool" where
  "may_write env x \<longleftrightarrow>
     (case caller env x of None \<Rightarrow> False | Some p \<Rightarrow> list_ex (\<lambda>ro. ro \<in> set writing_roles) (p_roles p))"

fun own_account :: "api_call \<Rightarrow> bool" where
  "own_account (AuthCall rt r) = True"
| "own_account _ = False"

lemma reader:
  "\<not> may_write env x \<Longrightarrow> caller env x = Some p \<Longrightarrow> ro \<in> set (p_roles p) \<Longrightarrow> ro \<notin> set writing_roles"
  by (auto simp: may_write_def list_ex_iff)

text \<open>Every role of a route is the viewing role of its applet or a writing role.\<close>

lemma roles_of_routes:
  "pb_role rt1 = ''pb-view'' \<or> pb_role rt1 \<in> set writing_roles"
  "repo_role rt2 = ''repo-view'' \<or> repo_role rt2 \<in> set writing_roles"
  "ide_role rt3 = ''ide-view'' \<or> ide_role rt3 \<in> set writing_roles"
  "amgr_role rt4 = ''agent-view'' \<or> amgr_role rt4 \<in> set writing_roles"
  "nmgr_role rt5 = ''node-view'' \<or> nmgr_role rt5 \<in> set writing_roles"
  "ac_role rt6 = ''access-view'' \<or> ac_role rt6 \<in> set writing_roles"
  "pj_role rt7 = ''ide-view'' \<or> pj_role rt7 \<in> set writing_roles"
  by (cases rt1, simp_all add: writing_roles_def) (cases rt2, simp_all, cases rt3, simp_all,
      cases rt4, simp_all, cases rt5, simp_all, cases rt6, simp_all, cases rt7, simp_all)

lemma reader_is_read_only:
  assumes "\<And>ro. ro \<in> set (p_roles p) \<Longrightarrow> ro \<notin> set writing_roles"
  shows "pbr.read_only p" and "rpr.read_only p" and "ider.read_only p" and "agr.read_only p"
    and "ndr.read_only p" and "acr.read_only p" and "pjr.read_only p"
proof -
  have adm: "''admin'' \<in> set writing_roles" "''admin-policy'' \<in> set writing_roles"
    by (simp_all add: writing_roles_def)
  show "pbr.read_only p" unfolding pbr.read_only_def using assms roles_of_routes(1) adm by blast
  show "rpr.read_only p" unfolding rpr.read_only_def using assms roles_of_routes(2) adm by blast
  show "ider.read_only p" unfolding ider.read_only_def using assms roles_of_routes(3) adm by blast
  show "agr.read_only p" unfolding agr.read_only_def using assms roles_of_routes(4) adm by blast
  show "ndr.read_only p" unfolding ndr.read_only_def using assms roles_of_routes(5) adm by blast
  show "acr.read_only p" unfolding acr.read_only_def using assms roles_of_routes(6) adm by blast
  show "pjr.read_only p" unfolding pjr.read_only_def using assms roles_of_routes(7) adm by blast
qed

lemma sup_reader:
  assumes "\<not> may_write env (SupCall rt r)"
  shows "snd (sup_serve env rt r s) = s"
proof -
  have "\<not> role_granted (sup_role rt) (p_roles p)" if "authenticate env r = Some p" for p
    using reader [OF assms, of p] that
    by (auto simp: role_granted_iff sup_role_def writing_roles_def)
  then show ?thesis
    using guarded_cases [of env r "sup_role rt" "sup_handle rt" s] by (auto simp: sup_serve_def)
qed

text \<open>The stores a reader's call leaves alone, one lemma for each guarded applet.\<close>

lemma reader_serves:
  "\<not> may_write env (PbCall m1 r1) \<Longrightarrow> snd (pb_serve env m1 r1 s1) = s1"
  "\<not> may_write env (RepoCall m2 r2) \<Longrightarrow> snd (repo_serve env m2 r2 s2) = s2"
  "\<not> may_write env (IdeCall m3 r3) \<Longrightarrow> snd (ide_serve iw env m3 r3 s3) = s3"
  "\<not> may_write env (AgentCall m4 r4) \<Longrightarrow> snd (amgr_serve ac env m4 r4 s4) = s4"
  "\<not> may_write env (NodeCall m5 r5) \<Longrightarrow> snd (nmgr_serve nc env m5 r5 s5) = s5"
  "\<not> may_write env (AcCall m6 r6) \<Longrightarrow> snd (ac_serve b env m6 r6 s6) = s6"
  "\<not> may_write env (ProjectCall m7 r7) \<Longrightarrow>
     snd (pj_serve (server_call c env now) env m7 r7 s7) = s7"
  unfolding pb_serve_def repo_serve_def ide_serve_def amgr_serve_def nmgr_serve_def ac_serve_def pj_serve_def
  by (rule pbr.viewer_cannot_write, rule reader_is_read_only, erule reader, simp, assumption)
    (rule rpr.viewer_cannot_write, rule reader_is_read_only, erule reader, simp, assumption,
     rule ider.viewer_cannot_write, rule reader_is_read_only, erule reader, simp, assumption,
     rule agr.viewer_cannot_write, rule reader_is_read_only, erule reader, simp, assumption,
     rule ndr.viewer_cannot_write, rule reader_is_read_only, erule reader, simp, assumption,
     rule acr.viewer_cannot_write, rule reader_is_read_only, erule reader, simp, assumption,
     rule pjr.viewer_cannot_write, rule reader_is_read_only, erule reader, simp, assumption)

lemma step_of_reader:
  assumes w: "\<not> may_write env x" and e: "nm_events (st_nodes s) = []"
  shows "\<exists>h o'. api_step c env x s = s\<lparr>st_hub := h, st_openbao := o'\<rparr> \<and>
    (\<not> own_account x \<longrightarrow> o' = st_openbao s)"
proof -
  have same: ?thesis if "api_step c env x s = s"
    using that by (intro exI [of _ "st_hub s"] exI [of _ "st_openbao s"]) simp
  show ?thesis
  proof (cases x)
    case (AgentCall rt r)
    with w show ?thesis by (intro same) (simp add: agents_call_def reader_serves split_beta)
  next
    case (NodeCall rt r)
    with w e show ?thesis
      by (intro same) (simp add: flush_events_def node_publications_def reader_serves)
  next
    case (ProjectCall rt r)
    with w show ?thesis
      by (intro same) (simp add: projects_call_def project_publications_def reader_serves split_beta)
  next
    case (EventCall r)
    then show ?thesis
      by (intro exI [of _ "snd (events_serve env (cf_ws c) r (st_hub s))"] exI [of _ "st_openbao s"]) simp
  next
    case (AuthCall rt r)
    then show ?thesis
      by (intro exI [of _ "st_hub s"] exI [of _ "snd (auth_serve (cf_auth c) env rt r (st_openbao s))"]) simp
  qed (use w in \<open>intro same; simp add: pb_call_def ide_call_def reader_serves sup_reader split_beta\<close>)+
qed

end
