(* ===== verification/Project_Flow.thy ===== *)
theory Project_Flow
  imports Server
begin

text \<open>
  The unified projects endpoint with the server itself as the answerer of its internal calls: what
  the calls of \<^verbatim>\<open>internal/projects/handler.go\<close> do to the IDE and the project boards when the
  server's own token is an administrator's, and what a creation and a deletion come to.
\<close>

section \<open>Internal calls answered by the server\<close>

text \<open>The server's own token belongs to an administrator.\<close>

definition service_admin :: "bao_env \<Rightarrow> string \<Rightarrow> bool" where
  "service_admin env token \<longleftrightarrow>
     (\<exists>info entity. lookupTokenSelf env token = Some info \<and> ti_entity info \<noteq> '''' \<and>
        lookupEntity env token (ti_entity info) = Some entity \<and> ''admin'' \<in> set (ti_policies info)) \<and>
     token \<noteq> ''''"

lemma internal_call_runs:
  assumes "service_admin env token"
  shows "\<exists>p. guarded env role h (internal_rq token now q i b) s =
    h ((internal_rq token now q i b)\<lparr>rq_principal := Some p\<rparr>) s"
proof -
  obtain info entity where tok: "lookupTokenSelf env token = Some info" "ti_entity info \<noteq> ''''"
    "lookupEntity env token (ti_entity info) = Some entity" "''admin'' \<in> set (ti_policies info)" "token \<noteq> ''''"
    using assms by (auto simp: service_admin_def)
  let ?p = "buildPrincipal (be_range env) entity (ti_policies info)"
  have "request_token (internal_rq token now q i b) = Some token"
    using tok(5) by (simp add: request_token_def internal_rq_def bearer_def)
  then have "authenticate env (internal_rq token now q i b) = Some ?p"
    using tok by (simp add: authenticate_def)
  moreover have "role_granted role (p_roles ?p)"
    using tok(4) by (auto simp: role_granted_iff buildPrincipal_def Let_def set_dedup_roles)
  ultimately show ?thesis by (intro exI [of _ ?p]) (rule guarded_granted)
qed

lemma internal_rq_sel [simp]:
  "rq_body ((internal_rq token now q i b)\<lparr>rq_principal := p\<rparr>) = b"
  "rq_path ((internal_rq token now q i b)\<lparr>rq_principal := p\<rparr>) k = i"
  "rq_now ((internal_rq token now q i b)\<lparr>rq_principal := p\<rparr>) = now"
  "rq_query ((internal_rq token now q i b)\<lparr>rq_principal := p\<rparr>) = q"
  "rq_body (internal_rq token now q i b) = b"
  "rq_path (internal_rq token now q i b) k = i"
  "rq_now (internal_rq token now q i b) = now"
  "rq_query (internal_rq token now q i b) = q"
  by (simp_all add: internal_rq_def)

lemma body_sel [simp]:
  "ib_name (name_body name) = name"
  "ib_patch ((name_body name)\<lparr>ib_patch := u\<rparr>) = u"
  "pbb_name (board_body name repo) = name"
  "pbb_repoId (board_body name repo) = repo"
  by (simp_all add: name_body_def board_body_def)

lemma server_ide_call:
  assumes "service_admin env (cf_token c)"
  obtains p where "ide_call c env rt (internal_rq (cf_token c) now q i b) s =
    (let (rep, t) = ide_handle (cf_ide c) rt ((internal_rq (cf_token c) now q i b)\<lparr>rq_principal := Some p\<rparr>) (st_ide s)
     in (rep, s\<lparr>st_ide := t\<rparr>))"
  using internal_call_runs [OF assms, of "ide_role rt" "ide_handle (cf_ide c) rt" now q i b "st_ide s"]
  by (auto simp: ide_call_def ide_serve_def)

lemma limit_200_page: "parsePagination limit_200 = (0, 200)"
proof -
  have "dec_val ''200'' = 200"
    by (simp add: dec_val_def digit_val_def)
  then show ?thesis
    by (simp add: parsePagination_def queryInt_def limit_200_def atoi_def is_digit_def Let_def)
qed

lemma server_list:
  assumes "service_admin env (cf_token c)"
  shows "server_call c env now IcListProjects s =
    (Inr (200, IbProjects (take 200 (projects (st_ide s)))), s)"
proof -
  obtain p where run: "ide_call c env IdeListProjects (internal_rq (cf_token c) now limit_200 '''' None) s =
    (let (rep, t) = ide_handle (cf_ide c) IdeListProjects ((internal_rq (cf_token c) now limit_200 '''' None)\<lparr>rq_principal := Some p\<rparr>) (st_ide s)
     in (rep, s\<lparr>st_ide := t\<rparr>))"
    by (rule server_ide_call [OF assms])
  show ?thesis
    by (simp add: run ide_listProjects_def write_page_def limit_200_page paginate_def Let_def listProjects_def seen_def)
qed

lemma server_create_project:
  assumes "service_admin env (cf_token c)"
  shows "server_call c env now (IcCreateProject name) s =
    (Inr (201, IbProject (fst (createProject now name (st_ide s)))),
     s\<lparr>st_ide := snd (createProject now name (st_ide s))\<rparr>)"
proof -
  obtain p where run: "ide_call c env IdeCreateProject (internal_rq (cf_token c) now no_query '''' (Some (name_body name))) s =
    (let (rep, t) = ide_handle (cf_ide c) IdeCreateProject
        ((internal_rq (cf_token c) now no_query '''' (Some (name_body name)))\<lparr>rq_principal := Some p\<rparr>) (st_ide s)
     in (rep, s\<lparr>st_ide := t\<rparr>))"
    by (rule server_ide_call [OF assms])
  show ?thesis
    by (simp add: run ide_createProject_def with_body_def write_json_def seen_def split_beta)
qed

lemma server_patch_project:
  assumes "service_admin env (cf_token c)"
  shows "snd (server_call c env now (IcPatchProject i (Some u)) s) =
    s\<lparr>st_ide := snd (updateProject i u (st_ide s))\<rparr>"
proof -
  let ?b = "Some ((name_body '''')\<lparr>ib_patch := u\<rparr>)"
  obtain p where run: "ide_call c env IdeUpdateProject (internal_rq (cf_token c) now no_query i ?b) s =
    (let (rep, t) = ide_handle (cf_ide c) IdeUpdateProject
        ((internal_rq (cf_token c) now no_query i ?b)\<lparr>rq_principal := Some p\<rparr>) (st_ide s)
     in (rep, s\<lparr>st_ide := t\<rparr>))"
    by (rule server_ide_call [OF assms])
  show ?thesis
    by (simp add: run ide_updateProject_def with_body_def ide_not_found_def split_beta split: option.split)
qed

lemma server_create_board:
  assumes "service_admin env (cf_token c)"
  shows "server_call c env now (IcCreateBoard name repo) s =
    (Inr (201, IbId (brd_id (fst (createBoard now name repo (st_pb s))))),
     s\<lparr>st_pb := snd (createBoard now name repo (st_pb s))\<rparr>)"
proof -
  obtain p where "pb_serve env PbCreateBoard (internal_rq (cf_token c) now no_query '''' (Some (board_body name repo))) (st_pb s) =
      pb_handle PbCreateBoard ((internal_rq (cf_token c) now no_query '''' (Some (board_body name repo)))\<lparr>rq_principal := Some p\<rparr>) (st_pb s)"
    using internal_call_runs [OF assms, of "pb_role PbCreateBoard" "pb_handle PbCreateBoard"] unfolding pb_serve_def by blast
  then show ?thesis
    by (simp add: pb_call_def h_createBoard_def with_body_def write_json_def seen_def split_beta)
qed

text \<open>What calls to the agent manager and the IDE leave alone.\<close>

lemma server_frames [simp]:
  "st_ide (snd (server_call c env now (IcCreateAgent p fl) s)) = st_ide s"
  "st_pb (snd (server_call c env now (IcCreateAgent p fl) s)) = st_pb s"
  "st_repo (snd (server_call c env now (IcCreateAgent p fl) s)) = st_repo s"
  "st_pb (snd (server_call c env now (IcDeleteAgent i) s)) = st_pb s"
  "st_repo (snd (server_call c env now (IcDeleteAgent i) s)) = st_repo s"
  "st_ide (snd (server_call c env now (IcDeleteAgent i) s)) = st_ide s"
  "st_pb (snd (server_call c env now (IcDeleteProject i) s)) = st_pb s"
  "st_repo (snd (server_call c env now (IcDeleteProject i) s)) = st_repo s"
  "st_pb (snd (server_call c env now IcListProjects s)) = st_pb s"
  "st_repo (snd (server_call c env now IcListProjects s)) = st_repo s"
  by (simp_all add: agents_call_def ide_call_def split_beta)

declare server_call.simps [simp del]

section \<open>Example server\<close>

definition demo_config :: "((kind \<times> string) list, string list) api_config" where
  "demo_config =
     \<lparr>cf_ide = \<lparr>iw_range = id, iw_decompose = (\<lambda>t. Inl ''no model'')\<rparr>,
      cf_agents = demo_amgr,
      cf_nodes =
        \<lparr>nc_useK8s = True,
         nc_mgr = \<lparr>nm_listNodes = (\<lambda>w. Inr []), nm_getNode = (\<lambda>n w. Inl ''not found''),
           nm_getDetail = (\<lambda>n w. Inl ''not found''), nm_cordon = (\<lambda>n w. (None, w)),
           nm_uncordon = (\<lambda>n w. (None, w)), nm_countPods = (\<lambda>n w. 0), nm_listPods = (\<lambda>n w. []),
           nm_drain = (\<lambda>n w. (None, w)), nm_provision = (\<lambda>q w. (None, w))\<rparr>,
         nc_db = None\<rparr>,
      cf_ws = \<lparr>we_accept = id, we_hijack = True, we_flush = True\<rparr>,
      cf_bao = demo_refusing, cf_auth = demo_login_config '''', cf_token = ''tok'',
      cf_marshal = (\<lambda>e. Some (ev_type e)), cf_encode = (\<lambda>e. ''''), cf_encode_project = (\<lambda>e. '''')\<rparr>"

lemma demo_reader:
  assumes "caller (demo_env ps) x = authenticate (demo_env ps) (demo_req path body)"
    and "set ps \<inter> set writing_roles = {}"
  shows "\<not> may_write (demo_env ps) x"
  using demo_authenticate [of ps path body] assms by (auto simp: may_write_def list_ex_iff)

lemma demo_readers:
  "set ps \<inter> set writing_roles = {} \<Longrightarrow> \<not> may_write (demo_env ps) (NodeCall n (demo_req path b))"
  "set ps \<inter> set writing_roles = {} \<Longrightarrow> \<not> may_write (demo_env ps) (PbCall m (demo_req path' b'))"
  by (rule demo_reader, simp, simp)+

lemma demo_service: "service_admin (demo_env [''admin'']) (cf_token demo_config)"
  by (simp add: service_admin_def demo_config_def demo_env_def lookupTokenSelf_def lookupEntity_def decode_ok_def)

definition demo_server :: "((kind \<times> string) list, string list) api_state" where
  "demo_server = api_init ''now'' [] []"

definition demo_crowded :: "((kind \<times> string) list, string list) api_state" where
  "demo_crowded = demo_server\<lparr>st_ide :=
     \<lparr>projects = map (\<lambda>n. \<lparr>prj_id = project_key n, prj_name = '''', prj_repo = '''', prj_spec = '''',
                              prj_board = '''', prj_agent = ''''\<rparr>) [1..<202], files = []\<rparr>\<rparr>"

section \<open>Creation and deletion of projects\<close>



text \<open>
  Deleting a project over the unified endpoint never touches the boards or the repositories,
  although the code says it cascades to them; and it knows the first 200 projects only: a later
  one is answered 404 and stays.
\<close>

theorem deletion_is_partial:
  "st_pb (api_step c env (ProjectCall PjDelete r) s) = st_pb s \<and>
   st_repo (api_step c env (ProjectCall PjDelete r) s) = st_repo s \<and>
   (service_admin env (cf_token c) \<and>
      rq_path r ''projectId'' \<notin> set (map prj_id (take 200 (projects (st_ide s)))) \<longrightarrow>
    pj_handle (server_call c env now) PjDelete r \<lparr>pj_server = s, pj_events = []\<rparr> =
      (Failure 404 ''not_found'' ''project not found'', \<lparr>pj_server = s, pj_events = []\<rparr>))"
proof (intro conjI impI)
  have handle: "st_pb (pj_server (snd (pj_handle (server_call c env n) PjDelete r' t))) = st_pb (pj_server t) \<and>
      st_repo (pj_server (snd (pj_handle (server_call c env n) PjDelete r' t))) = st_repo (pj_server t)" for n r' t
    by (simp add: pj_delete_def internalCall_def split_beta Let_def internal_error_def split: sum.split option.split)
  have "st_pb (pj_server (snd (pj_serve (server_call c env n) env PjDelete r t))) = st_pb (pj_server t) \<and>
      st_repo (pj_server (snd (pj_serve (server_call c env n) env PjDelete r t))) = st_repo (pj_server t)" for n t
    using guarded_cases [of env r "pj_role PjDelete" "pj_handle (server_call c env n) PjDelete" t] handle
    by (auto simp: pj_serve_def)
  then show "st_pb (api_step c env (ProjectCall PjDelete r) s) = st_pb s"
    and "st_repo (api_step c env (ProjectCall PjDelete r) s) = st_repo s"
    by (simp_all add: projects_call_def split_beta Let_def)
next
  assume "service_admin env (cf_token c) \<and>
      rq_path r ''projectId'' \<notin> set (map prj_id (take 200 (projects (st_ide s))))"
  then have admin: "service_admin env (cf_token c)"
    and late: "rq_path r ''projectId'' \<notin> prj_id ` set (take 200 (projects (st_ide s)))" by simp_all
  have "find_key prr_id (rq_path r ''projectId'') (items_of (200, IbProjects (take 200 (projects (st_ide s))))) = None"
    using late by (auto simp: items_of_def find_key_None)
  then show "pj_handle (server_call c env now) PjDelete r \<lparr>pj_server = s, pj_events = []\<rparr> =
      (Failure 404 ''not_found'' ''project not found'', \<lparr>pj_server = s, pj_events = []\<rparr>)"
    by (simp add: pj_delete_def internalCall_def server_list [OF admin] write_error_def)
qed

theorem deletion_is_partial_witness:
  "project_key 201 \<in> set (project_ids (st_ide demo_crowded)) \<and>
   pj_handle (server_call demo_config (demo_env [''admin'']) ''now'') PjDelete
       (demo_req (\<lambda>k. project_key 201) None) \<lparr>pj_server = demo_crowded, pj_events = []\<rparr> =
     (Failure 404 ''not_found'' ''project not found'', \<lparr>pj_server = demo_crowded, pj_events = []\<rparr>)"
proof
  show "project_key 201 \<in> set (project_ids (st_ide demo_crowded))"
    by (simp add: demo_crowded_def project_ids_def image_image)
next
  have "take 200 [1..<202] = [1..<201::nat]" by (simp add: take_upt)
  then have "rq_path (demo_req (\<lambda>k. project_key 201) None) ''projectId'' \<notin>
      set (map prj_id (take 200 (projects (st_ide demo_crowded))))"
    by (auto simp: demo_crowded_def demo_req_def project_key_def take_map image_image)
  then show "pj_handle (server_call demo_config (demo_env [''admin'']) ''now'') PjDelete
       (demo_req (\<lambda>k. project_key 201) None) \<lparr>pj_server = demo_crowded, pj_events = []\<rparr> =
     (Failure 404 ''not_found'' ''project not found'', \<lparr>pj_server = demo_crowded, pj_events = []\<rparr>)"
    using deletion_is_partial [of demo_config "demo_env [''admin'']"] demo_service by blast
qed

end
