(* ===== verification/Agent_Process.thy ===== *)
theory Agent_Process
  imports "HOL-Library.Word" Conv_Prelude
begin

text \<open>
  The agent wrapper's child process (\<^verbatim>\<open>agent/process.go\<close>, \<^verbatim>\<open>agent/metrics.go\<close>): starting, stopping and
  restarting the Claude CLI, its input, the fan-out of its output to subscribers, and the
  counters.

  The operating system's side is in the state too: every child ever started, in order, with what
  was written to it, whether it runs, and whether the goroutine that waits for it has come back.
  The channel \<open>done\<close> that \<open>start\<close> makes for a child is named by the number of the child. Section by
  section: counters, state, operations, then the interleavings of \<open>Stop\<close>, \<open>Restart\<close>, exits and
  waits as a step relation over the lock \<open>mu\<close>.
\<close>

section \<open>Counters\<close>

text \<open>The atomic counters wrap around at their width.\<close>

record metrics =
  mt_stdinBytes :: "64 word"
  mt_stdoutBytes :: "64 word"
  mt_stderrBytes :: "64 word"
  mt_stdinMessages :: "64 word"
  mt_stdoutMessages :: "64 word"
  mt_stderrMessages :: "64 word"
  mt_restarts :: "32 word"
  mt_connections :: "32 word"
  mt_startTime :: int          \<comment> \<open>nanoseconds\<close>

record metrics_snapshot =
  sn_stdinBytes :: int
  sn_stdoutBytes :: int
  sn_stderrBytes :: int
  sn_stdinMessages :: int
  sn_stdoutMessages :: int
  sn_stderrMessages :: int
  sn_restarts :: int
  sn_wrapperVersion :: string
  sn_claudeVersion :: string
  sn_uptimeSeconds :: int
  sn_claudeUptime :: int
  sn_connections :: int
  sn_podName :: string
  sn_nodeName :: string

definition newMetrics :: "int \<Rightarrow> metrics" where
  "newMetrics now =
     \<lparr>mt_stdinBytes = 0, mt_stdoutBytes = 0, mt_stderrBytes = 0, mt_stdinMessages = 0,
      mt_stdoutMessages = 0, mt_stderrMessages = 0, mt_restarts = 0, mt_connections = 0,
      mt_startTime = now\<rparr>"

text \<open>Durations are not negative here, so the truncation to seconds is a division.\<close>

definition seconds :: "int \<Rightarrow> int" where
  "seconds d = d div 1000000000"

definition snapshot :: "int \<Rightarrow> metrics \<Rightarrow> string \<Rightarrow> string \<Rightarrow> string \<Rightarrow> string \<Rightarrow> int \<Rightarrow> metrics_snapshot" where
  "snapshot now m wrapperVersion claudeVersion podName nodeName claudeUptime =
     \<lparr>sn_stdinBytes = sint (mt_stdinBytes m), sn_stdoutBytes = sint (mt_stdoutBytes m),
      sn_stderrBytes = sint (mt_stderrBytes m), sn_stdinMessages = sint (mt_stdinMessages m),
      sn_stdoutMessages = sint (mt_stdoutMessages m), sn_stderrMessages = sint (mt_stderrMessages m),
      sn_restarts = sint (mt_restarts m), sn_wrapperVersion = wrapperVersion,
      sn_claudeVersion = claudeVersion, sn_uptimeSeconds = seconds (now - mt_startTime m),
      sn_claudeUptime = seconds claudeUptime, sn_connections = sint (mt_connections m),
      sn_podName = podName, sn_nodeName = nodeName\<rparr>"

text \<open>\<open>claude --version\<close>: the part of the trimmed output behind its last blank.\<close>

definition detectClaudeVersion :: "string option \<Rightarrow> string" where
  "detectClaudeVersion out' =
     (case out' of
        None \<Rightarrow> ''''
      | Some t \<Rightarrow> rev (takeWhile (\<lambda>c. c \<noteq> CHR '' '') (rev (trim_spaces t))))"

section \<open>State\<close>

record child =
  cd_command :: string
  cd_dir :: string
  cd_alive :: bool
  cd_reaped :: bool            \<comment> \<open>\<open>cmd.Wait()\<close> has returned and the channel was closed\<close>
  cd_input :: string
  cd_signals :: "string list"

datatype pipe = NoPipe | PipeTo nat | DeadPipe

record process =
  ps_cmd :: "nat option"
  ps_stdin :: pipe
  ps_startedAt :: "int option"
  ps_flags :: "string list"
  ps_workDir :: string
  ps_metrics :: metrics
  ps_stdoutSubs :: "nat list"
  ps_stderrSubs :: "nat list"
  ps_done :: "nat option"
  ps_buffers :: "string list list"   \<comment> \<open>the channels of the subscribers, by number\<close>
  ps_closed :: "nat list"            \<comment> \<open>the \<open>done\<close> channels that are closed\<close>
  ps_children :: "child list"
  ps_mu :: "nat option"              \<comment> \<open>the thread that holds \<open>mu\<close> while it waits\<close>
  ps_panicked :: bool                \<comment> \<open>a goroutine closed a closed channel: the program is gone\<close>

section \<open>Operations\<close>

definition no_process :: "string list \<Rightarrow> string \<Rightarrow> metrics \<Rightarrow> process" where
  "no_process flags workDir m =
     \<lparr>ps_cmd = None, ps_stdin = NoPipe, ps_startedAt = None, ps_flags = flags, ps_workDir = workDir,
      ps_metrics = m, ps_stdoutSubs = [], ps_stderrSubs = [], ps_done = None, ps_buffers = [],
      ps_closed = [], ps_children = [], ps_mu = None, ps_panicked = False\<rparr>"

text \<open>\<open>start\<close>; the first argument is the error of \<open>cmd.Start()\<close>, if any.\<close>

definition start :: "string option \<Rightarrow> int \<Rightarrow> process \<Rightarrow> string option \<times> process" where
  "start err now p =
     (case err of
        Some e \<Rightarrow> (Some e, p\<lparr>ps_stdin := DeadPipe\<rparr>)
      | None \<Rightarrow>
          let i = length (ps_children p);
              c = \<lparr>cd_command = ''claude '' @ join_space (ps_flags p), cd_dir = ps_workDir p,
                   cd_alive = True, cd_reaped = False, cd_input = '''', cd_signals = []\<rparr>
          in (None, p\<lparr>ps_children := ps_children p @ [c], ps_stdin := PipeTo i, ps_cmd := Some i,
                      ps_startedAt := Some now, ps_done := Some i\<rparr>))"

definition newProcess :: "string option \<Rightarrow> int \<Rightarrow> string list \<Rightarrow> string \<Rightarrow> metrics \<Rightarrow> string + process" where
  "newProcess err now flags workDir m =
     (case start err now (no_process flags workDir m) of
        (Some e, _) \<Rightarrow> Inl e
      | (None, p) \<Rightarrow> Inr p)"

definition on_child :: "nat \<Rightarrow> (child \<Rightarrow> child) \<Rightarrow> process \<Rightarrow> process" where
  "on_child i f p = p\<lparr>ps_children := (ps_children p)[i := f (ps_children p ! i)]\<rparr>"

definition child_exit :: "nat \<Rightarrow> process \<Rightarrow> process" where
  "child_exit i = on_child i (\<lambda>c. c\<lparr>cd_alive := False\<rparr>)"

text \<open>A signal reaches a child that runs; otherwise it is an error.\<close>

definition send_signal :: "string \<Rightarrow> nat \<Rightarrow> process \<Rightarrow> string option \<times> process" where
  "send_signal sig i p =
     (if cd_reaped (ps_children p ! i) then (Some ''os: process already finished'', p)
      else (None, on_child i (\<lambda>c. if cd_alive c then c\<lparr>cd_signals := cd_signals c @ [sig]\<rparr> else c) p))"

text \<open>
  The end of the goroutine that waits for child \<open>i\<close>. It closes \<open>p.done\<close> as it finds it then, not the
  channel that was made with the child, and holds no lock.
\<close>

definition reap :: "nat \<Rightarrow> process \<Rightarrow> process" where
  "reap i p =
     (let p = on_child i (\<lambda>c. c\<lparr>cd_reaped := True\<rparr>) p
      in case ps_done p of
           None \<Rightarrow> p\<lparr>ps_panicked := True\<rparr>
         | Some c \<Rightarrow>
             if c \<in> set (ps_closed p) then p\<lparr>ps_panicked := True\<rparr>
             else p\<lparr>ps_closed := c # ps_closed p\<rparr>)"

definition count_out :: "bool \<Rightarrow> string \<Rightarrow> metrics \<Rightarrow> metrics" where
  "count_out isStdout data m =
     (if isStdout
      then m\<lparr>mt_stdoutBytes := mt_stdoutBytes m + word_of_nat (length data),
             mt_stdoutMessages := mt_stdoutMessages m + 1\<rparr>
      else m\<lparr>mt_stderrBytes := mt_stderrBytes m + word_of_nat (length data),
             mt_stderrMessages := mt_stderrMessages m + 1\<rparr>)"

definition proc_subs :: "bool \<Rightarrow> process \<Rightarrow> nat list" where
  "proc_subs isStdout p = (if isStdout then ps_stdoutSubs p else ps_stderrSubs p)"

definition set_subs :: "bool \<Rightarrow> nat list \<Rightarrow> process \<Rightarrow> process" where
  "set_subs isStdout cs p = (if isStdout then p\<lparr>ps_stdoutSubs := cs\<rparr> else p\<lparr>ps_stderrSubs := cs\<rparr>)"

definition fan_out :: "string \<Rightarrow> nat list \<Rightarrow> string list list \<Rightarrow> string list list" where
  "fan_out data subs bufs = fold (\<lambda>ch bs. bs[ch := try_send 64 (bs ! ch) data]) subs bufs"

text \<open>One round of the loop of \<open>pumpOutput\<close>: a read that returned \<open>data\<close>.\<close>

definition pump_read :: "bool \<Rightarrow> string \<Rightarrow> process \<Rightarrow> process" where
  "pump_read isStdout data p =
     (if length data > 0
      then p\<lparr>ps_metrics := count_out isStdout data (ps_metrics p),
             ps_buffers := fan_out data (proc_subs isStdout p) (ps_buffers p)\<rparr>
      else p)"

text \<open>The loop: reads until one fails; a read may return data and fail at once.\<close>

fun pumpOutput :: "bool \<Rightarrow> (string \<times> bool) list \<Rightarrow> process \<Rightarrow> process" where
  "pumpOutput isStdout [] p = p"
| "pumpOutput isStdout ((data, failed) # rs) p =
     (let p = pump_read isStdout data p in if failed then p else pumpOutput isStdout rs p)"

definition closed_pipe :: string where
  "closed_pipe = ''io: read/write on closed pipe''"

definition writeStdin :: "string \<Rightarrow> process \<Rightarrow> string option \<times> process" where
  "writeStdin data p =
     (case ps_stdin p of
        NoPipe \<Rightarrow> (Some closed_pipe, p)
      | DeadPipe \<Rightarrow> (Some ''file already closed'', p)
      | PipeTo i \<Rightarrow>
          if cd_reaped (ps_children p ! i) then (Some ''file already closed'', p)
          else if \<not> cd_alive (ps_children p ! i) then (Some ''broken pipe'', p)
          else let m = ps_metrics p
               in (None, (on_child i (\<lambda>c. c\<lparr>cd_input := cd_input c @ data\<rparr>) p)
                    \<lparr>ps_metrics := m\<lparr>mt_stdinBytes := mt_stdinBytes m + word_of_nat (length data),
                                     mt_stdinMessages := mt_stdinMessages m + 1\<rparr>\<rparr>))"

definition connections :: "(32 word \<Rightarrow> 32 word) \<Rightarrow> process \<Rightarrow> process" where
  "connections f p = p\<lparr>ps_metrics := (ps_metrics p)\<lparr>mt_connections := f (mt_connections (ps_metrics p))\<rparr>\<rparr>"

definition subscribe_out :: "bool \<Rightarrow> process \<Rightarrow> nat \<times> process" where
  "subscribe_out isStdout p =
     (let ch = length (ps_buffers p);
          p = p\<lparr>ps_buffers := ps_buffers p @ [[]]\<rparr>;
          p = set_subs isStdout (proc_subs isStdout p @ [ch]) p
      in (ch, connections (\<lambda>n. n + 1) p))"

fun removeChan :: "nat list \<Rightarrow> nat \<Rightarrow> nat list" where
  "removeChan [] ch = []"
| "removeChan (s # subs) ch = (if s = ch then subs else s # removeChan subs ch)"

definition unsubscribe_out :: "bool \<Rightarrow> nat \<Rightarrow> process \<Rightarrow> process" where
  "unsubscribe_out isStdout ch p =
     connections (\<lambda>n. n - 1) (set_subs isStdout (removeChan (proc_subs isStdout p) ch) p)"

text \<open>\<open>data := <-ch\<close> of a subscriber.\<close>

definition receive :: "nat \<Rightarrow> process \<Rightarrow> process" where
  "receive ch p = p\<lparr>ps_buffers := (ps_buffers p)[ch := tl (ps_buffers p ! ch)]\<rparr>"

definition isRunning :: "process \<Rightarrow> bool" where
  "isRunning p =
     (case ps_cmd p of
        None \<Rightarrow> False
      | Some _ \<Rightarrow> (case ps_done p of None \<Rightarrow> True | Some c \<Rightarrow> c \<notin> set (ps_closed p)))"

definition uptime :: "int \<Rightarrow> process \<Rightarrow> int" where
  "uptime now p = (case ps_startedAt p of None \<Rightarrow> 0 | Some t \<Rightarrow> now - t)"

definition signal_process :: "string \<Rightarrow> process \<Rightarrow> string option \<times> process" where
  "signal_process sig p =
     (case ps_cmd p of None \<Rightarrow> (None, p) | Some i \<Rightarrow> send_signal sig i p)"

text \<open>
  \<open>Stop\<close> and \<open>Restart\<close> when nothing comes in between: the child is terminated, by SIGKILL if need be,
  and waited for. That the interleaved steps below come to this is \<open>restart_completes\<close>.
\<close>

definition stop_process :: "process \<Rightarrow> process" where
  "stop_process p =
     (case ps_cmd p of
        None \<Rightarrow> p
      | Some i \<Rightarrow>
          let p = snd (send_signal ''SIGTERM'' i p)
          in if \<not> isRunning p then p else reap i (child_exit i p))"

definition count_restart :: "string list \<Rightarrow> process \<Rightarrow> process" where
  "count_restart flags p =
     p\<lparr>ps_flags := flags, ps_metrics := (ps_metrics p)\<lparr>mt_restarts := mt_restarts (ps_metrics p) + 1\<rparr>\<rparr>"

definition restart :: "string option \<Rightarrow> int \<Rightarrow> string list \<Rightarrow> process \<Rightarrow> string option \<times> process" where
  "restart err now flags p = start err now (count_restart flags (stop_process p))"

end
