(* ===== verification/Agent_Lifecycle.thy ===== *)
theory Agent_Lifecycle
  imports Agent_Process
begin

text \<open>
  The agent wrapper's child process under concurrency: \<open>Stop\<close> and \<open>Restart\<close> as threads over the
  lock \<open>mu\<close>, the exits of children, the goroutines that wait for them, and input and output in
  between, as the step relation \<open>proc_step\<close>. Without overlapping calls the life cycle is sound and
  restarts complete; with them it is not.
\<close>

section \<open>Interleavings\<close>

text \<open>
  A thread is a call of \<open>Stop\<close> (\<open>None\<close>) or \<open>Restart\<close> (\<open>Some flags\<close>): before \<open>Stop\<close> has the lock,
  waiting for \<open>done\<close> with the lock held, between \<open>Stop\<close> and the assignment of the flags, before
  \<open>start\<close> has the lock, and returned.
\<close>

datatype thread =
    Stopping "string list option" | Waiting "string list option" | Assigning "string list"
  | Starting | Finished "string option"

definition stop_returned :: "string list option \<Rightarrow> thread" where
  "stop_returned k = (case k of None \<Rightarrow> Finished None | Some flags \<Rightarrow> Assigning flags)"

datatype proc_io =
    Chunk bool string | Subscribe_out bool | Unsubscribe_out bool nat | Receive nat
  | Write_in string | Kill_with string

text \<open>When an operation may happen: unsubscribing once, and the lock free for those that take it.\<close>

fun io_enabled :: "proc_io \<Rightarrow> process \<Rightarrow> bool" where
  "io_enabled (Unsubscribe_out b ch) p = (ch \<in> set (proc_subs b p))"
| "io_enabled (Write_in data) p = (ps_mu p = None)"
| "io_enabled (Kill_with sig) p = (ps_mu p = None)"
| "io_enabled _ p = True"

fun io_step :: "proc_io \<Rightarrow> process \<Rightarrow> process" where
  "io_step (Chunk b data) p = pump_read b data p"
| "io_step (Subscribe_out b) p = snd (subscribe_out b p)"
| "io_step (Unsubscribe_out b ch) p = unsubscribe_out b ch p"
| "io_step (Receive ch) p = receive ch p"
| "io_step (Write_in data) p = snd (writeStdin data p)"
| "io_step (Kill_with sig) p = snd (signal_process sig p)"

type_synonym wrapper = "process \<times> thread list"

inductive proc_step :: "wrapper \<Rightarrow> wrapper \<Rightarrow> bool" where
  Exit: "\<not> ps_panicked p \<Longrightarrow> i < length (ps_children p) \<Longrightarrow> proc_step (p, ts) (child_exit i p, ts)"
| Reap: "\<not> ps_panicked p \<Longrightarrow> i < length (ps_children p) \<Longrightarrow> \<not> cd_alive (ps_children p ! i) \<Longrightarrow>
    \<not> cd_reaped (ps_children p ! i) \<Longrightarrow> proc_step (p, ts) (reap i p, ts)"
| Io: "\<not> ps_panicked p \<Longrightarrow> io_enabled x p \<Longrightarrow> proc_step (p, ts) (io_step x p, ts)"
| Call: "\<not> ps_panicked p \<Longrightarrow> proc_step (p, ts) (p, ts @ [Stopping k])"
| Stop_nothing: "\<not> ps_panicked p \<Longrightarrow> t < length ts \<Longrightarrow> ts ! t = Stopping k \<Longrightarrow> ps_mu p = None \<Longrightarrow>
    ps_cmd p = None \<Longrightarrow> proc_step (p, ts) (p, ts[t := stop_returned k])"
| Stop_signal: "\<not> ps_panicked p \<Longrightarrow> t < length ts \<Longrightarrow> ts ! t = Stopping k \<Longrightarrow> ps_mu p = None \<Longrightarrow>
    ps_cmd p = Some i \<Longrightarrow>
    proc_step (p, ts) ((snd (send_signal ''SIGTERM'' i p))\<lparr>ps_mu := Some t\<rparr>, ts[t := Waiting k])"
| Stop_kill: "\<not> ps_panicked p \<Longrightarrow> t < length ts \<Longrightarrow> ts ! t = Waiting k \<Longrightarrow> ps_cmd p = Some i \<Longrightarrow>
    proc_step (p, ts) (child_exit i p, ts)"
| Stop_return: "\<not> ps_panicked p \<Longrightarrow> t < length ts \<Longrightarrow> ts ! t = Waiting k \<Longrightarrow> \<not> isRunning p \<Longrightarrow>
    proc_step (p, ts) (p\<lparr>ps_mu := None\<rparr>, ts[t := stop_returned k])"
| Assign: "\<not> ps_panicked p \<Longrightarrow> t < length ts \<Longrightarrow> ts ! t = Assigning flags \<Longrightarrow>
    proc_step (p, ts) (count_restart flags p, ts[t := Starting])"
| Start: "\<not> ps_panicked p \<Longrightarrow> t < length ts \<Longrightarrow> ts ! t = Starting \<Longrightarrow> ps_mu p = None \<Longrightarrow>
    proc_step (p, ts) (snd (start err now p), ts[t := Finished (fst (start err now p))])"

definition unfinished :: "thread list \<Rightarrow> nat set" where
  "unfinished ts = {t. t < length ts \<and> (\<forall>e. ts ! t \<noteq> Finished e)}"

text \<open>Steps in which no two calls overlap.\<close>

definition serial_step :: "wrapper \<Rightarrow> wrapper \<Rightarrow> bool" where
  "serial_step s s' \<longleftrightarrow> proc_step s s' \<and> (\<forall>t \<in> unfinished (snd s'). \<forall>u \<in> unfinished (snd s'). t = u)"

section \<open>What the operations leave alone\<close>

named_theorems proc_frames

lemma on_child_frames [proc_frames]:
  "ps_cmd (on_child i f p) = ps_cmd p" "ps_done (on_child i f p) = ps_done p"
  "ps_closed (on_child i f p) = ps_closed p" "ps_mu (on_child i f p) = ps_mu p"
  "ps_panicked (on_child i f p) = ps_panicked p" "ps_metrics (on_child i f p) = ps_metrics p"
  "ps_buffers (on_child i f p) = ps_buffers p" "ps_stdoutSubs (on_child i f p) = ps_stdoutSubs p"
  "ps_stderrSubs (on_child i f p) = ps_stderrSubs p" "ps_flags (on_child i f p) = ps_flags p"
  "ps_workDir (on_child i f p) = ps_workDir p"
  "length (ps_children (on_child i f p)) = length (ps_children p)"
  by (simp_all add: on_child_def)

lemma on_child_nth:
  "j < length (ps_children p) \<Longrightarrow>
     ps_children (on_child i f p) ! j = (if j = i then f (ps_children p ! i) else ps_children p ! j)"
  by (simp add: on_child_def)

text \<open>The part of the state that the life cycle is about.\<close>

definition lifecycle :: "process \<Rightarrow> nat option \<times> nat option \<times> nat list \<times> nat option \<times> bool \<times> (bool \<times> bool) list" where
  "lifecycle p = (ps_cmd p, ps_done p, ps_closed p, ps_mu p, ps_panicked p,
     map (\<lambda>c. (cd_alive c, cd_reaped c)) (ps_children p))"

lemma lifecycle_on_child:
  assumes "\<And>c. (cd_alive (f c), cd_reaped (f c)) = (cd_alive c, cd_reaped c)"
  shows "lifecycle (on_child i f p) = lifecycle p"
  using assms by (simp add: lifecycle_def on_child_def map_update list_update_same_conv nth_equalityI)
    (cases "i < length (ps_children p)"; simp add: list_update_same_conv list_update_beyond)

lemma lifecycle_io: "lifecycle (io_step x p) = lifecycle p"
proof (cases x)
  case (Write_in data)
  have "lifecycle (q\<lparr>ps_metrics := m\<rparr>) = lifecycle q" for q m by (simp add: lifecycle_def)
  moreover have "lifecycle (on_child i (\<lambda>c. c\<lparr>cd_input := cd_input c @ data\<rparr>) p) = lifecycle p" for i
    by (rule lifecycle_on_child) simp
  ultimately show ?thesis using Write_in by (simp add: writeStdin_def Let_def split: pipe.split)
next
  case (Kill_with sig)
  have "lifecycle (on_child i (\<lambda>c. if cd_alive c then c\<lparr>cd_signals := cd_signals c @ [sig]\<rparr> else c) p) = lifecycle p" for i
    by (rule lifecycle_on_child) simp
  with Kill_with show ?thesis by (simp add: signal_process_def send_signal_def split: option.split)
qed (simp_all add: lifecycle_def pump_read_def subscribe_out_def unsubscribe_out_def receive_def
      connections_def set_subs_def Let_def)

lemma lifecycle_send: "lifecycle (snd (send_signal sig i p)) = lifecycle p"
proof -
  have "lifecycle (on_child i (\<lambda>c. if cd_alive c then c\<lparr>cd_signals := cd_signals c @ [sig]\<rparr> else c) p) = lifecycle p"
    by (rule lifecycle_on_child) simp
  then show ?thesis by (simp add: send_signal_def)
qed

section \<open>The life cycle without overlapping calls\<close>

definition alive :: "process \<Rightarrow> nat \<Rightarrow> bool" where
  "alive p i \<longleftrightarrow> i < length (ps_children p) \<and> cd_alive (ps_children p ! i)"

definition unreaped :: "process \<Rightarrow> nat \<Rightarrow> bool" where
  "unreaped p i \<longleftrightarrow> i < length (ps_children p) \<and> \<not> cd_reaped (ps_children p ! i)"

lemma lifecycle_eq:
  assumes "lifecycle q = lifecycle p"
  shows "ps_cmd q = ps_cmd p" "ps_done q = ps_done p" "ps_closed q = ps_closed p" "ps_mu q = ps_mu p"
    "ps_panicked q = ps_panicked p" "length (ps_children q) = length (ps_children p)"
    "alive q = alive p" "unreaped q = unreaped p"
proof -
  have eq: "map (\<lambda>c. (cd_alive c, cd_reaped c)) (ps_children q) = map (\<lambda>c. (cd_alive c, cd_reaped c)) (ps_children p)"
    using assms by (simp add: lifecycle_def)
  then have len: "length (ps_children q) = length (ps_children p)" by (rule map_eq_imp_length_eq)
  have nth: "cd_alive (ps_children q ! i) = cd_alive (ps_children p ! i) \<and>
      cd_reaped (ps_children q ! i) = cd_reaped (ps_children p ! i)" if "i < length (ps_children p)" for i
    using arg_cong [OF eq, of "\<lambda>xs. xs ! i"] that len by simp
  show "alive q = alive p" and "unreaped q = unreaped p"
    using nth len by (auto simp: alive_def unreaped_def fun_eq_iff)
qed (use assms in \<open>simp_all add: lifecycle_def\<close>, metis length_map)

lemma alive_simps [proc_frames]:
  "alive (child_exit i p) j \<longleftrightarrow> alive p j \<and> j \<noteq> i"
  "alive (reap i p) j \<longleftrightarrow> alive p j"
  "unreaped (child_exit i p) j \<longleftrightarrow> unreaped p j"
  "unreaped (reap i p) j \<longleftrightarrow> unreaped p j \<and> j \<noteq> i"
  by (auto simp: alive_def unreaped_def child_exit_def reap_def Let_def proc_frames on_child_nth
      split: option.split if_splits)

lemma exit_frames [proc_frames]:
  "ps_cmd (child_exit i p) = ps_cmd p" "ps_done (child_exit i p) = ps_done p"
  "ps_closed (child_exit i p) = ps_closed p" "ps_mu (child_exit i p) = ps_mu p"
  "ps_panicked (child_exit i p) = ps_panicked p" "length (ps_children (child_exit i p)) = length (ps_children p)"
  by (simp_all add: child_exit_def proc_frames)

lemma reap_frames [proc_frames]:
  "ps_cmd (reap i p) = ps_cmd p" "ps_done (reap i p) = ps_done p" "ps_mu (reap i p) = ps_mu p"
  "length (ps_children (reap i p)) = length (ps_children p)"
  "ps_done p = Some c \<Longrightarrow> c \<notin> set (ps_closed p) \<Longrightarrow> ps_closed (reap i p) = c # ps_closed p"
  "ps_done p = Some c \<Longrightarrow> c \<notin> set (ps_closed p) \<Longrightarrow> ps_panicked (reap i p) = ps_panicked p"
  by (simp_all add: reap_def Let_def proc_frames split: option.split)

lemma start_frames [proc_frames]:
  "ps_mu (snd (start err now p)) = ps_mu p" "ps_closed (snd (start err now p)) = ps_closed p"
  "ps_panicked (snd (start err now p)) = ps_panicked p"
  by (simp_all add: start_def Let_def split: option.split)

lemma start_fails: "lifecycle (snd (start (Some e) now p)) = lifecycle p"
  by (simp add: start_def lifecycle_def)

lemma start_works:
  "ps_cmd (snd (start None now p)) = Some (length (ps_children p))"
  "ps_done (snd (start None now p)) = Some (length (ps_children p))"
  "length (ps_children (snd (start None now p))) = Suc (length (ps_children p))"
  "alive (snd (start None now p)) j \<longleftrightarrow> alive p j \<or> j = length (ps_children p)"
  "unreaped (snd (start None now p)) j \<longleftrightarrow> unreaped p j \<or> j = length (ps_children p)"
  by (auto simp: start_def Let_def alive_def unreaped_def nth_append less_Suc_eq)

lemma lifecycle_count_restart: "lifecycle (count_restart flags p) = lifecycle p"
  by (simp add: count_restart_def lifecycle_def)

text \<open>
  The invariant: no panic; the channel of the current child is the one in \<open>done\<close>; the closed channels
  are those of the children waited for; no other child than the current one is left; the lock is
  held by the thread that waits; nobody is about to start a child while one is left.
\<close>

definition proc_inv :: "process \<Rightarrow> bool" where
  "proc_inv p \<longleftrightarrow> \<not> ps_panicked p \<and> ps_done p = ps_cmd p \<and>
     (\<forall>c. ps_cmd p = Some c \<longrightarrow> c < length (ps_children p)) \<and>
     (\<forall>c. c \<in> set (ps_closed p) \<longleftrightarrow> c < length (ps_children p) \<and> \<not> unreaped p c) \<and>
     (\<forall>i. unreaped p i \<longrightarrow> ps_cmd p = Some i) \<and> (\<forall>i. alive p i \<longrightarrow> unreaped p i)"

definition thread_inv :: "process \<Rightarrow> thread list \<Rightarrow> bool" where
  "thread_inv p ts \<longleftrightarrow>
     (\<forall>t. ps_mu p = Some t \<longleftrightarrow> t < length ts \<and> (\<exists>k. ts ! t = Waiting k)) \<and>
     (\<forall>t < length ts. \<forall>k. ts ! t = Waiting k \<longrightarrow> ps_cmd p \<noteq> None) \<and>
     (\<forall>t < length ts. (\<exists>flags. ts ! t = Assigning flags) \<or> ts ! t = Starting \<longrightarrow> (\<forall>i. \<not> unreaped p i))"

lemma inv_lifecycle:
  assumes "lifecycle q = lifecycle p"
  shows "proc_inv q = proc_inv p" and "thread_inv q ts = thread_inv p ts"
  using lifecycle_eq [OF assms] by (simp_all add: proc_inv_def thread_inv_def)

lemma proc_invI:
  assumes "\<not> ps_panicked p" and "ps_done p = ps_cmd p"
    and "\<And>c. ps_cmd p = Some c \<Longrightarrow> c < length (ps_children p)"
    and "\<And>c. c \<in> set (ps_closed p) \<longleftrightarrow> c < length (ps_children p) \<and> \<not> unreaped p c"
    and "\<And>i. unreaped p i \<Longrightarrow> ps_cmd p = Some i" and "\<And>i. alive p i \<Longrightarrow> unreaped p i"
  shows "proc_inv p"
  unfolding proc_inv_def using assms by (intro conjI allI impI) assumption+

lemma proc_invD:
  assumes "proc_inv p"
  shows "\<not> ps_panicked p" and "ps_done p = ps_cmd p" and "ps_cmd p = Some c \<Longrightarrow> c < length (ps_children p)"
    and "c \<in> set (ps_closed p) \<longleftrightarrow> c < length (ps_children p) \<and> \<not> unreaped p c"
    and "unreaped p i \<Longrightarrow> ps_cmd p = Some i" and "alive p i \<Longrightarrow> unreaped p i"
  using assms unfolding proc_inv_def by blast+

lemma isRunning_inv:
  assumes "proc_inv p"
  shows "isRunning p \<longleftrightarrow> (\<exists>i. unreaped p i)"
proof (cases "ps_cmd p")
  case None
  then have "\<not> unreaped p i" for i using proc_invD(5) [OF assms, of i] by auto
  with None show ?thesis by (simp add: isRunning_def)
next
  case (Some c)
  then have "ps_done p = Some c" by (simp add: proc_invD(2) [OF assms])
  with Some have "isRunning p \<longleftrightarrow> c \<notin> set (ps_closed p)" by (simp add: isRunning_def)
  also have "\<dots> \<longleftrightarrow> unreaped p c"
    using proc_invD(3) [OF assms Some] proc_invD(4) [OF assms, of c] by blast
  also have "\<dots> \<longleftrightarrow> (\<exists>i. unreaped p i)"
    using proc_invD(5) [OF assms] Some by (metis option.inject)
  finally show ?thesis .
qed

lemma inv_exit:
  assumes "proc_inv p"
  shows "proc_inv (child_exit i p)"
  by (rule proc_invI, unfold exit_frames alive_simps)
    (use proc_invD [OF assms] in blast)+

lemma inv_reap:
  assumes "proc_inv p" and "unreaped p i" and "\<not> alive p i"
  shows "proc_inv (reap i p)"
proof -
  have cmd: "ps_cmd p = Some i" by (rule proc_invD(5) [OF assms(1,2)])
  then have dn: "ps_done p = Some i" by (simp add: proc_invD(2) [OF assms(1)])
  have new: "i \<notin> set (ps_closed p)" using assms(2) proc_invD(4) [OF assms(1)] by blast
  have i: "i < length (ps_children p)" using assms(2) by (simp add: unreaped_def)
  note fr = reap_frames(1-4) reap_frames(5,6) [OF dn new] alive_simps(2,4)
  show ?thesis
  proof (rule proc_invI, unfold fr)
    fix c show "c \<in> set (i # ps_closed p) \<longleftrightarrow> c < length (ps_children p) \<and> \<not> (unreaped p c \<and> c \<noteq> i)"
      using proc_invD(4) [OF assms(1), of c] i by auto
  next
    fix j assume "alive p j" then show "unreaped p j \<and> j \<noteq> i"
      using proc_invD(6) [OF assms(1)] assms(3) by blast
  qed (use proc_invD(1-3,5) [OF assms(1)] in blast)+
qed

lemma inv_start:
  assumes "proc_inv p" and "\<forall>i. \<not> unreaped p i"
  shows "proc_inv (snd (start err now p))"
proof (cases err)
  case None
  have new: "length (ps_children p) \<notin> set (ps_closed p)" using proc_invD(4) [OF assms(1)] by blast
  show ?thesis unfolding None
  proof (rule proc_invI, unfold start_works start_frames)
    fix c show "c \<in> set (ps_closed p) \<longleftrightarrow>
        c < Suc (length (ps_children p)) \<and> \<not> (unreaped p c \<or> c = length (ps_children p))"
      using proc_invD(4) [OF assms(1), of c] new by (auto simp: less_Suc_eq)
  qed (use proc_invD(1,6) [OF assms(1)] assms(2) in auto)
next
  case (Some e)
  then show ?thesis using assms(1) inv_lifecycle(1) [OF start_fails] by simp
qed

lemma thread_invI:
  assumes "\<And>t. ps_mu p = Some t \<longleftrightarrow> t < length ts \<and> (\<exists>k. ts ! t = Waiting k)"
    and "\<And>t k. t < length ts \<Longrightarrow> ts ! t = Waiting k \<Longrightarrow> ps_cmd p \<noteq> None"
    and "\<And>t i. t < length ts \<Longrightarrow> (\<exists>flags. ts ! t = Assigning flags) \<or> ts ! t = Starting \<Longrightarrow> \<not> unreaped p i"
  shows "thread_inv p ts"
  unfolding thread_inv_def using assms by (intro conjI allI impI) assumption+

lemma thread_invD:
  assumes "thread_inv p ts"
  shows "ps_mu p = Some t \<longleftrightarrow> t < length ts \<and> (\<exists>k. ts ! t = Waiting k)"
    and "t < length ts \<Longrightarrow> ts ! t = Waiting k \<Longrightarrow> ps_cmd p \<noteq> None"
    and "t < length ts \<Longrightarrow> (\<exists>flags. ts ! t = Assigning flags) \<or> ts ! t = Starting \<Longrightarrow> \<not> unreaped p i"
  using assms unfolding thread_inv_def by blast+

lemma stop_returned_cases:
  "stop_returned k \<noteq> Waiting k'" "stop_returned k \<noteq> Starting" "stop_returned k = Assigning fl \<longleftrightarrow> k = Some fl"
  by (auto simp: stop_returned_def split: option.split)

text \<open>A step of thread \<open>t\<close> that takes it out of or into \<open>Waiting\<close>, with the lock following.\<close>

lemma thread_inv_move:
  assumes inv: "thread_inv p ts" and t: "t < length ts"
    and cmd: "ps_cmd q = ps_cmd p \<or> ps_cmd q \<noteq> None"
    and free: "ps_mu p = None \<or> ps_mu p = Some t"
    and mu: "ps_mu q = (if \<exists>k. x = Waiting k then Some t else None)"
    and wait: "(\<exists>k. x = Waiting k) \<Longrightarrow> ps_cmd q \<noteq> None"
    and prep: "(\<exists>fl. x = Assigning fl) \<or> x = Starting \<Longrightarrow> \<forall>i. \<not> unreaped q i"
    and others: "\<And>u. u < length ts \<Longrightarrow> u \<noteq> t \<Longrightarrow> (\<exists>fl. ts ! u = Assigning fl) \<or> ts ! u = Starting \<Longrightarrow> \<forall>i. \<not> unreaped q i"
  shows "thread_inv q (ts[t := x])"
proof (rule thread_invI)
  fix u show "ps_mu q = Some u \<longleftrightarrow> u < length (ts[t := x]) \<and> (\<exists>k. ts[t := x] ! u = Waiting k)"
  proof (cases "u = t")
    case True then show ?thesis using t mu by simp
  next
    case False
    then have "\<not> (u < length ts \<and> (\<exists>k. ts ! u = Waiting k))"
      using thread_invD(1) [OF inv, of u] free by auto
    then show ?thesis using False mu by (auto split: if_splits)
  qed
next
  fix u k assume u: "u < length (ts[t := x])" "ts[t := x] ! u = Waiting k"
  show "ps_cmd q \<noteq> None"
  proof (cases "u = t")
    case True then show ?thesis using u t wait by auto
  next
    case False then show ?thesis using u cmd thread_invD(2) [OF inv, of u k] by auto
  qed
next
  fix u i assume u: "u < length (ts[t := x])"
    and s: "(\<exists>fl. ts[t := x] ! u = Assigning fl) \<or> ts[t := x] ! u = Starting"
  show "\<not> unreaped q i"
  proof (cases "u = t")
    case True then show ?thesis using s t prep by simp
  next
    case False then show ?thesis using u s others [of u] by simp
  qed
qed

lemma thread_inv_append:
  assumes "thread_inv p ts"
  shows "thread_inv p (ts @ [Stopping k])"
proof (rule thread_invI)
  have nth: "t < length (ts @ [Stopping k]) \<and> (ts @ [Stopping k]) ! t = x \<longleftrightarrow>
      (t < length ts \<and> ts ! t = x) \<or> (t = length ts \<and> x = Stopping k)" for t x
    by (auto simp: nth_append less_Suc_eq)
  show "ps_mu p = Some t \<longleftrightarrow> t < length (ts @ [Stopping k]) \<and> (\<exists>k'. (ts @ [Stopping k]) ! t = Waiting k')" for t
    unfolding thread_invD(1) [OF assms] using nth by blast
  show "ps_cmd p \<noteq> None" if "t < length (ts @ [Stopping k])" "(ts @ [Stopping k]) ! t = Waiting k'" for t k'
    using nth [of t "Waiting k'"] that thread_invD(2) [OF assms] by blast
  show "\<not> unreaped p i" if "t < length (ts @ [Stopping k])"
    "(\<exists>flags. (ts @ [Stopping k]) ! t = Assigning flags) \<or> (ts @ [Stopping k]) ! t = Starting" for t i
    using nth [of t] that thread_invD(3) [OF assms] by blast
qed

lemma others_finished:
  assumes "\<forall>a \<in> unfinished ts. \<forall>b \<in> unfinished ts. a = b" and "t < length ts" "u < length ts" "u \<noteq> t"
    and "\<And>e. ts ! t \<noteq> Finished e"
  obtains e where "ts ! u = Finished e"
  using assms unfolding unfinished_def by blast

lemma mu_frames:
  "alive (p\<lparr>ps_mu := m\<rparr>) = alive p" "unreaped (p\<lparr>ps_mu := m\<rparr>) = unreaped p"
  "isRunning (p\<lparr>ps_mu := m\<rparr>) = isRunning p" "proc_inv (p\<lparr>ps_mu := m\<rparr>) = proc_inv p"
  by (simp_all add: alive_def unreaped_def isRunning_def proc_inv_def fun_eq_iff split: option.split)

definition single :: "thread list \<Rightarrow> bool" where
  "single ts \<longleftrightarrow> (\<forall>t \<in> unfinished ts. \<forall>u \<in> unfinished ts. t = u)"

lemma single_others:
  assumes "single ts" and "t < length ts" and "\<And>e. ts ! t \<noteq> Finished e" and "u < length ts" and "u \<noteq> t"
  shows "\<not> ((\<exists>fl. ts ! u = Assigning fl) \<or> ts ! u = Starting)"
proof
  assume "(\<exists>fl. ts ! u = Assigning fl) \<or> ts ! u = Starting"
  then have "ts ! u \<noteq> Finished e" for e by auto
  then have "u \<in> unfinished ts" and "t \<in> unfinished ts" using assms(2-4) by (simp_all add: unfinished_def)
  with assms(1,5) show False by (simp add: single_def)
qed

lemma thread_inv_same:
  assumes "thread_inv p ts" and "ps_mu q = ps_mu p" and "ps_cmd q = ps_cmd p" and "\<And>i. unreaped q i \<Longrightarrow> unreaped p i"
  shows "thread_inv q ts"
  using assms(1) unfolding thread_inv_def assms(2,3) using assms(4) by blast

lemma serial_inv_step:
  assumes "proc_step s s'" and "proc_inv (fst s)" and "thread_inv (fst s) (snd s)" and "single (snd s)"
  shows "proc_inv (fst s') \<and> thread_inv (fst s') (snd s')"
  using assms
proof (induction rule: proc_step.induct)
  case (Exit p i ts)
  then show ?case using inv_exit thread_inv_same [of p ts "child_exit i p"] by (simp add: proc_frames)
next
  case (Reap p i ts)
  then have "unreaped p i" "\<not> alive p i" by (simp_all add: unreaped_def alive_def)
  with Reap show ?case using inv_reap [of p i] thread_inv_same [of p ts "reap i p"] by (simp add: proc_frames)
next
  case (Io p x ts)
  then show ?case using inv_lifecycle [OF lifecycle_io] by simp
next
  case (Call p ts k)
  then show ?case using thread_inv_append by simp
next
  case (Stop_nothing p t ts k)
  have no: "\<not> unreaped p i" for i using proc_invD(5) [of p i] Stop_nothing by auto
  have "thread_inv p (ts[t := stop_returned k])"
    by (rule thread_inv_move [of p]) (use Stop_nothing no in \<open>(simp add: stop_returned_cases; fail)+\<close>)
  with Stop_nothing show ?case by simp
next
  case (Stop_signal p t ts k i)
  let ?q = "(snd (send_signal ''SIGTERM'' i p))\<lparr>ps_mu := Some t\<rparr>"
  have q: "proc_inv ?q" "ps_cmd ?q = ps_cmd p" "unreaped ?q = unreaped p"
    using Stop_signal inv_lifecycle(1) [OF lifecycle_send] lifecycle_eq [OF lifecycle_send]
    by (simp_all add: mu_frames)
  have "thread_inv ?q (ts[t := Waiting k])"
    by (rule thread_inv_move [of p]) (use Stop_signal q single_others [of ts t] in simp_all)
  with q(1) show ?case by simp
next
  case (Stop_kill p t ts k i)
  then show ?case using inv_exit thread_inv_same [of p ts "child_exit i p"] by (simp add: proc_frames)
next
  case (Stop_return p t ts k)
  have no: "\<not> unreaped p i" for i using isRunning_inv [of p] Stop_return by auto
  have mu: "ps_mu p = Some t" using thread_invD(1) [of p ts t] Stop_return by auto
  have "thread_inv (p\<lparr>ps_mu := None\<rparr>) (ts[t := stop_returned k])"
    by (rule thread_inv_move [of p]) (use Stop_return no mu in \<open>simp_all add: stop_returned_cases mu_frames\<close>)
  with Stop_return show ?case by (simp add: mu_frames)
next
  case (Assign p t ts flags)
  note q = lifecycle_eq [OF lifecycle_count_restart [of flags p]]
  have mu: "ps_mu p = None"
  proof (rule ccontr)
    assume "ps_mu p \<noteq> None"
    then obtain u k where u: "u < length ts" "ts ! u = Waiting k" using thread_invD(1) [of p ts] Assign by auto
    then have "u \<in> unfinished ts" "t \<in> unfinished ts" "u \<noteq> t" using Assign by (auto simp: unfinished_def)
    then show False using Assign by (auto simp: single_def)
  qed
  have "thread_inv (count_restart flags p) (ts[t := Starting])"
    by (rule thread_inv_move [of p])
      (use Assign q mu thread_invD(3) [of p ts t] thread_invD(3) [of p ts] in simp_all)
  with Assign show ?case using inv_lifecycle(1) [OF lifecycle_count_restart] by simp
next
  case (Start p t ts err now)
  have no: "\<forall>i. \<not> unreaped p i" using thread_invD(3) [of p ts t] Start by auto
  have "ps_cmd (snd (start err now p)) = ps_cmd p \<or> ps_cmd (snd (start err now p)) \<noteq> None"
    by (simp add: start_def Let_def split: option.split)
  moreover have "ps_mu (snd (start err now p)) = None" using Start by (simp add: start_frames)
  ultimately have "thread_inv (snd (start err now p)) (ts[t := Finished (fst (start err now p))])"
    by (intro thread_inv_move [of p]) (use Start single_others [of ts t] in simp_all)
  with Start show ?case using inv_start [OF _ no] by simp
qed

lemma inv_new:
  assumes "newProcess err now flags workDir m = Inr p"
  shows "proc_inv p" and "thread_inv p []" and "ps_cmd p \<noteq> None"
proof -
  let ?n = "no_process flags workDir m"
  have err: "err = None" and p: "p = snd (start None now ?n)"
    using assms by (auto simp: newProcess_def start_def Let_def split: option.splits)
  have "proc_inv ?n" by (rule proc_invI) (simp_all add: no_process_def unreaped_def alive_def)
  moreover have "\<forall>i. \<not> unreaped ?n i" by (simp add: no_process_def unreaped_def)
  ultimately show "proc_inv p" unfolding p by (rule inv_start)
  show "thread_inv p []" by (simp add: thread_inv_def p start_frames) (simp add: no_process_def)
  show "ps_cmd p \<noteq> None" by (simp add: p start_works)
qed

lemma serial_inv:
  assumes "serial_step\<^sup>*\<^sup>* (p0, []) s" and "proc_inv p0" and "thread_inv p0 []"
  shows "proc_inv (fst s) \<and> thread_inv (fst s) (snd s) \<and> single (snd s)"
  using assms(1)
proof (induction rule: rtranclp_induct)
  case base
  show ?case using assms(2,3) by (simp add: single_def unfinished_def)
next
  case (step s s')
  then show ?case using serial_inv_step [of s s'] by (simp add: serial_step_def single_def)
qed

lemma cmd_stays: "proc_step s s' \<Longrightarrow> ps_cmd (fst s) \<noteq> None \<Longrightarrow> ps_cmd (fst s') \<noteq> None"
proof (induction rule: proc_step.induct)
  case (Io p x ts)
  then show ?case using lifecycle_eq(1) [OF lifecycle_io [of x p]] by simp
next
  case (Stop_signal p t ts k i)
  then show ?case using lifecycle_eq(1) [OF lifecycle_send] by simp
next
  case (Assign p t ts flags)
  then show ?case using lifecycle_eq(1) [OF lifecycle_count_restart] by simp
next
  case (Start p t ts err now)
  then show ?case by (simp add: start_def Let_def split: option.split)
qed (simp_all add: proc_frames)

lemma cmd_stays_serial: "serial_step\<^sup>*\<^sup>* s s' \<Longrightarrow> ps_cmd (fst s) \<noteq> None \<Longrightarrow> ps_cmd (fst s') \<noteq> None"
  by (induction rule: rtranclp_induct) (auto simp: serial_step_def dest: cmd_stays)

section \<open>A restart runs to its end\<close>

lemma single_append: "unfinished ts = {} \<Longrightarrow> single (ts @ [x])"
proof -
  assume "unfinished ts = {}"
  then have "\<exists>e. ts ! u = Finished e" if "u < length ts" for u using that by (auto simp: unfinished_def)
  then have "unfinished (ts @ [x]) \<subseteq> {length ts}"
    by (auto simp: unfinished_def nth_append less_Suc_eq split: if_splits)
  then show "single (ts @ [x])" by (auto simp: single_def)
qed

lemma stop_mu:
  "(reap i (child_exit i (q\<lparr>ps_mu := m\<rparr>)))\<lparr>ps_mu := m'\<rparr> = reap i (child_exit i (q\<lparr>ps_mu := m'\<rparr>))"
  by (rule process.equality)
    (simp_all add: reap_def child_exit_def on_child_def Let_def split: option.split)

lemma send_mu: "ps_mu (snd (send_signal sig i p)) = ps_mu p"
  using lifecycle_eq(4) [OF lifecycle_send] .

lemma stop_path:
  assumes inv: "proc_inv p" and th: "thread_inv p ts" and quiet: "unfinished ts = {}" and cmd: "ps_cmd p = Some i"
  shows "serial_step\<^sup>*\<^sup>* (p, ts) (stop_process p, ts @ [stop_returned k])"
    and "proc_inv (stop_process p)" and "\<not> isRunning (stop_process p)" and "ps_mu (stop_process p) = None"
proof -
  let ?t = "length ts" and ?q = "snd (send_signal ''SIGTERM'' i p)"
  have mu: "ps_mu p = None"
  proof (rule ccontr)
    assume "ps_mu p \<noteq> None"
    then obtain u k where "u < length ts" "ts ! u = Waiting k" using thread_invD(1) [OF th] by auto
    then have "u \<in> unfinished ts" by (simp add: unfinished_def)
    with quiet show False by simp
  qed
  note q = lifecycle_eq [OF lifecycle_send [of "''SIGTERM''" i p]]
  have qinv: "proc_inv ?q" using inv inv_lifecycle(1) [OF lifecycle_send] by simp
  have go: "serial_step (a, ts @ [x]) (b, ts @ [y])" if "proc_step (a, ts @ [x]) (b, ts @ [y])" for a b x y
    using that single_append [OF quiet, of y] by (simp add: serial_step_def single_def)
  have "serial_step (p, ts) (p, ts @ [Stopping k])"
    using single_append [OF quiet] Call [of p ts k] proc_invD(1) [OF inv] by (simp add: serial_step_def single_def)
  moreover have "serial_step (p, ts @ [Stopping k]) (?q\<lparr>ps_mu := Some ?t\<rparr>, ts @ [Waiting k])"
    using Stop_signal [of p ?t "ts @ [Stopping k]" k i] proc_invD(1) [OF inv] mu cmd by (intro go) simp
  ultimately have first: "serial_step\<^sup>*\<^sup>* (p, ts) (?q\<lparr>ps_mu := Some ?t\<rparr>, ts @ [Waiting k])" by simp
  have last: "serial_step (r, ts @ [Waiting k]) (r\<lparr>ps_mu := None\<rparr>, ts @ [stop_returned k])"
    if "\<not> isRunning r" "\<not> ps_panicked r" for r
    using Stop_return [of r ?t "ts @ [Waiting k]" k] that by (intro go) simp
  have keep: "?q\<lparr>ps_mu := None\<rparr> = ?q"
    using send_mu [of "''SIGTERM''" i p] mu by (simp add: process.equality)
  have "serial_step\<^sup>*\<^sup>* (p, ts) (stop_process p, ts @ [stop_returned k]) \<and> proc_inv (stop_process p) \<and>
        \<not> isRunning (stop_process p) \<and> ps_mu (stop_process p) = None"
  proof (cases "isRunning ?q")
    case False
    then have s: "stop_process p = ?q" by (simp add: stop_process_def cmd)
    have "serial_step (?q\<lparr>ps_mu := Some ?t\<rparr>, ts @ [Waiting k]) (?q, ts @ [stop_returned k])"
      using last [of "?q\<lparr>ps_mu := Some ?t\<rparr>"] False proc_invD(1) [OF qinv] by (simp add: mu_frames keep)
    with first have "serial_step\<^sup>*\<^sup>* (p, ts) (?q, ts @ [stop_returned k])" by (rule rtranclp.rtrancl_into_rtrancl)
    then show ?thesis
      unfolding s using qinv False send_mu mu by simp
  next
    case True
    let ?e = "child_exit i (?q\<lparr>ps_mu := Some ?t\<rparr>)" and ?r = "reap i (child_exit i ?q)"
    have s: "stop_process p = ?r" using True by (simp add: stop_process_def cmd)
    have left: "unreaped ?q i"
      using True isRunning_inv [OF qinv] proc_invD(5) [OF qinv] q(1) cmd by (metis option.inject)
    have einv: "proc_inv (child_exit i ?q)" by (rule inv_exit [OF qinv])
    have "unreaped (child_exit i ?q) i" "\<not> alive (child_exit i ?q) i" using left by (simp_all add: alive_simps)
    then have rinv: "proc_inv ?r" by (rule inv_reap [OF einv])
    have e: "\<not> ps_panicked ?e" "ps_cmd (?q\<lparr>ps_mu := Some ?t\<rparr>) = Some i" "\<not> alive ?e i" "unreaped ?e i"
      using proc_invD(1) [OF qinv] q(1) cmd left by (simp_all add: exit_frames alive_simps mu_frames)
    have "serial_step (?q\<lparr>ps_mu := Some ?t\<rparr>, ts @ [Waiting k]) (?e, ts @ [Waiting k])"
      using Stop_kill [of "?q\<lparr>ps_mu := Some ?t\<rparr>" ?t "ts @ [Waiting k]" k i] proc_invD(1) [OF qinv] e(2)
      by (intro go) simp
    moreover have "serial_step (?e, ts @ [Waiting k]) (reap i ?e, ts @ [Waiting k])"
      using Reap [of ?e i "ts @ [Waiting k]"] e by (intro go) (simp add: alive_def unreaped_def)
    moreover have "\<not> isRunning (reap i ?e)" "\<not> ps_panicked (reap i ?e)"
    proof -
      have "proc_inv ?e" using einv mu_frames(4) stop_mu by (simp add: inv_exit mu_frames qinv)
      then have inv': "proc_inv (reap i ?e)" using inv_reap e(3,4) by blast
      have "\<not> unreaped (reap i ?e) j" for j
        using proc_invD(5) [OF inv', of j] e(2) by (auto simp: alive_simps reap_frames exit_frames)
      then show "\<not> isRunning (reap i ?e)" "\<not> ps_panicked (reap i ?e)"
        using isRunning_inv [OF inv'] proc_invD(1) [OF inv'] by simp_all
    qed
    then have "serial_step (reap i ?e, ts @ [Waiting k]) (?r, ts @ [stop_returned k])"
      using last [of "reap i ?e"] by (simp add: stop_mu keep)
    moreover have "\<not> unreaped ?r j" for j
      using proc_invD(5) [OF rinv, of j] q(1) cmd by (auto simp: alive_simps reap_frames exit_frames)
    ultimately show ?thesis
      unfolding s using first rinv isRunning_inv [OF rinv] send_mu mu
      by (simp add: reap_frames exit_frames)
  qed
  then show "serial_step\<^sup>*\<^sup>* (p, ts) (stop_process p, ts @ [stop_returned k])"
    and "proc_inv (stop_process p)" and "\<not> isRunning (stop_process p)" and "ps_mu (stop_process p) = None"
    by simp_all
qed

section \<open>A scheduler\<close>

text \<open>Steps as values, so that an interleaving can be run.\<close>

datatype sched = S_exit nat | S_reap nat | S_call "string list option" | S_go nat

fun sched_step :: "sched \<Rightarrow> wrapper \<Rightarrow> wrapper option" where
  "sched_step (S_exit i) (p, ts) =
     (if ps_panicked p \<or> length (ps_children p) \<le> i then None else Some (child_exit i p, ts))"
| "sched_step (S_reap i) (p, ts) =
     (if ps_panicked p \<or> length (ps_children p) \<le> i \<or> cd_alive (ps_children p ! i) \<or> cd_reaped (ps_children p ! i)
      then None else Some (reap i p, ts))"
| "sched_step (S_call k) (p, ts) = (if ps_panicked p then None else Some (p, ts @ [Stopping k]))"
| "sched_step (S_go t) (p, ts) =
     (if ps_panicked p \<or> length ts \<le> t then None
      else case ts ! t of
        Stopping k \<Rightarrow>
          if ps_mu p \<noteq> None then None
          else (case ps_cmd p of
                  None \<Rightarrow> Some (p, ts[t := stop_returned k])
                | Some i \<Rightarrow> Some ((snd (send_signal ''SIGTERM'' i p))\<lparr>ps_mu := Some t\<rparr>, ts[t := Waiting k]))
      | Waiting k \<Rightarrow> if isRunning p then None else Some (p\<lparr>ps_mu := None\<rparr>, ts[t := stop_returned k])
      | Assigning flags \<Rightarrow> Some (count_restart flags p, ts[t := Starting])
      | Starting \<Rightarrow>
          if ps_mu p \<noteq> None then None else Some (snd (start None 0 p), ts[t := Finished None])
      | Finished e \<Rightarrow> None)"

fun sched_run :: "sched list \<Rightarrow> wrapper \<Rightarrow> wrapper option" where
  "sched_run [] s = Some s"
| "sched_run (c # cs) s = (case sched_step c s of None \<Rightarrow> None | Some s' \<Rightarrow> sched_run cs s')"

lemma start_none: "fst (start None now p) = None"
  by (simp add: start_def Let_def)

lemma sched_sound: "sched_step c s = Some s' \<Longrightarrow> proc_step s s'"
proof (induction c s rule: sched_step.induct)
  case (4 t p ts)
  then show ?case
    using Stop_nothing [of p t ts] Stop_signal [of p t ts] Stop_return [of p t ts] Assign [of p t ts]
      Start [of p t ts None 0]
    by (auto simp: start_none split: if_splits thread.splits option.splits)
qed (auto split: if_splits intro: proc_step.intros)

lemma sched_run_sound: "sched_run cs s = Some s' \<Longrightarrow> proc_step\<^sup>*\<^sup>* s s'"
  by (induction cs arbitrary: s)
    (auto split: option.splits dest: sched_sound intro: converse_rtranclp_into_rtranclp)

definition demo_process :: process where
  "demo_process = snd (start None 0 (no_process [''-p''] ''/work'' (newMetrics 0)))"

text \<open>Two restarts, the second arriving before the first is done.\<close>

definition demo_overlap :: "sched list" where
  "demo_overlap =
     [S_call (Some []), S_call (Some []), S_go 0, S_exit 0, S_reap 0, S_go 0, S_go 0, S_go 1, S_go 1, S_go 1,
      S_go 0, S_go 1]"

lemma restart_path:
  assumes inv: "proc_inv p" and th: "thread_inv p ts" and quiet: "unfinished ts = {}" and cmd: "ps_cmd p = Some i"
  shows "serial_step\<^sup>*\<^sup>* (p, ts) (snd (restart None now' fl p), ts @ [Finished None]) \<and>
    fst (restart None now' fl p) = None \<and> isRunning (snd (restart None now' fl p)) \<and>
    (\<exists>i. ps_cmd (snd (restart None now' fl p)) = Some i \<and> alive (snd (restart None now' fl p)) i)"
proof -
  note path = stop_path [OF inv th quiet cmd]
  let ?r = "count_restart fl (stop_process p)" and ?t = "length ts"
  let ?q = "snd (start None now' ?r)"
  have r: "proc_inv ?r" "ps_mu ?r = None" "\<not> isRunning ?r"
    using path(2-4) inv_lifecycle(1) [OF lifecycle_count_restart] lifecycle_eq(4) [OF lifecycle_count_restart]
      isRunning_inv lifecycle_eq(8) [OF lifecycle_count_restart] by (metis, metis, metis)
  have go: "serial_step (a, ts @ [x]) (b, ts @ [y])" if "proc_step (a, ts @ [x]) (b, ts @ [y])" for a b x y
    using that single_append [OF quiet, of y] by (simp add: serial_step_def single_def)
  have "serial_step\<^sup>*\<^sup>* (p, ts) (stop_process p, ts @ [Assigning fl])"
    using path(1) [of "Some fl"] by (simp add: stop_returned_def)
  moreover have "serial_step (stop_process p, ts @ [Assigning fl]) (?r, ts @ [Starting])"
    using Assign [of "stop_process p" ?t "ts @ [Assigning fl]" fl] proc_invD(1) [OF path(2)] by (intro go) simp
  moreover have "serial_step (?r, ts @ [Starting]) (?q, ts @ [Finished None])"
    using Start [of ?r ?t "ts @ [Starting]" None now'] proc_invD(1) [OF r(1)] r(2)
    by (intro go) (simp add: start_none)
  ultimately have run: "serial_step\<^sup>*\<^sup>* (p, ts) (?q, ts @ [Finished None])"
    by (meson rtranclp.rtrancl_into_rtrancl)
  have "proc_inv ?q" using inv_start [OF r(1)] isRunning_inv [OF r(1)] r(3) by blast
  then have "isRunning ?q" by (simp add: isRunning_inv) (use start_works(5) in blast)
  moreover have "restart None now' fl p = (None, ?q)"
    by (simp add: restart_def prod_eq_iff start_none)
  ultimately show ?thesis using run start_works(1,4) by simp
qed

lemma demo_new: "newProcess None 0 [''-p''] ''/work'' (newMetrics 0) = Inr demo_process"
  by (simp add: newProcess_def demo_process_def start_def Let_def)

lemma demo_path: "serial_step\<^sup>*\<^sup>* (demo_process, []) (snd (restart None 0 [] demo_process), [Finished None])"
proof -
  obtain i where "ps_cmd demo_process = Some i" using inv_new(3) [OF demo_new] by auto
  moreover have "unfinished [] = {}" by (simp add: unfinished_def)
  ultimately show ?thesis using restart_path [OF inv_new(1,2) [OF demo_new]] by fastforce
qed

section \<open>Properties\<close>

text \<open>
  C14: as long as no call of \<open>Stop\<close> or \<open>Restart\<close> overlaps another, whatever the child and its
  output, input and subscribers do, the wrapper does not panic, no child but the current one is
  ever left running, a running child is reported as running, and only a child that has not been
  waited for is.
\<close>

theorem one_child_at_a_time:
  assumes "newProcess None now flags workDir m = Inr p0" and "serial_step\<^sup>*\<^sup>* (p0, []) (p, ts)"
  shows "\<not> ps_panicked p \<and> (\<forall>i. alive p i \<longrightarrow> ps_cmd p = Some i \<and> isRunning p) \<and>
    (isRunning p \<longleftrightarrow> (\<exists>i. ps_cmd p = Some i \<and> unreaped p i))"
proof -
  have inv: "proc_inv p" using serial_inv [OF assms(2)] inv_new [OF assms(1)] by simp
  show ?thesis
    using isRunning_inv [OF inv] proc_invD(1,5,6) [OF inv] by blast
qed

theorem one_child_at_a_time_witness:
  "let p = snd (restart None 0 [] demo_process) in \<not> ps_panicked p \<and> alive p 1 \<and> ps_cmd p = Some 1 \<and> isRunning p"
proof -
  have "alive (snd (restart None 0 [] demo_process)) 1" by code_simp
  then show ?thesis using one_child_at_a_time [OF demo_new demo_path] unfolding Let_def by blast
qed



text \<open>
  Restarts that overlap are not safe. Two of them, one after the other past \<open>Stop\<close>, both
  start a child: two children run, the first of them out of reach of any later \<open>Stop\<close> or signal; when
  it ends, the wrapper reports that no child runs although the second one does, and when the second
  ends as well the wrapper crashes on closing a closed channel.
\<close>

theorem overlapping_restarts:
  "\<exists>p1 p2 p3 ts. proc_step\<^sup>*\<^sup>* (demo_process, []) (p1, ts) \<and>
     alive p1 1 \<and> alive p1 2 \<and> ps_cmd p1 = Some 2 \<and> ts = [Finished None, Finished None] \<and>
     proc_step\<^sup>*\<^sup>* (p1, ts) (p2, ts) \<and> alive p2 2 \<and> \<not> isRunning p2 \<and>
     proc_step\<^sup>*\<^sup>* (p2, ts) (p3, ts) \<and> ps_panicked p3"
proof -
  let ?s1 = "the (sched_run demo_overlap (demo_process, []))"
  let ?s2 = "the (sched_run [S_exit 1, S_reap 1] ?s1)"
  let ?s3 = "the (sched_run [S_exit 2, S_reap 2] ?s2)"
  note defs = demo_process_def demo_overlap_def start_def no_process_def child_exit_def on_child_def reap_def
    stop_returned_def isRunning_def send_signal_def count_restart_def Let_def alive_def
  have 1: "sched_run demo_overlap (demo_process, []) = Some ?s1" and ts1: "snd ?s1 = [Finished None, Finished None]"
    and f1: "alive (fst ?s1) 1" "alive (fst ?s1) 2" "ps_cmd (fst ?s1) = Some 2"
    by (simp_all add: defs)
  have 2: "sched_run [S_exit 1, S_reap 1] ?s1 = Some ?s2" and ts2: "snd ?s2 = [Finished None, Finished None]"
    and f2: "alive (fst ?s2) 2" "\<not> isRunning (fst ?s2)"
    by (simp_all add: defs)
  have 3: "sched_run [S_exit 2, S_reap 2] ?s2 = Some ?s3" and ts3: "snd ?s3 = [Finished None, Finished None]"
    and f3: "ps_panicked (fst ?s3)"
    by (simp_all add: defs)
  note s = sched_run_sound [OF 1] sched_run_sound [OF 2] sched_run_sound [OF 3]
  let ?ts = "[Finished None, Finished None]"
  have "?s1 = (fst ?s1, ?ts)" "?s2 = (fst ?s2, ?ts)" "?s3 = (fst ?s3, ?ts)"
    using ts1 ts2 ts3 by (simp_all only: prod_eq_iff fst_conv snd_conv)
  then show ?thesis using s f1 f2 f3 by metis
qed

section \<open>Counters and subscribers\<close>

lemma removeChan_remove1: "removeChan subs ch = remove1 ch subs"
  by (induction subs) auto

lemma fan_out_length [simp]: "length (fan_out data subs bufs) = length bufs"
  unfolding fan_out_def by (induction subs arbitrary: bufs) auto

lemma fan_out_nth:
  "distinct subs \<Longrightarrow> ch < length bufs \<Longrightarrow>
     fan_out data subs bufs ! ch = (if ch \<in> set subs then try_send 64 (bufs ! ch) data else bufs ! ch)"
  unfolding fan_out_def
proof (induction subs arbitrary: bufs)
  case (Cons s subs)
  then show ?case by (cases "s = ch") auto
qed simp

text \<open>
  What holds of the subscribers at all times: each is on one list once and has a buffer of at most
  64 pieces, and the number of connections is the number of subscribers.
\<close>

definition subs_inv :: "process \<Rightarrow> bool" where
  "subs_inv p \<longleftrightarrow>
     distinct (ps_stdoutSubs p @ ps_stderrSubs p) \<and>
     (\<forall>ch \<in> set (ps_stdoutSubs p @ ps_stderrSubs p). ch < length (ps_buffers p)) \<and>
     (\<forall>ch < length (ps_buffers p). length (ps_buffers p ! ch) \<le> 64) \<and>
     mt_connections (ps_metrics p) = word_of_nat (length (ps_stdoutSubs p) + length (ps_stderrSubs p))"

lemma fan_out_bound:
  assumes "distinct subs" and "\<forall>ch < length bufs. length (bufs ! ch) \<le> 64" and "ch < length bufs"
  shows "length (fan_out data subs bufs ! ch) \<le> 64"
  using assms try_send_bound [of "bufs ! ch" 64 data] by (simp add: fan_out_nth)

lemma word_of_nat_pred: "0 < n \<Longrightarrow> word_of_nat (n - Suc 0) = word_of_nat n - (1 :: 'a :: len word)"
  by (cases n) simp_all

lemma subs_inv_io:
  assumes "subs_inv p" and "io_enabled x p"
  shows "subs_inv (io_step x p)"
proof (cases x)
  case (Chunk b data)
  have "distinct (proc_subs b p)" using assms(1) by (simp add: subs_inv_def proc_subs_def)
  then show ?thesis using assms(1) Chunk fan_out_bound [of "proc_subs b p" "ps_buffers p"]
    by (auto simp: subs_inv_def pump_read_def count_out_def)
next
  case (Subscribe_out b)
  have "length (ps_buffers p) \<notin> set (ps_stdoutSubs p @ ps_stderrSubs p)" using assms(1) by (auto simp: subs_inv_def)
  then show ?thesis using assms(1) Subscribe_out
    by (auto simp: subs_inv_def subscribe_out_def proc_subs_def set_subs_def connections_def Let_def
        nth_append less_Suc_eq add_ac)
next
  case (Unsubscribe_out b ch)
  then have "ch \<in> set (proc_subs b p)" using assms(2) by simp
  moreover from this have "0 < length (proc_subs b p)" by (rule length_pos_if_in_set)
  ultimately show ?thesis using assms(1) Unsubscribe_out set_remove1_subset [of ch "proc_subs b p"]
    by (cases b)
      (auto simp: subs_inv_def unsubscribe_out_def proc_subs_def set_subs_def connections_def removeChan_remove1
        length_remove1 word_of_nat_pred)
next
  case (Receive ch)
  have "length ((ps_buffers p)[ch := tl (ps_buffers p ! ch)] ! c) \<le> 64" if "c < length (ps_buffers p)" for c
    using assms(1) that by (cases "c = ch") (auto simp: subs_inv_def intro: le_trans [OF diff_le_self])
  with Receive show ?thesis using assms(1) by (auto simp: subs_inv_def receive_def)
next
  case (Write_in data)
  then show ?thesis using assms(1)
    by (simp add: subs_inv_def writeStdin_def Let_def on_child_frames split: pipe.split)
next
  case (Kill_with sig)
  then show ?thesis using assms(1)
    by (simp add: subs_inv_def signal_process_def send_signal_def on_child_frames split: option.split)
qed

lemma subs_inv_frames:
  "subs_inv (child_exit i p) = subs_inv p" "subs_inv (reap i p) = subs_inv p"
  "subs_inv (q\<lparr>ps_mu := m\<rparr>) = subs_inv q" "subs_inv (snd (send_signal sig i p)) = subs_inv p"
  "subs_inv (count_restart flags p) = subs_inv p" "subs_inv (snd (start err now p)) = subs_inv p"
  by (simp_all add: subs_inv_def child_exit_def reap_def send_signal_def count_restart_def start_def Let_def
      on_child_frames split: option.split)

lemma subs_inv_step: "proc_step s s' \<Longrightarrow> subs_inv (fst s) \<Longrightarrow> subs_inv (fst s')"
  by (induction rule: proc_step.induct) (auto simp: subs_inv_frames intro: subs_inv_io)

text \<open>
  Over every interleaving, overlapping restarts included, each subscriber is on one of the two
  lists once, no buffer holds more than 64 pieces, and the counter of connections is the number of
  subscribers, in 32 bits; output that a subscriber has no room for is dropped for that subscriber
  only.
\<close>

theorem subscribers_accounted:
  assumes "proc_step\<^sup>*\<^sup>* (p0, []) (p, ts)" and "newProcess None now flags workDir (newMetrics now) = Inr p0"
  shows "subs_inv p \<and>
    (data \<noteq> '''' \<and> ch < length (ps_buffers p) \<longrightarrow>
       ps_buffers (pump_read b data p) ! ch =
         (if ch \<in> set (proc_subs b p) \<and> length (ps_buffers p ! ch) < 64 then ps_buffers p ! ch @ [data]
          else ps_buffers p ! ch))"
proof
  have "subs_inv p0"
    using assms(2) by (auto simp: newProcess_def start_def no_process_def newMetrics_def subs_inv_def Let_def)
  with assms(1) have "subs_inv (fst (p, ts))"
  proof (induction rule: rtranclp_induct)
    case (step s s')
    then show ?case using subs_inv_step by blast
  qed simp
  then show inv: "subs_inv p" by simp
  have "distinct (proc_subs b p)" using inv by (simp add: subs_inv_def proc_subs_def)
  then show "data \<noteq> '''' \<and> ch < length (ps_buffers p) \<longrightarrow>
       ps_buffers (pump_read b data p) ! ch =
         (if ch \<in> set (proc_subs b p) \<and> length (ps_buffers p ! ch) < 64 then ps_buffers p ! ch @ [data]
          else ps_buffers p ! ch)"
    by (auto simp: pump_read_def fan_out_nth try_send_def)
qed

theorem subscribers_accounted_witness:
  "ps_buffers (pump_read True ''x'' (snd (subscribe_out True demo_process))) ! 0 = [''x'']"
proof -
  let ?p = "snd (subscribe_out True demo_process)"
  have p: "\<not> ps_panicked demo_process" "ps_buffers ?p = [[]]" "proc_subs True ?p = [0]"
    by (simp_all add: demo_process_def start_def no_process_def subscribe_out_def proc_subs_def set_subs_def
        connections_def Let_def)
  have "proc_step\<^sup>*\<^sup>* (demo_process, []) (?p, [])"
    using Io [of demo_process "Subscribe_out True" "[]"] p(1) by auto
  from subscribers_accounted [OF this demo_new, of "''x''" 0 True] show ?thesis by (simp add: p)
qed

end
