(* ===== verification/Agent_Server.thy ===== *)
theory Agent_Server
  imports Agent_Process Jwt Middleware Frames
begin

text \<open>
  The agent wrapper's HTTP side (\<^verbatim>\<open>agent/auth.go\<close>, \<^verbatim>\<open>agent/server.go\<close>, \<^verbatim>\<open>agent/main.go\<close>): who may call it,
  its handlers over the child process, and its configuration from the environment.

  Files, PEM and DER parsing, signature checking and the JSON coding of claims are parameters.
  \<open>http.Error(w, body, status)\<close> is a \<open>Failure\<close> with the code and message of the body.
\<close>

section \<open>Authentication\<close>

record agent_claims =
  gc_sub :: string
  gc_name :: string
  gc_roles :: "string list"
  gc_exp :: int
  gc_iat :: int

definition hasRole :: "agent_claims \<Rightarrow> string \<Rightarrow> bool" where
  "hasRole c role \<longleftrightarrow> list_ex (\<lambda>r. r = role \<or> r = ''admin'') (gc_roles c)"

definition sa_header :: string where
  "sa_header = ''X-K8s-SA-Token''"

type_synonym verifier = "string \<Rightarrow> nat \<Rightarrow> nat \<Rightarrow> bool"

record agent_auth =
  aa_publicKey :: "verifier option"
  aa_expectedSAToken :: string
  aa_saTokenPath :: string

record agent_files =
  af_read :: "string \<Rightarrow> string option"
  af_key :: "string \<Rightarrow> verifier option"     \<comment> \<open>an EC public key in PEM, or nothing\<close>
  af_stat :: "string \<Rightarrow> bool option"         \<comment> \<open>whether it is a directory, if it is there\<close>
  af_keyPair :: "string \<Rightarrow> string \<Rightarrow> string option"  \<comment> \<open>\<open>Some e\<close>: certificate and key do not load\<close>

definition reloadSAToken :: "agent_files \<Rightarrow> agent_auth \<Rightarrow> agent_auth" where
  "reloadSAToken fs a =
     (if aa_saTokenPath a = '''' then a
      else case af_read fs (aa_saTokenPath a) of
             None \<Rightarrow> a
           | Some data \<Rightarrow> a\<lparr>aa_expectedSAToken := trim_spaces data\<rparr>)"

definition newAuth :: "agent_files \<Rightarrow> string \<Rightarrow> string \<Rightarrow> agent_auth" where
  "newAuth fs keyPath saTokenPath =
     (let a = \<lparr>aa_publicKey = None, aa_expectedSAToken = '''', aa_saTokenPath = saTokenPath\<rparr>;
          a = (if keyPath \<noteq> ''''
               then (case af_read fs keyPath of None \<Rightarrow> a | Some data \<Rightarrow> a\<lparr>aa_publicKey := af_key fs data\<rparr>)
               else a)
      in reloadSAToken fs a)"

definition verifySAToken :: "agent_auth \<Rightarrow> 'b request \<Rightarrow> bool" where
  "verifySAToken a r =
     (if aa_expectedSAToken a = '''' then False
      else let token = rq_header r sa_header
           in if token = '''' then False else token = aa_expectedSAToken a)"

definition verifyToken :: "(string \<Rightarrow> agent_claims option) \<Rightarrow> int \<Rightarrow> agent_auth \<Rightarrow> string \<Rightarrow> string + agent_claims"
  where
  "verifyToken decode now a tokenStr =
     (case aa_publicKey a of
        None \<Rightarrow> Inl ''no public key configured''
      | Some verify \<Rightarrow>
         (case split_on CHR ''.'' tokenStr of
            [h, b, sg] \<Rightarrow>
              (case b64_decode sg of
                 None \<Rightarrow> Inl ''invalid signature encoding''
               | Some sigBytes \<Rightarrow>
                   if length sigBytes \<noteq> 64 then Inl ''invalid signature encoding''
                   else if \<not> verify (h @ ''.'' @ b) (set_bytes (map of_char (take 32 sigBytes)))
                              (set_bytes (map of_char (drop 32 sigBytes)))
                   then Inl ''invalid signature''
                   else (case b64_decode b of
                           None \<Rightarrow> Inl ''invalid token claims''
                         | Some json \<Rightarrow>
                            (case decode json of
                               None \<Rightarrow> Inl ''invalid token claims''
                             | Some claims \<Rightarrow>
                                 if gc_exp claims > 0 \<and> now > gc_exp claims then Inl ''token expired''
                                 else Inr claims)))
          | _ \<Rightarrow> Inl ''invalid token format''))"

definition extractBearerToken :: "'b request \<Rightarrow> string" where
  "extractBearerToken r =
     (let auth = rq_header r ''Authorization''
      in if prefix ''Bearer '' auth then drop 7 auth else rq_query r ''token'')"

record agent_gate =
  gt_auth :: agent_auth
  gt_decode :: "string \<Rightarrow> agent_claims option"
  gt_now :: int                \<comment> \<open>Unix time of the request\<close>

definition requireRole :: "agent_gate \<Rightarrow> string \<Rightarrow> ('b, 's, 'r) middleware" where
  "requireRole g role next r s =
     (if \<not> verifySAToken (gt_auth g) r
      then write_error 401 ''unauthorized'' ''invalid or missing K8s SA token'' s
      else let token = extractBearerToken r
           in if token = '''' then write_error 401 ''unauthorized'' ''missing bearer token'' s
              else case verifyToken (gt_decode g) (gt_now g) (gt_auth g) token of
                     Inl e \<Rightarrow> write_error 401 ''unauthorized'' e s
                   | Inr claims \<Rightarrow>
                       if \<not> hasRole claims role then write_error 403 ''forbidden'' ''insufficient role'' s
                       else next r s)"

section \<open>Handlers\<close>

record agent_server =
  as_wrapperVersion :: string
  as_claudeVersion :: string
  as_podName :: string
  as_nodeName :: string
  as_clock :: int                   \<comment> \<open>\<open>time.Now()\<close> in nanoseconds\<close>
  as_startError :: "string option"  \<comment> \<open>the error of the next \<open>cmd.Start()\<close>\<close>
  as_accept :: "string \<Rightarrow> string"    \<comment> \<open>Base64 of SHA-1\<close>
  as_hijack :: bool

record wrapper_body =
  wb_raw :: "string option"         \<comment> \<open>the bytes, or a failure while reading them\<close>
  wb_signal :: "string option"      \<comment> \<open>the field \<open>signal\<close>, or a failure of decoding\<close>

datatype wrapper_payload =
    WStatus string | WMetrics metrics_snapshot | WUpgraded string bool nat

type_synonym wrapper_handler = "(wrapper_body, process, wrapper_payload) handler"

definition http_error :: "nat \<Rightarrow> string \<Rightarrow> 's \<Rightarrow> 'r reply \<times> 's" where
  "http_error status msg s = write_error status ''error'' msg s"

definition handleHealthz :: wrapper_handler where
  "handleHealthz r p = write_json 200 (WStatus ''ok'') p"

definition handleReadyz :: wrapper_handler where
  "handleReadyz r p =
     (if isRunning p then write_json 200 (WStatus ''ready'') p else write_json 503 (WStatus ''not ready'') p)"

definition handleMetrics :: "agent_server \<Rightarrow> wrapper_handler" where
  "handleMetrics sv r p =
     (Reply 200 (WMetrics (snapshot (as_clock sv) (ps_metrics p) (as_wrapperVersion sv) (as_claudeVersion sv)
        (as_podName sv) (as_nodeName sv) (uptime (as_clock sv) p))), p)"

definition handleStdin :: wrapper_handler where
  "handleStdin r p =
     (case Option.bind (rq_body r) wb_raw of
        None \<Rightarrow> http_error 400 ''read body failed'' p
      | Some body \<Rightarrow>
         (case writeStdin body p of
            (Some e, p) \<Rightarrow> http_error 500 ''stdin write failed'' p
          | (None, p) \<Rightarrow> (Status 204, p)))"

definition wsGUID_agent :: string where
  "wsGUID_agent = ''258EAFA5-E914-47DA-95CA-5AB5DC085B11''"

definition upgradeWS :: "agent_server \<Rightarrow> 'b request \<Rightarrow> nat \<times> string + string" where
  "upgradeWS sv r =
     (if to_lower (rq_header r ''Upgrade'') \<noteq> ''websocket'' then Inl (426, ''websocket upgrade required'')
      else let key = rq_header r ''Sec-WebSocket-Key''
           in if key = '''' then Inl (400, ''missing Sec-WebSocket-Key'')
              else if \<not> as_hijack sv then Inl (500, ''hijack not supported'')
              else Inr (as_accept sv (key @ wsGUID_agent)))"

definition streamOutput :: "agent_server \<Rightarrow> bool \<Rightarrow> wrapper_handler" where
  "streamOutput sv isStdout r p =
     (case upgradeWS sv r of
        Inl (status, msg) \<Rightarrow> http_error status msg p
      | Inr accept \<Rightarrow>
          let (ch, p) = subscribe_out isStdout p in (Reply 101 (WUpgraded accept isStdout ch), p))"

definition handleStdout :: "agent_server \<Rightarrow> wrapper_handler" where
  "handleStdout sv = streamOutput sv True"

definition handleStderr :: "agent_server \<Rightarrow> wrapper_handler" where
  "handleStderr sv = streamOutput sv False"

definition handleRestart :: "agent_server \<Rightarrow> wrapper_handler" where
  "handleRestart sv r p =
     (case restart (as_startError sv) (as_clock sv) (ps_flags p) p of
        (Some e, p) \<Rightarrow> http_error 500 e p
      | (None, p) \<Rightarrow> (Status 204, p))"

definition upper_char :: "char \<Rightarrow> char" where
  "upper_char c = (let n = (of_char c :: nat) in if 97 \<le> n \<and> n \<le> 122 then char_of (n - 32) else c)"

definition parseSignal :: "string \<Rightarrow> string option" where
  "parseSignal name =
     (let n = map upper_char name
      in if n = ''SIGTERM'' \<or> n = ''TERM'' then Some ''SIGTERM''
         else if n = ''SIGINT'' \<or> n = ''INT'' then Some ''SIGINT''
         else if n = ''SIGKILL'' \<or> n = ''KILL'' then Some ''SIGKILL''
         else if n = ''SIGUSR1'' \<or> n = ''USR1'' then Some ''SIGUSR1''
         else if n = ''SIGUSR2'' \<or> n = ''USR2'' then Some ''SIGUSR2''
         else if n = ''SIGHUP'' \<or> n = ''HUP'' then Some ''SIGHUP''
         else None)"

definition handleSignal :: wrapper_handler where
  "handleSignal r p =
     (case Option.bind (rq_body r) wb_signal of
        None \<Rightarrow> http_error 400 ''invalid body'' p
      | Some name \<Rightarrow>
         (case parseSignal name of
            None \<Rightarrow> http_error 400 ''unknown signal'' p
          | Some sig \<Rightarrow>
             (case signal_process sig p of
                (Some e, p) \<Rightarrow> http_error 500 e p
              | (None, p) \<Rightarrow> (Status 204, p))))"

section \<open>Frames\<close>

definition wsWriteFrame :: "byte list \<Rightarrow> byte list" where
  "wsWriteFrame data =
     (let frame = [0x81];
          frame =
            (if length data < 126 then frame @ [byte_of (length data)]
             else if length data < 65536
             then (frame @ [126]) @ [byte_of (length data div 2 ^ 8), byte_of (length data)]
             else (frame @ [127]) @ put_uint64 (word_of_nat (length data)))
      in frame @ data)"

definition wsPing :: "byte list" where
  "wsPing = [0x89, 0x00]"

lemma wsWriteFrame_eq: "wsWriteFrame p = 0x81 # frame_length (length p) @ p"
  by (simp add: wsWriteFrame_def frame_length_def Let_def)

interpretation agf: framing wsWriteFrame "0x81"
  by unfold_locales (simp only: wsWriteFrame_eq append_Cons append_assoc read_frame_length)

text \<open>
  A round of the loop of \<open>streamOutput\<close>: the next piece of output as a frame, or a ping when none
  came; when the write fails, the subscription ends.
\<close>

definition stream_round :: "bool \<Rightarrow> nat \<Rightarrow> (byte list \<Rightarrow> bool) \<Rightarrow> process \<Rightarrow> byte list \<times> bool \<times> process" where
  "stream_round isStdout ch writes p =
     (let (frame, p) =
        (case ps_buffers p ! ch of
           [] \<Rightarrow> (wsPing, p)
         | data # _ \<Rightarrow> (wsWriteFrame (map of_char data), receive ch p))
      in if writes frame then (frame, True, p) else (frame, False, unsubscribe_out isStdout ch p))"

section \<open>Routes\<close>

datatype wrapper_route =
    WrHealthz | WrReadyz | WrMetrics | WrStdin | WrStdout | WrStderr | WrRestart | WrSignal

fun wr_role :: "wrapper_route \<Rightarrow> string option" where
  "wr_role WrHealthz = None"
| "wr_role WrReadyz = None"
| "wr_role WrMetrics = Some ''agent-view''"
| "wr_role WrStdin = Some ''agent-update''"
| "wr_role WrStdout = Some ''agent-view''"
| "wr_role WrStderr = Some ''agent-view''"
| "wr_role WrRestart = Some ''agent-update''"
| "wr_role WrSignal = Some ''agent-update''"

fun wr_handle :: "agent_server \<Rightarrow> wrapper_route \<Rightarrow> wrapper_handler" where
  "wr_handle sv WrHealthz = handleHealthz"
| "wr_handle sv WrReadyz = handleReadyz"
| "wr_handle sv WrMetrics = handleMetrics sv"
| "wr_handle sv WrStdin = handleStdin"
| "wr_handle sv WrStdout = handleStdout sv"
| "wr_handle sv WrStderr = handleStderr sv"
| "wr_handle sv WrRestart = handleRestart sv"
| "wr_handle sv WrSignal = handleSignal"

definition wr_serve :: "agent_gate \<Rightarrow> agent_server \<Rightarrow> wrapper_route \<Rightarrow> wrapper_handler" where
  "wr_serve g sv rt =
     (case wr_role rt of None \<Rightarrow> wr_handle sv rt | Some role \<Rightarrow> requireRole g role (wr_handle sv rt))"

section \<open>Configuration\<close>

record agent_config =
  gf_certPath :: string
  gf_keyPath :: string
  gf_jwtKeyPath :: string
  gf_claudeFlags :: "string list"
  gf_claudeMdPath :: string
  gf_workDir :: string
  gf_podName :: string
  gf_nodeName :: string
  gf_listenAddr :: string
  gf_saTokenPath :: string

definition envOr :: "(string \<Rightarrow> string) \<Rightarrow> string \<Rightarrow> string \<Rightarrow> string" where
  "envOr getenv key fallback = (if getenv key \<noteq> '''' then getenv key else fallback)"

definition parseAgentConfig :: "(string \<Rightarrow> string) \<Rightarrow> agent_config" where
  "parseAgentConfig getenv =
     \<lparr>gf_certPath = envOr getenv ''TLS_CERT_PATH'' ''/etc/tls/tls.crt'',
      gf_keyPath = envOr getenv ''TLS_KEY_PATH'' ''/etc/tls/tls.key'',
      gf_jwtKeyPath = envOr getenv ''JWT_PUBLIC_KEY_PATH'' '''',
      gf_claudeFlags = string_fields (envOr getenv ''CLAUDE_FLAGS'' ''''),
      gf_claudeMdPath = envOr getenv ''CLAUDE_MD_PATH'' ''/home/claude/CLAUDE.md'',
      gf_workDir = envOr getenv ''WORK_DIR'' ''/home/claude/workspace'',
      gf_podName = envOr getenv ''POD_NAME'' ''unknown'',
      gf_nodeName = envOr getenv ''NODE_NAME'' ''unknown'',
      gf_listenAddr = envOr getenv ''LISTEN_ADDR'' '':8443'',
      gf_saTokenPath = envOr getenv ''SA_TOKEN_PATH'' ''/var/run/secrets/kubernetes.io/serviceaccount/token''\<rparr>"

datatype listener = PlainHttp string | Https string

definition fileExists :: "agent_files \<Rightarrow> string \<Rightarrow> bool" where
  "fileExists fs path = (case af_stat fs path of None \<Rightarrow> False | Some isDir \<Rightarrow> \<not> isDir)"

definition configureHTTPServer :: "agent_files \<Rightarrow> agent_config \<Rightarrow> string + listener" where
  "configureHTTPServer fs cfg =
     (if fileExists fs (gf_certPath cfg) \<and> fileExists fs (gf_keyPath cfg)
      then (case af_keyPair fs (gf_certPath cfg) (gf_keyPath cfg) of
              Some e \<Rightarrow> Inl e
            | None \<Rightarrow> Inr (Https (gf_listenAddr cfg)))
      else Inr (PlainHttp (gf_listenAddr cfg)))"

text \<open>\<open>buildServer\<close>: the gate and the server of a configuration.\<close>

definition build_gate :: "agent_files \<Rightarrow> agent_config \<Rightarrow> (string \<Rightarrow> agent_claims option) \<Rightarrow> int \<Rightarrow> agent_gate" where
  "build_gate fs cfg decode now =
     \<lparr>gt_auth = newAuth fs (gf_jwtKeyPath cfg) (gf_saTokenPath cfg), gt_decode = decode, gt_now = now\<rparr>"

text \<open>\<open>shutdown\<close>, as far as the child is concerned, and the start of \<open>run\<close>.\<close>

definition shutdown_agent :: "process \<Rightarrow> process" where
  "shutdown_agent p = stop_process p"

definition run_agent :: "string option \<Rightarrow> int \<Rightarrow> agent_config \<Rightarrow> string + process" where
  "run_agent err now cfg = newProcess err now (gf_claudeFlags cfg) (gf_workDir cfg) (newMetrics now)"

section \<open>Properties\<close>

lemma verified_token:
  assumes "verifyToken decode now a token = Inr claims"
  shows "\<exists>verify h b sg sb. aa_publicKey a = Some verify \<and> split_on CHR ''.'' token = [h, b, sg] \<and>
    b64_decode sg = Some sb \<and> length sb = 64 \<and>
    verify (h @ ''.'' @ b) (set_bytes (map of_char (take 32 sb))) (set_bytes (map of_char (drop 32 sb))) \<and>
    \<not> (0 < gc_exp claims \<and> gc_exp claims < now)"
  using assms unfolding verifyToken_def by (auto split: option.splits list.splits if_splits)

lemma requireRole_cases:
  "(\<exists>claims. verifySAToken (gt_auth g) r \<and>
      verifyToken (gt_decode g) (gt_now g) (gt_auth g) (extractBearerToken r) = Inr claims \<and>
      hasRole claims role \<and> requireRole g role next r s = next r s) \<or>
   (\<exists>status code msg. requireRole g role next r s = (Failure status code msg, s) \<and> status \<in> {401, 403})"
  by (auto simp: requireRole_def write_error_def Let_def split: sum.split)

text \<open>Without a public key nothing gets past the gate.\<close>

lemma closed_without_key:
  "aa_publicKey (gt_auth g) = None \<Longrightarrow>
     \<exists>msg. requireRole g role next r s = (Failure 401 ''unauthorized'' msg, s)"
  by (auto simp: requireRole_def verifyToken_def write_error_def Let_def)

text \<open>
  C16: the two probes are open; every other route of the wrapper is behind two locks: the handler
  runs only for a request that carries the wrapper's own service account token, which must not be
  empty, and a token signed for the wrapper's public key, not expired, whose roles include the
  role of the route or \<open>admin\<close>; any other request is answered 401 or 403 and leaves the child,
  its input and its subscribers as they are.
\<close>

theorem wrapper_gate:
  "case wr_role rt of
     None \<Rightarrow> (rt = WrHealthz \<or> rt = WrReadyz) \<and> wr_serve g sv rt r p = wr_handle sv rt r p
   | Some role \<Rightarrow>
      (\<exists>verify h b sg sb claims. aa_publicKey (gt_auth g) = Some verify \<and>
         rq_header r sa_header = aa_expectedSAToken (gt_auth g) \<and> rq_header r sa_header \<noteq> '''' \<and>
         split_on CHR ''.'' (extractBearerToken r) = [h, b, sg] \<and> b64_decode sg = Some sb \<and>
         verify (h @ ''.'' @ b) (set_bytes (map of_char (take 32 sb))) (set_bytes (map of_char (drop 32 sb))) \<and>
         verifyToken (gt_decode g) (gt_now g) (gt_auth g) (extractBearerToken r) = Inr claims \<and>
         (gc_exp claims \<le> 0 \<or> gt_now g \<le> gc_exp claims) \<and>
         (role \<in> set (gc_roles claims) \<or> ''admin'' \<in> set (gc_roles claims)) \<and>
         wr_serve g sv rt r p = wr_handle sv rt r p) \<or>
      (\<exists>status code msg. wr_serve g sv rt r p = (Failure status code msg, p) \<and> status \<in> {401, 403})"
proof (cases "wr_role rt")
  case None
  then have "rt = WrHealthz \<or> rt = WrReadyz" by (cases rt) auto
  with None show ?thesis by (simp add: wr_serve_def)
next
  case (Some role)
  show ?thesis
  proof (cases "\<exists>status code msg. wr_serve g sv rt r p = (Failure status code msg, p) \<and> status \<in> {401, 403}")
    case False
    then obtain claims where run: "verifySAToken (gt_auth g) r"
      "verifyToken (gt_decode g) (gt_now g) (gt_auth g) (extractBearerToken r) = Inr claims" "hasRole claims role"
      using requireRole_cases [of g r role "wr_handle sv rt" p] Some by (auto simp: wr_serve_def)
    have "wr_serve g sv rt r p = wr_handle sv rt r p"
      using requireRole_cases [of g r role "wr_handle sv rt" p] False Some by (auto simp: wr_serve_def)
    moreover have "rq_header r sa_header = aa_expectedSAToken (gt_auth g)" "rq_header r sa_header \<noteq> ''''"
      using run(1) by (auto simp: verifySAToken_def Let_def split: if_splits)
    moreover have "role \<in> set (gc_roles claims) \<or> ''admin'' \<in> set (gc_roles claims)"
      using run(3) by (auto simp: hasRole_def list_ex_iff)
    moreover obtain verify h b sg sb where "aa_publicKey (gt_auth g) = Some verify"
      "split_on CHR ''.'' (extractBearerToken r) = [h, b, sg]" "b64_decode sg = Some sb"
      "verify (h @ ''.'' @ b) (set_bytes (map of_char (take 32 sb))) (set_bytes (map of_char (drop 32 sb)))"
      "gc_exp claims \<le> 0 \<or> gt_now g \<le> gc_exp claims"
      using verified_token [OF run(2)] by (auto simp: not_less)
    ultimately show ?thesis using run(2) unfolding Some option.case by blast
  next
    case True
    then show ?thesis unfolding Some option.case by blast
  qed
qed

end
