(* ===== verification/Agent_Reach.thy ===== *)
theory Agent_Reach
  imports Agent_Server Agents
begin

text \<open>
  The API server and the agent wrapper together: the pod that \<^verbatim>\<open>k8s/agents.go\<close> makes for an agent, the
  configuration the wrapper reads from its environment, and the calls that \<^verbatim>\<open>amgr/handler.go\<close>
  forwards to it.
\<close>

section \<open>The environment of the wrapper in its pod\<close>

text \<open>
  A variable the pod does not set comes from the image; \<open>other\<close> supplies the values taken from fields
  of the pod and from secrets.
\<close>

definition pod_getenv :: "(string \<Rightarrow> string) \<Rightarrow> (string \<Rightarrow> string) \<Rightarrow> env_var list \<Rightarrow> string \<Rightarrow> string" where
  "pod_getenv img other env k =
     (case map_of env k of
        None \<Rightarrow> img k
      | Some (EnvValue v) \<Rightarrow> v
      | Some _ \<Rightarrow> other k)"

definition pod_config :: "(string \<Rightarrow> string) \<Rightarrow> (string \<Rightarrow> string) \<Rightarrow> pod \<Rightarrow> agent_config" where
  "pod_config img other pd = parseAgentConfig (pod_getenv img other (pod_env pd))"

section \<open>Forwarding\<close>

definition wrapper_rq :: "proxy_request \<Rightarrow> wrapper_body request" where
  "wrapper_rq px =
     \<lparr>rq_method = px_method px,
      rq_header = (\<lambda>h. if h = ''Authorization'' then px_authorization px
                        else if h = sa_header then (case px_saToken px of None \<Rightarrow> '''' | Some t \<Rightarrow> t) else ''''),
      rq_query = (\<lambda>_. ''''), rq_path = (\<lambda>_. ''''),
      rq_body = Some \<lparr>wb_raw = Some (px_body px), wb_signal = None\<rparr>,
      rq_principal = None, rq_now = ''''\<rparr>"

definition url_route :: "string \<Rightarrow> wrapper_route option" where
  "url_route url =
     (let p = last (split_on CHR ''/'' url)
      in map_of [(''stdin'', WrStdin), (''stdout'', WrStdout), (''stderr'', WrStderr), (''metrics'', WrMetrics)] p)"

text \<open>What the wrapper does with a request whose scheme is, or is not, that of its listener: a server with TLS answers plain HTTP with 400.\<close>

fun speaks :: "listener \<Rightarrow> string \<Rightarrow> bool" where
  "speaks (PlainHttp addr) scheme = (scheme = ''HTTP'')"
| "speaks (Https addr) scheme = (scheme = ''HTTPS'')"

definition wrong_scheme :: proxy_response where
  "wrong_scheme =
     \<lparr>pr_status = 400, pr_contentType = '''', pr_body = ''Client sent an HTTP request to an HTTPS server.'' @ [CHR 0x0A]\<rparr>"

definition url_scheme :: "string \<Rightarrow> string" where
  "url_scheme url = (if prefix ''https://'' url then ''HTTPS'' else ''HTTP'')"

definition wrapper_answer :: "listener \<Rightarrow> agent_gate \<Rightarrow> agent_server \<Rightarrow> process \<Rightarrow> (wrapper_payload \<Rightarrow> string) \<Rightarrow>
    proxy_request \<Rightarrow> string + proxy_response" where
  "wrapper_answer lst g sv p show_it px =
     (if \<not> speaks lst (url_scheme (px_url px)) then Inr wrong_scheme
      else case url_route (px_url px) of
        None \<Rightarrow> Inr \<lparr>pr_status = 404, pr_contentType = ''text/plain'', pr_body = ''404 page not found''\<rparr>
      | Some rt \<Rightarrow>
         (case fst (wr_serve g sv rt (wrapper_rq px) p) of
            Reply status d \<Rightarrow> Inr \<lparr>pr_status = status, pr_contentType = ''application/json'', pr_body = show_it d\<rparr>
          | Failure status code msg \<Rightarrow> Inr \<lparr>pr_status = status, pr_contentType = ''text/plain'', pr_body = msg\<rparr>
          | Status status \<Rightarrow> Inr \<lparr>pr_status = status, pr_contentType = '''', pr_body = ''''\<rparr>
          | Panic \<Rightarrow> Inl ''EOF''))"

section \<open>Properties\<close>

lemma agent_pod_env: "agent_pod kb req owner = Some pd \<Longrightarrow> pod_env pd = agent_env req (agent_podName req)"
  by (auto simp: agent_pod_def Let_def split: prod.splits if_splits)

lemma env_flags: "map_of (agent_env req n) ''CLAUDE_FLAGS'' = Some (EnvValue (join_space (car_claudeFlags req)))"
  by (simp add: agent_env_def Let_def)

lemma env_addr: "map_of (agent_env req n) ''LISTEN_ADDR'' = Some (EnvValue '':8443'')"
  by (simp add: agent_env_def Let_def)

lemma env_no_key: "map_of (agent_env req n) ''JWT_PUBLIC_KEY_PATH'' = None"
  by (simp add: agent_env_def Let_def)

lemma pod_config_key:
  assumes "agent_pod kb req owner = Some pd" and "img ''JWT_PUBLIC_KEY_PATH'' = ''''"
  shows "gf_jwtKeyPath (pod_config img other pd) = ''''"
  using assms(2)
  by (simp add: pod_config_def parseAgentConfig_def envOr_def pod_getenv_def agent_pod_env [OF assms(1)] env_no_key)

lemma newAuth_no_key: "aa_publicKey (newAuth fs '''' path) = None"
  by (simp add: newAuth_def reloadSAToken_def Let_def split: option.split)

lemma answer_without_key:
  assumes "aa_publicKey (gt_auth g) = None" and "url_route (px_url px) = Some rt" and "wr_role rt \<noteq> None"
    and "url_scheme (px_url px) = ''HTTP''"
  shows "\<exists>msg ct. wrapper_answer lst g sv p show_it px =
    Inr \<lparr>pr_status = (case lst of PlainHttp _ \<Rightarrow> 401 | Https _ \<Rightarrow> 400), pr_contentType = ct, pr_body = msg\<rparr>"
proof -
  obtain role where "wr_role rt = Some role" using assms(3) by auto
  then obtain msg where "wr_serve g sv rt (wrapper_rq px) p = (Failure 401 ''unauthorized'' msg, p)"
    using closed_without_key [OF assms(1), of role "wr_handle sv rt" "wrapper_rq px" p]
    by (auto simp: wr_serve_def)
  then show ?thesis by (cases lst) (simp_all add: wrapper_answer_def assms(2,4) wrong_scheme_def)
qed

lemma split_last: "CHR ''/'' \<notin> set q \<Longrightarrow> last (split_on CHR ''/'' (xs @ CHR ''/'' # q)) = q"
proof -
  assume q: "CHR ''/'' \<notin> set q"
  have ne: "split_on c s \<noteq> []" for c s by (induction s) (auto split: list.split)
  have one: "split_on CHR ''/'' q = [q]" using q by (induction q) auto
  show ?thesis
  proof (induction xs)
    case Nil
    then show ?case by (simp add: one)
  next
    case (Cons x xs)
    have "split_on CHR ''/'' (xs @ CHR ''/'' # q) \<noteq> []" by (rule ne)
    moreover have "length (split_on CHR ''/'' (xs @ CHR ''/'' # q)) > 1"
    proof (induction xs)
      case Nil
      then show ?case by (simp add: one)
    next
      case (Cons y ys)
      then show ?case by (auto split: list.split)
    qed
    ultimately show ?case using Cons by (cases "split_on CHR ''/'' (xs @ CHR ''/'' # q)") auto
  qed
qed

lemma url_of_proxy:
  assumes "CHR ''/'' \<notin> set q"
  shows "last (split_on CHR ''/'' (px_url (proxy_req c r m ip q body))) = q"
proof -
  have "px_url (proxy_req c r m ip q body) = (''http://'' @ ip @ '':8443'') @ CHR ''/'' # q"
    by (simp add: proxy_req_def)
  then show ?thesis by (simp only: split_last [OF assms])
qed

lemma scheme_of_proxy: "url_scheme (px_url (proxy_req c r m ip q body)) = ''HTTP''"
  by (simp add: proxy_req_def url_scheme_def)

text \<open>
  C35: no one can use an agent through the API server. The server speaks plain HTTP to the wrapper, and
  the pod made for an agent never names a public key, so a wrapper with a certificate answers every call with 400
  and one without refuses every token: whoever asks, whatever the service account tokens are, writing to the agent,
  reading its output and reading its metrics is answered 400 or 401 as soon as the pod has an address.
\<close>

theorem agents_out_of_reach:
  assumes "agent_pod kb req owner = Some pd" and "img ''JWT_PUBLIC_KEY_PATH'' = ''''"
    and "g = build_gate fs (pod_config img other pd) decode now"
    and "configureHTTPServer fs (pod_config img other pd) = Inr lst" and "ac_forward c = wrapper_answer lst g sv p show_it"
    and "getAgentPodIP c (rq_path r ''agentId'') (ag_world s) = Inr ip"
  shows "let code = (case lst of PlainHttp _ \<Rightarrow> 401 | Https _ \<Rightarrow> 400)
    in (\<exists>b. ag_proxyStdin c r s = (Reply code b, s)) \<and> (\<exists>b. ag_proxyMetrics c r s = (Reply code b, s)) \<and>
       (\<exists>b. ag_proxyStream c ''stdout'' r s = (Reply code b, s)) \<and>
       (\<exists>b. ag_proxyStream c ''stderr'' r s = (Reply code b, s))"
proof -
  define code :: nat where "code = (case lst of PlainHttp _ \<Rightarrow> 401 | Https _ \<Rightarrow> 400)"
  have key: "aa_publicKey (gt_auth g) = None"
    using pod_config_key [where other = other and img = img, OF assms(1,2)] newAuth_no_key by (simp add: assms(3) build_gate_def)
  have call: "\<exists>out'. proxy_call c r m q body ct s = (Reply code out', s)"
    if "CHR ''/'' \<notin> set q" "map_of [(''stdin'', WrStdin), (''stdout'', WrStdout), (''stderr'', WrStderr), (''metrics'', WrMetrics)] q = Some rt"
      "wr_role rt \<noteq> None" for m q body ct rt
  proof -
    have "url_route (px_url (proxy_req c r m ip q body)) = Some rt"
      using that(2) by (simp only: url_route_def Let_def url_of_proxy [OF that(1)])
    from answer_without_key [OF key this that(3) scheme_of_proxy] obtain msg ty where
      "ac_forward c (proxy_req c r m ip q body) = Inr \<lparr>pr_status = code, pr_contentType = ty, pr_body = msg\<rparr>"
      unfolding assms(5) code_def by blast
    then show ?thesis by (simp add: proxy_call_def assms(6))
  qed
  show ?thesis
    unfolding Let_def code_def [symmetric] ag_proxyStdin_def ag_proxyMetrics_def ag_proxyStream_def
    by (intro conjI call [of _ WrStdin] call [of _ WrMetrics] call [of _ WrStdout] call [of _ WrStderr]; simp)
qed

definition demo_files :: agent_files where
  "demo_files = \<lparr>af_read = (\<lambda>f. Some ''sa''), af_key = (\<lambda>d. Some (\<lambda>m r s. True)), af_stat = (\<lambda>f. Some False),
     af_keyPair = (\<lambda>c k. None)\<rparr>"

definition demo_wrapper :: agent_server where
  "demo_wrapper = \<lparr>as_wrapperVersion = ''1'', as_claudeVersion = ''2'', as_podName = ''agent-demo'',
     as_nodeName = ''n1'', as_clock = 0, as_startError = None, as_accept = id, as_hijack = True\<rparr>"

definition demo_pod :: pod where
  "demo_pod = the (agent_pod demo_kube (default_request ''demo'') ''u:u'')"

definition demo_gate :: agent_gate where
  "demo_gate = build_gate demo_files (pod_config (\<lambda>k. '''') (\<lambda>k. ''x'') demo_pod)
     (\<lambda>j. Some \<lparr>gc_sub = '''', gc_name = '''', gc_roles = [''admin''], gc_exp = 0, gc_iat = 0\<rparr>) 0"

definition demo_proxying :: "process \<Rightarrow> (kind \<times> string) list amgr_config" where
  "demo_proxying p = demo_amgr\<lparr>ac_forward := wrapper_answer (Https '':8443'') demo_gate demo_wrapper p (\<lambda>d. '''')\<rparr>"

lemma demo_pod_eq: "agent_pod demo_kube (default_request ''demo'') ''u:u'' = Some demo_pod"
proof -
  have "agent_pod demo_kube (default_request ''demo'') ''u:u'' \<noteq> None"
    by (simp add: agent_pod_def default_request_def demo_kube_def Let_def valueOr_def split: prod.split)
  then show ?thesis by (auto simp: demo_pod_def)
qed

lemma pod_config_addr:
  "agent_pod kb req owner = Some pd \<Longrightarrow> gf_listenAddr (pod_config img other pd) = '':8443''"
  by (simp add: pod_config_def parseAgentConfig_def envOr_def pod_getenv_def agent_pod_env env_addr)

lemma demo_listener: "configureHTTPServer demo_files (pod_config (\<lambda>k. '''') (\<lambda>k. ''x'') demo_pod) = Inr (Https '':8443'')"
  by (simp add: configureHTTPServer_def fileExists_def demo_files_def pod_config_addr [OF demo_pod_eq])

theorem agents_out_of_reach_witness:
  "\<exists>b. ag_proxyStdin (demo_proxying (no_process [] '''' (newMetrics 0))) (demo_req (\<lambda>k. ''agent-demo'') None)
     \<lparr>ag_store = amgr_newStore, ag_world = []\<rparr> = (Reply 400 b, \<lparr>ag_store = amgr_newStore, ag_world = []\<rparr>)"
proof -
  have ip: "getAgentPodIP (demo_proxying (no_process [] '''' (newMetrics 0))) (rq_path (demo_req (\<lambda>k. ''agent-demo'') None) ''agentId'')
      (ag_world \<lparr>ag_store = amgr_newStore, ag_world = []\<rparr>) = Inr ''10.0.0.1''"
    by (simp add: getAgentPodIP_def demo_proxying_def demo_amgr_def k8s_agent_mgr_def getAgentPodIP_k8s_def)
  have fwd: "ac_forward (demo_proxying (no_process [] '''' (newMetrics 0))) = wrapper_answer (Https '':8443'') demo_gate demo_wrapper (no_process [] '''' (newMetrics 0)) (\<lambda>d. '''')"
    by (simp add: demo_proxying_def)
  note all = agents_out_of_reach [OF demo_pod_eq refl demo_gate_def demo_listener fwd ip]
  show ?thesis using conjunct1 [OF all [unfolded Let_def]] unfolding listener.case .
qed

section \<open>Probes\<close>

text \<open>
  The probe of a container as the kubelet sends it: it succeeds when a status from 200 to 399 comes back.
\<close>

definition probe_status :: "listener \<Rightarrow> agent_gate \<Rightarrow> agent_server \<Rightarrow> process \<Rightarrow> probe \<Rightarrow> nat" where
  "probe_status lst g sv p prb =
     (if \<not> speaks lst (prb_scheme prb) then 400
      else let rt = (if prb_path prb = ''/healthz'' then WrHealthz else WrReadyz)
           in case reply_code (fst (wr_serve g sv rt
                  \<lparr>rq_method = ''GET'', rq_header = (\<lambda>_. ''''), rq_query = (\<lambda>_. ''''), rq_path = (\<lambda>_. ''''),
                   rq_body = None, rq_principal = None, rq_now = ''''\<rparr> p)) of
                None \<Rightarrow> 0 | Some c \<Rightarrow> c)"

definition probe_succeeds :: "nat \<Rightarrow> bool" where
  "probe_succeeds status \<longleftrightarrow> 200 \<le> status \<and> status < 400"

text \<open>
  C38: an agent that gets its certificate does not live: both probes of its pod ask in plain HTTP. When certificate and key are
  in the pod and load, the wrapper serves TLS, answers both probes with 400, and the kubelet ends the container, which
  is not restarted; without them the liveness probe succeeds, and the readiness probe when the child runs.
\<close>

theorem certified_agent_fails_its_probes:
  assumes "agent_pod kb req owner = Some pd"
    and "configureHTTPServer fs (pod_config img other pd) = Inr lst"
  shows "pod_restart pd = ''Never'' \<and>
    (case lst of
       Https _ \<Rightarrow> fileExists fs (gf_certPath (pod_config img other pd)) \<and>
         \<not> probe_succeeds (probe_status lst g sv p (pod_liveness pd)) \<and>
         \<not> probe_succeeds (probe_status lst g sv p (pod_readiness pd))
     | PlainHttp _ \<Rightarrow> probe_succeeds (probe_status lst g sv p (pod_liveness pd)) \<and>
         (probe_succeeds (probe_status lst g sv p (pod_readiness pd)) \<longleftrightarrow> isRunning p))"
proof -
  have pd: "pod_restart pd = ''Never''" "prb_scheme (pod_liveness pd) = ''HTTP''" "prb_path (pod_liveness pd) = ''/healthz''"
    "prb_scheme (pod_readiness pd) = ''HTTP''" "prb_path (pod_readiness pd) = ''/readyz''"
    using assms(1) by (auto simp: agent_pod_def Let_def split: prod.splits if_splits)
  show ?thesis
  proof (cases lst)
    case (Https addr)
    then have "fileExists fs (gf_certPath (pod_config img other pd))"
      using assms(2) by (auto simp: configureHTTPServer_def split: if_splits)
    with Https pd show ?thesis by (simp add: probe_status_def probe_succeeds_def)
  next
    case (PlainHttp addr)
    with pd show ?thesis
      by (simp add: probe_status_def probe_succeeds_def wr_serve_def handleHealthz_def handleReadyz_def write_json_def Let_def)
  qed
qed

theorem certified_agent_fails_its_probes_witness:
  "\<not> probe_succeeds (probe_status (Https '':8443'') demo_gate demo_wrapper (no_process [] '''' (newMetrics 0)) (pod_liveness demo_pod))"
  using certified_agent_fails_its_probes [OF demo_pod_eq demo_listener, of demo_gate demo_wrapper "no_process [] '''' (newMetrics 0)"]
  unfolding listener.case by blast

text \<open>
  The flags of a creation request reach the command line of the child: joined into a
  variable of the pod, split by the wrapper and joined into a shell command, they come out as
  they were, provided that none is empty and none has white space in it.
\<close>

theorem flags_reach_the_child:
  assumes "agent_pod kb req owner = Some pd"
    and "\<forall>f \<in> set (car_claudeFlags req). f \<noteq> '''' \<and> (\<forall>c \<in> set f. \<not> white c)"
    and "run_agent None now (pod_config img other pd) = Inr p"
  shows "ps_flags p = car_claudeFlags req \<and>
    map cd_command (ps_children p) = [''claude '' @ join_space (car_claudeFlags req)]"
proof -
  have "envOr (pod_getenv img other (pod_env pd)) ''CLAUDE_FLAGS'' '''' = join_space (car_claudeFlags req)"
    by (simp add: envOr_def pod_getenv_def agent_pod_env [OF assms(1)] env_flags)
  then have "gf_claudeFlags (pod_config img other pd) = car_claudeFlags req"
    using fields_join [OF assms(2)] by (simp add: pod_config_def parseAgentConfig_def)
  then show ?thesis
    using assms(3) by (auto simp: run_agent_def newProcess_def start_def no_process_def Let_def)
qed

definition demo_flagged :: create_agent_request where
  "demo_flagged = (default_request ''demo'')\<lparr>car_claudeFlags := [''--verbose'', ''-p'']\<rparr>"

theorem flags_reach_the_child_witness:
  "\<exists>p :: process. ps_flags p = [''--verbose'', ''-p''] \<and> map cd_command (ps_children p) = [''claude --verbose -p'']"
proof -
  have "agent_pod demo_kube demo_flagged ''u:u'' \<noteq> None"
    by (simp add: agent_pod_def demo_flagged_def default_request_def demo_kube_def Let_def valueOr_def split: prod.split)
  then obtain pd where pd: "agent_pod demo_kube demo_flagged ''u:u'' = Some pd" by blast
  have flags: "car_claudeFlags demo_flagged = [''--verbose'', ''-p'']" by (simp add: demo_flagged_def)
  have "\<forall>f \<in> set (car_claudeFlags demo_flagged). f \<noteq> '''' \<and> (\<forall>c \<in> set f. \<not> white c)"
    by (simp add: flags white_def)
  moreover obtain p where "run_agent None 0 (pod_config (\<lambda>k. '''') (\<lambda>k. '''') pd) = Inr p"
    by (simp add: run_agent_def newProcess_def start_def Let_def)
  ultimately have "ps_flags p = [''--verbose'', ''-p''] \<and>
      map cd_command (ps_children p) = [''claude '' @ join_space [''--verbose'', ''-p'']]"
    using flags_reach_the_child [OF pd] by (simp only: flags)
  then show ?thesis by (intro exI [of _ p]) (simp add: join_space_def)
qed

end
