(* ===== verification/Agent_Watcher.thy ===== *)
theory Agent_Watcher
  imports Main
begin

text \<open>
  The agent wrapper's file watcher (\<^verbatim>\<open>agent/watcher.go\<close>): file events on the directory of the watched
  file, filtered by name and kind, and a timer that every accepted event sets anew; when the timer
  runs out, \<open>onChange\<close> is called. The watcher is run on a list of inputs with their times; its value
  is the list of times at which \<open>onChange\<close> is called.
\<close>

section \<open>The watcher\<close>

datatype fs_op = OpCreate | OpWrite | OpRemove | OpRename | OpChmod

datatype watch_input =
    FsEvent nat string "fs_op list"     \<comment> \<open>time, path, kinds\<close>
  | FsError nat string
  | StopWatch nat

fun input_time :: "watch_input \<Rightarrow> nat" where
  "input_time (FsEvent t n ops) = t"
| "input_time (FsError t e) = t"
| "input_time (StopWatch t) = t"

text \<open>\<open>filepath.Base\<close>.\<close>

definition path_base :: "string \<Rightarrow> string" where
  "path_base p =
     (if p = '''' then ''.''
      else let q = rev (dropWhile (\<lambda>c. c = CHR ''/'') (rev p));
               b = rev (takeWhile (\<lambda>c. c \<noteq> CHR ''/'') (rev q))
           in if b = '''' then ''/'' else b)"

record watcher =
  wt_filePath :: string
  wt_debounce :: nat

definition newWatcher :: "string \<Rightarrow> nat \<Rightarrow> watcher" where
  "newWatcher filePath debounce = \<lparr>wt_filePath = filePath, wt_debounce = debounce\<rparr>"

definition accepted_event :: "watcher \<Rightarrow> string \<Rightarrow> fs_op list \<Rightarrow> bool" where
  "accepted_event w name ops \<longleftrightarrow>
     path_base name = path_base (wt_filePath w) \<and> list_ex (\<lambda>x. x = OpWrite \<or> x = OpCreate) ops"

text \<open>The calls a running timer makes up to a time, and what is left of it then.\<close>

fun fired :: "nat option \<Rightarrow> nat \<Rightarrow> nat list" where
  "fired None now = []"
| "fired (Some due) now = (if due \<le> now then [due] else [])"

fun pending :: "nat option \<Rightarrow> nat \<Rightarrow> nat option" where
  "pending None now = None"
| "pending (Some due) now = (if due \<le> now then None else Some due)"

fun watch :: "watcher \<Rightarrow> nat option \<Rightarrow> watch_input list \<Rightarrow> nat list" where
  "watch w timer [] = (case timer of None \<Rightarrow> [] | Some due \<Rightarrow> [due])"
| "watch w timer (FsEvent t name ops # xs) =
     fired timer t @
       watch w (if accepted_event w name ops then Some (t + wt_debounce w) else pending timer t) xs"
| "watch w timer (FsError t e # xs) = fired timer t @ watch w (pending timer t) xs"
| "watch w timer (StopWatch t # xs) = fired timer t"

definition startWatcher :: "watcher \<Rightarrow> string option \<Rightarrow> string option \<Rightarrow> watch_input list \<Rightarrow> string + nat list" where
  "startWatcher w newError addError xs =
     (case newError of
        Some e \<Rightarrow> Inl e
      | None \<Rightarrow> (case addError of Some e \<Rightarrow> Inl e | None \<Rightarrow> Inr (watch w None xs)))"

section \<open>What debouncing comes to\<close>

text \<open>The times of the accepted events before the watcher is stopped.\<close>

fun changes :: "watcher \<Rightarrow> watch_input list \<Rightarrow> nat list" where
  "changes w [] = []"
| "changes w (FsEvent t name ops # xs) =
     (if accepted_event w name ops then t # changes w xs else changes w xs)"
| "changes w (FsError t e # xs) = changes w xs"
| "changes w (StopWatch t # xs) = []"

fun never_stopped :: "watch_input list \<Rightarrow> bool" where
  "never_stopped [] = True"
| "never_stopped (StopWatch t # xs) = False"
| "never_stopped (x # xs) = never_stopped xs"

text \<open>The last change of every burst, later by the delay.\<close>

fun debounced :: "nat \<Rightarrow> nat list \<Rightarrow> nat list" where
  "debounced d [] = []"
| "debounced d [t] = [t + d]"
| "debounced d (t # u # ts) = (if u < t + d then debounced d (u # ts) else (t + d) # debounced d (u # ts))"

lemma changes_after:
  "sorted (map input_time xs) \<Longrightarrow> \<forall>x \<in> set xs. t \<le> input_time x \<Longrightarrow> \<forall>u \<in> set (changes w xs). t \<le> u"
  by (induction w xs rule: changes.induct) auto

lemma debounced_Cons:
  "debounced d (t # ts) = (if ts \<noteq> [] \<and> hd ts < t + d then [] else [t + d]) @ debounced d ts"
  by (cases ts) auto

text \<open>
  With a timer running, the calls are those of the change that set it, followed by the later
  changes.
\<close>

lemma watch_debounced:
  assumes "sorted (map input_time xs)" and "never_stopped xs"
  shows "watch w None xs = debounced (wt_debounce w) (changes w xs)"
    and "watch w (Some (t + wt_debounce w)) xs = debounced (wt_debounce w) (t # changes w xs)"
  using assms
proof (induction xs arbitrary: t)
  case Nil
  { case 1 show ?case by simp next case 2 show ?case by simp }
next
  case (Cons x xs)
  have tail: "sorted (map input_time xs)" "never_stopped xs"
    if "sorted (map input_time (x # xs))" "never_stopped (x # xs)"
    using that by (cases x; simp)+
  { case 1
    then show ?case using Cons.IH tail by (cases x) simp_all
  next
    case 2
    have later: "u < t + wt_debounce w \<Longrightarrow> \<not> (t + wt_debounce w \<le> u)" for u by simp
    have after: "\<forall>u \<in> set (changes w xs). input_time x \<le> u"
      using 2 changes_after [of xs "input_time x" w] by simp
    then have first: "changes w xs \<noteq> [] \<Longrightarrow> input_time x \<le> hd (changes w xs)" by simp
    show ?case
    proof (cases "\<exists>u name ops. x = FsEvent u name ops \<and> accepted_event w name ops")
      case True
      then obtain u name ops where x: "x = FsEvent u name ops" "accepted_event w name ops" by blast
      then show ?thesis using Cons.IH(2) [OF tail [OF 2]] by (simp add: debounced_Cons [of _ t])
    next
      case False
      then have ch: "changes w (x # xs) = changes w xs" using 2(2) by (cases x) auto
      have run: "watch w (Some (t + wt_debounce w)) (x # xs) =
          fired (Some (t + wt_debounce w)) (input_time x) @ watch w (pending (Some (t + wt_debounce w)) (input_time x)) xs"
        using False 2(2) by (cases x) auto
      show ?thesis
      proof (cases "t + wt_debounce w \<le> input_time x")
        case True
        then have "changes w xs \<noteq> [] \<Longrightarrow> \<not> hd (changes w xs) < t + wt_debounce w" using first by simp
        then show ?thesis using run True Cons.IH(1) [OF tail [OF 2]] by (auto simp: ch debounced_Cons [of _ t])
      next
        case False
        then show ?thesis using run Cons.IH(2) [OF tail [OF 2]] by (simp add: ch)
      qed
    qed }
qed

lemma debounced_sound:
  "sorted ts \<Longrightarrow> f \<in> set (debounced d ts) \<Longrightarrow> \<exists>t \<in> set ts. f = t + d \<and> (\<forall>u \<in> set ts. u \<le> t \<or> f \<le> u)"
proof (induction d ts rule: debounced.induct)
  case (3 d t u ts)
  show ?case
  proof (cases "f \<in> set (debounced d (u # ts))")
    case True
    then obtain v where "v \<in> set (u # ts)" "f = v + d" "\<forall>x \<in> set (u # ts). x \<le> v \<or> f \<le> x"
      using 3 by (auto split: if_splits)
    moreover have "t \<le> v" using 3(3) calculation(1) by auto
    ultimately show ?thesis by auto
  next
    case False
    then have "f = t + d" "\<not> u < t + d" using 3(4) by (auto split: if_splits)
    moreover have "\<forall>x \<in> set ts. u \<le> x" using 3(3) by auto
    ultimately show ?thesis by (intro bexI [of _ t]) auto
  qed
qed auto

lemma debounced_complete:
  "sorted ts \<Longrightarrow> \<forall>t \<in> set ts. \<exists>f \<in> set (debounced d ts). t + d \<le> f"
proof (induction d ts rule: debounced.induct)
  case (3 d a u ts)
  have all: "\<forall>v \<in> set (u # ts). \<exists>f \<in> set (debounced d (u # ts)). v + d \<le> f"
    using 3 by (cases "u < a + d") simp_all
  then obtain f where "f \<in> set (debounced d (u # ts))" "u + d \<le> f" by auto
  moreover have "a \<le> u" using 3(3) by simp
  ultimately have "\<exists>f \<in> set (debounced d (u # ts)). a + d \<le> f" by (intro bexI [of _ f]) simp_all
  with all show ?case by (cases "u < a + d") auto
qed auto

lemma changes_sorted: "sorted (map input_time xs) \<Longrightarrow> sorted (changes w xs)"
  by (induction w xs rule: changes.induct) (auto dest: changes_after)

section \<open>Properties\<close>

text \<open>
  While it is not stopped the watcher calls \<open>onChange\<close> once for every burst of changes: each
  call comes the set delay after a change, with no further change in between, and every change is
  followed by a call.
\<close>

theorem changes_debounced:
  assumes "sorted (map input_time xs)" and "never_stopped xs"
  shows "\<exists>calls. startWatcher w None None xs = Inr calls \<and>
    (\<forall>c \<in> set calls. \<exists>t \<in> set (changes w xs). c = t + wt_debounce w \<and>
       (\<forall>u \<in> set (changes w xs). u \<le> t \<or> c \<le> u)) \<and>
    (\<forall>t \<in> set (changes w xs). \<exists>c \<in> set calls. t + wt_debounce w \<le> c)"
  using debounced_sound [OF changes_sorted [OF assms(1)]] debounced_complete [OF changes_sorted [OF assms(1)]]
    watch_debounced(1) [OF assms]
  by (simp add: startWatcher_def)

theorem changes_debounced_witness:
  "\<exists>calls. startWatcher (newWatcher ''/home/claude/CLAUDE.md'' 500) None None
       [FsEvent 100 ''/home/claude/CLAUDE.md'' [OpWrite], FsEvent 300 ''/home/claude/CLAUDE.md'' [OpCreate],
        FsEvent 350 ''/home/claude/other'' [OpWrite]] = Inr calls \<and>
     (\<exists>c \<in> set calls. 600 \<le> c)"
proof -
  let ?w = "newWatcher ''/home/claude/CLAUDE.md'' 500"
  let ?xs = "[FsEvent 100 ''/home/claude/CLAUDE.md'' [OpWrite], FsEvent 300 ''/home/claude/CLAUDE.md'' [OpCreate],
        FsEvent 350 ''/home/claude/other'' [OpWrite]]"
  have mem: "100 \<in> set (changes ?w ?xs)" by (simp add: accepted_event_def path_base_def newWatcher_def)
  have deb: "wt_debounce ?w = 500" by (simp add: newWatcher_def)
  have "sorted (map input_time ?xs)" "never_stopped ?xs" by simp_all
  then obtain calls where run: "startWatcher ?w None None ?xs = Inr calls"
    and all: "\<forall>t \<in> set (changes ?w ?xs). \<exists>c \<in> set calls. t + wt_debounce ?w \<le> c"
    using changes_debounced [of ?xs ?w] by blast
  have "\<exists>c \<in> set calls. 100 + wt_debounce ?w \<le> c" by (rule bspec [OF all mem])
  with run show ?thesis unfolding deb by (intro exI [of _ calls]) auto
qed

end
