(* ===== verification/Agent_Main.thy ===== *)
theory Agent_Main
  imports Agent_Server Agent_Lifecycle Agent_Watcher
begin

text \<open>
  The agent wrapper as a program (\<^verbatim>\<open>agent/main.go\<close>): from the environment to the child, the server and the watcher,
  then requests, output, exits of the child, changes of the watched file and the end, one after the other.
  How calls of \<open>Stop\<close> and \<open>Restart\<close> interleave is in \<open>Agent_Lifecycle\<close>.
\<close>

section \<open>Building the parts\<close>

text \<open>What the machine provides at the moment of an event.\<close>

record wrapper_os =
  wo_clock :: int                   \<comment> \<open>nanoseconds\<close>
  wo_startError :: "string option"  \<comment> \<open>the error of \<open>cmd.Start()\<close>\<close>
  wo_accept :: "string \<Rightarrow> string"
  wo_hijack :: bool
  wo_decode :: "string \<Rightarrow> agent_claims option"

record wrapper_parts =
  wp_config :: agent_config
  wp_version :: string
  wp_claudeVersion :: string
  wp_auth :: agent_auth
  wp_watcher :: watcher
  wp_listener :: listener

definition newServer :: "string \<Rightarrow> string \<Rightarrow> string \<Rightarrow> string \<Rightarrow> wrapper_os \<Rightarrow> agent_server" where
  "newServer wrapperVersion claudeVersion podName nodeName os =
     \<lparr>as_wrapperVersion = wrapperVersion, as_claudeVersion = claudeVersion, as_podName = podName,
      as_nodeName = nodeName, as_clock = wo_clock os, as_startError = wo_startError os,
      as_accept = wo_accept os, as_hijack = wo_hijack os\<rparr>"

text \<open>The watcher waits for half a second; its \<open>onChange\<close> is \<open>config_changed\<close> below.\<close>

definition buildServer :: "agent_files \<Rightarrow> string option \<Rightarrow> string \<Rightarrow> agent_config \<Rightarrow> string + wrapper_parts" where
  "buildServer fs claudeOut version cfg =
     (case configureHTTPServer fs cfg of
        Inl e \<Rightarrow> Inl (''[wrapper] Failed to configure HTTP server: '' @ e)
      | Inr lst \<Rightarrow>
          Inr \<lparr>wp_config = cfg, wp_version = version, wp_claudeVersion = detectClaudeVersion claudeOut,
               wp_auth = newAuth fs (gf_jwtKeyPath cfg) (gf_saTokenPath cfg),
               wp_watcher = newWatcher (gf_claudeMdPath cfg) 500, wp_listener = lst\<rparr>)"

definition wrapper_server :: "wrapper_parts \<Rightarrow> wrapper_os \<Rightarrow> agent_server" where
  "wrapper_server wp os =
     newServer (wp_version wp) (wp_claudeVersion wp) (gf_podName (wp_config wp)) (gf_nodeName (wp_config wp)) os"

definition wrapper_gate_of :: "wrapper_parts \<Rightarrow> wrapper_os \<Rightarrow> agent_gate" where
  "wrapper_gate_of wp os = \<lparr>gt_auth = wp_auth wp, gt_decode = wo_decode os, gt_now = wo_clock os div 1000000000\<rparr>"

definition config_changed :: "wrapper_parts \<Rightarrow> wrapper_os \<Rightarrow> process \<Rightarrow> process" where
  "config_changed wp os p = snd (restart (wo_startError os) (wo_clock os) (gf_claudeFlags (wp_config wp)) p)"

section \<open>Serving\<close>

text \<open>How \<open>ListenAndServe\<close> came back, and whether \<open>serveHTTP\<close> ends the program for it.\<close>

datatype serve_end = ServeNil | ServerClosed | ServeError string

fun serveHTTP :: "serve_end \<Rightarrow> string option" where
  "serveHTTP ServeNil = None"
| "serveHTTP ServerClosed = None"
| "serveHTTP (ServeError e) = Some (''[wrapper] Server error: '' @ e)"

definition startHTTPServer :: "listener \<Rightarrow> string" where
  "startHTTPServer lst =
     (case lst of
        Https addr \<Rightarrow> ''[wrapper] HTTPS server listening on '' @ addr
      | PlainHttp addr \<Rightarrow> ''[wrapper] HTTP server listening on '' @ addr @ '' (no TLS '' @
          [CHR 0xE2, CHR 0x80, CHR 0x94] @ '' dev mode)'')"

section \<open>Small helpers\<close>

text \<open>\<open>Done\<close>, and the duration that \<open>FormatDuration\<close> prints, of a time that is not negative.\<close>

definition done_channel :: "process \<Rightarrow> nat option" where
  "done_channel p = ps_done p"

definition formatDuration :: "nat \<Rightarrow> string" where
  "formatDuration d =
     (let hours = d div 3600000000000; minutes = d div 60000000000
      in digits (hours div 24) @ ''d'' @ digits (hours mod 24) @ ''h'' @ digits (minutes mod 60) @ ''m'')"

section \<open>The program\<close>

datatype wrapper_event =
    WxRequest wrapper_os wrapper_route "wrapper_body request"
  | WxConfigChanged wrapper_os       \<comment> \<open>a call of \<open>onChange\<close>\<close>
  | WxChildEnds
  | WxOutput bool string
  | WxReceive nat
  | WxDisconnect bool nat
  | WxServeEnds serve_end
  | WxTerminate

datatype wrapper_state =
    NotStarted string
  | Live process
  | Gone "string option" process     \<comment> \<open>the message of \<open>log.Fatalf\<close>, if that was the end\<close>

text \<open>The current child ends by itself and is waited for.\<close>

definition child_ends :: "process \<Rightarrow> process" where
  "child_ends p =
     (case ps_cmd p of
        None \<Rightarrow> p
      | Some i \<Rightarrow> if cd_reaped (ps_children p ! i) then p else reap i (child_exit i p))"

fun wrapper_step :: "wrapper_parts \<Rightarrow> wrapper_event \<Rightarrow> wrapper_state \<Rightarrow> wrapper_state" where
  "wrapper_step wp (WxRequest os rt r) (Live p) =
     Live (snd (wr_serve (wrapper_gate_of wp os) (wrapper_server wp os) rt r p))"
| "wrapper_step wp (WxConfigChanged os) (Live p) = Live (config_changed wp os p)"
| "wrapper_step wp WxChildEnds (Live p) = Live (child_ends p)"
| "wrapper_step wp (WxOutput b data) (Live p) = Live (pump_read b data p)"
| "wrapper_step wp (WxReceive ch) (Live p) = Live (receive ch p)"
| "wrapper_step wp (WxDisconnect b ch) (Live p) =
     Live (if ch \<in> set (proc_subs b p) then unsubscribe_out b ch p else p)"
| "wrapper_step wp (WxServeEnds e) (Live p) =
     (case serveHTTP e of None \<Rightarrow> Live p | Some m \<Rightarrow> Gone (Some m) p)"
| "wrapper_step wp WxTerminate (Live p) = Gone None (shutdown_agent p)"
| "wrapper_step wp x s = s"

definition run_wrapper ::
  "(string \<Rightarrow> string) \<Rightarrow> agent_files \<Rightarrow> string \<Rightarrow> string option \<Rightarrow> string option \<Rightarrow> int \<Rightarrow> wrapper_event list \<Rightarrow>
    wrapper_state" where
  "run_wrapper getenv fs version claudeOut startErr now xs =
     (let cfg = parseAgentConfig getenv
      in case run_agent startErr now cfg of
           Inl e \<Rightarrow> NotStarted (''[wrapper] Failed to start Claude CLI: '' @ e)
         | Inr p \<Rightarrow>
            (case buildServer fs claudeOut version cfg of
               Inl m \<Rightarrow> Gone (Some m) p
             | Inr wp \<Rightarrow> fold (wrapper_step wp) xs (Live p)))"

section \<open>What every event keeps\<close>

definition commands :: "process \<Rightarrow> string list \<times> string \<times> (string \<times> string) list" where
  "commands p = (ps_flags p, ps_workDir p, map (\<lambda>c. (cd_command c, cd_dir c)) (ps_children p))"

lemma commands_on_child:
  assumes "\<And>c. (cd_command (f c), cd_dir (f c)) = (cd_command c, cd_dir c)"
  shows "commands (on_child i f p) = commands p"
proof -
  have "map (\<lambda>c. (cd_command c, cd_dir c)) (xs[i := f (xs ! i)]) = map (\<lambda>c. (cd_command c, cd_dir c)) xs" for xs
    using assms by (cases "i < length xs") (simp_all add: map_update list_update_same_conv list_update_beyond)
  then show ?thesis by (simp add: commands_def on_child_def)
qed

lemma commands_reap: "commands (reap i p) = commands p"
proof -
  have "commands (on_child i (\<lambda>c. c\<lparr>cd_reaped := True\<rparr>) p) = commands p" by (rule commands_on_child) simp
  then show ?thesis by (simp add: commands_def reap_def Let_def split: option.split)
qed

lemma commands_exit: "commands (child_exit i p) = commands p"
  unfolding child_exit_def by (rule commands_on_child) simp

lemma commands_send: "commands (snd (send_signal sig i p)) = commands p"
proof -
  have "commands (on_child i (\<lambda>c. if cd_alive c then c\<lparr>cd_signals := cd_signals c @ [sig]\<rparr> else c) p) = commands p"
    by (rule commands_on_child) simp
  then show ?thesis by (simp add: send_signal_def)
qed

lemma commands_io: "commands (io_step x p) = commands p"
proof (cases x)
  case (Write_in data)
  have "commands (q\<lparr>ps_metrics := m\<rparr>) = commands q" for q m by (simp add: commands_def)
  moreover have "commands (on_child i (\<lambda>c. c\<lparr>cd_input := cd_input c @ data\<rparr>) p) = commands p" for i
    by (rule commands_on_child) simp
  ultimately show ?thesis using Write_in by (simp add: writeStdin_def Let_def split: pipe.split)
next
  case (Kill_with sig)
  then show ?thesis by (simp add: signal_process_def commands_send split: option.split)
qed (simp_all add: commands_def pump_read_def subscribe_out_def unsubscribe_out_def receive_def
      connections_def set_subs_def Let_def)

lemma stop_sound:
  assumes "proc_inv p"
  shows "proc_inv (stop_process p)" and "\<not> unreaped (stop_process p) i" and "commands (stop_process p) = commands p"
proof -
  have "proc_inv (stop_process p) \<and> (\<forall>i. \<not> unreaped (stop_process p) i) \<and> commands (stop_process p) = commands p"
  proof (cases "ps_cmd p")
    case None
    then have "\<not> unreaped p i" for i using proc_invD(5) [OF assms, of i] by auto
    with None assms show ?thesis by (simp add: stop_process_def)
  next
    case (Some c)
    let ?q = "snd (send_signal ''SIGTERM'' c p)"
    have q: "proc_inv ?q" "ps_cmd ?q = Some c"
      using inv_lifecycle(1) [OF lifecycle_send] assms lifecycle_eq(1) [OF lifecycle_send] Some by simp_all
    show ?thesis
    proof (cases "isRunning ?q")
      case False
      then show ?thesis using Some q isRunning_inv [OF q(1)] by (simp add: stop_process_def Let_def commands_send)
    next
      case True
      then obtain j where "unreaped ?q j" using isRunning_inv [OF q(1)] by blast
      then have "unreaped ?q c" using proc_invD(5) [OF q(1)] q(2) by fastforce
      then have "proc_inv (reap c (child_exit c ?q))"
        by (intro inv_reap inv_exit q(1)) (simp_all add: alive_simps)
      moreover have "\<not> unreaped (reap c (child_exit c ?q)) i" for i
        using proc_invD(5) [OF q(1), of i] q(2) by (auto simp: alive_simps)
      ultimately show ?thesis
        using Some True by (simp add: stop_process_def Let_def commands_reap commands_exit commands_send)
    qed
  qed
  then show "proc_inv (stop_process p)" and "\<not> unreaped (stop_process p) i" and "commands (stop_process p) = commands p"
    by blast+
qed

text \<open>The life cycle is sound, and every child was started with the flags and in the directory given.\<close>

definition configured :: "string list \<Rightarrow> string \<Rightarrow> process \<Rightarrow> bool" where
  "configured flags dir p \<longleftrightarrow> proc_inv p \<and>
     (\<exists>n. commands p = (flags, dir, replicate n (''claude '' @ join_space flags, dir)))"

lemma configured_same:
  assumes "configured flags dir p" and "proc_inv q" and "commands q = commands p"
  shows "configured flags dir q"
  using assms by (simp add: configured_def)

lemma configured_io: "configured flags dir p \<Longrightarrow> configured flags dir (io_step x p)"
  by (rule configured_same [OF _ _ commands_io]) (simp_all add: configured_def inv_lifecycle(1) [OF lifecycle_io])

lemma commands_start:
  "commands (snd (start err now p)) =
     (ps_flags p, ps_workDir p, snd (snd (commands p)) @
        (if err = None then [(''claude '' @ join_space (ps_flags p), ps_workDir p)] else []))"
  by (simp add: commands_def start_def Let_def split: option.split)

lemma configured_start:
  assumes "configured flags dir p" and "\<forall>i. \<not> unreaped p i"
  shows "configured flags dir (snd (start err now p))"
proof -
  obtain n where n: "commands p = (flags, dir, replicate n (''claude '' @ join_space flags, dir))"
    using assms(1) by (auto simp: configured_def)
  then have "ps_flags p = flags" "ps_workDir p = dir" by (simp_all add: commands_def)
  with n have "commands (snd (start err now p)) =
      (flags, dir, replicate (if err = None then Suc n else n) (''claude '' @ join_space flags, dir))"
    unfolding commands_start by (simp add: replicate_append_same)
  moreover have "proc_inv (snd (start err now p))"
    using assms by (intro inv_start) (simp_all add: configured_def)
  ultimately show ?thesis unfolding configured_def by blast
qed

lemma configured_stop: "configured flags dir p \<Longrightarrow> configured flags dir (stop_process p)"
  by (rule configured_same [of flags dir p]) (simp_all add: configured_def stop_sound)

lemma configured_restart:
  assumes "configured flags dir p"
  shows "configured flags dir (snd (restart err now flags p))"
proof -
  let ?q = "count_restart flags (stop_process p)"
  have inv: "proc_inv p" using assms by (simp add: configured_def)
  have st: "configured flags dir (stop_process p)" by (rule configured_stop [OF assms])
  then have "commands ?q = commands (stop_process p)" by (auto simp: configured_def commands_def count_restart_def)
  moreover have "proc_inv ?q"
    using stop_sound(1) [OF inv] inv_lifecycle(1) [OF lifecycle_count_restart] by simp
  ultimately have "configured flags dir ?q" by (intro configured_same [OF st])
  moreover have "\<not> unreaped ?q i" for i
    using stop_sound(2) [OF inv] lifecycle_eq(8) [OF lifecycle_count_restart] by simp
  ultimately show ?thesis unfolding restart_def by (intro configured_start) simp_all
qed

lemma configured_ends:
  assumes "configured flags dir p"
  shows "configured flags dir (child_ends p)"
proof (cases "\<exists>i. ps_cmd p = Some i \<and> \<not> cd_reaped (ps_children p ! i)")
  case True
  then obtain i where i: "ps_cmd p = Some i" "\<not> cd_reaped (ps_children p ! i)" by blast
  have inv: "proc_inv p" using assms by (simp add: configured_def)
  have "unreaped p i" using i(2) proc_invD(3) [OF inv i(1)] by (simp add: unreaped_def)
  then have "proc_inv (reap i (child_exit i p))" by (intro inv_reap inv_exit inv) (simp_all add: alive_simps)
  then have "configured flags dir (reap i (child_exit i p))"
    by (rule configured_same [OF assms]) (simp add: commands_reap commands_exit)
  with i show ?thesis by (simp add: child_ends_def)
next
  case False
  with assms show ?thesis by (auto simp: child_ends_def split: option.split)
qed

text \<open>A request does to the child what one of the operations does.\<close>

fun by_request :: "proc_io \<Rightarrow> bool" where
  "by_request (Write_in data) = True"
| "by_request (Subscribe_out b) = True"
| "by_request (Kill_with sig) = True"
| "by_request _ = False"

lemma handled_cases:
  "snd (wr_handle sv rt r p) = p \<or>
   snd (wr_handle sv rt r p) = snd (restart (as_startError sv) (as_clock sv) (ps_flags p) p) \<or>
   (\<exists>x. by_request x \<and> snd (wr_handle sv rt r p) = io_step x p)"
proof (cases rt)
  case WrStdin
  have "snd (handleStdin r p) = p \<or> (\<exists>data. snd (handleStdin r p) = io_step (Write_in data) p)"
    by (auto simp: handleStdin_def http_error_def split: option.split prod.split) (metis snd_conv)+
  with WrStdin show ?thesis using by_request.simps(1-3) by (metis wr_handle.simps)
next
  case WrStdout
  have "snd (handleStdout sv r p) = p \<or> snd (handleStdout sv r p) = io_step (Subscribe_out True) p"
    by (simp add: handleStdout_def streamOutput_def http_error_def split_beta split: sum.split)
  with WrStdout show ?thesis using by_request.simps(1-3) by (metis wr_handle.simps)
next
  case WrStderr
  have "snd (handleStderr sv r p) = p \<or> snd (handleStderr sv r p) = io_step (Subscribe_out False) p"
    by (simp add: handleStderr_def streamOutput_def http_error_def split_beta split: sum.split)
  with WrStderr show ?thesis using by_request.simps(1-3) by (metis wr_handle.simps)
next
  case WrRestart
  have "snd (handleRestart sv r p) = snd (restart (as_startError sv) (as_clock sv) (ps_flags p) p)"
    by (simp add: handleRestart_def http_error_def split: option.split prod.split)
  with WrRestart show ?thesis by simp
next
  case WrSignal
  have "snd (handleSignal r p) = p \<or> (\<exists>sig. snd (handleSignal r p) = io_step (Kill_with sig) p)"
    by (auto simp: handleSignal_def http_error_def split: option.split prod.split) (metis snd_conv)+
  with WrSignal show ?thesis using by_request.simps(1-3) by (metis wr_handle.simps)
qed (simp_all add: handleHealthz_def handleReadyz_def handleMetrics_def)

lemma served_cases:
  "snd (wr_serve g sv rt r p) = p \<or>
   snd (wr_serve g sv rt r p) = snd (restart (as_startError sv) (as_clock sv) (ps_flags p) p) \<or>
   (\<exists>x. by_request x \<and> snd (wr_serve g sv rt r p) = io_step x p)"
proof (cases "wr_role rt")
  case None
  then show ?thesis using handled_cases [of sv rt r p] by (simp add: wr_serve_def)
next
  case (Some role)
  then have "wr_serve g sv rt r p = wr_handle sv rt r p \<or> snd (wr_serve g sv rt r p) = p"
    using requireRole_cases [of g r role "wr_handle sv rt" p] by (auto simp: wr_serve_def)
  then show ?thesis using handled_cases [of sv rt r p] by auto
qed

lemma configured_serve:
  assumes "configured flags dir p"
  shows "configured flags dir (snd (wr_serve g sv rt r p))"
proof -
  have "ps_flags p = flags" using assms by (auto simp: configured_def commands_def)
  then show ?thesis
    using served_cases [of g sv rt r p] configured_io [OF assms] configured_restart [OF assms] assms by metis
qed

fun child_state :: "wrapper_state \<Rightarrow> process option" where
  "child_state (NotStarted e) = None"
| "child_state (Live p) = Some p"
| "child_state (Gone m p) = Some p"

definition wrapper_ok :: "agent_config \<Rightarrow> wrapper_state \<Rightarrow> bool" where
  "wrapper_ok cfg s \<longleftrightarrow>
     (case s of
        NotStarted e \<Rightarrow> True
      | Live p \<Rightarrow> configured (gf_claudeFlags cfg) (gf_workDir cfg) p
      | Gone m p \<Rightarrow> configured (gf_claudeFlags cfg) (gf_workDir cfg) p \<and> (m = None \<longrightarrow> (\<forall>i. \<not> alive p i)))"

lemma wrapper_ok_step:
  assumes "wrapper_ok (wp_config wp) s"
  shows "wrapper_ok (wp_config wp) (wrapper_step wp x s)"
proof (cases s)
  case (Live p)
  let ?ok = "configured (gf_claudeFlags (wp_config wp)) (gf_workDir (wp_config wp))"
  have p: "?ok p" using assms Live by (simp add: wrapper_ok_def)
  show ?thesis
  proof (cases x)
    case (WxOutput b data)
    then show ?thesis using Live configured_io [OF p, of "Chunk b data"] by (simp add: wrapper_ok_def)
  next
    case (WxReceive ch)
    then show ?thesis using Live configured_io [OF p, of "Receive ch"] by (simp add: wrapper_ok_def)
  next
    case (WxDisconnect b ch)
    then show ?thesis using Live p configured_io [OF p, of "Unsubscribe_out b ch"] by (simp add: wrapper_ok_def)
  next
    case (WxServeEnds e)
    then show ?thesis using Live p by (cases e) (simp_all add: wrapper_ok_def)
  next
    case WxTerminate
    have "proc_inv p" using p by (simp add: configured_def)
    then have "\<not> alive (stop_process p) i" for i using stop_sound(1,2) proc_invD(6) by blast
    then show ?thesis using Live WxTerminate configured_stop [OF p] by (simp add: wrapper_ok_def shutdown_agent_def)
  qed (use Live configured_serve [OF p] configured_restart [OF p] configured_ends [OF p] in
      \<open>simp_all add: wrapper_ok_def config_changed_def\<close>)
qed (use assms in simp_all)

lemma wrapper_ok_fold: "wrapper_ok (wp_config wp) s \<Longrightarrow> wrapper_ok (wp_config wp) (fold (wrapper_step wp) xs s)"
  by (induction xs arbitrary: s) (simp_all add: wrapper_ok_step)

lemma configured_new:
  assumes "run_agent err now cfg = Inr p"
  shows "configured (gf_claudeFlags cfg) (gf_workDir cfg) p"
proof -
  let ?n = "no_process (gf_claudeFlags cfg) (gf_workDir cfg) (newMetrics now)"
  have inv: "proc_inv p" by (rule inv_new(1) [OF assms [unfolded run_agent_def]])
  have "p = snd (start err now ?n)"
    using assms by (auto simp: run_agent_def newProcess_def split: option.splits prod.splits)
  moreover have "commands ?n = (gf_claudeFlags cfg, gf_workDir cfg, replicate 0 undefined)"
    by (simp add: commands_def no_process_def)
  moreover have "configured (gf_claudeFlags cfg) (gf_workDir cfg) ?n"
    unfolding configured_def
    by (intro conjI exI [of _ 0] proc_invI) (simp_all add: commands_def no_process_def unreaped_def alive_def)
  ultimately show ?thesis
    using configured_start [of "gf_claudeFlags cfg" "gf_workDir cfg" ?n err now]
    by (simp add: unreaped_def no_process_def)
qed

lemma wrapper_always_ok: "wrapper_ok (parseAgentConfig getenv) (run_wrapper getenv fs version claudeOut err now xs)"
proof (cases "run_agent err now (parseAgentConfig getenv)")
  case (Inl e)
  then show ?thesis by (simp add: run_wrapper_def wrapper_ok_def)
next
  case (Inr p)
  then have p: "configured (gf_claudeFlags (parseAgentConfig getenv)) (gf_workDir (parseAgentConfig getenv)) p"
    by (rule configured_new)
  show ?thesis
  proof (cases "buildServer fs claudeOut version (parseAgentConfig getenv)")
    case (Inl m)
    with Inr p show ?thesis by (simp add: run_wrapper_def wrapper_ok_def)
  next
    case (Inr wp)
    then have cfg: "wp_config wp = parseAgentConfig getenv" by (auto simp: buildServer_def split: sum.splits)
    show ?thesis
      using wrapper_ok_fold [of wp "Live p" xs] p \<open>run_agent err now _ = Inr p\<close> Inr
      by (simp add: run_wrapper_def cfg) (simp add: wrapper_ok_def)
  qed
qed

lemma not_started: "fold (wrapper_step wp) xs (Live p) \<noteq> NotStarted e"
proof -
  have "child_state s \<noteq> None \<Longrightarrow> child_state (fold (wrapper_step wp) xs s) \<noteq> None" for s
  proof (induction xs arbitrary: s)
    case (Cons x xs)
    have "child_state (wrapper_step wp x s) \<noteq> None"
      using Cons.prems by (cases s; cases x) (simp_all split: option.split)
    with Cons.IH show ?case by simp
  qed simp
  from this [of "Live p"] show ?thesis by auto
qed

section \<open>Properties\<close>


end
