(* ===== verification/Agent_Output.thy ===== *)
theory Agent_Output
  imports Agent_Main Streams
begin

text \<open>
  What a client of the wrapper reads of the output of the Claude CLI (\<^verbatim>\<open>streamOutput\<close> of \<^verbatim>\<open>agent/server.go\<close> with the fan-out of
  \<^verbatim>\<open>agent/process.go\<close>): a subscriber stays subscribed when its child is restarted, so its stream runs on over the children.
\<close>

section \<open>A subscriber over a run\<close>

definition after_event :: "wrapper_parts \<Rightarrow> wrapper_event \<Rightarrow> process \<Rightarrow> process" where
  "after_event wp x p = (case child_state (wrapper_step wp x (Live p)) of None \<Rightarrow> p | Some q \<Rightarrow> q)"

fun goes_on :: "wrapper_event \<Rightarrow> bool" where
  "goes_on WxTerminate = False"
| "goes_on (WxServeEnds e) = (serveHTTP e = None)"
| "goes_on _ = True"

text \<open>What the subscriber takes out of its buffer, and what the child writes on its stream.\<close>

fun taken :: "nat \<Rightarrow> wrapper_event \<Rightarrow> process \<Rightarrow> string list" where
  "taken ch (WxReceive c) p = (if c = ch then take 1 (ps_buffers p ! ch) else [])"
| "taken ch _ p = []"

fun written :: "bool \<Rightarrow> wrapper_event \<Rightarrow> string list" where
  "written b (WxOutput b' data) = (if b' = b \<and> data \<noteq> '''' then [data] else [])"
| "written b _ = []"

definition heard_step :: "wrapper_parts \<Rightarrow> nat \<Rightarrow> wrapper_event \<Rightarrow> process \<times> string list \<Rightarrow> process \<times> string list" where
  "heard_step wp ch x = (\<lambda>(p, got). (after_event wp x p, got @ taken ch x p))"

lemma heard_step_pair [simp]: "heard_step wp ch x (p, got) = (after_event wp x p, got @ taken ch x p)"
  by (simp add: heard_step_def)

definition heard :: "nat \<Rightarrow> process \<times> string list \<Rightarrow> string list" where
  "heard ch = (\<lambda>(p, got). got @ ps_buffers p ! ch)"

definition listening :: "bool \<Rightarrow> nat \<Rightarrow> process \<Rightarrow> bool" where
  "listening b ch p \<longleftrightarrow> subs_inv p \<and> ch \<in> set (proc_subs b p)"

lemma live_step: "goes_on x \<Longrightarrow> wrapper_step wp x (Live p) = Live (after_event wp x p)"
  by (cases x) (simp_all add: after_event_def split: option.split)

lemma live_run:
  assumes "\<forall>x \<in> set xs. goes_on x"
  shows "fold (wrapper_step wp) xs (Live p) = Live (fst (fold (heard_step wp ch) xs (p, got)))"
  using assms
proof (induction xs arbitrary: p got)
  case (Cons x xs)
  have "fold (wrapper_step wp) xs (Live (after_event wp x p)) =
      Live (fst (fold (heard_step wp ch) xs (after_event wp x p, got @ taken ch x p)))"
    by (rule Cons.IH) (use Cons.prems in simp)
  with Cons.prems show ?case by (simp add: live_step)
qed simp

section \<open>One event\<close>

text \<open>Operations that leave the subscribers and their buffers alone.\<close>

definition outputs :: "process \<Rightarrow> nat list \<times> nat list \<times> string list list \<times> 32 word" where
  "outputs p = (ps_stdoutSubs p, ps_stderrSubs p, ps_buffers p, mt_connections (ps_metrics p))"

named_theorems same_outputs

lemma outputs_child [same_outputs]:
  "outputs (on_child i f p) = outputs p" "outputs (reap i p) = outputs p" "outputs (child_exit i p) = outputs p"
  "outputs (snd (send_signal sig i p)) = outputs p" "outputs (count_restart flags p) = outputs p"
  "outputs (snd (start err now p)) = outputs p"
  by (simp_all add: outputs_def on_child_def reap_def child_exit_def send_signal_def count_restart_def start_def Let_def
      split: option.split)

lemma outputs_ops [same_outputs]:
  "outputs (stop_process p) = outputs p" "outputs (child_ends p) = outputs p"
  "outputs (snd (writeStdin data p)) = outputs p" "outputs (snd (signal_process sig p)) = outputs p"
proof -
  have metrics: "outputs (q\<lparr>ps_metrics := (ps_metrics p)\<lparr>mt_stdinBytes := a, mt_stdinMessages := c\<rparr>\<rparr>) = outputs p"
    if "outputs q = outputs p" for q a c
    using that by (simp add: outputs_def)
  show "outputs (snd (writeStdin data p)) = outputs p"
    by (simp add: writeStdin_def Let_def metrics same_outputs split: pipe.split)
qed (simp_all add: stop_process_def child_ends_def signal_process_def Let_def same_outputs split: option.split)

lemma outputs_restart [same_outputs]: "outputs (snd (restart err now flags p)) = outputs p"
  by (simp add: restart_def same_outputs)

lemma same_outputs_listening:
  "outputs q = outputs p \<Longrightarrow> listening b ch q = listening b ch p \<and> ps_buffers q = ps_buffers p"
  by (auto simp: outputs_def listening_def subs_inv_def proc_subs_def)

lemma listening_valid: "listening b ch p \<Longrightarrow> ch < length (ps_buffers p)"
  by (cases b) (auto simp: listening_def subs_inv_def proc_subs_def)

lemma listening_distinct: "listening b ch p \<Longrightarrow> distinct (proc_subs b' p) \<and> (ch \<in> set (proc_subs b' p) \<longleftrightarrow> b' = b)"
  by (cases b; cases b') (auto simp: listening_def subs_inv_def proc_subs_def)

lemma listening_io:
  assumes "listening b ch p" and "io_enabled x p" and "x \<noteq> Unsubscribe_out b ch"
  shows "listening b ch (io_step x p)"
proof -
  have "ch \<in> set (proc_subs b (io_step x p))"
  proof (cases x)
    case (Unsubscribe_out b' c)
    then show ?thesis
      using assms listening_distinct [OF assms(1), of b']
      by (cases b; cases b')
        (auto simp: listening_def unsubscribe_out_def proc_subs_def set_subs_def connections_def removeChan_remove1)
  qed (use assms(1) in \<open>cases b; auto simp: listening_def pump_read_def subscribe_out_def receive_def proc_subs_def
      set_subs_def connections_def writeStdin_def signal_process_def send_signal_def on_child_def Let_def
      split: pipe.split option.split\<close>)+
  then show ?thesis using assms(1) subs_inv_io [OF _ assms(2)] by (simp add: listening_def)
qed

text \<open>What one event means to a listening subscriber.\<close>

lemma listening_request:
  assumes "listening b ch p"
  shows "listening b ch (snd (wr_serve g sv rt r p)) \<and>
    ps_buffers (snd (wr_serve g sv rt r p)) ! ch = ps_buffers p ! ch"
proof -
  have keep: ?thesis if "outputs (snd (wr_serve g sv rt r p)) = outputs p"
    using same_outputs_listening [OF that] assms by simp
  consider "snd (wr_serve g sv rt r p) = p"
    | "snd (wr_serve g sv rt r p) = snd (restart (as_startError sv) (as_clock sv) (ps_flags p) p)"
    | x where "by_request x" "snd (wr_serve g sv rt r p) = io_step x p"
    using served_cases by blast
  then show ?thesis
  proof cases
    case 3
    show ?thesis
    proof (cases x)
      case (Subscribe_out b')
      then show ?thesis
        using 3 listening_io [OF assms, of x] listening_valid [OF assms]
        by (simp add: subscribe_out_def set_subs_def connections_def Let_def nth_append)
    qed (use 3 keep in \<open>simp_all add: same_outputs\<close>)
  qed (use keep in \<open>simp_all add: same_outputs\<close>)
qed

lemma heard_event:
  assumes "listening b ch p" and "goes_on x" and "x \<noteq> WxDisconnect b ch"
  shows "listening b ch (after_event wp x p) \<and>
    taken ch x p @ ps_buffers (after_event wp x p) ! ch =
      ps_buffers p ! ch @ (if length (ps_buffers p ! ch) < 64 then written b x else [])"
proof -
  have keep: ?thesis if "outputs (after_event wp x p) = outputs p" "taken ch x p = []" "written b x = []"
    using same_outputs_listening [OF that(1)] that assms(1) by simp
  have valid: "ch < length (ps_buffers p)" by (rule listening_valid [OF assms(1)])
  show ?thesis
  proof (cases x)
    case (WxRequest os rt r)
    then show ?thesis using listening_request [OF assms(1)] by (simp add: after_event_def)
  next
    case (WxOutput b' data)
    then show ?thesis
      using listening_io [OF assms(1), of "Chunk b' data"] listening_distinct [OF assms(1), of b'] valid
      by (auto simp: after_event_def pump_read_def fan_out_nth try_send_def)
  next
    case (WxReceive c)
    then show ?thesis
      using listening_io [OF assms(1), of "Receive c"] valid
      by (cases "c = ch"; cases "ps_buffers p ! ch") (simp_all add: after_event_def receive_def)
  next
    case (WxDisconnect b' c)
    then show ?thesis
      using assms(1,3) listening_io [OF assms(1), of "Unsubscribe_out b' c"]
      by (simp add: after_event_def unsubscribe_out_def set_subs_def connections_def)
  next
    case (WxServeEnds e)
    then show ?thesis using assms(1,2) by (simp add: after_event_def)
  qed (use keep assms(2) in \<open>simp_all add: after_event_def config_changed_def same_outputs\<close>)
qed

text \<open>So a subscriber of the wrapper is a consumer behind a queue of 64.\<close>

interpretation aos: bounded_stream "heard_step wp ch" "\<lambda>s. listening b ch (fst s)" "\<lambda>x. goes_on x \<and> x \<noteq> WxDisconnect b ch"
  "heard ch" "\<lambda>s. length (ps_buffers (fst s) ! ch)" "\<lambda>s. written b" 64
  for wp :: wrapper_parts and b :: bool and ch :: nat
proof
  fix s :: "process \<times> string list" and x
  assume s: "listening b ch (fst s)" and x: "goes_on x \<and> x \<noteq> WxDisconnect b ch"
  obtain p got where p: "s = (p, got)" by (cases s)
  note one = heard_event [OF s [unfolded p fst_conv] conjunct1 [OF x] conjunct2 [OF x], of wp]
  have next': "heard_step wp ch x s = (after_event wp x p, got @ taken ch x p)" by (simp add: p)
  show "listening b ch (fst (heard_step wp ch x s))" using one by (simp add: next')
  show "written b = written b" ..
  have "length (ps_buffers (after_event wp x p) ! ch) \<le> length (taken ch x p @ ps_buffers (after_event wp x p) ! ch)" by simp
  also have "\<dots> \<le> length (ps_buffers p ! ch) + length (written b x)" using one by simp
  finally show "length (ps_buffers (fst (heard_step wp ch x s)) ! ch) \<le> length (ps_buffers (fst s) ! ch) + length (written b x)"
    unfolding next' unfolding p by simp
  have new: "heard ch (heard_step wp ch x s) = got @ (taken ch x p @ ps_buffers (after_event wp x p) ! ch)"
    by (simp only: next' heard_def case_prod_conv append_assoc)
  show "heard ch (heard_step wp ch x s) = heard ch s @ written b x \<or>
      heard ch (heard_step wp ch x s) = heard ch s \<and> 64 \<le> length (ps_buffers (fst s) ! ch)"
    unfolding new conjunct2 [OF one] by (simp add: p heard_def)
qed

section \<open>Subscribers at any time\<close>

lemma outputs_subs: "outputs q = outputs p \<Longrightarrow> subs_inv q = subs_inv p"
  by (auto simp: outputs_def subs_inv_def)

lemma subs_event:
  assumes "subs_inv p"
  shows "subs_inv (after_event wp x p)"
proof -
  have keep: "subs_inv q" if "outputs q = outputs p" for q using outputs_subs [OF that] assms by simp
  show ?thesis
  proof (cases x)
    case (WxRequest os rt r)
    let ?q = "snd (wr_serve (wrapper_gate_of wp os) (wrapper_server wp os) rt r p)"
    have "subs_inv ?q"
    proof -
      consider "?q = p" | "outputs ?q = outputs p" | y where "by_request y" "?q = io_step y p"
        using served_cases [of "wrapper_gate_of wp os" "wrapper_server wp os" rt r p] outputs_restart by metis
      then show ?thesis
      proof cases
        case 3
        show ?thesis
        proof (cases y)
          case (Subscribe_out b)
          then show ?thesis using 3 subs_inv_io [OF assms, of y] by simp
        qed (use 3 keep in \<open>simp_all add: same_outputs\<close>)
      qed (use assms keep in simp_all)
    qed
    with WxRequest show ?thesis by (simp add: after_event_def)
  next
    case (WxOutput b data)
    then show ?thesis using subs_inv_io [OF assms, of "Chunk b data"] by (simp add: after_event_def)
  next
    case (WxReceive c)
    then show ?thesis using subs_inv_io [OF assms, of "Receive c"] by (simp add: after_event_def)
  next
    case (WxDisconnect b c)
    then show ?thesis using assms subs_inv_io [OF assms, of "Unsubscribe_out b c"] by (simp add: after_event_def)
  next
    case (WxServeEnds e)
    then show ?thesis using assms by (simp add: after_event_def split: option.split)
  qed (use keep in \<open>simp_all add: after_event_def config_changed_def shutdown_agent_def same_outputs\<close>)
qed

lemma subs_run:
  "(\<forall>p. child_state s = Some p \<longrightarrow> subs_inv p) \<Longrightarrow> child_state (fold (wrapper_step wp) xs s) = Some q \<Longrightarrow> subs_inv q"
proof (induction xs arbitrary: s)
  case (Cons x xs)
  have "subs_inv p" if "child_state (wrapper_step wp x s) = Some p" for p
  proof (cases s)
    case (Live p0)
    then have "after_event wp x p0 = p" using that by (simp add: after_event_def)
    with Live Cons.prems(1) show ?thesis using subs_event [of p0 wp x] by simp
  qed (use that Cons.prems(1) in simp_all)
  with Cons.IH [of "wrapper_step wp x s"] Cons.prems(2) show ?case by simp
qed simp

lemma subs_always:
  assumes "run_wrapper getenv fs version claudeOut err now xs = Live p"
  shows "subs_inv p"
proof -
  obtain p0 where p0: "run_agent err now (parseAgentConfig getenv) = Inr p0"
    using assms by (auto simp: run_wrapper_def Let_def split: sum.splits)
  then have "subs_inv p0"
    by (auto simp: run_agent_def newProcess_def start_def no_process_def newMetrics_def subs_inv_def Let_def split: option.splits)
  then have start: "\<forall>p. child_state (Live p0) = Some p \<longrightarrow> subs_inv p" by simp
  obtain wp where "fold (wrapper_step wp) xs (Live p0) = Live p"
    using assms p0 by (auto simp: run_wrapper_def Let_def split: sum.splits)
  then show ?thesis using subs_run [OF start, of wp xs p] by simp
qed

section \<open>Properties\<close>


definition demo_os :: wrapper_os where
  "demo_os = \<lparr>wo_clock = 7, wo_startError = None, wo_accept = id, wo_hijack = True, wo_decode = (\<lambda>s. None)\<rparr>"

definition no_files :: agent_files where
  "no_files = \<lparr>af_read = (\<lambda>f. None), af_key = (\<lambda>d. None), af_stat = (\<lambda>f. None), af_keyPair = (\<lambda>a b. None)\<rparr>"

definition demo_parts :: wrapper_parts where
  "demo_parts =
     \<lparr>wp_config = parseAgentConfig (\<lambda>k. ''''), wp_version = ''dev'', wp_claudeVersion = '''',
      wp_auth = newAuth no_files '''' '''', wp_watcher = newWatcher ''/home/claude/CLAUDE.md'' 500,
      wp_listener = PlainHttp '':8443''\<rparr>"

text \<open>The child ends between two pieces of its output, and a change of the configuration starts another.\<close>

definition demo_heard :: "wrapper_event list" where
  "demo_heard =
     [WxOutput True ''one'', WxChildEnds, WxReceive 0, WxConfigChanged demo_os, WxOutput False ''err'', WxOutput True ''two'']"


end
