(* ===== verification/Event_Streams.thy ===== *)
theory Event_Streams
  imports Events
begin

text \<open>
  The goroutines that serve a subscription of the event hub (the loops of \<^verbatim>\<open>handleSSE\<close> and \<^verbatim>\<open>handleEvents\<close> in
  \<^verbatim>\<open>internal/events/handler.go\<close>): what they write for each message, and what a client makes of it.
\<close>

section \<open>Server-sent events\<close>

text \<open>What the \<open>select\<close> of a loop woke up for.\<close>

datatype wake = WakeData | WakeDone | WakeGone | WakeTimer

definition newline :: char where
  "newline = CHR 0x0A"

definition sse_event :: "string \<Rightarrow> string" where
  "sse_event data = ''data: '' @ data @ [newline, newline]"

definition sse_keepalive :: string where
  "sse_keepalive = '': keepalive'' @ [newline, newline]"

text \<open>One round: what is written, or \<open>None\<close> when the loop returns, which takes the subscription back.\<close>

fun sse_round :: "string \<Rightarrow> nat \<Rightarrow> wake \<Rightarrow> hub \<Rightarrow> string option \<times> hub" where
  "sse_round ch p WakeData h =
     (case sub_buf (hub_heap h ! p) of
        [] \<Rightarrow> (Some '''', h)
      | data # _ \<Rightarrow> (Some (sse_event data), deliver p h))"
| "sse_round ch p WakeDone h = (None, unsubscribe ch p h)"
| "sse_round ch p WakeGone h = (None, unsubscribe ch p h)"
| "sse_round ch p WakeTimer h = (Some sse_keepalive, h)"

section \<open>WebSockets\<close>

text \<open>The loop of \<open>handleEvents\<close>; \<open>writes\<close> says whether the connection takes a frame.\<close>

fun ws_round :: "string \<Rightarrow> nat \<Rightarrow> (byte list \<Rightarrow> bool) \<Rightarrow> wake \<Rightarrow> hub \<Rightarrow> byte list option \<times> hub" where
  "ws_round ch p writes WakeData h =
     (case sub_buf (hub_heap h ! p) of
        [] \<Rightarrow> (Some [], h)
      | data # _ \<Rightarrow>
          let frame = wsWrite (map of_char data); h = deliver p h
          in if writes frame then (Some frame, h) else (None, unsubscribe ch p h))"
| "ws_round ch p writes WakeTimer h =
     (if writes wsWritePing then (Some wsWritePing, h) else (None, unsubscribe ch p h))"
| "ws_round ch p writes _ h = (None, unsubscribe ch p h)"

section \<open>A client of an event stream\<close>

text \<open>
  Reading by the rules for event streams: an empty line ends an event, lines that start with a colon are comments, and
  the data of an event are its \<open>data\<close> lines.
\<close>

fun sse_read :: "string list \<Rightarrow> string option \<Rightarrow> string list" where
  "sse_read [] data = []"
| "sse_read (l # ls) data =
     (if l = '''' then (case data of None \<Rightarrow> sse_read ls None | Some d \<Rightarrow> d # sse_read ls None)
      else if prefix '':'' l then sse_read ls data
      else if prefix ''data: '' l
      then sse_read ls (Some (case data of None \<Rightarrow> drop 6 l | Some d \<Rightarrow> d @ [newline] @ drop 6 l))
      else sse_read ls data)"

definition client_reads :: "string \<Rightarrow> string list" where
  "client_reads text = sse_read (split_on newline text) None"

lemma split_line: "newline \<notin> set x \<Longrightarrow> split_on newline (x @ newline # s) = x # split_on newline s"
  by (induction x) auto

lemma read_event: "newline \<notin> set d \<Longrightarrow> client_reads (sse_event d @ s) = d # client_reads s"
proof -
  assume d: "newline \<notin> set d"
  have "split_on newline (sse_event d @ s) = (''data: '' @ d) # '''' # split_on newline s"
    using split_line [of "''data: '' @ d" "newline # s"] d by (simp add: sse_event_def) (simp add: newline_def)
  then show ?thesis by (simp add: client_reads_def)
qed

lemma read_keepalive: "client_reads (sse_keepalive @ s) = client_reads s"
proof -
  have "split_on newline (sse_keepalive @ s) = '': keepalive'' # '''' # split_on newline s"
    using split_line [of "'': keepalive''" "newline # s"] by (simp add: sse_keepalive_def) (simp add: newline_def)
  then show ?thesis by (simp add: client_reads_def)
qed

lemma read_nothing: "client_reads '''' = []"
  by (simp add: client_reads_def)

section \<open>A connection among the operations of the hub\<close>

datatype conn_event = HubEvent hub_op | Woken wake

fun conn_step :: "(event \<Rightarrow> string option) \<Rightarrow> string \<Rightarrow> nat \<Rightarrow> conn_event \<Rightarrow> hub \<times> string list \<Rightarrow> hub \<times> string list" where
  "conn_step marshal ch p (HubEvent x) (h, out') = (hub_step marshal x h, out')"
| "conn_step marshal ch p (Woken w) (h, out') =
     (case sse_round ch p w h of
        (None, h) \<Rightarrow> (h, out')
      | (Some text, h) \<Rightarrow> (h, out' @ [text]))"

text \<open>Only the goroutine itself takes messages out; the subscription and the connection last.\<close>

fun serving :: "nat \<Rightarrow> conn_event \<Rightarrow> bool" where
  "serving p (HubEvent (Deliver q)) = (q \<noteq> p)"
| "serving p (HubEvent (Unsubscribe c q)) = (q \<noteq> p)"
| "serving p (HubEvent _) = True"
| "serving p (Woken w) = (w = WakeData \<or> w = WakeTimer)"

fun hub_ops :: "nat \<Rightarrow> conn_event \<Rightarrow> hub_op list" where
  "hub_ops p (HubEvent x) = [x]"
| "hub_ops p (Woken w) = (if w = WakeData then [Deliver p] else [])"

lemma hub_run_append: "hub_run marshal (xs @ ys) h = hub_run marshal ys (hub_run marshal xs h)"
  by (simp add: hub_run_fold)

lemma conn_hub:
  "serving p x \<Longrightarrow> fst (conn_step marshal ch p x (h, out')) = hub_run marshal (hub_ops p x) h"
  by (cases "(p, x)" rule: serving.cases)
    (auto simp: deliver_def Let_def split: list.split)

lemma conn_hub_run:
  "\<forall>x \<in> set xs. serving p x \<Longrightarrow>
     fst (fold (conn_step marshal ch p) xs (h, out')) = hub_run marshal (concat (map (hub_ops p) xs)) h"
proof (induction xs arbitrary: h out')
  case (Cons x xs)
  obtain h' o' where s: "conn_step marshal ch p x (h, out') = (h', o')" by (cases "conn_step marshal ch p x (h, out')")
  then have "h' = hub_run marshal (hub_ops p x) h" using conn_hub [of p x marshal ch h out'] Cons.prems by simp
  with Cons.IH [of h' o'] Cons.prems s show ?case by (simp add: hub_run_append)
qed simp

section \<open>What the client has read\<close>

text \<open>The encoder of JSON leaves no raw line break in its output.\<close>

definition one_line :: "(event \<Rightarrow> string option) \<Rightarrow> bool" where
  "one_line marshal \<longleftrightarrow> (\<forall>e d. marshal e = Some d \<longrightarrow> newline \<notin> set d)"

definition subscribed :: "string \<Rightarrow> nat \<Rightarrow> hub \<Rightarrow> bool" where
  "subscribed ch p h \<longleftrightarrow> on_channel ch p h \<and> hub_sets h \<and> (\<forall>d \<in> set (stream_of (hub_heap h ! p)). newline \<notin> set d)"

lemma published_one_line: "one_line marshal \<Longrightarrow> d \<in> set (published marshal ch s x) \<Longrightarrow> newline \<notin> set d"
  by (auto simp: published_def one_line_def split: hub_op.splits option.splits if_splits)

lemma subscribed_step:
  assumes "one_line marshal" and "subscribed ch p h" and "\<forall>c. x \<noteq> Unsubscribe c p"
  shows "subscribed ch p (hub_step marshal x h)"
proof -
  have h: "on_channel ch p h \<and> hub_sets h" using assms(2) by (simp add: subscribed_def)
  have "stream_of (hub_heap (hub_step marshal x h) ! p) = stream_of (hub_heap h ! p) @ published marshal ch (hub_heap h ! p) x \<or>
      stream_of (hub_heap (hub_step marshal x h) ! p) = stream_of (hub_heap h ! p)"
    using evs.stream_step [OF h assms(3), of marshal] by blast
  moreover have "\<forall>d \<in> set (published marshal ch (hub_heap h ! p) x). newline \<notin> set d"
    using published_one_line [OF assms(1)] by blast
  moreover have "\<forall>d \<in> set (stream_of (hub_heap h ! p)). newline \<notin> set d" using assms(2) by (simp add: subscribed_def)
  ultimately have "\<forall>d \<in> set (stream_of (hub_heap (hub_step marshal x h) ! p)). newline \<notin> set d"
    by (metis Un_iff set_append)
  with evs.attached_step [OF h assms(3), of marshal] show ?thesis by (simp add: subscribed_def)
qed

lemma subscribed_valid: "subscribed ch p h \<Longrightarrow> p < length (hub_heap h)"
  by (simp add: subscribed_def on_channel_def)

lemma sent_step:
  assumes "subscribed ch p h" and "x \<noteq> Deliver p" and "\<forall>c. x \<noteq> Unsubscribe c p"
  shows "sub_sent (hub_heap (hub_step marshal x h) ! p) = sub_sent (hub_heap h ! p)"
proof -
  have p: "p < length (hub_heap h)" by (rule subscribed_valid [OF assms(1)])
  have sets: "hub_sets h" using assms(1) by (simp add: subscribed_def)
  show ?thesis
    using assms(2,3) by (cases x)
      (auto simp: heap_after [OF p] heap_publish [OF p sets] offer_def split: list.split)
qed

definition read_so_far :: "nat \<Rightarrow> hub \<times> string list \<Rightarrow> bool" where
  "read_so_far p = (\<lambda>(h, out'). \<forall>rest. client_reads (concat out' @ rest) = sub_sent (hub_heap h ! p) @ client_reads rest)"

lemma read_step:
  assumes "one_line marshal" and "subscribed ch p h" and "serving p x" and "read_so_far p (h, out')"
  shows "subscribed ch p (fst (conn_step marshal ch p x (h, out'))) \<and> read_so_far p (conn_step marshal ch p x (h, out'))"
proof (cases x)
  case (HubEvent y)
  then have y: "y \<noteq> Deliver p" "\<forall>c. y \<noteq> Unsubscribe c p" using assms(3) by (cases y; auto)+
  show ?thesis
    using HubEvent subscribed_step [OF assms(1,2) y(2)] sent_step [OF assms(2) y] assms(4) by (simp add: read_so_far_def)
next
  case (Woken w)
  then consider "w = WakeTimer" | "w = WakeData" using assms(3) by auto
  then show ?thesis
  proof cases
    case 1
    then show ?thesis using Woken assms(2,4) by (simp add: read_so_far_def read_keepalive)
  next
    case 2
    show ?thesis
    proof (cases "sub_buf (hub_heap h ! p)")
      case Nil
      then show ?thesis using Woken 2 assms(2,4) by (simp add: read_so_far_def)
    next
      case (Cons d ds)
      have "newline \<notin> set d" using assms(2) Cons by (simp add: subscribed_def stream_of_def)
      moreover have "subscribed ch p (deliver p h)" using subscribed_step [OF assms(1,2), of "Deliver p"] by simp
      moreover have "sub_sent (hub_heap (deliver p h) ! p) = sub_sent (hub_heap h ! p) @ [d]"
        using heap_after(3) [OF subscribed_valid [OF assms(2)], of p] Cons by simp
      ultimately show ?thesis using Woken 2 Cons assms(4) by (simp add: read_so_far_def read_event)
    qed
  qed
qed

lemma read_run:
  assumes "one_line marshal" and "subscribed ch p h" and "\<forall>x \<in> set xs. serving p x" and "read_so_far p (h, out')"
  shows "read_so_far p (fold (conn_step marshal ch p) xs (h, out'))"
  using assms(2-4)
proof (induction xs arbitrary: h out')
  case (Cons x xs)
  obtain h' o' where s: "conn_step marshal ch p x (h, out') = (h', o')" by (cases "conn_step marshal ch p x (h, out')")
  have "subscribed ch p h' \<and> read_so_far p (h', o')"
    using read_step [OF assms(1) Cons.prems(1) _ Cons.prems(3), of x] Cons.prems(2) s by simp
  with Cons.IH [of h' o'] Cons.prems(2) s show ?case by simp
qed simp

section \<open>Properties\<close>


definition demo_marshal :: "event \<Rightarrow> string option" where
  "demo_marshal e = Some (filter (\<lambda>c. c \<noteq> newline) (ev_payload e))"

definition demo_conn :: "nat \<Rightarrow> conn_event list" where
  "demo_conn p =
     [HubEvent (Publish ''t'' ''nmgr/status'' ''node.ready'' ''a''), Woken WakeTimer, Woken WakeData,
      HubEvent (Publish ''t'' ''other'' ''node.ready'' ''b''),
      HubEvent (Publish ''t'' ''nmgr/status'' ''node.ready'' ''c'')]"


end
