(* ===== verification/Tracing.thy ===== *)
theory Tracing
  imports Middleware
begin

text \<open>
  Tracing of requests (\<^verbatim>\<open>internal/tracing\<close>). OpenTelemetry is a parameter: what \<open>otelhttp.NewHandler\<close> makes of a handler,
  over a record of what was done to the span of the request. \<^verbatim>\<open>main.go\<close> puts the middleware around
  everything, the chain of authentication included.
\<close>

section \<open>The middleware\<close>

datatype span_op =
    SpanStart string
  | SpanAttribute string string
  | SpanEnd

type_synonym ('b, 's, 'r) otel =
  "('b request \<Rightarrow> string) \<Rightarrow> ('b, 's \<times> span_op list, 'r) handler \<Rightarrow> ('b, 's \<times> span_op list, 'r) handler"

definition set_attribute :: "string \<Rightarrow> string \<Rightarrow> span_op list \<Rightarrow> span_op list" where
  "set_attribute k v ops = ops @ [SpanAttribute k v]"

definition span_name :: "('b request \<Rightarrow> string) \<Rightarrow> 'b request \<Rightarrow> string" where
  "span_name url r = rq_method r @ '' '' @ url r"

text \<open>\<open>PrincipalFromContext\<close> is \<open>rq_principal\<close> of the request the middleware was handed.\<close>

definition tracing_middleware ::
  "('b, 's, 'r) otel \<Rightarrow> ('b request \<Rightarrow> string) \<Rightarrow> ('b, 's \<times> span_op list, 'r) handler \<Rightarrow> ('b, 's \<times> span_op list, 'r) handler" where
  "tracing_middleware otel url next =
     otel (span_name url)
       (\<lambda>r (s, ops).
          let ops = (case rq_principal r of
                       None \<Rightarrow> ops
                     | Some p \<Rightarrow> set_attribute ''enduser.id'' (p_username p) ops)
          in next r (s, ops))"

section \<open>Setting up and shutting down\<close>

record ('e, 'a) tracer_provider =
  tp_exporter :: 'e
  tp_resource :: 'a
  tp_batchTimeout :: nat     \<comment> \<open>milliseconds\<close>

text \<open>\<open>Init\<close>: the provider that is set, if any; a failure is logged and tracing stays off.\<close>

definition tracing_Init :: "(string + 'e) \<Rightarrow> (string + 'a) \<Rightarrow> ('e, 'a) tracer_provider option \<times> string list" where
  "tracing_Init newExporter newResource =
     (case newExporter of
        Inl e \<Rightarrow> (None, [''WARNING: failed to create OTLP trace exporter: '' @ e])
      | Inr exporter \<Rightarrow>
         (case newResource of
            Inl e \<Rightarrow> (None, [''WARNING: failed to create OTEL resource: '' @ e])
          | Inr res \<Rightarrow> (Some \<lparr>tp_exporter = exporter, tp_resource = res, tp_batchTimeout = 5000\<rparr>, [])))"

text \<open>The function that \<open>Init\<close> returns, given the error of shutting the provider down.\<close>

definition tracing_shutdown :: "('e, 'a) tracer_provider option \<Rightarrow> (('e, 'a) tracer_provider \<Rightarrow> string option) \<Rightarrow> string list" where
  "tracing_shutdown tp shut =
     (case tp of
        None \<Rightarrow> []
      | Some p \<Rightarrow> (case shut p of None \<Rightarrow> [] | Some e \<Rightarrow> [''WARNING: failed to shut down tracer provider: '' @ e]))"

section \<open>Properties\<close>

text \<open>
  The documented behaviour of \<open>otelhttp\<close> that is used: the handler runs once on the request, its reply and state are passed on,
  and what is done to the span before and after names no user.
\<close>

definition anonymous :: "span_op list \<Rightarrow> bool" where
  "anonymous ops \<longleftrightarrow> list_all (\<lambda>x. case x of SpanAttribute k v \<Rightarrow> k \<noteq> ''enduser.id'' | _ \<Rightarrow> True) ops"

definition wraps_handlers :: "('b, 's, 'r) otel \<Rightarrow> bool" where
  "wraps_handlers otel \<longleftrightarrow>
     (\<forall>name h r s ops. \<exists>pre post. anonymous pre \<and> anonymous post \<and>
        otel name h r (s, ops) =
          (let (t, s', ops') = h r (s, ops @ pre) in (t, s', ops' @ post)))"

text \<open>A handler of the server: none of them touches the span.\<close>

definition untraced :: "('b, 's, 'r) handler \<Rightarrow> ('b, 's \<times> span_op list, 'r) handler" where
  "untraced h r = (\<lambda>(s, ops). let (t, s') = h r s in (t, s', ops))"


definition demo_otel :: "('b, 's, 'r) otel" where
  "demo_otel name h r = (\<lambda>(s, ops). let (t, s', ops') = h r (s, ops @ [SpanStart (name r)]) in (t, s', ops' @ [SpanEnd]))"

lemma demo_wraps: "wraps_handlers demo_otel"
proof -
  have "\<exists>pre post. anonymous pre \<and> anonymous post \<and>
      demo_otel name h r (s, ops) = (let (t, s', ops') = h r (s, ops @ pre) in (t, s', ops' @ post))" for name h r s ops
    by (intro exI [of _ "[SpanStart (name r)]"] exI [of _ "[SpanEnd]"]) (simp add: demo_otel_def anonymous_def)
  then show ?thesis unfolding wraps_handlers_def by blast
qed


end
