(* ===== verification/Cluster_Nodes.thy ===== *)
theory Cluster_Nodes
  imports Nodes "HOL-Library.Word" "HOL-Library.AList" "HOL-Library.Sublist"
begin

text \<open>
  The nodes of the Kubernetes cluster (\<^verbatim>\<open>internal/k8s/nodes.go\<close>, and \<open>DrainAndDeleteNode\<close> of
  \<^verbatim>\<open>internal/k8s/provision.go\<close>): reading them with their live metrics, quantities, cordoning,
  labels, draining, and the \<open>NodeManager\<close> that \<^verbatim>\<open>nmgr/k8s_manager.go\<close> makes of it.

  The API server and the Metrics API are parameters, one function for each call the code makes, over
  any state \<open>'w\<close> of the cluster. Floating-point numbers are rationals.
\<close>

section \<open>Objects of the cluster\<close>

record k8s_resources =
  rs_cpuMilli :: int
  rs_memory :: int
  rs_ephemeral :: int
  rs_pods :: int

record k8s_condition =
  kc_type :: string
  kc_status :: string
  kc_reason :: string
  kc_message :: string

record k8s_taint =
  tn_key :: string
  tn_value :: string
  tn_effect :: string

record k8s_node =
  kd_name :: string
  kd_labels :: "(string \<times> string) list"    \<comment> \<open>in the order Go iterates over them\<close>
  kd_unschedulable :: bool
  kd_taints :: "k8s_taint list"
  kd_conditions :: "k8s_condition list"
  kd_addresses :: "(string \<times> string) list"
  kd_capacity :: k8s_resources
  kd_allocatable :: k8s_resources
  kd_kubelet :: string

record pod_ref =
  pf_namespace :: string
  pf_name :: string
  pf_deleting :: bool
  pf_owners :: "string list"               \<comment> \<open>the kinds of the owners\<close>

record 'w node_api =
  na_list :: "'w \<Rightarrow> string + k8s_node list"
  na_get :: "string \<Rightarrow> 'w \<Rightarrow> string + k8s_node"
  na_update :: "k8s_node \<Rightarrow> 'w \<Rightarrow> string option \<times> 'w"
  na_delete :: "string \<Rightarrow> 'w \<Rightarrow> string option \<times> 'w"
  na_metrics :: "'w \<Rightarrow> (string \<times> string \<times> string) list option"  \<comment> \<open>name, CPU, memory\<close>
  na_agentPods :: "string \<Rightarrow> 'w \<Rightarrow> string + pod_status list"
  na_allPods :: "string \<Rightarrow> 'w \<Rightarrow> string + pod_ref list"
  na_deletePod :: "string \<Rightarrow> string \<Rightarrow> 'w \<Rightarrow> 'w"

section \<open>Quantities\<close>

definition dec_digit :: "char \<Rightarrow> bool" where
  "dec_digit c \<longleftrightarrow> 48 \<le> (of_char c :: nat) \<and> (of_char c :: nat) \<le> 57"

definition sign_of :: "string \<Rightarrow> int \<times> string" where
  "sign_of s =
     (case s of
        [] \<Rightarrow> (1, s)
      | c # t \<Rightarrow> if c = CHR ''-'' then (-1, t) else if c = CHR ''+'' then (1, t) else (1, s))"

definition skip_blanks :: "string \<Rightarrow> string" where
  "skip_blanks s = dropWhile (\<lambda>c. c = CHR '' '' \<or> c = CHR 0x09) s"

text \<open>
  \<open>fmt.Sscanf(s, \"%d\", &v)\<close> into an \<open>int64\<close>: blanks, a sign, digits; the variable keeps its zero when
  there is no digit or the number is out of range. What follows the digits is not looked at.
\<close>

definition scan_d :: "string \<Rightarrow> 64 word" where
  "scan_d s =
     (let (sg, t) = sign_of (skip_blanks s);
          ds = takeWhile dec_digit t;
          n = sg * int (dec_val ds)
      in if ds = [] \<or> n < - (2 ^ 63) \<or> 2 ^ 63 \<le> n then 0 else word_of_int n)"

text \<open>
  \<open>fmt.Sscanf(s, \"%f\", &v)\<close> for numbers without exponent, the ones the Metrics API reports.
\<close>

definition scan_f :: "string \<Rightarrow> rat" where
  "scan_f s =
     (let (sg, t) = sign_of (skip_blanks s);
          ds = takeWhile dec_digit t;
          t = dropWhile dec_digit t;
          fs = (case t of [] \<Rightarrow> [] | c # u \<Rightarrow> if c = CHR ''.'' then takeWhile dec_digit u else [])
      in if ds = [] \<and> fs = [] then 0
         else of_int sg * (of_nat (dec_val ds) + of_nat (dec_val fs) / 10 ^ length fs))"

definition parseQuantity :: "string \<Rightarrow> rat" where
  "parseQuantity s =
     (if length s = 0 then 0
      else if last s = CHR ''m'' then scan_f (butlast s) / 1000
      else if last s = CHR ''n'' then scan_f (butlast s) / 1000000000
      else scan_f s)"

definition parseQuantityBytes :: "string \<Rightarrow> 64 word" where
  "parseQuantityBytes s =
     (let k = length s - 2; unit = (\<lambda>u. length s \<ge> 2 \<and> drop k s = u)
      in if length s = 0 then 0
         else if unit ''Ki'' then scan_d (take k s) * 1024
         else if unit ''Mi'' then scan_d (take k s) * 1024 * 1024
         else if unit ''Gi'' then scan_d (take k s) * 1024 * 1024 * 1024
         else scan_d s)"

section \<open>Reading nodes\<close>

record metrics_usage =
  mu_cpuCores :: rat
  mu_memBytes :: "64 word"

definition fetchNodeMetrics :: "'w node_api \<Rightarrow> 'w \<Rightarrow> (string \<times> metrics_usage) list option" where
  "fetchNodeMetrics api w =
     map_option
       (\<lambda>items. rev (map (\<lambda>(name, cpu, mem). (name, \<lparr>mu_cpuCores = parseQuantity cpu,
                                                       mu_memBytes = parseQuantityBytes mem\<rparr>)) items))
       (na_metrics api w)"

definition gib :: "int \<Rightarrow> rat" where
  "gib v = of_int v / (1024 * 1024 * 1024)"

definition node_status :: "k8s_node \<Rightarrow> string" where
  "node_status n =
     (if kd_unschedulable n then ''SchedulingDisabled''
      else if list_ex (\<lambda>c. kc_type c = ''Ready'' \<and> kc_status c \<noteq> ''True'') (kd_conditions n) then ''NotReady''
      else ''Ready'')"

definition k8sNodeToNode :: "k8s_node \<Rightarrow> (string \<times> metrics_usage) list option \<Rightarrow> cluster_node" where
  "k8sNodeToNode n metrics =
     (let location = meta_get (map_of (kd_labels n)) ''convocate.io/location'';
          ip = (case find_key fst ''InternalIP'' (kd_addresses n) of None \<Rightarrow> '''' | Some (_, a) \<Rightarrow> a);
          diskCap = rs_ephemeral (kd_capacity n);
          diskAlloc = rs_ephemeral (kd_allocatable n);
          (load, memUsed) =
            (case Option.bind metrics (\<lambda>ms. map_of ms (kd_name n)) of
               None \<Rightarrow> (\<lparr>la_one = -1, la_five = -1, la_fifteen = -1\<rparr>, -1)
             | Some m \<Rightarrow>
                 (\<lparr>la_one = mu_cpuCores m, la_five = mu_cpuCores m * (95 / 100),
                   la_fifteen = mu_cpuCores m * (9 / 10)\<rparr>,
                  if 0 < sint (mu_memBytes m) then gib (sint (mu_memBytes m)) else -1))
      in \<lparr>nd_id = kd_name n, nd_location = (if location = '''' then ''unspecified'' else location),
          nd_ip = ip, nd_status = node_status n, nd_agents = 0, nd_load = load, nd_memUsed = memUsed,
          nd_memTotal = gib (rs_memory (kd_capacity n)),
          nd_diskUsed = (if 0 < diskCap \<and> 0 < diskAlloc then gib (diskCap - diskAlloc) else -1),
          nd_diskTotal = gib diskCap, nd_tags = map (\<lambda>(k, v). k @ ''='' @ v) (kd_labels n),
          cn_swapUsed = 0, cn_swapTotal = 0, cn_uptime = 0, cn_kubelet = kd_kubelet n, cn_cpus = 0\<rparr>)"

definition get_error :: "string \<Rightarrow> string \<Rightarrow> string" where
  "get_error name e = ''get node '' @ name @ '': '' @ e"

definition listNodes :: "'w node_api \<Rightarrow> 'w \<Rightarrow> string + cluster_node list" where
  "listNodes api w =
     (case na_list api w of
        Inl e \<Rightarrow> Inl (''list nodes: '' @ e)
      | Inr ns \<Rightarrow> Inr (map (\<lambda>n. k8sNodeToNode n (fetchNodeMetrics api w)) ns))"

definition getNode :: "'w node_api \<Rightarrow> string \<Rightarrow> 'w \<Rightarrow> string + cluster_node" where
  "getNode api name w =
     (case na_get api name w of
        Inl e \<Rightarrow> Inl (get_error name e)
      | Inr n \<Rightarrow> Inr (k8sNodeToNode n (fetchNodeMetrics api w)))"

record node_resources =
  nr_cpuCores :: rat
  nr_memoryGB :: rat
  nr_ephemeralGB :: rat
  nr_pods :: int

record k8s_detail = node_detail +
  dt_conditions :: "k8s_condition list"
  dt_labels :: "(string \<times> string) list"
  dt_taints :: "k8s_taint list"
  dt_capacity :: node_resources
  dt_allocatable :: node_resources

definition node_resources_of :: "k8s_resources \<Rightarrow> node_resources" where
  "node_resources_of r =
     \<lparr>nr_cpuCores = of_int (rs_cpuMilli r) / 1000, nr_memoryGB = gib (rs_memory r),
      nr_ephemeralGB = gib (rs_ephemeral r), nr_pods = rs_pods r\<rparr>"

definition getNodeDetail :: "'w node_api \<Rightarrow> string \<Rightarrow> 'w \<Rightarrow> string + k8s_detail" where
  "getNodeDetail api name w =
     (case na_get api name w of
        Inl e \<Rightarrow> Inl (get_error name e)
      | Inr n \<Rightarrow>
          Inr \<lparr>dt_node = k8sNodeToNode n (fetchNodeMetrics api w), dt_agents = [], dt_notes = [],
               dt_conditions = kd_conditions n, dt_labels = kd_labels n, dt_taints = kd_taints n,
               dt_capacity = node_resources_of (kd_capacity n),
               dt_allocatable = node_resources_of (kd_allocatable n)\<rparr>)"

section \<open>Changing nodes\<close>

definition change_node :: "'w node_api \<Rightarrow> string \<Rightarrow> (k8s_node \<Rightarrow> k8s_node) \<Rightarrow> 'w \<Rightarrow> string option \<times> 'w" where
  "change_node api name f w =
     (case na_get api name w of
        Inl e \<Rightarrow> (Some (get_error name e), w)
      | Inr n \<Rightarrow> na_update api (f n) w)"

definition cordonNode :: "'w node_api \<Rightarrow> string \<Rightarrow> 'w \<Rightarrow> string option \<times> 'w" where
  "cordonNode api name = change_node api name (\<lambda>n. n\<lparr>kd_unschedulable := True\<rparr>)"

definition uncordonNode :: "'w node_api \<Rightarrow> string \<Rightarrow> 'w \<Rightarrow> string option \<times> 'w" where
  "uncordonNode api name = change_node api name (\<lambda>n. n\<lparr>kd_unschedulable := False\<rparr>)"

definition updateNodeLabels :: "'w node_api \<Rightarrow> string \<Rightarrow> (string \<times> string) list \<Rightarrow> 'w \<Rightarrow> string option \<times> 'w" where
  "updateNodeLabels api name labels =
     change_node api name (\<lambda>n. n\<lparr>kd_labels := fold (\<lambda>(k, v). AList.update k v) labels (kd_labels n)\<rparr>)"

definition countAgentPodsOnNode :: "'w node_api \<Rightarrow> string \<Rightarrow> 'w \<Rightarrow> string + int" where
  "countAgentPodsOnNode api nodeName w =
     (case na_agentPods api nodeName w of Inl e \<Rightarrow> Inl e | Inr ps \<Rightarrow> Inr (int (length ps)))"

definition listAgentPodsOnNode :: "'w node_api \<Rightarrow> string \<Rightarrow> 'w \<Rightarrow> string + agent list" where
  "listAgentPodsOnNode api nodeName w =
     (case na_agentPods api nodeName w of Inl e \<Rightarrow> Inl e | Inr ps \<Rightarrow> Inr (map podToAgent ps))"

definition evictable :: "pod_ref \<Rightarrow> bool" where
  "evictable p \<longleftrightarrow> \<not> pf_deleting p \<and> \<not> list_ex (\<lambda>k. k = ''DaemonSet'') (pf_owners p)"

definition evict :: "'w node_api \<Rightarrow> pod_ref list \<Rightarrow> 'w \<Rightarrow> 'w" where
  "evict api ps w =
     fold (\<lambda>p w. if evictable p then na_deletePod api (pf_namespace p) (pf_name p) w else w) ps w"

text \<open>The pause after the evictions is not modelled; their errors are dropped as in the code.\<close>

definition drainAndDeleteNode :: "'w node_api \<Rightarrow> string \<Rightarrow> 'w \<Rightarrow> string option \<times> 'w" where
  "drainAndDeleteNode api nodeName w =
     (case cordonNode api nodeName w of
        (Some e, w) \<Rightarrow> (Some (''cordon: '' @ e), w)
      | (None, w) \<Rightarrow>
         (case na_allPods api nodeName w of
            Inl e \<Rightarrow> (Some (''list pods on node: '' @ e), w)
          | Inr ps \<Rightarrow>
             (case na_delete api nodeName (evict api ps w) of
                (Some e, w) \<Rightarrow> (Some (''delete node: '' @ e), w)
              | (None, w) \<Rightarrow> (None, w))))"

section \<open>The node manager over the cluster\<close>

definition k8s_node_mgr :: "'w node_api \<Rightarrow> (provision_request \<Rightarrow> 'w \<Rightarrow> string option \<times> 'w) \<Rightarrow> 'w node_mgr" where
  "k8s_node_mgr api provision =
     \<lparr>nm_listNodes = listNodes api, nm_getNode = getNode api,
      nm_getDetail = (\<lambda>name w. map_sum id node_detail.truncate (getNodeDetail api name w)),
      nm_cordon = cordonNode api, nm_uncordon = uncordonNode api,
      nm_countPods = (\<lambda>name w. case countAgentPodsOnNode api name w of Inl _ \<Rightarrow> 0 | Inr n \<Rightarrow> n),
      nm_listPods = (\<lambda>name w. case listAgentPodsOnNode api name w of Inl _ \<Rightarrow> [] | Inr as \<Rightarrow> as),
      nm_drain = drainAndDeleteNode api, nm_provision = provision\<rparr>"

section \<open>A log of the changes\<close>

datatype node_op = OpUpdate k8s_node | OpDeletePod string string | OpDeleteNode string

definition logged_nodes :: "'w node_api \<Rightarrow> ('w \<times> node_op list) node_api" where
  "logged_nodes api =
     \<lparr>na_list = (\<lambda>(w, l). na_list api w), na_get = (\<lambda>n (w, l). na_get api n w),
      na_update = (\<lambda>n (w, l). let (r, w) = na_update api n w in (r, (w, l @ [OpUpdate n]))),
      na_delete = (\<lambda>n (w, l). let (r, w) = na_delete api n w in (r, (w, l @ [OpDeleteNode n]))),
      na_metrics = (\<lambda>(w, l). na_metrics api w), na_agentPods = (\<lambda>n (w, l). na_agentPods api n w),
      na_allPods = (\<lambda>n (w, l). na_allPods api n w),
      na_deletePod = (\<lambda>ns n (w, l). (na_deletePod api ns n w, l @ [OpDeletePod ns n]))\<rparr>"

lemma logged_sel [simp]:
  "na_get (logged_nodes api) n (w, l) = na_get api n w"
  "na_update (logged_nodes api) x (w, l) = (fst (na_update api x w), (snd (na_update api x w), l @ [OpUpdate x]))"
  "na_delete (logged_nodes api) n (w, l) = (fst (na_delete api n w), (snd (na_delete api n w), l @ [OpDeleteNode n]))"
  "na_allPods (logged_nodes api) n (w, l) = na_allPods api n w"
  "na_deletePod (logged_nodes api) ns n (w, l) = (na_deletePod api ns n w, l @ [OpDeletePod ns n])"
  by (simp_all add: logged_nodes_def split_beta)

definition evictions :: "pod_ref list \<Rightarrow> node_op list" where
  "evictions ps = map (\<lambda>p. OpDeletePod (pf_namespace p) (pf_name p)) (filter evictable ps)"

lemma logged_evict: "evict (logged_nodes api) ps (w, l) = (evict api ps w, l @ evictions ps)"
  unfolding evict_def evictions_def by (induction ps arbitrary: w l) simp_all

lemma logged_change:
  "change_node (logged_nodes api) name f (w, l) =
     (case na_get api name w of
        Inl e \<Rightarrow> (Some (get_error name e), (w, l))
      | Inr n \<Rightarrow> (fst (na_update api (f n) w), (snd (na_update api (f n) w), l @ [OpUpdate (f n)])))"
  by (simp add: change_node_def split: sum.split)

section \<open>Reading back changes\<close>

definition serves_nodes :: "'w node_api \<Rightarrow> bool" where
  "serves_nodes api \<longleftrightarrow>
     (\<forall>n w. fst (na_update api n w) = None \<longrightarrow> na_get api (kd_name n) (snd (na_update api n w)) = Inr n) \<and>
     (\<forall>i n w. na_get api i w = Inr n \<longrightarrow> kd_name n = i)"

lemma serves_nodesD:
  assumes "serves_nodes api"
  shows "fst (na_update api n w) = None \<Longrightarrow> na_get api (kd_name n) (snd (na_update api n w)) = Inr n"
    and "na_get api i w = Inr n \<Longrightarrow> kd_name n = i"
  using assms unfolding serves_nodes_def by blast+

lemma change_read_back:
  assumes "serves_nodes api" and "fst (change_node api name f w) = None" and "\<And>n. kd_name (f n) = kd_name n"
  shows "\<exists>n. na_get api name w = Inr n \<and> na_get api name (snd (change_node api name f w)) = Inr (f n)"
proof (cases "na_get api name w")
  case (Inl e)
  with assms(2) show ?thesis by (simp add: change_node_def)
next
  case (Inr n)
  then have "kd_name (f n) = name" using serves_nodesD(2) [OF assms(1)] assms(3) by simp
  with Inr show ?thesis
    using serves_nodesD(1) [OF assms(1), of "f n" w] assms(2) by (simp add: change_node_def)
qed

section \<open>Examples\<close>

definition no_resources :: k8s_resources where
  "no_resources = \<lparr>rs_cpuMilli = 0, rs_memory = 0, rs_ephemeral = 0, rs_pods = 0\<rparr>"

definition demo_k8s_node :: "string \<Rightarrow> k8s_node" where
  "demo_k8s_node name =
     \<lparr>kd_name = name, kd_labels = [], kd_unschedulable = False, kd_taints = [], kd_conditions = [],
      kd_addresses = [(''InternalIP'', ''10.0.0.7'')], kd_capacity = no_resources, kd_allocatable = no_resources,
      kd_kubelet = ''v1.31''\<rparr>"

type_synonym demo_cluster = "string \<rightharpoonup> k8s_node"

definition demo_nodes :: "demo_cluster node_api" where
  "demo_nodes =
     \<lparr>na_list = (\<lambda>w. Inr []),
      na_get = (\<lambda>i w. case w i of None \<Rightarrow> Inl ''not found'' | Some n \<Rightarrow> Inr (n\<lparr>kd_name := i\<rparr>)),
      na_update = (\<lambda>n w. (None, w(kd_name n \<mapsto> n))), na_delete = (\<lambda>i w. (None, w(i := None))),
      na_metrics = (\<lambda>w. None), na_agentPods = (\<lambda>n w. Inr []),
      na_allPods = (\<lambda>n w. Inr [\<lparr>pf_namespace = ''kube-system'', pf_name = ''proxy'', pf_deleting = False,
                                  pf_owners = [''DaemonSet'']\<rparr>,
                                \<lparr>pf_namespace = ''convocate-agents'', pf_name = ''agent-a'', pf_deleting = False,
                                  pf_owners = []\<rparr>]),
      na_deletePod = (\<lambda>ns n w. w)\<rparr>"

lemma demo_serves_nodes: "serves_nodes demo_nodes"
  by (auto simp: serves_nodes_def demo_nodes_def split: option.splits)

section \<open>Properties\<close>

text \<open>
  C26: removing a node from the cluster keeps its order whatever fails: the node is cordoned first,
  then every pod on it that is not already on its way out and belongs to no daemon set is
  deleted, and the node object goes last and only after all of these; when the removal reports
  success exactly these changes were made.
\<close>

theorem drain_in_order:
  assumes "na_get api name w = Inr n" and "w1 = snd (na_update api (n\<lparr>kd_unschedulable := True\<rparr>) w)"
    and "na_allPods api name w1 = Inr ps"
  shows "let (err, (w', l)) = drainAndDeleteNode (logged_nodes api) name (w, []);
             steps = [OpUpdate (n\<lparr>kd_unschedulable := True\<rparr>)] @ evictions ps @ [OpDeleteNode name]
    in (l = steps \<or> l = [OpUpdate (n\<lparr>kd_unschedulable := True\<rparr>)]) \<and> (err = None \<longrightarrow> l = steps) \<and>
       (OpDeleteNode name \<in> set l \<longrightarrow> fst (cordonNode api name w) = None)"
proof -
  let ?n = "n\<lparr>kd_unschedulable := True\<rparr>"
  have cordon: "cordonNode (logged_nodes api) name (w, []) = (fst (na_update api ?n w), (w1, [OpUpdate ?n]))"
    by (simp add: cordonNode_def logged_change assms(1,2))
  have plain: "fst (cordonNode api name w) = fst (na_update api ?n w)"
    by (simp add: cordonNode_def change_node_def assms(1))
  show ?thesis
  proof (cases "fst (na_update api ?n w)")
    case (Some e)
    then show ?thesis using cordon by (simp add: drainAndDeleteNode_def)
  next
    case None
    have "drainAndDeleteNode (logged_nodes api) name (w, []) =
      (case fst (na_delete api name (evict api ps w1)) of
         Some e \<Rightarrow> (Some (''delete node: '' @ e), (snd (na_delete api name (evict api ps w1)),
                     [OpUpdate ?n] @ evictions ps @ [OpDeleteNode name]))
       | None \<Rightarrow> (None, (snd (na_delete api name (evict api ps w1)),
                     [OpUpdate ?n] @ evictions ps @ [OpDeleteNode name])))"
      using cordon None assms(3) by (simp add: drainAndDeleteNode_def logged_evict split: option.split)
    then show ?thesis using None plain by (simp add: Let_def split: option.split)
  qed
qed

theorem drain_in_order_witness:
  "snd (snd (drainAndDeleteNode (logged_nodes demo_nodes) ''n1'' ([''n1'' \<mapsto> demo_k8s_node ''n1''], []))) =
     [OpUpdate ((demo_k8s_node ''n1'')\<lparr>kd_unschedulable := True\<rparr>), OpDeletePod ''convocate-agents'' ''agent-a'',
      OpDeleteNode ''n1'']"
proof -
  let ?w = "[''n1'' \<mapsto> demo_k8s_node ''n1'']" and ?n = "demo_k8s_node ''n1''"
  have get: "na_get demo_nodes ''n1'' ?w = Inr ?n" by (simp add: demo_nodes_def demo_k8s_node_def)
  have pods: "na_allPods demo_nodes ''n1'' w = Inr [\<lparr>pf_namespace = ''kube-system'', pf_name = ''proxy'',
      pf_deleting = False, pf_owners = [''DaemonSet'']\<rparr>, \<lparr>pf_namespace = ''convocate-agents'',
      pf_name = ''agent-a'', pf_deleting = False, pf_owners = []\<rparr>]" for w
    by (simp add: demo_nodes_def)
  have ok: "fst (na_update demo_nodes x v) = None" "fst (na_delete demo_nodes i v) = None" for x i v
    by (simp_all add: demo_nodes_def)
  have done': "fst (drainAndDeleteNode (logged_nodes demo_nodes) ''n1'' (?w, [])) = None"
    by (simp add: drainAndDeleteNode_def cordonNode_def logged_change logged_evict get pods ok)
  show ?thesis
    using drain_in_order [OF get refl pods] done' by (simp add: split_beta Let_def evictions_def evictable_def)
qed

text \<open>
  Stopping a node over the cluster and starting it again leaves the node as it was, and in
  between it is reported as disabled for scheduling; this needs that the API server stores what
  it is sent.
\<close>

theorem cordon_and_back:
  assumes "serves_nodes api" and "na_get api name w = Inr n" and "\<not> kd_unschedulable n"
    and "cordonNode api name w = (None, w1)" and "uncordonNode api name w1 = (None, w2)"
  shows "(\<exists>m. getNode api name w1 = Inr m \<and> nd_status m = ''SchedulingDisabled'') \<and> na_get api name w2 = Inr n"
proof -
  have "na_get api name w1 = Inr (n\<lparr>kd_unschedulable := True\<rparr>)"
    using change_read_back [OF assms(1), of name "\<lambda>n. n\<lparr>kd_unschedulable := True\<rparr>" w] assms(2,4)
    by (simp add: cordonNode_def)
  moreover from this have "na_get api name w2 = Inr (n\<lparr>kd_unschedulable := False\<rparr>)"
    using change_read_back [OF assms(1), of name "\<lambda>n. n\<lparr>kd_unschedulable := False\<rparr>" w1] assms(5)
    by (simp add: uncordonNode_def)
  moreover have "n\<lparr>kd_unschedulable := False\<rparr> = n" using assms(3) by simp
  ultimately show ?thesis
    by (simp add: getNode_def k8sNodeToNode_def node_status_def Let_def split_beta)
qed

theorem cordon_and_back_witness:
  "\<exists>w1 w2. cordonNode demo_nodes ''n1'' [''n1'' \<mapsto> demo_k8s_node ''n1''] = (None, w1) \<and>
     uncordonNode demo_nodes ''n1'' w1 = (None, w2) \<and> na_get demo_nodes ''n1'' w2 = Inr (demo_k8s_node ''n1'')"
proof -
  let ?w = "[''n1'' \<mapsto> demo_k8s_node ''n1'']" and ?n = "demo_k8s_node ''n1''"
  have get: "na_get demo_nodes ''n1'' ?w = Inr ?n" by (simp add: demo_nodes_def demo_k8s_node_def)
  obtain w1 where c: "cordonNode demo_nodes ''n1'' ?w = (None, w1)" and w1: "w1 ''n1'' \<noteq> None"
    by (simp add: cordonNode_def change_node_def get) (simp add: demo_nodes_def demo_k8s_node_def)
  then obtain w2 where u: "uncordonNode demo_nodes ''n1'' w1 = (None, w2)"
    by (auto simp: uncordonNode_def change_node_def demo_nodes_def)
  have "\<not> kd_unschedulable ?n" by (simp add: demo_k8s_node_def)
  from cordon_and_back [OF demo_serves_nodes get this c u] c u show ?thesis by blast
qed

section \<open>Reading quantities\<close>

lemma digits_chars: "\<forall>c \<in> set (digits n). dec_digit c"
proof (induction n rule: digits.induct)
  case (1 n)
  have one: "dec_digit (digit_char d)" if "d < 10" for d
    using that by (auto simp: digit_char_def dec_digit_def)
  show ?case
    by (subst digits.simps) (use 1 one in auto)
qed

lemma digits_not_empty: "digits n \<noteq> []"
  by (subst digits.simps) simp

lemma scan_digits:
  assumes "u = [] \<or> \<not> dec_digit (hd u)"
  shows "scan_d (digits n @ u) = (if n < 2 ^ 63 then word_of_nat n else 0)"
proof -
  obtain c cs where ds: "digits n = c # cs" using digits_not_empty [of n] by (cases "digits n") auto
  then have "dec_digit c" using digits_chars [of n] by simp
  then have "c \<noteq> CHR '' ''" "c \<noteq> CHR 0x09" "c \<noteq> CHR ''-''" "c \<noteq> CHR ''+''" by (auto simp: dec_digit_def)
  then have sg: "sign_of (skip_blanks (digits n @ u)) = (1, digits n @ u)"
    by (simp add: skip_blanks_def sign_of_def ds)
  have "takeWhile dec_digit u = []" using assms by (cases u) auto
  then have "takeWhile dec_digit (digits n @ u) = digits n"
    using digits_chars [of n] by (simp add: takeWhile_append2)
  with sg show ?thesis using digits_not_empty [of n] by (auto simp: scan_d_def)
qed

lemma drop_unit: "drop (length (xs @ [a, b]) - 2) (xs @ [a, b]) = [a, b]" "take (length (xs @ [a, b]) - 2) (xs @ [a, b]) = xs"
  by simp_all

lemma sint_small: "n < 2 ^ 63 \<Longrightarrow> sint (word_of_nat n :: 64 word) = int n"
  using sint_sbintrunc' [where ?'a = 64, of "int n"] signed_take_bit_int_eq_self [of 63 "int n"] by simp

text \<open>
  A memory quantity with a binary unit is read as that many bytes in 64 bits, wrapping
  around: from 2 to the 53rd \<open>Ki\<close> on the result is not the quantity any more, and a node of
  exactly that size counts as one without data. Units other than these three are not
  recognised: so many \<open>Ti\<close> are read as so many bytes.
\<close>

theorem quantity_of_bytes:
  assumes "n < 2 ^ 63"
  shows "parseQuantityBytes (digits n @ ''Ki'') = word_of_nat n * 2 ^ 10 \<and>
    parseQuantityBytes (digits n @ ''Mi'') = word_of_nat n * 2 ^ 20 \<and>
    parseQuantityBytes (digits n @ ''Gi'') = word_of_nat n * 2 ^ 30 \<and>
    parseQuantityBytes (digits n @ ''Ti'') = word_of_nat n \<and>
    (n < 2 ^ 53 \<longrightarrow> sint (parseQuantityBytes (digits n @ ''Ki'')) = int n * 1024) \<and>
    (n = 2 ^ 53 \<longrightarrow> sint (parseQuantityBytes (digits n @ ''Ki'')) < 0)"
proof -
  have ends: "scan_d (digits n @ [c, d]) = word_of_nat n" if "\<not> dec_digit c" for c d
    using scan_digits [of "[c, d]" n] that assms by simp
  have "\<not> dec_digit CHR ''T''" by (simp add: dec_digit_def)
  have plain: "scan_d (digits n) = word_of_nat n" using scan_digits [of "[]" n] assms by simp
  note pq = parseQuantityBytes_def Let_def
  have ki: "parseQuantityBytes (digits n @ ''Ki'') = word_of_nat n * 2 ^ 10" using plain by (simp add: pq)
  have "sint (parseQuantityBytes (digits n @ ''Ki'')) = int n * 1024" if "n < 2 ^ 53"
  proof -
    have "word_of_nat n * 2 ^ 10 = (word_of_nat (n * 1024) :: 64 word)" by simp
    moreover have "n * 1024 < 2 ^ 63" using that by simp
    ultimately show ?thesis using ki sint_small [of "n * 1024"] by simp
  qed
  moreover have "sint (parseQuantityBytes (digits n @ ''Ki'')) < 0" if "n = 2 ^ 53"
    using ki that by simp
  moreover have "parseQuantityBytes (digits n @ ''Mi'') = word_of_nat n * 2 ^ 20"
    and "parseQuantityBytes (digits n @ ''Gi'') = word_of_nat n * 2 ^ 30"
    using plain by (simp_all add: pq mult.assoc)
  moreover have "parseQuantityBytes (digits n @ ''Ti'') = word_of_nat n"
    using ends [OF \<open>\<not> dec_digit CHR ''T''\<close>] by (simp add: pq)
  ultimately show ?thesis using ki by blast
qed

theorem quantity_of_bytes_witness:
  "sint (parseQuantityBytes (digits 2048 @ ''Ki'')) = 2097152 \<and> parseQuantityBytes (digits 2 @ ''Ti'') = 2"
  using quantity_of_bytes [of 2048] quantity_of_bytes [of 2] by simp

text \<open>
  A node is reported ready unless it says otherwise: one that carries no \<open>Ready\<close> condition, as a
  node that has just registered, counts as ready.
\<close>

theorem silent_nodes_are_ready:
  "nd_status (k8sNodeToNode n metrics) = ''Ready'' \<longleftrightarrow>
     \<not> kd_unschedulable n \<and> (\<forall>c \<in> set (kd_conditions n). kc_type c \<noteq> ''Ready'' \<or> kc_status c = ''True'')"
  by (auto simp: k8sNodeToNode_def node_status_def Let_def split_beta list_ex_iff)

end
