(* ===== verification/Api_Types.thy ===== *)
theory Api_Types
  imports Cluster_Nodes Tickets Access
begin

text \<open>
  The value sets that \<^verbatim>\<open>internal/types/common.go\<close> enumerates, and how the values that the server shows relate to them. The
  enumerated types are strings in Go and nothing checks a value against its set.
\<close>

definition nodeStatuses :: "string list" where
  "nodeStatuses = [''Ready'', ''NotReady'', ''SchedulingDisabled'']"

definition agentStatuses :: "string list" where
  "agentStatuses = [''running'', ''connected'', ''stopped'', ''migrating'', ''stopping'']"

definition cardStatuses :: "string list" where
  "cardStatuses = [''todo'', ''active'', ''done'', ''fail'', ''note'']"

definition edgeTypes :: "string list" where
  "edgeTypes = [''DependsOn'', ''RelatesTo'']"

definition userStatuses :: "string list" where
  "userStatuses = [''active'', ''disabled'']"

definition visibilities :: "string list" where
  "visibilities = [''private'', ''internal'', ''public'']"

definition prStatuses :: "string list" where
  "prStatuses = [''open'', ''merged'', ''closed'']"

definition checkStatuses :: "string list" where
  "checkStatuses = [''passing'', ''running'', ''failed'']"

definition ticketStatuses :: "string list" where
  "ticketStatuses = [''open'', ''in-progress'', ''resolved'', ''closed'']"

definition ticketPriorities :: "string list" where
  "ticketPriorities = [''low'', ''medium'', ''high'']"

definition identityProviders :: "string list" where
  "identityProviders = [''local'', ''github'']"

lemma users_loop_status:
  "users_loop b w ns = Inr us \<Longrightarrow> list_all (\<lambda>u. us_status u \<in> set userStatuses) us"
proof (induction ns arbitrary: us)
  case (Cons n ns)
  obtain u where u: "getUser b n w = Inr u"
    using Cons.prems by (cases "getUser b n w") simp_all
  obtain vs where vs: "users_loop b w ns = Inr vs" "us = u # vs"
    using Cons.prems u by (cases "users_loop b w ns") auto
  have "us_status u \<in> set userStatuses"
    using u by (auto simp: getUser_def bare_user_def userStatuses_def Let_def split: sum.splits option.splits if_splits)
  with Cons.IH [OF vs(1)] vs(2) show ?case by simp
qed simp

text \<open>
  The nodes and agents that the cluster is shown to have, the users that OpenBao is shown to have, and new
  tickets carry statuses of the enumerations.
\<close>

theorem shown_statuses_enumerated:
  "nd_status (k8sNodeToNode n ms) \<in> set nodeStatuses \<and>
   agt_status (podToAgent pd) \<in> set agentStatuses \<and>
   (case listUsers b w of Inl e \<Rightarrow> True | Inr us \<Rightarrow> list_all (\<lambda>u. us_status u \<in> set userStatuses) us) \<and>
   tkt_status (fst (createTicket now t s)) \<in> set ticketStatuses"
proof (intro conjI)
  have "nd_status (k8sNodeToNode n ms) = node_status n" by (simp add: k8sNodeToNode_def split_beta Let_def)
  then show "nd_status (k8sNodeToNode n ms) \<in> set nodeStatuses" by (simp add: node_status_def nodeStatuses_def)
  show "agt_status (podToAgent pd) \<in> set agentStatuses" by (simp add: podToAgent_def agentStatuses_def)
  show "case listUsers b w of Inl e \<Rightarrow> True | Inr us \<Rightarrow> list_all (\<lambda>u. us_status u \<in> set userStatuses) us"
    using users_loop_status by (auto simp: listUsers_def split: sum.splits)
  show "tkt_status (fst (createTicket now t s)) \<in> set ticketStatuses" by (simp add: createTicket_def ticketStatuses_def Let_def)
qed

text \<open>
  Other values are outside: a node in preparation is \<open>Pending\<close>, one whose provisioning failed \<open>Error\<close>, and every caller
  that the server recognises comes from \<open>openbao\<close>, which is no identity provider of the enumeration.
\<close>

theorem values_not_enumerated:
  "nd_status (fst (ns_create (new_node q ''Pending'') st)) \<notin> set nodeStatuses \<and>
   ''Error'' \<notin> set nodeStatuses \<and>
   list_all (\<lambda>p. p_idp p \<notin> set identityProviders) (map (\<lambda>(e, ps). buildPrincipal rng e ps) xs)"
  by (auto simp: ns_create_def new_node_def nodeStatuses_def identityProviders_def buildPrincipal_def list_all_iff Let_def)

end
