(* ===== verification/Provision_Scripts.thy ===== *)
theory Provision_Scripts
  imports Conv_Prelude
begin

text \<open>
  The shell scripts that \<^verbatim>\<open>ProvisionNode\<close> (\<^verbatim>\<open>internal/k8s/provision.go\<close>) runs on a machine over SSH, as
  the text that is sent, with what the code splices into them.
\<close>

definition dq :: string where
  "dq = [CHR 0x22]"

definition sq :: string where
  "sq = [CHR 0x27]"

definition bs :: string where
  "bs = [CHR 0x5C]"

definition script_lines :: "string list \<Rightarrow> string" where
  "script_lines ls = concat (map (\<lambda>l. l @ [CHR 0x0A]) ls)"

text \<open>
  The password goes between single quotes and the user name into a file name and the rule itself,
  both as they come.
\<close>

definition sudo_setup :: "string \<Rightarrow> string \<Rightarrow> string" where
  "sudo_setup password user =
     ''echo '' @ sq @ password @ sq @ '' | sudo -S sh -c 'echo '' @ dq @ user @ '' ALL=(ALL) NOPASSWD:ALL'' @ dq @ '' > /etc/sudoers.d/'' @ user @ '' && chmod 0440 /etc/sudoers.d/'' @ user @ sq @ '' && echo '' @ dq @ ''[provision] passwordless sudo configured'' @ dq"

text \<open>The base preparation is a constant in which the address of the machine is put in.\<close>

definition base_script :: string where
  "base_script = script_lines [
     ''set -euo pipefail'',
     ''export DEBIAN_FRONTEND=noninteractive'',
     '''',
     ''echo '' @ dq @ ''[provision] disabling swap...'' @ dq,
     ''sudo swapoff -a'',
     ''sudo sed -i '/'' @ bs @ ''sswap'' @ bs @ ''s/s/^/#/' /etc/fstab'',
     '''',
     ''echo '' @ dq @ ''[provision] loading kernel modules...'' @ dq,
     ''echo -e '' @ dq @ ''overlay'' @ bs @ ''nbr_netfilter'' @ dq @ '' | sudo tee /etc/modules-load.d/k8s.conf >/dev/null'',
     ''sudo modprobe overlay'',
     ''sudo modprobe br_netfilter'',
     '''',
     ''echo '' @ dq @ ''[provision] applying sysctl settings...'' @ dq,
     ''cat <<'SYSCTL' | sudo tee /etc/sysctl.d/99-kubernetes-cis.conf >/dev/null'',
     ''net.bridge.bridge-nf-call-iptables  = 1'',
     ''net.bridge.bridge-nf-call-ip6tables = 1'',
     ''net.ipv4.ip_forward                 = 1'',
     ''vm.overcommit_memory = 1'',
     ''vm.panic_on_oom      = 0'',
     ''kernel.panic         = 10'',
     ''kernel.panic_on_oops = 1'',
     ''SYSCTL'',
     ''sudo sysctl --system >/dev/null 2>&1'',
     '''',
     ''echo '' @ dq @ ''[provision] installing base packages...'' @ dq,
     ''sudo apt-get update -qq'',
     ''sudo apt-get install -y -qq apt-transport-https ca-certificates curl gnupg containerd conntrack socat ethtool ebtables >/dev/null'',
     '''',
     ''echo '' @ dq @ ''[provision] configuring containerd...'' @ dq,
     ''sudo mkdir -p /etc/containerd'',
     ''sudo sh -c 'containerd config default > /etc/containerd/config.toml'' @ sq,
     ''sudo sed -i 's/SystemdCgroup = false/SystemdCgroup = true/' /etc/containerd/config.toml'',
     ''sudo systemctl restart containerd'',
     ''sudo systemctl enable containerd'',
     '''',
     ''echo '' @ dq @ ''[provision] adding Kubernetes apt repo...'' @ dq,
     ''sudo mkdir -p /etc/apt/keyrings'',
     ''if [ ! -f /etc/apt/keyrings/kubernetes-apt-keyring.gpg ]; then'',
     ''  curl -fsSL https://pkgs.k8s.io/core:/stable:/v1.31/deb/Release.key | sudo gpg --batch --yes --dearmor -o /etc/apt/keyrings/kubernetes-apt-keyring.gpg 2>/dev/null'',
     ''fi'',
     ''echo 'deb [signed-by=/etc/apt/keyrings/kubernetes-apt-keyring.gpg] https://pkgs.k8s.io/core:/stable:/v1.31/deb/ /' | sudo tee /etc/apt/sources.list.d/kubernetes.list >/dev/null'',
     '''',
     ''echo '' @ dq @ ''[provision] installing kubeadm, kubelet, kubectl...'' @ dq,
     ''sudo apt-get update -qq'',
     ''sudo apt-get install -y -qq kubelet=1.31.14-1.1 kubeadm=1.31.14-1.1 kubectl=1.31.14-1.1 >/dev/null 2>&1'',
     ''sudo apt-mark hold kubelet kubeadm kubectl >/dev/null 2>&1'',
     '''',
     ''echo '' @ dq @ ''[provision] setting kubelet node-ip...'' @ dq,
     ''echo '' @ dq @ ''KUBELET_EXTRA_ARGS=--node-ip=NODE_IP_PLACEHOLDER'' @ dq @ '' | sudo tee /etc/default/kubelet >/dev/null'',
     ''sudo systemctl enable kubelet'',
     '''',
     ''echo '' @ dq @ ''[provision] base preparation complete'' @ dq]"

definition base_preparation :: "string \<Rightarrow> string" where
  "base_preparation host = replace_all ''NODE_IP_PLACEHOLDER'' host base_script"

definition write_discovery :: "string \<Rightarrow> string" where
  "write_discovery conf = script_lines [
     ''sudo mkdir -p /etc/kubernetes'',
     ''cat > /tmp/discovery.conf << 'DISCOVERY_EOF'' @ sq,
     conf,
     ''DISCOVERY_EOF'',
     ''sudo mv /tmp/discovery.conf /etc/kubernetes/discovery.conf'',
     ''sudo chmod 0600 /etc/kubernetes/discovery.conf'',
     ''echo '' @ dq @ ''[provision] discovery config written'' @ dq]"

definition join_script :: "string \<Rightarrow> string" where
  "join_script token = script_lines [
     ''set -euo pipefail'',
     ''echo '' @ dq @ ''[provision] joining Kubernetes cluster...'' @ dq,
     ''sudo kubeadm join '' @ bs,
     ''  --discovery-file /etc/kubernetes/discovery.conf '' @ bs,
     ''  --tls-bootstrap-token '' @ token @ '' '' @ bs,
     ''  --v=2 2>&1 || { echo '' @ dq @ ''[provision] kubeadm join FAILED with exit $?'' @ dq @ ''; exit 1; }'',
     ''sudo rm -f /etc/kubernetes/discovery.conf'',
     ''echo '' @ dq @ ''[provision] kubeadm join complete'' @ dq]"

definition harden_script :: string where
  "harden_script = script_lines [
     ''set -euo pipefail'',
     ''echo '' @ dq @ ''[provision] applying CIS hardening...'' @ dq,
     '''',
     ''# Kubelet config permissions (CIS 4.1.x)'',
     ''for f in /etc/kubernetes/kubelet.conf /etc/kubernetes/pki/ca.crt; do'',
     ''  if [ -f '' @ dq @ ''$f'' @ dq @ '' ]; then'',
     ''    sudo chmod 0600 '' @ dq @ ''$f'' @ dq,
     ''    sudo chown root:root '' @ dq @ ''$f'' @ dq,
     ''  fi'',
     ''done'',
     '''',
     ''# Ensure kubelet protectKernelDefaults'',
     ''if ! grep -q 'protectKernelDefaults' /var/lib/kubelet/config.yaml 2>/dev/null; then'',
     ''  echo 'protectKernelDefaults: true' | sudo tee -a /var/lib/kubelet/config.yaml >/dev/null'',
     ''  sudo systemctl restart kubelet'',
     ''fi'',
     '''',
     ''echo '' @ dq @ ''[provision] CIS hardening complete'' @ dq]"

end
