(* ===== verification/Provision.thy ===== *)
theory Provision
  imports Cluster_Nodes Middleware Provision_Scripts
begin

text \<open>
  Provisioning a worker node (\<^verbatim>\<open>internal/k8s/provision.go\<close>, \<^verbatim>\<open>internal/k8s/ssh.go\<close>): running scripts over SSH
  with retries, obtaining join credentials from a pod on the control plane, joining, waiting for the
  node, labelling and hardening it.

  A script is a value that names it and holds what the code splices into its text; \<open>render\<close> is the text
  that is sent. What executes scripts and commands, the pod that prints the
  credentials, and the answers to polling are parameters over a state \<open>'w\<close> of the world. Time is in
  milliseconds.
\<close>

section \<open>SSH\<close>

datatype script =
    SudoSetup string string          \<comment> \<open>password, user\<close>
  | BasePreparation string           \<comment> \<open>the address of the node\<close>
  | WriteDiscovery string            \<comment> \<open>the discovery kubeconfig\<close>
  | KubeadmJoin string               \<comment> \<open>the bootstrap token\<close>
  | CisHardening

type_synonym 'w ssh = "string \<Rightarrow> string \<Rightarrow> string \<Rightarrow> script \<Rightarrow> 'w \<Rightarrow> string option \<times> 'w"

fun render :: "script \<Rightarrow> string" where
  "render (SudoSetup password user) = sudo_setup password user"
| "render (BasePreparation host) = base_preparation host"
| "render (WriteDiscovery conf) = write_discovery conf"
| "render (KubeadmJoin token) = join_script token"
| "render CisHardening = harden_script"

text \<open>
  \<open>sshExecReal\<close>: the command line, and the error made of the outcome of running it, which is output
  and error. A port in the address is cut off.
\<close>

definition host_only :: "string \<Rightarrow> string" where
  "host_only host =
     (let addr = (if CHR '':'' \<in> set host then host else host @ '':22'') in hd (split_on CHR '':'' addr))"

definition ssh_argv :: "string \<Rightarrow> string \<Rightarrow> string \<Rightarrow> script \<Rightarrow> string list" where
  "ssh_argv host user password s =
     [''sshpass'', ''-p'', password, ''ssh'', ''-o'', ''StrictHostKeyChecking=no'', ''-o'',
      ''UserKnownHostsFile=/dev/null'', ''-o'', ''ConnectTimeout=10'', ''-o'', ''ServerAliveInterval=30'',
      user @ ''@'' @ host_only host, render s]"

definition sshExecReal :: "(string list \<Rightarrow> 'w \<Rightarrow> (string \<times> string option) \<times> 'w) \<Rightarrow> 'w ssh" where
  "sshExecReal run host user password s w =
     (let ((output', err), w) = run (ssh_argv host user password s) w
      in case err of
           None \<Rightarrow> (None, w)
         | Some e \<Rightarrow> (Some (''ssh exec on '' @ host_only host @ '': '' @ e @ [CHR 0x0A] @ ''output: '' @ output'), w))"

text \<open>\<open>sshExecRetry\<close>; the pauses between the attempts are not modelled.\<close>

fun sshExecRetry :: "nat \<Rightarrow> ('w \<Rightarrow> string option \<times> 'w) \<Rightarrow> 'w \<Rightarrow> string option \<times> 'w" where
  "sshExecRetry 0 f w = (None, w)"
| "sshExecRetry (Suc n) f w =
     (case f w of
        (None, w) \<Rightarrow> (None, w)
      | (Some e, w) \<Rightarrow> if n = 0 then (Some e, w) else sshExecRetry n f w)"

section \<open>Join credentials\<close>

text \<open>
  \<open>jp_phase k\<close> and \<open>jp_took k\<close> are what the \<open>k\<close>th look at the pod finds and how long it takes; \<open>jp_logs k\<close> are
  the logs after \<open>k\<close> looks.
\<close>

record 'w join_pod =
  jp_create :: "'w \<Rightarrow> string option \<times> 'w"
  jp_phase :: "'w \<Rightarrow> nat \<Rightarrow> string option"
  jp_took :: "nat \<Rightarrow> nat"
  jp_logs :: "nat \<Rightarrow> 'w \<Rightarrow> string + string"
  jp_delete :: "'w \<Rightarrow> 'w"

text \<open>The number of looks until the pod has ended or the time is up.\<close>

function wait_pod :: "(nat \<Rightarrow> string option) \<Rightarrow> (nat \<Rightarrow> nat) \<Rightarrow> nat \<Rightarrow> nat \<Rightarrow> nat \<Rightarrow> nat" where
  "wait_pod phase took deadline now k =
     (if now < deadline
      then if phase k = Some ''Succeeded'' \<or> phase k = Some ''Failed'' then Suc k
           else wait_pod phase took deadline (now + took k + 2000) (Suc k)
      else k)"
  by pat_completeness auto
termination by (relation "measure (\<lambda>(phase, took, deadline, now, k). deadline - now)") auto

declare wait_pod.simps [simp del]

definition getJoinCommandViaJob :: "'w join_pod \<Rightarrow> 'w \<Rightarrow> (string + string) \<times> 'w" where
  "getJoinCommandViaJob jp w =
     (case jp_create jp w of
        (Some e, w) \<Rightarrow> (Inl (''create join-token pod: '' @ e), w)
      | (None, w) \<Rightarrow>
          case jp_logs jp (wait_pod (jp_phase jp w) (jp_took jp) 120000 0 0) w of
            Inl e \<Rightarrow> (Inl (''get join-token logs: '' @ e), jp_delete jp w)
          | Inr raw \<Rightarrow>
              let out' = trim_spaces raw
              in (if contains out' ''TOKEN='' then Inr out' else Inl (''unexpected join output: '' @ out'),
                  jp_delete jp w))"

lemma wait_pod_bound: "deadline \<le> now + 2000 * m \<Longrightarrow> wait_pod phase took deadline now k \<le> k + m"
proof (induction m arbitrary: now k)
  case 0
  then show ?case by (subst wait_pod.simps) simp
next
  case (Suc m)
  then have "wait_pod phase took deadline (now + took k + 2000) (Suc k) \<le> Suc k + m"
    by (intro Suc.IH) simp
  then show ?case by (subst wait_pod.simps) simp
qed

text \<open>The pod is looked at at most sixty times, and deleted whatever became of it.\<close>

lemma join_pod_looks: "wait_pod phase took 120000 0 0 \<le> 60"
  using wait_pod_bound [of 120000 0 60 phase took 0] by simp

lemma join_pod_deleted:
  "jp_create jp w = (None, w') \<Longrightarrow> snd (getJoinCommandViaJob jp w) = jp_delete jp w'"
  by (simp add: getJoinCommandViaJob_def Let_def split: sum.split)

text \<open>The token is that of the last line that has one, the configuration starts at \<open>apiVersion:\<close>.\<close>

definition join_token :: "string \<Rightarrow> string" where
  "join_token out' =
     fold (\<lambda>line token. if prefix ''TOKEN='' line then drop 6 line else token) (split_on CHR 0x0A out') ''''"

fun from_first :: "string \<Rightarrow> string \<Rightarrow> string" where
  "from_first sub [] = (if sub = [] then [] else '''')"
| "from_first sub (c # s) = (if prefix sub (c # s) then c # s else from_first sub s)"

definition join_conf :: "string \<Rightarrow> string" where
  "join_conf out' = from_first ''apiVersion:'' out'"

section \<open>Waiting for the node\<close>

definition ready_with_ip :: "string \<Rightarrow> k8s_node list \<Rightarrow> string option" where
  "ready_with_ip ip ns =
     map_option kd_name
       (find (\<lambda>n. list_ex (\<lambda>a. snd a = ip) (kd_addresses n) \<and>
                   list_ex (\<lambda>c. kc_type c = ''Ready'' \<and> kc_status c = ''True'') (kd_conditions n)) ns)"

text \<open>
  \<open>answers k\<close> and \<open>took k\<close> are the answer of the \<open>k\<close>th listing and the time it took.
\<close>

function poll_node :: "(nat \<Rightarrow> string + k8s_node list) \<Rightarrow> (nat \<Rightarrow> nat) \<Rightarrow> string \<Rightarrow> nat \<Rightarrow> nat \<Rightarrow> nat \<Rightarrow> string + string" where
  "poll_node answers took ip deadline now k =
     (if now < deadline
      then (case answers k of
              Inl e \<Rightarrow> poll_node answers took ip deadline (now + took k + 5000) (Suc k)
            | Inr ns \<Rightarrow>
               (case ready_with_ip ip ns of
                  Some name \<Rightarrow> Inr name
                | None \<Rightarrow> poll_node answers took ip deadline (now + took k + 5000) (Suc k)))
      else Inl (''timed out waiting for node with IP '' @ ip))"
  by pat_completeness auto
termination by (relation "measure (\<lambda>(answers, took, ip, deadline, now, k). deadline - now)") auto

declare poll_node.simps [simp del]

definition waitForNodeByIP :: "(nat \<Rightarrow> string + k8s_node list) \<Rightarrow> (nat \<Rightarrow> nat) \<Rightarrow> string \<Rightarrow> nat \<Rightarrow> string + string" where
  "waitForNodeByIP answers took ip timeout = poll_node answers took ip timeout 0 0"

section \<open>Provisioning\<close>

record 'w provisioner =
  pv_ssh :: "'w ssh"
  pv_join :: "'w \<Rightarrow> (string + string) \<times> 'w"
  pv_answers :: "'w \<Rightarrow> nat \<Rightarrow> string + k8s_node list"
  pv_took :: "nat \<Rightarrow> nat"
  pv_nodes :: "'w node_api"

definition provision_user :: "provision_request \<Rightarrow> string" where
  "provision_user req = (if pq_user req = '''' then ''convocate'' else pq_user req)"

definition run_script :: "'w provisioner \<Rightarrow> provision_request \<Rightarrow> script \<Rightarrow> 'w \<Rightarrow> string option \<times> 'w" where
  "run_script pv req s = pv_ssh pv (pq_host req) (provision_user req) (pq_password req) s"

text \<open>Steps 0 and 1: sudo without a password, when one was given, and the base preparation.\<close>

definition prepare_machine :: "'w provisioner \<Rightarrow> provision_request \<Rightarrow> 'w \<Rightarrow> string option \<times> 'w" where
  "prepare_machine pv req w =
     (case (if pq_password req \<noteq> ''''
            then sshExecRetry 6 (run_script pv req (SudoSetup (pq_password req) (provision_user req))) w
            else (None, w)) of
        (Some e, w) \<Rightarrow> (Some (''sudo setup failed: '' @ e), w)
      | (None, w) \<Rightarrow>
         (case sshExecRetry 12 (run_script pv req (BasePreparation (pq_host req))) w of
            (Some e, w) \<Rightarrow> (Some (''base preparation failed: '' @ e), w)
          | (None, w) \<Rightarrow> (None, w)))"

text \<open>Steps 2 and 3: credentials, discovery file, join.\<close>

definition join_machine :: "'w provisioner \<Rightarrow> provision_request \<Rightarrow> 'w \<Rightarrow> string option \<times> 'w" where
  "join_machine pv req w =
     (case pv_join pv w of
        (Inl e, w) \<Rightarrow> (Some (''get join credentials: '' @ e), w)
      | (Inr out', w) \<Rightarrow>
          if join_token out' = '''' \<or> join_conf out' = ''''
          then (Some (''failed to parse join credentials from output: '' @ take 200 out'), w)
          else (case run_script pv req (WriteDiscovery (join_conf out')) w of
                  (Some e, w) \<Rightarrow> (Some (''write discovery config: '' @ e), w)
                | (None, w) \<Rightarrow>
                   (case run_script pv req (KubeadmJoin (join_token out')) w of
                      (Some e, w) \<Rightarrow> (Some (''kubeadm join failed: '' @ e), w)
                    | (None, w) \<Rightarrow> (None, w))))"

text \<open>Steps 5 and 6, whose errors are only logged.\<close>

definition finish_machine :: "'w provisioner \<Rightarrow> provision_request \<Rightarrow> string \<Rightarrow> 'w \<Rightarrow> 'w" where
  "finish_machine pv req nodeName w =
     (let w = (if pq_location req \<noteq> ''''
               then snd (updateNodeLabels (pv_nodes pv) nodeName [(''convocate.io/location'', pq_location req)] w)
               else w)
      in snd (run_script pv req CisHardening w))"

definition provisionNode :: "'w provisioner \<Rightarrow> provision_request \<Rightarrow> 'w \<Rightarrow> string option \<times> 'w" where
  "provisionNode pv req w =
     (case prepare_machine pv req w of
        (Some e, w) \<Rightarrow> (Some e, w)
      | (None, w) \<Rightarrow>
         (case join_machine pv req w of
            (Some e, w) \<Rightarrow> (Some e, w)
          | (None, w) \<Rightarrow>
             (case waitForNodeByIP (pv_answers pv w) (pv_took pv) (pq_host req) 180000 of
                Inl e \<Rightarrow> (Some (''node did not become ready: '' @ e), w)
              | Inr nodeName \<Rightarrow> (None, finish_machine pv req nodeName w))))"

section \<open>A log of the scripts\<close>

type_synonym script_log = "(script \<times> bool) list"

definition lift_nodes :: "'w node_api \<Rightarrow> ('w \<times> script_log) node_api" where
  "lift_nodes api =
     \<lparr>na_list = (\<lambda>(w, l). na_list api w), na_get = (\<lambda>n (w, l). na_get api n w),
      na_update = (\<lambda>n (w, l). let (r, w) = na_update api n w in (r, (w, l))),
      na_delete = (\<lambda>n (w, l). let (r, w) = na_delete api n w in (r, (w, l))),
      na_metrics = (\<lambda>(w, l). na_metrics api w), na_agentPods = (\<lambda>n (w, l). na_agentPods api n w),
      na_allPods = (\<lambda>n (w, l). na_allPods api n w),
      na_deletePod = (\<lambda>ns n (w, l). (na_deletePod api ns n w, l))\<rparr>"

definition logged_provisioner :: "'w provisioner \<Rightarrow> ('w \<times> script_log) provisioner" where
  "logged_provisioner pv =
     \<lparr>pv_ssh = (\<lambda>h u p s (w, l). let (e, w) = pv_ssh pv h u p s w in (e, (w, l @ [(s, e = None)]))),
      pv_join = (\<lambda>(w, l). let (r, w) = pv_join pv w in (r, (w, l))),
      pv_answers = (\<lambda>(w, l). pv_answers pv w), pv_took = pv_took pv, pv_nodes = lift_nodes (pv_nodes pv)\<rparr>"

lemma logged_run:
  "run_script (logged_provisioner pv) req s (w, l) =
     (fst (run_script pv req s w), (snd (run_script pv req s w), l @ [(s, fst (run_script pv req s w) = None)]))"
  by (simp add: run_script_def logged_provisioner_def split_beta)

lemma logged_join: "pv_join (logged_provisioner pv) (w, l) = (fst (pv_join pv w), (snd (pv_join pv w), l))"
  by (simp add: logged_provisioner_def split_beta)

lemma lifted_labels: "snd (snd (updateNodeLabels (lift_nodes api) n ls (w, l))) = l"
  by (simp add: updateNodeLabels_def change_node_def lift_nodes_def split_beta split: sum.split)

text \<open>What a sequence of attempts adds to the log.\<close>

definition attempts :: "nat \<Rightarrow> script \<Rightarrow> bool \<Rightarrow> script_log" where
  "attempts m s ok = replicate m (s, False) @ (if ok then [(s, True)] else [])"

lemma retry_log:
  "\<exists>r w' m. sshExecRetry (Suc n) (run_script (logged_provisioner pv) req s) (w, l) = (r, (w', l @ attempts m s (r = None))) \<and>
     length (attempts m s (r = None)) \<le> Suc n"
proof (induction n arbitrary: w l)
  case 0
  show ?case
  proof (cases "fst (run_script pv req s w)")
    case None
    then show ?thesis
      by (intro exI [of _ None] exI [of _ "snd (run_script pv req s w)"] exI [of _ 0]) (simp add: logged_run attempts_def)
  next
    case (Some e)
    then show ?thesis
      by (intro exI [of _ "Some e"] exI [of _ "snd (run_script pv req s w)"] exI [of _ 1]) (simp add: logged_run attempts_def)
  qed
next
  case (Suc n)
  show ?case
  proof (cases "fst (run_script pv req s w)")
    case None
    then show ?thesis
      by (intro exI [of _ None] exI [of _ "snd (run_script pv req s w)"] exI [of _ 0]) (simp add: logged_run attempts_def)
  next
    case (Some e)
    obtain r w' m where ih: "sshExecRetry (Suc n) (run_script (logged_provisioner pv) req s)
        (snd (run_script pv req s w), l @ [(s, False)]) = (r, (w', (l @ [(s, False)]) @ attempts m s (r = None)))"
      and len: "length (attempts m s (r = None)) \<le> Suc n"
      using Suc [of "snd (run_script pv req s w)" "l @ [(s, False)]"] by blast
    have step: "sshExecRetry (Suc (Suc n)) f x = (case f x of (None, x) \<Rightarrow> (None, x) | (Some e, x) \<Rightarrow> sshExecRetry (Suc n) f x)"
      for f and x :: "'a \<times> script_log" by (simp only: sshExecRetry.simps(2) nat.distinct if_False)
    have "sshExecRetry (Suc (Suc n)) (run_script (logged_provisioner pv) req s) (w, l) =
        (r, (w', l @ attempts (Suc m) s (r = None)))"
      unfolding step using Some ih by (simp add: logged_run attempts_def del: sshExecRetry.simps)
    moreover have "length (attempts (Suc m) s (r = None)) \<le> Suc (Suc n)" using len by (simp add: attempts_def)
    ultimately show ?thesis by blast
  qed
qed

lemma good_attempts: "map fst (filter snd (attempts m s ok)) = (if ok then [s] else [])"
  by (simp add: attempts_def)

definition sudo_scripts :: "provision_request \<Rightarrow> script list" where
  "sudo_scripts req =
     (if pq_password req \<noteq> '''' then [SudoSetup (pq_password req) (provision_user req)] else [])"

definition good :: "script_log \<Rightarrow> script list" where
  "good l = map fst (filter snd l)"

lemma good_append [simp]: "good (l @ l') = good l @ good l'"
  by (simp add: good_def)

lemma prepare_log:
  "\<exists>r w' l. prepare_machine (logged_provisioner pv) req (w, []) = (r, (w', l)) \<and> length l \<le> 18 \<and>
     (r = None \<longrightarrow> good l = sudo_scripts req @ [BasePreparation (pq_host req)]) \<and>
     (\<forall>t b. (KubeadmJoin t, b) \<notin> set l)"
proof -
  let ?pv = "logged_provisioner pv" and ?s = "SudoSetup (pq_password req) (provision_user req)"
  let ?b = "BasePreparation (pq_host req)"
  obtain r0 w0 l0 where first: "(if pq_password req \<noteq> '''' then sshExecRetry 6 (run_script ?pv req ?s) (w, []) else (None, (w, []))) =
      (r0, (w0, l0))" and l0: "length l0 \<le> 6" "r0 = None \<Longrightarrow> good l0 = sudo_scripts req" "\<forall>t b. (KubeadmJoin t, b) \<notin> set l0"
  proof (cases "pq_password req = ''''")
    case True
    then show thesis by (intro that [of None w "[]"]) (simp_all add: good_def sudo_scripts_def)
  next
    case False
    obtain r w' m where "sshExecRetry (Suc 5) (run_script ?pv req ?s) (w, []) = (r, (w', [] @ attempts m ?s (r = None)))"
      "length (attempts m ?s (r = None)) \<le> Suc 5" using retry_log [of 5 pv req ?s w "[]"] by blast
    with False show thesis
      by (intro that [of r w' "attempts m ?s (r = None)"])
        (auto simp: good_def good_attempts sudo_scripts_def attempts_def numeral_eq_Suc simp del: sshExecRetry.simps)
  qed
  show ?thesis
  proof (cases r0)
    case (Some e)
    then show ?thesis using first l0 by (auto simp: prepare_machine_def simp del: sshExecRetry.simps)
  next
    case None
    obtain r w' m where base: "sshExecRetry (Suc 11) (run_script ?pv req ?b) (w0, l0) = (r, (w', l0 @ attempts m ?b (r = None)))"
      and len: "length (attempts m ?b (r = None)) \<le> Suc 11" using retry_log [of 11 pv req ?b w0 l0] by blast
    have eq: "prepare_machine ?pv req (w, []) = (case sshExecRetry 12 (run_script ?pv req ?b) (w0, l0) of
        (Some e, w) \<Rightarrow> (Some (''base preparation failed: '' @ e), w) | (None, w) \<Rightarrow> (None, w))"
      using first None by (simp add: prepare_machine_def del: sshExecRetry.simps)
    have twelve: "(12 :: nat) = Suc 11" by simp
    have "prepare_machine ?pv req (w, []) =
        (map_option ((@) ''base preparation failed: '') r, (w', l0 @ attempts m ?b (r = None)))"
      unfolding eq twelve base by (simp split: option.split)
    moreover have "length (l0 @ attempts m ?b (r = None)) \<le> 18" using l0(1) len by simp
    moreover have "good (l0 @ attempts m ?b (r = None)) = sudo_scripts req @ [?b]" if "r = None"
      using l0(2) [OF None] that by (simp add: good_def good_attempts)
    moreover have "\<forall>t b. (KubeadmJoin t, b) \<notin> set (l0 @ attempts m ?b (r = None))"
      using l0(3) by (simp add: attempts_def)
    ultimately show ?thesis by auto
  qed
qed

lemma join_log:
  "\<exists>r w' l'. join_machine (logged_provisioner pv) req (w, l) = (r, (w', l @ l')) \<and> length l' \<le> 2 \<and>
     (r = None \<longrightarrow> (\<exists>out' wj. pv_join pv w = (Inr out', wj) \<and>
        good l' = [WriteDiscovery (join_conf out'), KubeadmJoin (join_token out')]))"
proof -
  let ?pv = "logged_provisioner pv"
  obtain j wj where j: "pv_join pv w = (j, wj)" by fastforce
  show ?thesis
  proof (cases j)
    case (Inl e)
    then show ?thesis by (intro exI [of _ "Some _"] exI [of _ wj] exI [of _ "[]"]) (simp add: join_machine_def logged_join j)
  next
    case (Inr out')
    let ?d = "WriteDiscovery (join_conf out')" and ?k = "KubeadmJoin (join_token out')"
    obtain e1 w1 where d: "run_script pv req ?d wj = (e1, w1)" by fastforce
    obtain e2 w2 where k: "run_script pv req ?k w1 = (e2, w2)" by fastforce
    note defs = join_machine_def logged_join j Inr logged_run d k good_def
    consider "join_token out' = '''' \<or> join_conf out' = ''''" | e where "join_token out' \<noteq> ''''" "join_conf out' \<noteq> ''''" "e1 = Some e"
      | e where "join_token out' \<noteq> ''''" "join_conf out' \<noteq> ''''" "e1 = None" "e2 = Some e"
      | "join_token out' \<noteq> ''''" "join_conf out' \<noteq> ''''" "e1 = None" "e2 = None"
      by (cases e1; cases e2) auto
    then show ?thesis
    proof cases
      case 1
      then show ?thesis by (intro exI [of _ "Some _"] exI [of _ wj] exI [of _ "[]"]) (simp add: defs)
    next
      case 2
      then show ?thesis by (intro exI [of _ "Some _"] exI [of _ w1] exI [of _ "[(?d, False)]"]) (simp add: defs)
    next
      case 3
      then show ?thesis by (intro exI [of _ "Some _"] exI [of _ w2] exI [of _ "[(?d, True), (?k, False)]"]) (simp add: defs)
    next
      case 4
      then show ?thesis by (intro exI [of _ None] exI [of _ w2] exI [of _ "[(?d, True), (?k, True)]"]) (simp add: defs)
    qed
  qed
qed

lemma finish_log:
  "\<exists>w' b. finish_machine (logged_provisioner pv) req name (w, l) = (w', l @ [(CisHardening, b)])"
proof -
  obtain w1 l1 where f: "(if pq_location req \<noteq> '''' then snd (updateNodeLabels (pv_nodes (logged_provisioner pv)) name
      [(''convocate.io/location'', pq_location req)] (w, l)) else (w, l)) = (w1, l1)" by (cases "pq_location req = ''''") fastforce+
  have "l1 = l" using f by (auto simp: logged_provisioner_def split: if_splits dest: arg_cong [of _ _ snd] simp: lifted_labels)
  with f show ?thesis by (simp add: finish_machine_def logged_run)
qed

section \<open>Properties of provisioning\<close>

lemma poll_bounded:
  assumes "\<And>i. i < k + m \<Longrightarrow> answers' i = answers i" and "deadline \<le> now + 5000 * m"
  shows "poll_node answers' took ip deadline now k = poll_node answers took ip deadline now k"
  using assms
proof (induction m arbitrary: now k)
  case 0
  then show ?case by (subst (1 2) poll_node.simps) simp
next
  case (Suc m)
  have ih: "poll_node answers' took ip deadline (now + took k + 5000) (Suc k) = poll_node answers took ip deadline (now + took k + 5000) (Suc k)"
    by (rule Suc.IH) (use Suc.prems in simp_all)
  show ?case by (subst (1 2) poll_node.simps) (simp only: ih Suc.prems(1) [of k] add_less_cancel_left less_add_same_cancel1 zero_less_Suc)
qed

lemma poll_found:
  "poll_node answers took ip deadline now k = Inr name \<Longrightarrow> \<exists>i ns. answers i = Inr ns \<and> ready_with_ip ip ns = Some name"
proof (induction answers took ip deadline now k rule: poll_node.induct)
  case (1 answers took ip deadline now k)
  from "1.prems" show ?case
    by (subst (asm) poll_node.simps) (use "1.IH" in \<open>auto split: if_splits sum.splits option.splits\<close>)
qed

text \<open>
  C27: waiting for a node ends: with the three minutes the provisioning allows, \<^verbatim>\<open>waitForNodeByIP\<close>
  asks at most thirty-six times, whatever the API server answers and however long it takes, so
  no later answer has a part in its result.
\<close>

theorem wait_bounded:
  "waitForNodeByIP (\<lambda>i. answers (min i 35)) took ip 180000 = waitForNodeByIP answers took ip 180000"
  unfolding waitForNodeByIP_def by (rule poll_bounded [where m = 36]) simp_all


definition demo_provisioner :: "unit provisioner" where
  "demo_provisioner =
     \<lparr>pv_ssh = (\<lambda>h u p s w. (if s = CisHardening then Some ''exit status 1'' else None, w)),
      pv_join = (\<lambda>w. (Inr (''TOKEN=ab.cd'' @ [CHR 0x0A] @ ''apiVersion: v1''), w)),
      pv_answers = (\<lambda>w i. if i = 0 then Inl ''down''
         else Inr [(demo_k8s_node ''w1'')\<lparr>kd_conditions := [\<lparr>kc_type = ''Ready'', kc_status = ''True'', kc_reason = '''', kc_message = ''''\<rparr>]\<rparr>]),
      pv_took = (\<lambda>i. 20),
      pv_nodes = \<lparr>na_list = (\<lambda>w. Inr []), na_get = (\<lambda>n w. Inl ''none''), na_update = (\<lambda>n w. (None, w)),
        na_delete = (\<lambda>n w. (None, w)), na_metrics = (\<lambda>w. None), na_agentPods = (\<lambda>n w. Inr []),
        na_allPods = (\<lambda>n w. Inr []), na_deletePod = (\<lambda>ns n w. w)\<rparr>\<rparr>"


end
