(* ===== verification/Join_Token.thy ===== *)
theory Join_Token
  imports Provision Jwt
begin

text \<open>
  The join credentials that the server can make itself (\<^verbatim>\<open>generateJoinCredentials\<close> and
  \<^verbatim>\<open>bootstrapTokenSecret\<close> of \<^verbatim>\<open>internal/k8s/provision.go\<close>, \<^verbatim>\<open>computeCertHash\<close> of \<^verbatim>\<open>internal/k8s/ssh.go\<close>) and the
  SSH call that returns the output of a command. Nothing in the program calls them: provisioning asks a
  pod on the control plane (theory \<open>Provision\<close>).

  PEM, X.509 and SHA-256 are parameters, as are the calls to Kubernetes.
\<close>

section \<open>Hexadecimal\<close>

fun hex_nat :: "nat \<Rightarrow> string" where
  "hex_nat n = (if n < 16 then [hex_digit n] else hex_nat (n div 16) @ [hex_digit (n mod 16)])"

declare hex_nat.simps [simp del]

text \<open>
  \<open>fmt.Sprintf(\"%0wx\", n)\<close> of a signed number: the sign counts for the width and stands before the
  zeros.
\<close>

definition sprintf_0x :: "nat \<Rightarrow> int \<Rightarrow> string" where
  "sprintf_0x w n =
     (let h = hex_nat (nat \<bar>n\<bar>)
      in if n < 0 then ''-'' @ replicate (w - 1 - length h) CHR ''0'' @ h
         else replicate (w - length h) CHR ''0'' @ h)"

text \<open>The remainder of Go has the sign of the dividend.\<close>

definition go_rem :: "int \<Rightarrow> int \<Rightarrow> int" where
  "go_rem a m = sgn a * (\<bar>a\<bar> mod \<bar>m\<bar>)"

definition token_char :: "char \<Rightarrow> bool" where
  "token_char c \<longleftrightarrow> (let n = (of_char c :: nat) in 48 \<le> n \<and> n \<le> 57 \<or> 97 \<le> n \<and> n \<le> 122)"

lemma hex_digit_token: "n < 16 \<Longrightarrow> token_char (hex_digit n)"
  by (auto simp: token_char_def hex_digit_def Let_def)

lemma hex_nat_token: "list_all token_char (hex_nat n)"
proof (induction n rule: hex_nat.induct)
  case (1 n)
  show ?case
  proof (cases "n < 16")
    case True
    then show ?thesis by (subst hex_nat.simps) (simp add: hex_digit_token)
  next
    case False
    with 1 show ?thesis by (subst hex_nat.simps) (simp add: hex_digit_token)
  qed
qed

lemma hex_nat_length: "n < 16 ^ Suc k \<Longrightarrow> length (hex_nat n) \<le> Suc k"
proof (induction k arbitrary: n)
  case 0
  then show ?case by (subst hex_nat.simps) simp
next
  case (Suc k)
  have "length (hex_nat (n div 16)) \<le> Suc k"
    by (rule Suc.IH) (use Suc.prems in \<open>simp add: less_mult_imp_div_less\<close>)
  then show ?case by (subst hex_nat.simps) simp
qed

lemma zeros_token: "list_all token_char (replicate m CHR ''0'')"
  by (induction m) (simp_all add: token_char_def)

lemma sprintf_0x_form:
  assumes "0 \<le> n" and "n < 16 ^ Suc k"
  shows "length (sprintf_0x (Suc k) n) = Suc k" and "list_all token_char (sprintf_0x (Suc k) n)"
proof -
  have "nat \<bar>n\<bar> < 16 ^ Suc k"
    using assms by (metis abs_of_nonneg nat_less_iff of_nat_numeral of_nat_power)
  then have "length (hex_nat (nat \<bar>n\<bar>)) \<le> Suc k" by (rule hex_nat_length)
  then show "length (sprintf_0x (Suc k) n) = Suc k"
    using assms(1) by (simp add: sprintf_0x_def Let_def)
  show "list_all token_char (sprintf_0x (Suc k) n)"
    using assms(1) hex_nat_token [of "nat \<bar>n\<bar>"] by (simp add: sprintf_0x_def Let_def zeros_token)
qed

section \<open>Commands with output\<close>

definition ssh_output_argv :: "string \<Rightarrow> string \<Rightarrow> string \<Rightarrow> string \<Rightarrow> string list" where
  "ssh_output_argv host user password cmd =
     [''sshpass'', ''-p'', password, ''ssh'', ''-o'', ''StrictHostKeyChecking=no'', ''-o'',
      ''UserKnownHostsFile=/dev/null'', ''-o'', ''ConnectTimeout=10'', user @ ''@'' @ host_only host, cmd]"

text \<open>\<open>sshExecWithOutputReal\<close> returns what came out also when the command fails.\<close>

definition sshExecWithOutputReal ::
  "(string list \<Rightarrow> 'w \<Rightarrow> (string \<times> string option) \<times> 'w) \<Rightarrow> string \<Rightarrow> string \<Rightarrow> string \<Rightarrow> string \<Rightarrow> 'w \<Rightarrow>
    (string \<times> string option) \<times> 'w" where
  "sshExecWithOutputReal run host user password cmd w =
     (let ((out', err), w) = run (ssh_output_argv host user password cmd) w
      in case err of
           Some e \<Rightarrow> ((out', Some (''ssh exec: '' @ e)), w)
         | None \<Rightarrow> ((trim_spaces out', None), w))"

section \<open>The hash of a certificate\<close>

record cert_lib =
  cl_unpem :: "string \<Rightarrow> string option"        \<comment> \<open>the bytes of the first PEM block\<close>
  cl_publicKey :: "string \<Rightarrow> string option"    \<comment> \<open>\<open>RawSubjectPublicKeyInfo\<close> of a certificate\<close>
  cl_sha256 :: "string \<Rightarrow> nat list"
  cl_b64Error :: "string \<Rightarrow> string"           \<comment> \<open>the message of a failed Base64 decoding\<close>

definition computeCertHash :: "cert_lib \<Rightarrow> string \<Rightarrow> string" where
  "computeCertHash cl certPEM =
     (let hash = (\<lambda>data. ''sha256:'' @ hex_bytes (cl_sha256 cl data))
      in case cl_unpem cl certPEM of
           None \<Rightarrow> hash certPEM
         | Some bytes \<Rightarrow>
            (case cl_publicKey cl bytes of
               None \<Rightarrow> hash certPEM
             | Some spki \<Rightarrow> hash spki))"

section \<open>Bootstrap tokens\<close>

record bootstrap_secret =
  bt_name :: string
  bt_namespace :: string
  bt_type :: string
  bt_data :: "(string \<times> string) list"

definition bootstrapTokenSecret :: "int \<Rightarrow> string \<Rightarrow> string \<Rightarrow> bootstrap_secret" where
  "bootstrapTokenSecret now tokenID tokenSecret =
     \<lparr>bt_name = ''bootstrap-token-'' @ tokenID, bt_namespace = ''kube-system'',
      bt_type = ''bootstrap.kubernetes.io/token'',
      bt_data =
        [(''token-id'', tokenID), (''token-secret'', tokenSecret),
         (''usage-bootstrap-authentication'', ''true''), (''usage-bootstrap-signing'', ''true''),
         (''auth-extra-groups'', ''system:bootstrappers:kubeadm:default-node-token''),
         (''expiration'', rfc3339 (now div 1000000000 + 3600))]\<rparr>"

record 'w bootstrap_api =
  bo_create :: "bootstrap_secret \<Rightarrow> 'w \<Rightarrow> string option \<times> 'w"
  bo_clusterInfo :: "'w \<Rightarrow> string + (string \<times> string) list"   \<comment> \<open>\<open>Data\<close> of \<open>kube-public/cluster-info\<close>\<close>

definition ca_key :: string where
  "ca_key = ''certificate-authority-data:''"

text \<open>The value on the first line of the kubeconfig that has the key.\<close>

fun ca_data :: "string list \<Rightarrow> string option" where
  "ca_data [] = None"
| "ca_data (line # ls) =
     (let trimmed = trim_spaces line
      in if prefix ca_key trimmed then Some (trim_spaces (drop (length ca_key) trimmed)) else ca_data ls)"

text \<open>
  \<open>generateJoinCredentials\<close>: token, hash and error. The three times are the readings of the clock, in
  nanoseconds, for the identifier, for the secret and for the expiration.
\<close>

definition generateJoinCredentials ::
  "cert_lib \<Rightarrow> 'w bootstrap_api \<Rightarrow> int \<Rightarrow> int \<Rightarrow> int \<Rightarrow> 'w \<Rightarrow> (string \<times> string \<times> string option) \<times> 'w" where
  "generateJoinCredentials cl bo t1 t2 t3 w =
     (let tokenID = sprintf_0x 6 (go_rem t1 0xffffff);
          tokenSecret = sprintf_0x 16 t2;
          fullToken = tokenID @ ''.'' @ tokenSecret
      in case bo_create bo (bootstrapTokenSecret t3 tokenID tokenSecret) w of
           (Some e, w) \<Rightarrow> (('''', '''', Some (''create bootstrap token: '' @ e)), w)
         | (None, w) \<Rightarrow>
            (case bo_clusterInfo bo w of
               Inl e \<Rightarrow> ((fullToken, '''', Some (''get cluster-info: '' @ e)), w)
             | Inr data \<Rightarrow>
                 let kubeconfig = (case map_of data ''kubeconfig'' of None \<Rightarrow> '''' | Some v \<Rightarrow> v)
                 in if kubeconfig = '''' then ((fullToken, '''', Some ''cluster-info has no kubeconfig''), w)
                    else (case ca_data (split_on CHR 0x0A kubeconfig) of
                            None \<Rightarrow> ((fullToken, '''', Some ''CA cert not found in cluster-info''), w)
                          | Some b64 \<Rightarrow>
                             (case std_decode b64 of
                                None \<Rightarrow> ((fullToken, '''', Some (''decode CA cert: '' @ cl_b64Error cl b64)), w)
                              | Some certPEM \<Rightarrow> ((fullToken, computeCertHash cl certPEM, None), w)))))"

text \<open>What the kubeconfig carries, when it carries a certificate.\<close>

definition advertised_cert :: "(string \<times> string) list \<Rightarrow> string option" where
  "advertised_cert data =
     (case map_of data ''kubeconfig'' of
        None \<Rightarrow> None
      | Some v \<Rightarrow> Option.bind (ca_data (split_on CHR 0x0A v)) std_decode)"

lemma ca_data_empty: "ca_data (split_on CHR 0x0A '''') = None"
  by (simp add: trim_spaces_def ca_key_def)

text \<open>The certificate hash is returned, without an error, exactly when the cluster advertises one.\<close>

lemma join_credentials_cases:
  assumes "bo_create bo (bootstrapTokenSecret t3 (sprintf_0x 6 (go_rem t1 0xffffff)) (sprintf_0x 16 t2)) w = (None, w1)"
  shows "\<exists>hash err. generateJoinCredentials cl bo t1 t2 t3 w =
      ((sprintf_0x 6 (go_rem t1 0xffffff) @ ''.'' @ sprintf_0x 16 t2, hash, err), w1) \<and>
    (case bo_clusterInfo bo w1 of
       Inl e \<Rightarrow> err \<noteq> None \<and> hash = ''''
     | Inr data \<Rightarrow>
        (case advertised_cert data of
           None \<Rightarrow> err \<noteq> None \<and> hash = ''''
         | Some c \<Rightarrow> err = None \<and> hash = computeCertHash cl c))"
proof (cases "bo_clusterInfo bo w1")
  case (Inl e)
  with assms show ?thesis by (simp add: generateJoinCredentials_def Let_def)
next
  case (Inr data)
  show ?thesis
  proof (cases "map_of data ''kubeconfig''")
    case None
    with assms Inr show ?thesis by (simp add: generateJoinCredentials_def Let_def advertised_cert_def)
  next
    case (Some v)
    show ?thesis
    proof (cases "v = ''''")
      case True
      with assms Inr Some show ?thesis
        by (simp add: generateJoinCredentials_def Let_def advertised_cert_def ca_data_empty del: ca_data.simps split_on.simps)
    next
      case False
      show ?thesis
      proof (cases "ca_data (split_on CHR 0x0A v)")
        case None
        with assms Inr Some False show ?thesis
          by (simp add: generateJoinCredentials_def Let_def advertised_cert_def)
      next
        case (Some b64)
        with assms Inr \<open>map_of data ''kubeconfig'' = Some v\<close> False show ?thesis
          by (cases "std_decode b64") (simp_all add: generateJoinCredentials_def Let_def advertised_cert_def)
      qed
    qed
  qed
qed

lemma go_rem_bounds: "0 \<le> a \<Longrightarrow> 0 < m \<Longrightarrow> 0 \<le> go_rem a m \<and> go_rem a m < m"
  by (cases "a = 0") (simp_all add: go_rem_def)

section \<open>Properties\<close>

text \<open>
  C40: at every time a 64-bit clock can show after 1970, a token is an identifier of six
  and a secret of sixteen lower-case letters and digits, as kubeadm asks for; it is the one of the
  secret that was created, which stays in the cluster also when the credentials turn out to be
  incomplete; and the hash comes exactly with a certificate that the cluster advertises.
\<close>

theorem bootstrap_token_form:
  assumes "0 \<le> t1" and "0 \<le> t2" and "t2 < 2 ^ 63"
    and "bo_create bo (bootstrapTokenSecret t3 (sprintf_0x 6 (go_rem t1 0xffffff)) (sprintf_0x 16 t2)) w = (None, w1)"
  shows "\<exists>i s hash err. generateJoinCredentials cl bo t1 t2 t3 w = ((i @ ''.'' @ s, hash, err), w1) \<and>
    length i = 6 \<and> length s = 16 \<and> list_all token_char (i @ s) \<and>
    bo_create bo (bootstrapTokenSecret t3 i s) w = (None, w1) \<and>
    (err = None \<longleftrightarrow> (\<exists>data c. bo_clusterInfo bo w1 = Inr data \<and> advertised_cert data = Some c \<and>
                       hash = computeCertHash cl c))"
proof -
  have "0 \<le> go_rem t1 0xffffff" "go_rem t1 0xffffff < 16 ^ Suc 5"
    using go_rem_bounds [OF assms(1), of "0xffffff"] by simp_all
  note i = sprintf_0x_form [OF this]
  have "t2 < 16 ^ Suc 15" using assms(3) by simp
  note s = sprintf_0x_form [OF assms(2) this]
  obtain hash err where run: "generateJoinCredentials cl bo t1 t2 t3 w =
      ((sprintf_0x 6 (go_rem t1 0xffffff) @ ''.'' @ sprintf_0x 16 t2, hash, err), w1)"
    and out: "case bo_clusterInfo bo w1 of
       Inl e \<Rightarrow> err \<noteq> None \<and> hash = ''''
     | Inr data \<Rightarrow>
        (case advertised_cert data of
           None \<Rightarrow> err \<noteq> None \<and> hash = ''''
         | Some c \<Rightarrow> err = None \<and> hash = computeCertHash cl c)"
    using join_credentials_cases [OF assms(4)] by blast
  have "err = None \<longleftrightarrow> (\<exists>data c. bo_clusterInfo bo w1 = Inr data \<and> advertised_cert data = Some c \<and>
      hash = computeCertHash cl c)"
    using out by (auto split: sum.splits option.splits)
  with run i s assms(4) show ?thesis
    by (intro exI [of _ "sprintf_0x 6 (go_rem t1 0xffffff)"] exI [of _ "sprintf_0x 16 t2"] exI [of _ hash] exI [of _ err])
      (simp add: numeral_eq_Suc)
qed

text \<open>A cluster that keeps the secrets created in it and advertises the certificate \<open>ABC\<close>.\<close>

definition demo_bootstrap :: "bootstrap_secret list bootstrap_api" where
  "demo_bootstrap =
     \<lparr>bo_create = (\<lambda>x ss. (None, ss @ [x])),
      bo_clusterInfo = (\<lambda>ss. Inr [(''kubeconfig'', ''kind: Config'' @ [CHR 0x0A] @ ''  certificate-authority-data: QUJD'')])\<rparr>"

definition demo_cert_lib :: cert_lib where
  "demo_cert_lib =
     \<lparr>cl_unpem = (\<lambda>s. None), cl_publicKey = (\<lambda>s. None), cl_sha256 = (\<lambda>s. map of_char (take 32 s)),
      cl_b64Error = (\<lambda>s. ''illegal base64 data'')\<rparr>"

theorem bootstrap_token_form_witness:
  "\<exists>i s hash err w'. generateJoinCredentials demo_cert_lib demo_bootstrap 1700000000000000000 1700000000000000100
       1700000000000000200 [] = ((i @ ''.'' @ s, hash, err), w') \<and> length i = 6 \<and> length s = 16"
proof -
  define t1 t2 t3 :: int where "t1 = 1700000000000000000" and "t2 = 1700000000000000100" and "t3 = 1700000000000000200"
  let ?x = "bootstrapTokenSecret t3 (sprintf_0x 6 (go_rem t1 0xffffff)) (sprintf_0x 16 t2)"
  have "bo_create demo_bootstrap ?x [] = (None, [?x])" by (simp add: demo_bootstrap_def)
  moreover have "0 \<le> t1" "0 \<le> t2" "t2 < 2 ^ 63" by (simp_all add: t1_def t2_def)
  ultimately have "\<exists>i s hash err. generateJoinCredentials demo_cert_lib demo_bootstrap t1 t2 t3 [] = ((i @ ''.'' @ s, hash, err), [?x]) \<and>
      length i = 6 \<and> length s = 16"
    using bootstrap_token_form [of t1 t2 demo_bootstrap t3 "[]" "[?x]" demo_cert_lib] by blast
  then show ?thesis unfolding t1_def t2_def t3_def by blast
qed

end
