(* ===== verification/Jwt_Key.thy ===== *)
theory Jwt_Key
  imports Jwt
begin

text \<open>
  The signing key of the session tokens (\<open>InitJWT\<close> and \<open>parseECPrivateKey\<close> of \<^verbatim>\<open>internal/auth/jwt.go\<close>): read from the environment
  and turned into the two keys that signing and verifying use. PEM, ASN.1 and the elliptic curve P-256 are parameters. The
  server never calls \<open>InitJWT\<close>; what follows from that is in \<open>Login\<close>.
\<close>

section \<open>Keys\<close>

record ec_asn1 =
  ea_version :: int
  ea_private :: "nat list"
  ea_namedCurve :: "nat list option"
  ea_public :: "nat list option"

record ec_private =
  ec_x :: nat
  ec_y :: nat
  ec_d :: nat

record key_lib =
  kl_unpem :: "string \<Rightarrow> string option"
  kl_asn1 :: "string \<Rightarrow> string + ec_asn1"
  kl_baseMult :: "nat list \<Rightarrow> nat \<times> nat"     \<comment> \<open>of P-256\<close>
  kl_sign :: "ec_private \<Rightarrow> string \<Rightarrow> nat \<times> nat"
  kl_verify :: "nat \<times> nat \<Rightarrow> string \<Rightarrow> nat \<Rightarrow> nat \<Rightarrow> bool"

definition parseECPrivateKey :: "key_lib \<Rightarrow> string \<Rightarrow> string + ec_private" where
  "parseECPrivateKey kl pemData =
     (case kl_unpem kl pemData of
        None \<Rightarrow> Inl ''no PEM block found''
      | Some bytes \<Rightarrow>
         (case kl_asn1 kl bytes of
            Inl e \<Rightarrow> Inl (''parse EC key: '' @ e)
          | Inr ecKey \<Rightarrow>
              let d = set_bytes (ea_private ecKey);
                  (x, y) = kl_baseMult kl (int_bytes d)
              in Inr \<lparr>ec_x = x, ec_y = y, ec_d = d\<rparr>))"

text \<open>\<open>InitJWT\<close>, with what it prints.\<close>

definition initJWT :: "key_lib \<Rightarrow> (string \<Rightarrow> string) \<Rightarrow> jwt_env \<Rightarrow> jwt_env \<times> string list" where
  "initJWT kl getenv je =
     (let keyPEM = getenv ''JWT_EC_PRIVATE_KEY''
      in if keyPEM = ''''
         then (je, [''WARNING: JWT_EC_PRIVATE_KEY not set - JWT signing/verification disabled''])
         else case parseECPrivateKey kl keyPEM of
                Inl e \<Rightarrow> (je, [''WARNING: failed to parse JWT_EC_PRIVATE_KEY: '' @ e @ '' - JWT signing/verification disabled''])
              | Inr key \<Rightarrow>
                  (je\<lparr>je_sign := Some (kl_sign kl key), je_verify := Some (kl_verify kl (ec_x key, ec_y key))\<rparr>, []))"

section \<open>Properties\<close>

definition p256_order :: nat where
  "p256_order = 115792089210356248762697446949407573529996955224135760342422259061068512044369"

text \<open>
  The signature scheme: a key pair made from a number below the order of the curve signs what its public point
  verifies, in two numbers of 256 bits.
\<close>

definition ecdsa_law :: "key_lib \<Rightarrow> bool" where
  "ecdsa_law kl \<longleftrightarrow>
     (\<forall>d m. 0 < d \<and> d < p256_order \<longrightarrow> (let (x, y) = kl_baseMult kl (int_bytes d); (r, s) = kl_sign kl \<lparr>ec_x = x, ec_y = y, ec_d = d\<rparr> m
            in r < 2 ^ 256 \<and> s < 2 ^ 256 \<and> kl_verify kl (x, y) m r s))"

text \<open>
  A key in the environment that can be read switches signing and verification on together, and for a key in range, which is
  not checked, the two fit: what the one signs, the other verifies. With no key, or one that cannot be read, both stay as they are and a warning is printed.
\<close>

theorem key_switches_both_on:
  assumes "ecdsa_law kl" and "initJWT kl getenv je = (je', warnings)"
  shows "(je' = je \<and> length warnings = 1 \<and>
      (getenv ''JWT_EC_PRIVATE_KEY'' = '''' \<or> (\<exists>e. parseECPrivateKey kl (getenv ''JWT_EC_PRIVATE_KEY'') = Inl e))) \<or>
    (\<exists>sign verify key. parseECPrivateKey kl (getenv ''JWT_EC_PRIVATE_KEY'') = Inr key \<and>
      je' = je\<lparr>je_sign := Some sign, je_verify := Some verify\<rparr> \<and> warnings = [] \<and>
      (\<forall>m. 0 < ec_d key \<and> ec_d key < p256_order \<longrightarrow> fst (sign m) < 2 ^ 256 \<and> snd (sign m) < 2 ^ 256 \<and> verify m (fst (sign m)) (snd (sign m))))"
proof (cases "getenv ''JWT_EC_PRIVATE_KEY'' = ''''")
  case True
  then show ?thesis using assms(2) by (auto simp: initJWT_def)
next
  case False
  show ?thesis
  proof (cases "parseECPrivateKey kl (getenv ''JWT_EC_PRIVATE_KEY'')")
    case (Inl e)
    then show ?thesis using assms(2) False by (auto simp: initJWT_def Let_def)
  next
    case (Inr key)
    then obtain d x y where key: "kl_baseMult kl (int_bytes d) = (x, y)" "key = \<lparr>ec_x = x, ec_y = y, ec_d = d\<rparr>"
      by (auto simp: parseECPrivateKey_def Let_def split: option.splits sum.splits prod.splits)
    have "0 < ec_d key \<and> ec_d key < p256_order \<longrightarrow> fst (kl_sign kl key m) < 2 ^ 256 \<and> snd (kl_sign kl key m) < 2 ^ 256 \<and>
        kl_verify kl (x, y) m (fst (kl_sign kl key m)) (snd (kl_sign kl key m))" for m
      using assms(1) [unfolded ecdsa_law_def, rule_format, of d m] by (simp add: key split_beta Let_def)
    moreover have "je' = je\<lparr>je_sign := Some (kl_sign kl key), je_verify := Some (kl_verify kl (x, y))\<rparr>" "warnings = []"
      using assms(2) False Inr by (simp_all add: initJWT_def Let_def key(2))
    ultimately show ?thesis using Inr by blast
  qed
qed

text \<open>The curve that a key names is not looked at: two keys that differ in it are the same key.\<close>

theorem named_curve_ignored:
  assumes "kl_unpem kl a = Some x" and "kl_unpem kl b = Some y"
    and "kl_asn1 kl x = Inr k" and "kl_asn1 kl y = Inr (k\<lparr>ea_namedCurve := c\<rparr>)"
  shows "parseECPrivateKey kl a = parseECPrivateKey kl b"
  using assms by (simp add: parseECPrivateKey_def)

end
