(* ===== verification/Idp_Xml.thy ===== *)
theory Idp_Xml
  imports Conv_Prelude "HOL-Library.Multiset" "HOL-Library.List_Lexorder" "HOL-Library.Char_ord"
    "HOL-Library.Product_Lexorder"
begin

text \<open>
  XML as the SAML side of the agent uses it: the trees its structs stand for with what
  \<^verbatim>\<open>encoding/xml\<close> writes for them, the tokens its decoder reads, and the canonical form of
  \<^verbatim>\<open>saml-scim-agent/saml/assertion.go\<close> with its escaping.

  The decoder is a parameter, from a text to the tokens before its first error. Comments, directives
  and processing instructions are one token, as the code skips all three.
\<close>

section \<open>Trees and their text\<close>

text \<open>An element has a name space, a local name, attributes as they are written, and content.\<close>

datatype xml_tree = XElem string string "(string \<times> string) list" "xml_tree list" | XText string

definition esc_string :: "string \<Rightarrow> string" where
  "esc_string s = concat (map (\<lambda>c.
     if c = CHR 0x22 then ''&#34;'' else if c = CHR 0x27 then ''&#39;'' else if c = CHR ''&'' then ''&amp;''
     else if c = CHR ''<'' then ''&lt;'' else if c = CHR ''>'' then ''&gt;'' else if c = CHR 0x09 then ''&#x9;''
     else if c = CHR 0x0A then ''&#xA;'' else if c = CHR 0x0D then ''&#xD;'' else [c]) s)"

definition attr_text :: "string \<times> string \<Rightarrow> string" where
  "attr_text kv = '' '' @ fst kv @ ''='' @ [CHR 0x22] @ esc_string (snd kv) @ [CHR 0x22]"

definition open_tag :: "string \<Rightarrow> string \<Rightarrow> (string \<times> string) list \<Rightarrow> string" where
  "open_tag space local attrs =
     ''<'' @ local @ (if space \<noteq> '''' then attr_text (''xmlns'', space) else '''') @ concat (map attr_text attrs) @ ''>''"

fun xml_marshal :: "xml_tree \<Rightarrow> string" where
  "xml_marshal (XText s) = esc_string s"
| "xml_marshal (XElem space local attrs kids) =
     open_tag space local attrs @ concat (map xml_marshal kids) @ ''</'' @ local @ ''>''"

text \<open>\<open>MarshalIndent\<close> with two blanks: a line for every element, and for its end when it has elements in it.\<close>

fun is_elem :: "xml_tree \<Rightarrow> bool" where
  "is_elem (XElem _ _ _ _) = True"
| "is_elem (XText _) = False"

fun xml_marshal_indent :: "nat \<Rightarrow> xml_tree \<Rightarrow> string" where
  "xml_marshal_indent d (XText s) = esc_string s"
| "xml_marshal_indent d (XElem space local attrs kids) =
     (if d = 0 then '''' else [CHR 0x0A]) @ replicate (2 * d) CHR '' '' @ open_tag space local attrs @
     concat (map (xml_marshal_indent (Suc d)) kids) @
     (if list_ex is_elem kids then CHR 0x0A # replicate (2 * d) CHR '' '' else '''') @ ''</'' @ local @ ''>''"

section \<open>Tokens\<close>

type_synonym xml_attr = "string \<times> string \<times> string"    \<comment> \<open>name space, local name, value\<close>

datatype xml_token =
    StartElement string string "xml_attr list" | EndElement string string | CharData string | SkippedToken

text \<open>
  What the decoder reads of a tree's text: an element's name space is resolved, a declaration
  \<open>xmlns:p\<close> is an attribute \<open>p\<close> in the space \<open>xmlns\<close>.
\<close>

definition attr_token :: "string \<times> string \<Rightarrow> xml_attr" where
  "attr_token kv =
     (if prefix ''xmlns:'' (fst kv) then (''xmlns'', drop 6 (fst kv), snd kv) else ('''', fst kv, snd kv))"

fun tree_tokens :: "xml_tree \<Rightarrow> xml_token list" where
  "tree_tokens (XText s) = (if s = '''' then [] else [CharData s])"
| "tree_tokens (XElem space local attrs kids) =
     StartElement space local ((if space \<noteq> '''' then [('''', ''xmlns'', space)] else []) @ map attr_token attrs) #
     concat (map tree_tokens kids) @ [EndElement space local]"

section \<open>The canonical form\<close>

definition xmlEscapeAttr :: "string \<Rightarrow> string" where
  "xmlEscapeAttr s =
     (let s = replace_all ''&'' ''&amp;'' s;
          s = replace_all ''<'' ''&lt;'' s;
          s = replace_all ''>'' ''&gt;'' s;
          s = replace_all [CHR 0x22] ''&quot;'' s;
          s = replace_all [CHR 0x09] ''&#x9;'' s;
          s = replace_all [CHR 0x0A] ''&#xA;'' s
      in replace_all [CHR 0x0D] ''&#xD;'' s)"

definition xmlEscapeText :: "string \<Rightarrow> string" where
  "xmlEscapeText s =
     (let s = replace_all ''&'' ''&amp;'' s;
          s = replace_all ''<'' ''&lt;'' s;
          s = replace_all ''>'' ''&gt;'' s
      in replace_all [CHR 0x0D] ''&#xD;'' s)"

text \<open>
  Attributes are sorted: declarations of name spaces first, then by space and local name, bytewise.
  Where keys are equal, Go leaves the order open.
\<close>

definition attr_key :: "xml_attr \<Rightarrow> bool \<times> string \<times> string" where
  "attr_key a = (case a of (space, local, v) \<Rightarrow> (\<not> (space = ''xmlns'' \<or> local = ''xmlns''), space, local))"

definition qname :: "string \<Rightarrow> string \<Rightarrow> string" where
  "qname space local = (if space \<noteq> '''' then space @ '':'' else '''') @ local"

definition write_attr :: "xml_attr \<Rightarrow> string" where
  "write_attr a =
     (case a of (space, local, v) \<Rightarrow>
        '' '' @ qname space local @ ''='' @ [CHR 0x22] @ xmlEscapeAttr v @ [CHR 0x22])"

fun write_token :: "xml_token \<Rightarrow> string" where
  "write_token (StartElement space local attrs) =
     ''<'' @ qname space local @ concat (map write_attr (sort_key attr_key attrs)) @ ''>''"
| "write_token (EndElement space local) = ''</'' @ qname space local @ ''>''"
| "write_token (CharData s) = xmlEscapeText s"
| "write_token SkippedToken = ''''"

text \<open>\<open>strings.Index\<close>.\<close>

fun index_of :: "string \<Rightarrow> string \<Rightarrow> nat option" where
  "index_of sub [] = (if sub = [] then Some 0 else None)"
| "index_of sub (c # s) = (if prefix sub (c # s) then Some 0 else map_option Suc (index_of sub s))"

definition drop_declaration :: "string \<Rightarrow> string" where
  "drop_declaration input =
     (if prefix ''<?xml'' input
      then (case index_of ''?>'' input of None \<Rightarrow> input | Some i \<Rightarrow> trim_spaces (drop (i + 2) input))
      else input)"

definition canonicalize :: "(string \<Rightarrow> xml_token list) \<Rightarrow> string \<Rightarrow> string" where
  "canonicalize decode xmlData = concat (map write_token (decode (drop_declaration xmlData)))"

section \<open>Escaping\<close>

text \<open>In one pass, which is how the escaping has to be read: no replacement is replaced again.\<close>

definition esc_attr_char :: "char \<Rightarrow> string" where
  "esc_attr_char c =
     (if c = CHR ''&'' then ''&amp;'' else if c = CHR ''<'' then ''&lt;'' else if c = CHR ''>'' then ''&gt;''
      else if c = CHR 0x22 then ''&quot;'' else if c = CHR 0x09 then ''&#x9;'' else if c = CHR 0x0A then ''&#xA;''
      else if c = CHR 0x0D then ''&#xD;'' else [c])"

definition esc_text_char :: "char \<Rightarrow> string" where
  "esc_text_char c =
     (if c = CHR ''&'' then ''&amp;'' else if c = CHR ''<'' then ''&lt;'' else if c = CHR ''>'' then ''&gt;''
      else if c = CHR 0x0D then ''&#xD;'' else [c])"

lemma concat_map_concat: "concat (map f (concat (map g xs))) = concat (map (\<lambda>x. concat (map f (g x))) xs)"
  by (induction xs) simp_all

lemma escape_attr_eq: "xmlEscapeAttr s = concat (map esc_attr_char s)"
  unfolding xmlEscapeAttr_def Let_def replace_char concat_map_concat
  by (rule arg_cong [of _ _ concat], rule map_cong [OF refl]) (simp add: esc_attr_char_def)

lemma escape_text_eq: "xmlEscapeText s = concat (map esc_text_char s)"
  unfolding xmlEscapeText_def Let_def replace_char concat_map_concat
  by (rule arg_cong [of _ _ concat], rule map_cong [OF refl]) (simp add: esc_text_char_def)

function unescape :: "string \<Rightarrow> string" where
  "unescape [] = []"
| "unescape (c # s) =
     (if prefix ''&amp;'' (c # s) then CHR ''&'' # unescape (drop 5 (c # s))
      else if prefix ''&lt;'' (c # s) then CHR ''<'' # unescape (drop 4 (c # s))
      else if prefix ''&gt;'' (c # s) then CHR ''>'' # unescape (drop 4 (c # s))
      else if prefix ''&quot;'' (c # s) then CHR 0x22 # unescape (drop 6 (c # s))
      else if prefix ''&#x9;'' (c # s) then CHR 0x09 # unescape (drop 5 (c # s))
      else if prefix ''&#xA;'' (c # s) then CHR 0x0A # unescape (drop 5 (c # s))
      else if prefix ''&#xD;'' (c # s) then CHR 0x0D # unescape (drop 5 (c # s))
      else c # unescape s)"
  by pat_completeness auto
termination by (relation "measure length") auto

lemma unescape_plain: "c \<noteq> CHR ''&'' \<Longrightarrow> unescape (c # s) = c # unescape s"
  by simp

lemma unescape_entities:
  "unescape (''&amp;'' @ t) = CHR ''&'' # unescape t" "unescape (''&lt;'' @ t) = CHR ''<'' # unescape t"
  "unescape (''&gt;'' @ t) = CHR ''>'' # unescape t" "unescape (''&quot;'' @ t) = CHR 0x22 # unescape t"
  "unescape (''&#x9;'' @ t) = CHR 0x09 # unescape t" "unescape (''&#xA;'' @ t) = CHR 0x0A # unescape t"
  "unescape (''&#xD;'' @ t) = CHR 0x0D # unescape t"
  by simp_all

declare unescape.simps(2) [simp del]

lemma unescape_char: "unescape (esc_attr_char c @ t) = c # unescape t" "unescape (esc_text_char c @ t) = c # unescape t"
proof -
  let ?P = "\<lambda>c. unescape (esc_attr_char c @ t) = c # unescape t \<and> unescape (esc_text_char c @ t) = c # unescape t"
  let ?S = "{CHR ''&'', CHR ''<'', CHR ''>'', CHR 0x22, CHR 0x09, CHR 0x0A, CHR 0x0D}"
  have "?P c"
  proof (cases "c \<in> ?S")
    case True
    have "\<forall>c \<in> ?S. ?P c"
      by (simp only: ball_simps, intro conjI TrueI;
          simp add: esc_attr_char_def esc_text_char_def unescape_entities [simplified] unescape_plain)
    with True show ?thesis by (rule bspec [rotated])
  next
    case False
    then show ?thesis by (simp add: esc_attr_char_def esc_text_char_def unescape_plain)
  qed
  then show "unescape (esc_attr_char c @ t) = c # unescape t" "unescape (esc_text_char c @ t) = c # unescape t"
    by (rule conjunct1, rule conjunct2)
qed

lemma unescape_concat: "unescape (concat (map esc_attr_char s)) = s" "unescape (concat (map esc_text_char s)) = s"
  by (induction s) (simp_all add: unescape_char)

lemma no_markup_char:
  "CHR ''<'' \<notin> set (esc_attr_char c) \<and> CHR ''>'' \<notin> set (esc_attr_char c) \<and> CHR 0x22 \<notin> set (esc_attr_char c) \<and>
   CHR ''<'' \<notin> set (esc_text_char c) \<and> CHR ''>'' \<notin> set (esc_text_char c)" (is "?P c")
proof -
  let ?S = "{CHR ''&'', CHR ''<'', CHR ''>'', CHR 0x22, CHR 0x09, CHR 0x0A, CHR 0x0D}"
  show ?thesis
  proof (cases "c \<in> ?S")
    case True
    have "\<forall>c \<in> ?S. ?P c"
      by (simp only: ball_simps, intro conjI TrueI; simp add: esc_attr_char_def esc_text_char_def)
    with True show ?thesis by (rule bspec [rotated])
  next
    case False
    then show ?thesis by (simp add: esc_attr_char_def esc_text_char_def eq_commute [of _ c])
  qed
qed

text \<open>
  Escaping loses nothing and lets nothing through: an escaped attribute value or text reads
  back as what it was, and has no markup in it, nor a quote when it is an attribute value.
\<close>

theorem escaped_reads_back:
  "unescape (xmlEscapeAttr s) = s \<and> unescape (xmlEscapeText s) = s \<and>
   set (xmlEscapeAttr s) \<inter> {CHR ''<'', CHR ''>'', CHR 0x22} = {} \<and> set (xmlEscapeText s) \<inter> {CHR ''<'', CHR ''>''} = {}"
  unfolding escape_attr_eq escape_text_eq
  by (intro conjI unescape_concat) (use no_markup_char in \<open>simp_all add: disjoint_iff\<close>)

section \<open>The order of attributes\<close>

text \<open>Two tokens that differ at most in the order of attributes, no two of which have one name.\<close>

fun same_token :: "xml_token \<Rightarrow> xml_token \<Rightarrow> bool" where
  "same_token (StartElement s l as) t =
     (case t of StartElement s' l' bs \<Rightarrow>
          s = s' \<and> l = l' \<and> mset as = mset bs \<and> distinct (map (\<lambda>a. (fst a, fst (snd a))) as)
      | _ \<Rightarrow> False)"
| "same_token t t' \<longleftrightarrow> t = t'"

lemma attr_key_inj: "distinct (map (\<lambda>a. (fst a, fst (snd a))) as) \<Longrightarrow> inj_on attr_key (set as)"
proof (rule inj_onI)
  fix a b
  assume d: "distinct (map (\<lambda>a. (fst a, fst (snd a))) as)" and ab: "a \<in> set as" "b \<in> set as"
    and "attr_key a = attr_key b"
  then have "(fst a, fst (snd a)) = (fst b, fst (snd b))" by (simp add: attr_key_def split_beta)
  with d ab show "a = b" by (auto simp: distinct_map dest: inj_onD)
qed

lemma write_same: "same_token t t' \<Longrightarrow> write_token t = write_token t'"
proof (cases t)
  case (StartElement s l as)
  assume same: "same_token t t'"
  then obtain bs where t': "t' = StartElement s l bs" and ms: "mset as = mset bs"
    and d: "distinct (map (\<lambda>a. (fst a, fst (snd a))) as)"
    using StartElement by (cases t') auto
  have "sort_key attr_key as = sort_key attr_key bs"
    by (rule sort_key_inj_key_eq) (use ms attr_key_inj [OF d] in simp_all)
  with StartElement t' show ?thesis by simp
qed simp_all

text \<open>
  The canonical form does not depend on the order of attributes: texts whose tokens agree up to
  it, element by element, have one canonical form.
\<close>

theorem canonical_order_free:
  assumes "list_all2 same_token (decode (drop_declaration x)) (decode (drop_declaration y))"
  shows "canonicalize decode x = canonicalize decode y"
proof -
  have "map write_token ts = map write_token us" if "list_all2 same_token ts us" for ts us
    using that by (induction rule: list_all2_induct) (simp_all add: write_same)
  from this [OF assms] show ?thesis by (simp add: canonicalize_def)
qed

theorem canonical_order_free_witness:
  "canonicalize (\<lambda>x. [StartElement ''u'' ''A'' (if x = ''1'' then [('''', ''ID'', ''i''), ('''', ''xmlns'', ''u'')]
      else [('''', ''xmlns'', ''u''), ('''', ''ID'', ''i'')])]) ''1'' =
   canonicalize (\<lambda>x. [StartElement ''u'' ''A'' (if x = ''1'' then [('''', ''ID'', ''i''), ('''', ''xmlns'', ''u'')]
      else [('''', ''xmlns'', ''u''), ('''', ''ID'', ''i'')])]) ''2''"
  by (rule canonical_order_free) (simp add: drop_declaration_def)

end
