(* ===== verification/Idp_Bao.thy ===== *)
theory Idp_Bao
  imports Json_Data Conv_Prelude
begin

text \<open>
  The OpenBao client of the SAML/SCIM agent (\<^verbatim>\<open>saml-scim-agent/openbao/client.go\<close>): every call of the
  agent, with the statuses it takes for success, absence and failure.

  OpenBao is a parameter: a state of any type \<open>'w\<close> with an answer to every request, which may change
  it. The decoders of the answers' bodies are parameters too. A metadata map is the list of its
  entries; \<open>None\<close> is the nil map.
\<close>

section \<open>Requests\<close>

record bao_entity =
  be_id :: string
  be_name :: string
  be_metadata :: "(string \<times> string) list"
  be_disabled :: bool
  be_groupIDs :: "string list"

record bao_group =
  bg_id :: string
  bg_name :: string
  bg_metadata :: "(string \<times> string) list option"
  bg_members :: "string list"
  bg_type :: string

record 'w bao_client =
  bc_addr :: string
  bc_token :: string
  bc_do :: "string \<Rightarrow> string \<Rightarrow> string \<Rightarrow> json option \<Rightarrow> 'w \<Rightarrow> bao_answer \<times> 'w"
  bc_auth :: "string \<Rightarrow> string + string"                  \<comment> \<open>\<open>auth.client_token\<close>, empty when absent\<close>
  bc_kv :: "string \<Rightarrow> string + json_obj option"           \<comment> \<open>\<open>data.data\<close>\<close>
  bc_entity :: "string \<Rightarrow> string + bao_entity"
  bc_group :: "string \<Rightarrow> string + bao_group"
  bc_keys :: "string \<Rightarrow> string + string list"

text \<open>\<open>NewClient\<close>: trailing slashes of the address go.\<close>

definition newClient :: "string \<Rightarrow> string \<Rightarrow> 'w bao_client \<Rightarrow> 'w bao_client" where
  "newClient addr token c =
     c\<lparr>bc_addr := rev (dropWhile (\<lambda>x. x = CHR ''/'') (rev addr)), bc_token := token\<rparr>"

definition requestWithToken ::
    "'w bao_client \<Rightarrow> string \<Rightarrow> string \<Rightarrow> string \<Rightarrow> json option \<Rightarrow> 'w \<Rightarrow> (string + nat \<times> string) \<times> 'w" where
  "requestWithToken c method path token body w =
     (case bc_do c method (bc_addr c @ path) token body w of
        (BadUrl e, w) \<Rightarrow> (Inl (''create request: '' @ e), w)
      | (NoAnswer e, w) \<Rightarrow> (Inl (''execute request: '' @ e), w)
      | (NoBody e, w) \<Rightarrow> (Inl (''read response: '' @ e), w)
      | (Answer status body, w) \<Rightarrow> (Inr (status, body), w))"

definition bao_request :: "'w bao_client \<Rightarrow> string \<Rightarrow> string \<Rightarrow> json option \<Rightarrow> 'w \<Rightarrow> (string + nat \<times> string) \<times> 'w"
  where
  "bao_request c method path body w = requestWithToken c method path (bc_token c) body w"

text \<open>
  The two endings that the calls share: a body that is decoded when the status is one of success, and a status alone. An error of sending is passed on as it is, and for reads 404 is the
  absence of the object.
\<close>

definition status_text :: "string \<Rightarrow> nat \<Rightarrow> string" where
  "status_text what status = what @ '': status '' @ digits status"

definition read_answer ::
    "string \<Rightarrow> string \<Rightarrow> (string \<Rightarrow> string + 'a) \<Rightarrow> string + nat \<times> string \<Rightarrow> string + 'a option" where
  "read_answer what parse decode resp =
     (case resp of
        Inl e \<Rightarrow> Inl e
      | Inr (status, body) \<Rightarrow>
          if status = 404 then Inr None
          else if status \<noteq> 200 then Inl (status_text what status)
          else (case decode body of Inl e \<Rightarrow> Inl (parse @ e) | Inr v \<Rightarrow> Inr (Some v)))"

definition write_answer :: "string \<Rightarrow> string + nat \<times> string \<Rightarrow> string option" where
  "write_answer what resp =
     (case resp of
        Inl e \<Rightarrow> Some e
      | Inr (status, body) \<Rightarrow> if status \<noteq> 200 \<and> status \<noteq> 204 then Some (status_text what status) else None)"

definition create_answer ::
    "string \<Rightarrow> string \<Rightarrow> (string \<Rightarrow> string + 'a) \<Rightarrow> string + nat \<times> string \<Rightarrow> string + 'a" where
  "create_answer what parse decode resp =
     (case resp of
        Inl e \<Rightarrow> Inl e
      | Inr (status, body) \<Rightarrow>
          if status \<noteq> 200 \<and> status \<noteq> 204 then Inl (status_text what status)
          else (case decode body of Inl e \<Rightarrow> Inl (parse @ e) | Inr v \<Rightarrow> Inr v))"

section \<open>Health, login, secrets\<close>

definition checkHealth :: "'w bao_client \<Rightarrow> 'w \<Rightarrow> string option \<times> 'w" where
  "checkHealth c w =
     (case bao_request c ''GET'' ''/v1/sys/health'' None w of
        (Inl e, w) \<Rightarrow> (Some (''openbao health check failed: '' @ e), w)
      | (Inr (status, body), w) \<Rightarrow>
          (if status \<noteq> 200 then Some (''openbao unhealthy: status '' @ digits status) else None, w))"

definition bao_authenticate :: "'w bao_client \<Rightarrow> string \<Rightarrow> string \<Rightarrow> 'w \<Rightarrow> (string + string) \<times> 'w" where
  "bao_authenticate c username password w =
     (case bao_request c ''POST'' (''/v1/auth/userpass/login/'' @ username)
             (Some (JObj [(''password'', JStr password)])) w of
        (Inl e, w) \<Rightarrow> (Inl (''authentication request failed: '' @ e), w)
      | (Inr (status, body), w) \<Rightarrow>
          if status \<noteq> 200 then (Inl (''authentication failed: status '' @ digits status), w)
          else (case bc_auth c body of
                  Inl e \<Rightarrow> (Inl (''parse auth response: '' @ e), w)
                | Inr token \<Rightarrow> (Inr token, w)))"

definition kvRead :: "'w bao_client \<Rightarrow> string \<Rightarrow> 'w \<Rightarrow> (string + json_obj option) \<times> 'w" where
  "kvRead c path w =
     (let (resp, w) = bao_request c ''GET'' (''/v1/'' @ path) None w
      in (map_sum id (\<lambda>v. Option.bind v id) (read_answer (''kv read '' @ path) ''parse kv response: '' (bc_kv c) resp), w))"

definition kvWrite :: "'w bao_client \<Rightarrow> string \<Rightarrow> json_obj \<Rightarrow> 'w \<Rightarrow> string option \<times> 'w" where
  "kvWrite c path data w =
     (let (resp, w) = bao_request c ''POST'' (''/v1/'' @ path) (Some (JObj [(''data'', JObj data)])) w
      in (write_answer (''kv write '' @ path) resp, w))"

section \<open>Entities\<close>

definition str_obj :: "(string \<times> string) list \<Rightarrow> json" where
  "str_obj m = JObj (map (\<lambda>(k, v). (k, JStr v)) m)"

definition entity_error :: string where
  "entity_error = ''parse entity response: ''"

definition getEntityByName :: "'w bao_client \<Rightarrow> string \<Rightarrow> 'w \<Rightarrow> (string + bao_entity option) \<times> 'w" where
  "getEntityByName c name w =
     (let (resp, w) = bao_request c ''GET'' (''/v1/identity/entity/name/'' @ name) None w
      in (read_answer (''get entity '' @ name) entity_error (bc_entity c) resp, w))"

definition getEntityByNameWithToken ::
    "'w bao_client \<Rightarrow> string \<Rightarrow> string \<Rightarrow> 'w \<Rightarrow> (string + bao_entity option) \<times> 'w" where
  "getEntityByNameWithToken c name token w =
     (let (resp, w) = requestWithToken c ''GET'' (''/v1/identity/entity/name/'' @ name) token None w
      in (read_answer (''get entity '' @ name) entity_error (bc_entity c) resp, w))"

definition getEntityByID :: "'w bao_client \<Rightarrow> string \<Rightarrow> 'w \<Rightarrow> (string + bao_entity option) \<times> 'w" where
  "getEntityByID c i w =
     (let (resp, w) = bao_request c ''GET'' (''/v1/identity/entity/id/'' @ i) None w
      in (read_answer (''get entity id '' @ i) entity_error (bc_entity c) resp, w))"

definition createEntity ::
    "'w bao_client \<Rightarrow> string \<Rightarrow> (string \<times> string) list \<Rightarrow> 'w \<Rightarrow> (string + bao_entity) \<times> 'w" where
  "createEntity c name metadata w =
     (let (resp, w) = bao_request c ''POST'' ''/v1/identity/entity''
            (Some (JObj [(''name'', JStr name), (''metadata'', str_obj metadata)])) w
      in (create_answer (''create entity '' @ name) ''parse create entity response: '' (bc_entity c) resp, w))"

definition updateEntity ::
    "'w bao_client \<Rightarrow> string \<Rightarrow> (string \<times> string) list \<Rightarrow> bool \<Rightarrow> 'w \<Rightarrow> string option \<times> 'w" where
  "updateEntity c name metadata disabled w =
     (let (resp, w) = bao_request c ''PUT'' (''/v1/identity/entity/name/'' @ name)
            (Some (JObj [(''metadata'', str_obj metadata), (''disabled'', JBool disabled)])) w
      in (write_answer (''update entity '' @ name) resp, w))"

definition deleteEntity :: "'w bao_client \<Rightarrow> string \<Rightarrow> 'w \<Rightarrow> string option \<times> 'w" where
  "deleteEntity c name w =
     (let (resp, w) = bao_request c ''DELETE'' (''/v1/identity/entity/name/'' @ name) None w
      in (write_answer (''delete entity '' @ name) resp, w))"

definition createUserpass :: "'w bao_client \<Rightarrow> string \<Rightarrow> string \<Rightarrow> 'w \<Rightarrow> string option \<times> 'w" where
  "createUserpass c username password w =
     (let (resp, w) = bao_request c ''POST'' (''/v1/auth/userpass/users/'' @ username)
            (Some (JObj [(''password'', JStr password)])) w
      in (write_answer (''create userpass '' @ username) resp, w))"

definition deleteUserpass :: "'w bao_client \<Rightarrow> string \<Rightarrow> 'w \<Rightarrow> string option \<times> 'w" where
  "deleteUserpass c username w =
     (let (resp, w) = bao_request c ''DELETE'' (''/v1/auth/userpass/users/'' @ username) None w
      in (write_answer (''delete userpass '' @ username) resp, w))"

section \<open>Groups\<close>

definition group_error :: string where
  "group_error = ''parse group response: ''"

definition getGroupByName :: "'w bao_client \<Rightarrow> string \<Rightarrow> 'w \<Rightarrow> (string + bao_group option) \<times> 'w" where
  "getGroupByName c name w =
     (let (resp, w) = bao_request c ''GET'' (''/v1/identity/group/name/'' @ name) None w
      in (read_answer (''get group '' @ name) group_error (bc_group c) resp, w))"

definition getGroupByID :: "'w bao_client \<Rightarrow> string \<Rightarrow> 'w \<Rightarrow> (string + bao_group option) \<times> 'w" where
  "getGroupByID c i w =
     (let (resp, w) = bao_request c ''GET'' (''/v1/identity/group/id/'' @ i) None w
      in (read_answer (''get group id '' @ i) group_error (bc_group c) resp, w))"

definition group_body :: "string \<Rightarrow> string list \<Rightarrow> (string \<times> string) list option \<Rightarrow> json" where
  "group_body name members metadata =
     JObj [(''name'', JStr name), (''type'', JStr ''internal''), (''member_entity_ids'', JArr (map JStr members)),
           (''metadata'', (case metadata of None \<Rightarrow> JNull | Some m \<Rightarrow> str_obj m))]"

definition bao_createGroup :: "'w bao_client \<Rightarrow> string \<Rightarrow> string list \<Rightarrow> (string \<times> string) list option \<Rightarrow> 'w
    \<Rightarrow> (string + bao_group) \<times> 'w" where
  "bao_createGroup c name members metadata w =
     (let (resp, w) = bao_request c ''POST'' ''/v1/identity/group'' (Some (group_body name members metadata)) w
      in (create_answer (''create group '' @ name) ''parse create group response: '' (bc_group c) resp, w))"

definition bao_updateGroup :: "'w bao_client \<Rightarrow> string \<Rightarrow> string list \<Rightarrow> (string \<times> string) list option \<Rightarrow> 'w
    \<Rightarrow> string option \<times> 'w" where
  "bao_updateGroup c name members metadata w =
     (let (resp, w) = bao_request c ''POST'' ''/v1/identity/group'' (Some (group_body name members metadata)) w
      in (write_answer (''update group '' @ name) resp, w))"

definition bao_deleteGroup :: "'w bao_client \<Rightarrow> string \<Rightarrow> 'w \<Rightarrow> string option \<times> 'w" where
  "bao_deleteGroup c i w =
     (let (resp, w) = bao_request c ''DELETE'' (''/v1/identity/group/id/'' @ i) None w
      in (write_answer (''delete group '' @ i) resp, w))"

section \<open>Listings\<close>

text \<open>No keys at all is a nil slice, which the callers treat as the empty one.\<close>

definition listEntities :: "'w bao_client \<Rightarrow> 'w \<Rightarrow> (string + string list) \<times> 'w" where
  "listEntities c w =
     (let (resp, w) = bao_request c ''LIST'' ''/v1/identity/entity/name'' None w
      in (map_sum id (case_option [] id)
            (read_answer ''list entities'' ''parse list entities response: '' (bc_keys c) resp), w))"

definition bao_listGroups :: "'w bao_client \<Rightarrow> 'w \<Rightarrow> (string + string list) \<times> 'w" where
  "bao_listGroups c w =
     (let (resp, w) = bao_request c ''LIST'' ''/v1/identity/group/name'' None w
      in (map_sum id (case_option [] id)
            (read_answer ''list groups'' ''parse list groups response: '' (bc_keys c) resp), w))"

end
