(* ===== verification/Idp_Saml.thy ===== *)
theory Idp_Saml
  imports Idp_Xml Idp_Bao Jwt
begin

text \<open>
  The SAML side of the agent below its HTTP handlers (\<^verbatim>\<open>saml-scim-agent/saml\<close>): reading requests
  (\<^verbatim>\<open>request.go\<close>), building and signing responses (\<^verbatim>\<open>assertion.go\<close>), the signing key kept in OpenBao
  (\<^verbatim>\<open>keys.go\<close>) and the metadata (\<^verbatim>\<open>metadata.go\<close>).

  A struct with a single text is that text. Hashing, the signature schemes, DEFLATE, PEM and X.509 are
  parameters, and so are the decoders of XML; what \<^verbatim>\<open>encoding/xml\<close> writes is \<open>xml_marshal\<close> of the tree of
  a struct. Instants are in seconds since 1970, UTC.
\<close>

section \<open>Reading a request\<close>

record authn_request =
  rq_ID :: string
  rq_Version :: string
  rq_IssueInstant :: string
  rq_Destination :: string
  rq_ACS :: string              \<comment> \<open>\<open>AssertionConsumerServiceURL\<close>\<close>
  rq_Binding :: string
  rq_Issuer :: string

definition parseAuthnRequestXML :: "(string \<Rightarrow> string + authn_request) \<Rightarrow> string \<Rightarrow> string + authn_request" where
  "parseAuthnRequestXML unmarshal data =
     (case unmarshal data of
        Inl e \<Rightarrow> Inl (''unmarshal AuthnRequest: '' @ e)
      | Inr req \<Rightarrow>
          if rq_ID req = '''' then Inl ''AuthnRequest missing ID''
          else if rq_Version req \<noteq> ''2.0'' then Inl (''unsupported SAML version: '' @ rq_Version req)
          else Inr req)"

text \<open>\<open>url.QueryUnescape\<close>: a plus is a blank, a percent sign needs two hexadecimal digits.\<close>

definition hex_val :: "char \<Rightarrow> nat option" where
  "hex_val c =
     (let n = (of_char c :: nat)
      in if 48 \<le> n \<and> n \<le> 57 then Some (n - 48) else if 97 \<le> n \<and> n \<le> 102 then Some (n - 87)
         else if 65 \<le> n \<and> n \<le> 70 then Some (n - 55) else None)"

fun query_unescape :: "string \<Rightarrow> string option" where
  "query_unescape [] = Some []"
| "query_unescape (c # s) =
     (if c = CHR ''%''
      then (case s of
              a # b # rest \<Rightarrow>
                (case (hex_val a, hex_val b) of
                   (Some x, Some y) \<Rightarrow> map_option ((#) (char_of (16 * x + y))) (query_unescape rest)
                 | _ \<Rightarrow> None)
            | _ \<Rightarrow> None)
      else map_option ((#) (if c = CHR ''+'' then CHR '' '' else c)) (query_unescape s))"

definition parseAuthnRequestRedirect ::
    "(string \<Rightarrow> string option) \<Rightarrow> (string \<Rightarrow> string + authn_request) \<Rightarrow> string \<Rightarrow> string + authn_request" where
  "parseAuthnRequestRedirect inflate unmarshal samlRequest =
     (let decoded = (case query_unescape samlRequest of None \<Rightarrow> samlRequest | Some d \<Rightarrow> d)
      in case std_decode decoded of
           None \<Rightarrow> Inl ''base64 decode''
         | Some compressed \<Rightarrow>
             parseAuthnRequestXML unmarshal (case inflate compressed of None \<Rightarrow> compressed | Some d \<Rightarrow> d))"

definition parseAuthnRequestPost ::
    "(string \<Rightarrow> string + authn_request) \<Rightarrow> string \<Rightarrow> string + authn_request" where
  "parseAuthnRequestPost unmarshal samlRequest =
     (case std_decode samlRequest of
        None \<Rightarrow> Inl ''base64 decode''
      | Some xmlData \<Rightarrow> parseAuthnRequestXML unmarshal xmlData)"

section \<open>Responses\<close>

definition saml_ns :: string where
  "saml_ns = ''urn:oasis:names:tc:SAML:2.0:assertion''"

definition samlp_ns :: string where
  "samlp_ns = ''urn:oasis:names:tc:SAML:2.0:protocol''"

definition dsig_ns :: string where
  "dsig_ns = ''http://www.w3.org/2000/09/xmldsig#''"

record signed_info =
  gi_c14n :: string
  gi_method :: string
  gi_uri :: string
  gi_transforms :: "string list"
  gi_digestMethod :: string
  gi_digest :: string

record xml_signature =
  xs_info :: signed_info
  xs_value :: string
  xs_certificate :: string

record saml_nameID =
  nd_format :: string
  nd_value :: string

record saml_confirmation =
  cf_method :: string
  cf_inResponseTo :: string
  cf_notOnOrAfter :: string
  cf_recipient :: string

record saml_conditions =
  cn_notBefore :: string
  cn_notOnOrAfter :: string
  cn_audience :: string

record saml_authn =
  an_instant :: string
  an_sessionIndex :: string
  an_classRef :: string

text \<open>The fields \<open>Type\<close> and \<open>XSType\<close> of an attribute value are never set and so never written.\<close>

record idp_attribute =
  ia_name :: string
  ia_nameFormat :: string
  ia_values :: "string list"

record saml_assertion =
  xa_xmlns :: string
  xa_id :: string
  xa_version :: string
  xa_issueInstant :: string
  xa_issuer :: string
  xa_signature :: "xml_signature option"
  xa_nameID :: saml_nameID
  xa_confirmation :: saml_confirmation
  xa_conditions :: saml_conditions
  xa_authn :: saml_authn
  xa_attributes :: "idp_attribute list"

record saml_response =
  xr_xmlns :: string
  xr_xmlnsa :: string
  xr_id :: string
  xr_version :: string
  xr_issueInstant :: string
  xr_destination :: string
  xr_inResponseTo :: string
  xr_issuer :: string
  xr_status :: string
  xr_assertion :: saml_assertion
  xr_signature :: "xml_signature option"

record assertion_params =
  ap_entityID :: string
  ap_ssoURL :: string
  ap_requestID :: string
  ap_acsURL :: string
  ap_audience :: string
  ap_username :: string
  ap_email :: string
  ap_groups :: "string list"

subsection \<open>As XML\<close>

definition leaf :: "string \<Rightarrow> string \<Rightarrow> string \<Rightarrow> xml_tree" where
  "leaf space name text = XElem space name [] [XText text]"

definition algorithm_elem :: "string \<Rightarrow> string \<Rightarrow> xml_tree" where
  "algorithm_elem name alg = XElem dsig_ns name [(''Algorithm'', alg)] []"

definition info_tree :: "signed_info \<Rightarrow> xml_tree" where
  "info_tree i =
     XElem dsig_ns ''SignedInfo'' []
       [algorithm_elem ''CanonicalizationMethod'' (gi_c14n i), algorithm_elem ''SignatureMethod'' (gi_method i),
        XElem dsig_ns ''Reference'' [(''URI'', gi_uri i)]
          [XElem dsig_ns ''Transforms'' [] (map (algorithm_elem ''Transform'') (gi_transforms i)),
           algorithm_elem ''DigestMethod'' (gi_digestMethod i), leaf dsig_ns ''DigestValue'' (gi_digest i)]]"

definition signature_tree :: "xml_signature \<Rightarrow> xml_tree" where
  "signature_tree s =
     XElem dsig_ns ''Signature'' []
       [info_tree (xs_info s), leaf dsig_ns ''SignatureValue'' (xs_value s),
        XElem dsig_ns ''KeyInfo'' [] [XElem dsig_ns ''X509Data'' [] [leaf dsig_ns ''X509Certificate'' (xs_certificate s)]]]"

definition signature_trees :: "xml_signature option \<Rightarrow> xml_tree list" where
  "signature_trees s = (case s of None \<Rightarrow> [] | Some s \<Rightarrow> [signature_tree s])"

definition attribute_tree :: "idp_attribute \<Rightarrow> xml_tree" where
  "attribute_tree a =
     XElem saml_ns ''Attribute'' [(''Name'', ia_name a), (''NameFormat'', ia_nameFormat a)]
       (map (leaf saml_ns ''AttributeValue'') (ia_values a))"

definition assertion_tree :: "saml_assertion \<Rightarrow> xml_tree" where
  "assertion_tree a =
     XElem saml_ns ''Assertion''
       [(''xmlns:saml'', xa_xmlns a), (''ID'', xa_id a), (''Version'', xa_version a), (''IssueInstant'', xa_issueInstant a)]
       ([leaf saml_ns ''Issuer'' (xa_issuer a)] @ signature_trees (xa_signature a) @
        [XElem saml_ns ''Subject'' []
           [XElem saml_ns ''NameID'' [(''Format'', nd_format (xa_nameID a))] [XText (nd_value (xa_nameID a))],
            XElem saml_ns ''SubjectConfirmation'' [(''Method'', cf_method (xa_confirmation a))]
              [XElem saml_ns ''SubjectConfirmationData''
                 [(''InResponseTo'', cf_inResponseTo (xa_confirmation a)),
                  (''NotOnOrAfter'', cf_notOnOrAfter (xa_confirmation a)),
                  (''Recipient'', cf_recipient (xa_confirmation a))] []]],
         XElem saml_ns ''Conditions''
           [(''NotBefore'', cn_notBefore (xa_conditions a)), (''NotOnOrAfter'', cn_notOnOrAfter (xa_conditions a))]
           [XElem saml_ns ''AudienceRestriction'' [] [leaf saml_ns ''Audience'' (cn_audience (xa_conditions a))]],
         XElem saml_ns ''AuthnStatement''
           [(''AuthnInstant'', an_instant (xa_authn a)), (''SessionIndex'', an_sessionIndex (xa_authn a))]
           [XElem saml_ns ''AuthnContext'' [] [leaf saml_ns ''AuthnContextClassRef'' (an_classRef (xa_authn a))]],
         XElem saml_ns ''AttributeStatement'' [] (map attribute_tree (xa_attributes a))])"

definition response_tree :: "saml_response \<Rightarrow> xml_tree" where
  "response_tree r =
     XElem samlp_ns ''Response''
       [(''xmlns:samlp'', xr_xmlns r), (''xmlns:saml'', xr_xmlnsa r), (''ID'', xr_id r), (''Version'', xr_version r),
        (''IssueInstant'', xr_issueInstant r), (''Destination'', xr_destination r), (''InResponseTo'', xr_inResponseTo r)]
       ([leaf saml_ns ''Issuer'' (xr_issuer r),
         XElem samlp_ns ''Status'' [] [XElem samlp_ns ''StatusCode'' [(''Value'', xr_status r)] []],
         assertion_tree (xr_assertion r)] @ signature_trees (xr_signature r))"

subsection \<open>Keys and signatures\<close>

datatype 'k private_key = Ed25519Key 'k | RsaKey 'k | OtherKey string   \<comment> \<open>any other: its type\<close>

record 'k key_pair =
  kp_private :: "'k private_key"
  kp_raw :: string              \<comment> \<open>the certificate, DER\<close>
  kp_certPEM :: string
  kp_algorithm :: string

record 'k saml_crypto =
  cr_sha256 :: "string \<Rightarrow> string"
  cr_ed25519 :: "'k \<Rightarrow> string \<Rightarrow> string"
  cr_rsa :: "'k \<Rightarrow> string \<Rightarrow> string + string"     \<comment> \<open>of a hash\<close>
  cr_decode :: "string \<Rightarrow> xml_token list"

definition sign_bytes :: "'k saml_crypto \<Rightarrow> 'k private_key \<Rightarrow> string \<Rightarrow> string + string" where
  "sign_bytes cr key data =
     (case key of
        Ed25519Key k \<Rightarrow> Inr (cr_ed25519 cr k data)
      | RsaKey k \<Rightarrow> map_sum (\<lambda>e. ''rsa sign: '' @ e) id (cr_rsa cr k (cr_sha256 cr data))
      | OtherKey t \<Rightarrow> Inl (''unsupported key type: '' @ t))"

definition signature_algorithm :: "'k key_pair \<Rightarrow> string" where
  "signature_algorithm keys =
     (if kp_algorithm keys = ''ed25519'' then ''http://www.w3.org/2021/04/xmldsig-more#eddsa-ed25519''
      else ''http://www.w3.org/2001/04/xmldsig-more#rsa-sha256'')"

definition signElement :: "'k saml_crypto \<Rightarrow> string \<Rightarrow> string \<Rightarrow> 'k key_pair \<Rightarrow> string \<Rightarrow> string + xml_signature" where
  "signElement cr elementXML refID keys certB64 =
     (let digest = cr_sha256 cr (canonicalize (cr_decode cr) elementXML);
          info = \<lparr>gi_c14n = ''http://www.w3.org/2001/10/xml-exc-c14n#'', gi_method = signature_algorithm keys,
                  gi_uri = ''#'' @ refID,
                  gi_transforms = [''http://www.w3.org/2000/09/xmldsig#enveloped-signature'',
                                   ''http://www.w3.org/2001/10/xml-exc-c14n#''],
                  gi_digestMethod = ''http://www.w3.org/2001/04/xmlenc#sha256'', gi_digest = std_encode digest\<rparr>
      in case sign_bytes cr (kp_private keys) (canonicalize (cr_decode cr) (xml_marshal (info_tree info))) of
           Inl e \<Rightarrow> Inl e
         | Inr sig \<Rightarrow> Inr \<lparr>xs_info = info, xs_value = std_encode sig, xs_certificate = certB64\<rparr>)"

text \<open>\<open>generateID\<close> of sixteen random bytes.\<close>

definition generateID :: "nat list \<Rightarrow> string" where
  "generateID random = hex_bytes (take 16 random)"

definition buildAttributeStatement :: "assertion_params \<Rightarrow> idp_attribute list" where
  "buildAttributeStatement p =
     [\<lparr>ia_name = ''email'', ia_nameFormat = ''urn:oasis:names:tc:SAML:2.0:attrname-format:basic'', ia_values = [ap_email p]\<rparr>] @
     (if length (ap_groups p) > 0
      then [\<lparr>ia_name = ''groups'', ia_nameFormat = ''urn:oasis:names:tc:SAML:2.0:attrname-format:basic'',
             ia_values = ap_groups p\<rparr>]
      else [])"

definition build_assertion :: "assertion_params \<Rightarrow> int \<Rightarrow> string \<Rightarrow> saml_assertion" where
  "build_assertion p now assertionID =
     \<lparr>xa_xmlns = ''urn:oasis:names:tc:SAML:2.0:assertion'', xa_id = assertionID, xa_version = ''2.0'',
      xa_issueInstant = rfc3339 now, xa_issuer = ap_entityID p, xa_signature = None,
      xa_nameID = \<lparr>nd_format = ''urn:oasis:names:tc:SAML:1.1:nameid-format:unspecified'', nd_value = ap_username p\<rparr>,
      xa_confirmation = \<lparr>cf_method = ''urn:oasis:names:tc:SAML:2.0:cm:bearer'', cf_inResponseTo = ap_requestID p,
                         cf_notOnOrAfter = rfc3339 (now + 300), cf_recipient = ap_acsURL p\<rparr>,
      xa_conditions = \<lparr>cn_notBefore = rfc3339 (now - 5), cn_notOnOrAfter = rfc3339 (now + 300), cn_audience = ap_audience p\<rparr>,
      xa_authn = \<lparr>an_instant = rfc3339 now, an_sessionIndex = assertionID,
                  an_classRef = ''urn:oasis:names:tc:SAML:2.0:ac:classes:PasswordProtectedTransport''\<rparr>,
      xa_attributes = buildAttributeStatement p\<rparr>"

definition build_response :: "assertion_params \<Rightarrow> int \<Rightarrow> saml_assertion \<Rightarrow> string \<Rightarrow> saml_response" where
  "build_response p now assertion responseID =
     \<lparr>xr_xmlns = ''urn:oasis:names:tc:SAML:2.0:protocol'', xr_xmlnsa = ''urn:oasis:names:tc:SAML:2.0:assertion'',
      xr_id = responseID, xr_version = ''2.0'', xr_issueInstant = rfc3339 now, xr_destination = ap_acsURL p,
      xr_inResponseTo = ap_requestID p, xr_issuer = ap_entityID p,
      xr_status = ''urn:oasis:names:tc:SAML:2.0:status:Success'', xr_assertion = assertion, xr_signature = None\<rparr>"

text \<open>\<open>BuildSignedResponse\<close> up to its last \<open>Marshal\<close>; the two lists are the random bytes drawn.\<close>

definition signed_response ::
    "'k saml_crypto \<Rightarrow> assertion_params \<Rightarrow> 'k key_pair \<Rightarrow> int \<Rightarrow> nat list \<Rightarrow> nat list \<Rightarrow> string + saml_response" where
  "signed_response cr p keys now random1 random2 =
     (let assertionID = ''_'' @ generateID random1; responseID = ''_'' @ generateID random2;
          certB64 = std_encode (kp_raw keys);
          assertion = build_assertion p now assertionID
      in case signElement cr (xml_marshal (assertion_tree assertion)) assertionID keys certB64 of
           Inl e \<Rightarrow> Inl (''sign assertion: '' @ e)
         | Inr assertionSig \<Rightarrow>
             let response = build_response p now (assertion\<lparr>xa_signature := Some assertionSig\<rparr>) responseID
             in case signElement cr (xml_marshal (response_tree response)) responseID keys certB64 of
                  Inl e \<Rightarrow> Inl (''sign response: '' @ e)
                | Inr responseSig \<Rightarrow> Inr (response\<lparr>xr_signature := Some responseSig\<rparr>))"

definition buildSignedResponse ::
    "'k saml_crypto \<Rightarrow> assertion_params \<Rightarrow> 'k key_pair \<Rightarrow> int \<Rightarrow> nat list \<Rightarrow> nat list \<Rightarrow> string + string" where
  "buildSignedResponse cr p keys now random1 random2 =
     map_sum id (\<lambda>r. xml_marshal (response_tree r)) (signed_response cr p keys now random1 random2)"

section \<open>The signing key\<close>

definition kvPath :: string where
  "kvPath = ''secret/data/saml-scim-agent/saml-signing-key''"

text \<open>
  Generation is \<open>x5_generate\<close> (of an algorithm) and \<open>x5_certify\<close> (\<open>CreateCertificate\<close> over the template of the
  source); \<open>x5_cert\<close> is \<open>ParseCertificate\<close>, kept as the raw bytes.
\<close>

record 'k x509 =
  x5_generate :: "string \<Rightarrow> string + 'k"
  x5_certify :: "'k private_key \<Rightarrow> string + string"
  x5_cert :: "string \<Rightarrow> string + string"
  x5_pem :: "string \<Rightarrow> string \<Rightarrow> string"                    \<comment> \<open>\<open>EncodeToMemory\<close>: type and bytes\<close>
  x5_unpem :: "string \<Rightarrow> (string \<times> string) option"
  x5_pkcs8 :: "'k private_key \<Rightarrow> string + string"
  x5_unpkcs8 :: "string \<Rightarrow> string + 'k private_key"
  x5_pkcs1 :: "'k \<Rightarrow> string"
  x5_unpkcs1 :: "string \<Rightarrow> string + 'k"

definition generateKeyPair :: "'k x509 \<Rightarrow> string \<Rightarrow> string + 'k key_pair" where
  "generateKeyPair x algorithm =
     (case (if algorithm = ''ed25519''
            then map_sum (\<lambda>e. ''generate ed25519 key: '' @ e) Ed25519Key (x5_generate x ''ed25519'')
            else if algorithm = ''rsa''
            then map_sum (\<lambda>e. ''generate RSA key: '' @ e) RsaKey (x5_generate x ''rsa'')
            else Inl (''unsupported algorithm: '' @ algorithm)) of
        Inl e \<Rightarrow> Inl e
      | Inr key \<Rightarrow>
         (case x5_certify x key of
            Inl e \<Rightarrow> Inl (''create certificate: '' @ e)
          | Inr der \<Rightarrow>
             (case x5_cert x der of
                Inl e \<Rightarrow> Inl (''parse certificate: '' @ e)
              | Inr raw \<Rightarrow>
                  Inr \<lparr>kp_private = key, kp_raw = raw, kp_certPEM = x5_pem x ''CERTIFICATE'' der, kp_algorithm = algorithm\<rparr>)))"

definition decode_private :: "'k x509 \<Rightarrow> string \<times> string \<Rightarrow> string + 'k private_key \<times> string" where
  "decode_private x block =
     (let (type, bytes) = block
      in if type = ''PRIVATE KEY''
         then (case x5_unpkcs8 x bytes of
                 Inl e \<Rightarrow> Inl (''parse PKCS8 private key: '' @ e)
               | Inr (Ed25519Key k) \<Rightarrow> Inr (Ed25519Key k, ''ed25519'')
               | Inr (RsaKey k) \<Rightarrow> Inr (RsaKey k, ''rsa'')
               | Inr (OtherKey t) \<Rightarrow> Inl (''unsupported PKCS8 key type: '' @ t))
         else if type = ''RSA PRIVATE KEY''
         then (case x5_unpkcs1 x bytes of
                 Inl e \<Rightarrow> Inl (''parse PKCS1 private key: '' @ e)
               | Inr k \<Rightarrow> Inr (RsaKey k, ''rsa''))
         else Inl (''unsupported PEM block type: '' @ type))"

definition decodeKeyPair :: "'k x509 \<Rightarrow> string \<Rightarrow> string \<Rightarrow> string + 'k key_pair" where
  "decodeKeyPair x keyPEM certPEM =
     (case x5_unpem x keyPEM of
        None \<Rightarrow> Inl ''failed to decode private key PEM''
      | Some block \<Rightarrow>
         (case decode_private x block of
            Inl e \<Rightarrow> Inl e
          | Inr (key, algorithm) \<Rightarrow>
             (case x5_unpem x certPEM of
                None \<Rightarrow> Inl ''failed to decode certificate PEM''
              | Some (_, der) \<Rightarrow>
                 (case x5_cert x der of
                    Inl e \<Rightarrow> Inl (''parse certificate: '' @ e)
                  | Inr raw \<Rightarrow>
                      Inr \<lparr>kp_private = key, kp_raw = raw, kp_certPEM = certPEM, kp_algorithm = algorithm\<rparr>))))"

text \<open>The stored pair, if there is one that can be decoded.\<close>

definition stored_keys :: "'k x509 \<Rightarrow> json_obj option \<Rightarrow> 'k key_pair option" where
  "stored_keys x data =
     (case data of
        None \<Rightarrow> None
      | Some d \<Rightarrow>
         (case (as_str (map_of d ''private_key''), as_str (map_of d ''certificate'')) of
            (Some keyPEM, Some certPEM) \<Rightarrow>
              (case decodeKeyPair x keyPEM certPEM of
                 Inl _ \<Rightarrow> None
               | Inr kp \<Rightarrow>
                   Some (kp\<lparr>kp_algorithm := (case as_str (map_of d ''algorithm'') of Some a \<Rightarrow> a | None \<Rightarrow> ''rsa'')\<rparr>))
          | _ \<Rightarrow> None))"

definition encode_private :: "'k x509 \<Rightarrow> string \<Rightarrow> 'k private_key \<Rightarrow> string + string" where
  "encode_private x algorithm key =
     (if algorithm = ''ed25519''
      then (case x5_pkcs8 x key of
              Inl e \<Rightarrow> Inl (''marshal ed25519 private key: '' @ e)
            | Inr bytes \<Rightarrow> Inr (x5_pem x ''PRIVATE KEY'' bytes))
      else if algorithm = ''rsa''
      then (case key of
              RsaKey k \<Rightarrow> Inr (x5_pem x ''RSA PRIVATE KEY'' (x5_pkcs1 x k))
            | _ \<Rightarrow> Inl ''expected *rsa.PrivateKey'')
      else Inl (''unsupported algorithm: '' @ algorithm))"

definition loadOrGenerateKeys :: "'k x509 \<Rightarrow> 'w bao_client \<Rightarrow> string \<Rightarrow> 'w \<Rightarrow> (string + 'k key_pair) \<times> 'w" where
  "loadOrGenerateKeys x c algorithm w =
     (case kvRead c kvPath w of
        (Inl e, w) \<Rightarrow> (Inl (''read keys from openbao: '' @ e), w)
      | (Inr data, w) \<Rightarrow>
         (case stored_keys x data of
            Some kp \<Rightarrow> (Inr kp, w)
          | None \<Rightarrow>
             (case generateKeyPair x algorithm of
                Inl e \<Rightarrow> (Inl (''generate key pair: '' @ e), w)
              | Inr kp \<Rightarrow>
                 (case encode_private x algorithm (kp_private kp) of
                    Inl e \<Rightarrow> (Inl e, w)
                  | Inr keyPEM \<Rightarrow>
                     (case kvWrite c kvPath [(''private_key'', JStr keyPEM), (''certificate'', JStr (kp_certPEM kp)),
                                             (''algorithm'', JStr algorithm)] w of
                        (Some e, w) \<Rightarrow> (Inl (''store keys in openbao: '' @ e), w)
                      | (None, w) \<Rightarrow> (Inr kp, w))))))"

section \<open>Metadata\<close>

definition md_ns :: string where
  "md_ns = ''urn:oasis:names:tc:SAML:2.0:metadata''"

definition slo_url :: "string \<Rightarrow> string" where
  "slo_url ssoURL =
     (if length ssoURL > 4 \<and> drop (length ssoURL - 4) ssoURL = ''/sso''
      then take (length ssoURL - 4) ssoURL @ ''/slo'' else ssoURL)"

definition endpoint :: "string \<Rightarrow> string \<Rightarrow> string \<Rightarrow> xml_tree" where
  "endpoint name binding location =
     XElem md_ns name [(''Binding'', ''urn:oasis:names:tc:SAML:2.0:bindings:'' @ binding), (''Location'', location)] []"

definition metadata_tree :: "string \<Rightarrow> string \<Rightarrow> string \<Rightarrow> xml_tree" where
  "metadata_tree entityID ssoURL certB64 =
     XElem md_ns ''EntityDescriptor'' [(''entityID'', entityID)]
       [XElem md_ns ''IDPSSODescriptor''
          [(''WantAuthnRequestsSigned'', ''false''), (''protocolSupportEnumeration'', ''urn:oasis:names:tc:SAML:2.0:protocol'')]
          [XElem md_ns ''KeyDescriptor'' [(''use'', ''signing'')]
             [XElem dsig_ns ''KeyInfo'' [] [XElem dsig_ns ''X509Data'' [] [leaf dsig_ns ''X509Certificate'' certB64]]],
           endpoint ''SingleSignOnService'' ''HTTP-Redirect'' ssoURL, endpoint ''SingleSignOnService'' ''HTTP-POST'' ssoURL,
           endpoint ''SingleLogoutService'' ''HTTP-Redirect'' (slo_url ssoURL),
           leaf md_ns ''NameIDFormat'' ''urn:oasis:names:tc:SAML:1.1:nameid-format:unspecified'',
           leaf md_ns ''NameIDFormat'' ''urn:oasis:names:tc:SAML:1.1:nameid-format:emailAddress'']]"

definition xml_header :: string where
  "xml_header = ''<?xml version='' @ [CHR 0x22] @ ''1.0'' @ [CHR 0x22] @ '' encoding='' @ [CHR 0x22] @ ''UTF-8'' @
     [CHR 0x22] @ ''?>'' @ [CHR 0x0A]"

definition generateMetadata :: "string \<Rightarrow> string \<Rightarrow> string \<Rightarrow> string" where
  "generateMetadata entityID ssoURL certDER =
     xml_header @ xml_marshal_indent 0 (metadata_tree entityID ssoURL (std_encode certDER))"

section \<open>Properties\<close>

subsection \<open>Requests in the query string\<close>

lemma strip_keeps: "c \<noteq> CHR ''='' \<Longrightarrow> c \<in> set s \<Longrightarrow> c \<in> set (strip_pad s)"
proof -
  have step: "c \<in> set (if s \<noteq> [] \<and> last s = CHR ''='' then butlast s else s)" if "c \<noteq> CHR ''=''" "c \<in> set s" for s
    using that by (cases s rule: rev_cases) auto
  assume "c \<noteq> CHR ''=''" "c \<in> set s"
  then show ?thesis unfolding strip_pad_def Let_def by (intro step)
qed

lemma std_decode_bad:
  assumes "c \<in> set s" and "(of_char c :: nat) \<notin> {10, 13}" and "c \<noteq> CHR ''=''" and "std_val c = None"
  shows "std_decode s = None"
proof -
  have "c \<in> set (filter (\<lambda>c. (of_char c :: nat) \<notin> {10, 13}) s)" using assms(1,2) by simp
  then have "c \<in> set (strip_pad (filter (\<lambda>c. (of_char c :: nat) \<notin> {10, 13}) s))" by (rule strip_keeps [OF assms(3)])
  then have "None \<in> set (map std_val (strip_pad (filter (\<lambda>c. (of_char c :: nat) \<notin> {10, 13}) s)))"
    using assms(4) by (metis imageI list.set_map)
  then show ?thesis by (simp add: std_decode_def Let_def)
qed

lemma unescaped_plus: "query_unescape s = Some d \<Longrightarrow> CHR ''+'' \<in> set s \<Longrightarrow> CHR '' '' \<in> set d"
proof (induction s arbitrary: d rule: query_unescape.induct)
  case (2 c s)
  show ?case
  proof (cases "c = CHR ''%''")
    case True
    then obtain a b rest where s: "s = a # b # rest" using 2(3) by (auto split: list.splits)
    then obtain x y where v: "hex_val a = Some x" "hex_val b = Some y" using 2(3) True by (auto split: option.splits)
    then obtain e where e: "query_unescape rest = Some e" "d = char_of (16 * x + y) # e" using 2(3) True s by auto
    have "a \<noteq> CHR ''+''" "b \<noteq> CHR ''+''" using v by (auto simp: hex_val_def)
    then have "CHR ''+'' \<in> set rest" using 2(4) True s by auto
    from 2(1) [OF True s refl, of "hex_val a" "hex_val b" x y e] v e this show ?thesis by simp
  next
    case False
    with 2(3) obtain e where e: "query_unescape s = Some e" "d = (if c = CHR ''+'' then CHR '' '' else c) # e" by auto
    show ?thesis
    proof (cases "c = CHR ''+''")
      case True
      with e show ?thesis by simp
    next
      case False
      with 2(4) have "CHR ''+'' \<in> set s" by simp
      from 2(2) [OF \<open>c \<noteq> CHR ''%''\<close> e(1) this] e(2) show ?thesis by simp
    qed
  qed
qed simp

lemma unescape_fails: "query_unescape s = None \<Longrightarrow> CHR ''%'' \<in> set s"
proof (induction s rule: query_unescape.induct)
  case (2 c s)
  then show ?case by (cases "c = CHR ''%''") auto
qed simp

text \<open>
  A request in the query string whose Base64 text has a plus in it is refused, whatever it says:
  the parameter reaches the parser with its escapes undone, and the parser undoes them again, which
  makes a blank of the plus.
\<close>

theorem plus_is_refused:
  assumes "CHR ''+'' \<in> set samlRequest"
  shows "parseAuthnRequestRedirect inflate unmarshal samlRequest = Inl ''base64 decode''"
proof -
  have "std_decode (case query_unescape samlRequest of None \<Rightarrow> samlRequest | Some d \<Rightarrow> d) = None"
  proof (cases "query_unescape samlRequest")
    case None
    have "std_decode samlRequest = None"
      by (rule std_decode_bad [OF unescape_fails [OF None]]) (simp_all add: std_val_def b64_val_def)
    with None show ?thesis by simp
  next
    case (Some d)
    have "std_decode d = None"
      by (rule std_decode_bad [OF unescaped_plus [OF Some assms]]) (simp_all add: std_val_def b64_val_def)
    with Some show ?thesis by simp
  qed
  then show ?thesis by (simp add: parseAuthnRequestRedirect_def Let_def)
qed

theorem plus_is_refused_witness:
  "parseAuthnRequestRedirect (\<lambda>_. None) Inl ''a+b='' = Inl ''base64 decode'' \<and> std_decode ''a+b='' \<noteq> None"
  using plus_is_refused [of "''a+b=''" "\<lambda>_. None" Inl] by (simp add: std_decode_def std_val_def b64_val_def strip_pad_def)

subsection \<open>Signatures\<close>

text \<open>What a recipient checks who computes the digests over the same canonical form.\<close>

definition signed_by ::
    "'k saml_crypto \<Rightarrow> ('k private_key \<Rightarrow> string \<Rightarrow> string \<Rightarrow> bool) \<Rightarrow> 'k private_key \<Rightarrow> string \<Rightarrow> string \<Rightarrow> xml_signature \<Rightarrow> bool"
  where
  "signed_by cr verify key refID data s \<longleftrightarrow>
     gi_uri (xs_info s) = ''#'' @ refID \<and>
     std_decode (gi_digest (xs_info s)) = Some (cr_sha256 cr (canonicalize (cr_decode cr) data)) \<and>
     (case std_decode (xs_value s) of
        None \<Rightarrow> False
      | Some sig \<Rightarrow> verify key (canonicalize (cr_decode cr) (xml_marshal (info_tree (xs_info s)))) sig)"

lemma sign_bytes_verifies:
  assumes "\<And>k d. verify (Ed25519Key k) d (cr_ed25519 cr k d)"
    and "\<And>k d s. cr_rsa cr k (cr_sha256 cr d) = Inr s \<Longrightarrow> verify (RsaKey k) d s"
    and "sign_bytes cr key d = Inr s"
  shows "verify key d s"
proof (cases key)
  case (RsaKey k)
  with assms(3) have "cr_rsa cr k (cr_sha256 cr d) = Inr s"
    by (cases "cr_rsa cr k (cr_sha256 cr d)") (simp_all add: sign_bytes_def)
  with RsaKey show ?thesis by (simp add: assms(2))
next
  case (Ed25519Key k)
  then show ?thesis using assms(3) assms(1) [of k d] by (simp add: sign_bytes_def)
qed (use assms(3) in \<open>simp add: sign_bytes_def\<close>)

lemma signElement_signs:
  assumes "\<And>k d. verify (Ed25519Key k) d (cr_ed25519 cr k d)"
    and "\<And>k d s. cr_rsa cr k (cr_sha256 cr d) = Inr s \<Longrightarrow> verify (RsaKey k) d s"
    and "signElement cr data refID keys cert = Inr s"
  shows "signed_by cr verify (kp_private keys) refID data s \<and> xs_certificate s = cert"
proof -
  from assms(3) obtain sig where
    sig: "sign_bytes cr (kp_private keys) (canonicalize (cr_decode cr) (xml_marshal (info_tree (xs_info s)))) = Inr sig"
    and s: "xs_value s = std_encode sig" "gi_uri (xs_info s) = ''#'' @ refID" "xs_certificate s = cert"
      "gi_digest (xs_info s) = std_encode (cr_sha256 cr (canonicalize (cr_decode cr) data))"
    unfolding signElement_def Let_def by (auto split: sum.splits)
  from sign_bytes_verifies [of verify, OF assms(1,2) sig] s show ?thesis by (simp add: signed_by_def)
qed


text \<open>An example of the schemes: the identity as a digest, a signature that is the text itself.\<close>

definition demo_crypto :: "nat saml_crypto" where
  "demo_crypto = \<lparr>cr_sha256 = id, cr_ed25519 = (\<lambda>k d. replicate k CHR ''k'' @ d), cr_rsa = (\<lambda>k h. Inr (replicate k CHR ''k'' @ h)),
     cr_decode = (\<lambda>d. [CharData d])\<rparr>"

definition demo_verify :: "nat private_key \<Rightarrow> string \<Rightarrow> string \<Rightarrow> bool" where
  "demo_verify key d s =
     (case key of Ed25519Key k \<Rightarrow> s = replicate k CHR ''k'' @ d | RsaKey k \<Rightarrow> s = replicate k CHR ''k'' @ d | OtherKey _ \<Rightarrow> False)"

definition demo_params :: assertion_params where
  "demo_params = \<lparr>ap_entityID = ''idp'', ap_ssoURL = ''idp/sso'', ap_requestID = ''r1'', ap_acsURL = ''sp/acs'', ap_audience = ''sp'',
     ap_username = ''ann'', ap_email = ''ann'', ap_groups = []\<rparr>"

definition demo_keys :: "nat key_pair" where
  "demo_keys = \<lparr>kp_private = Ed25519Key 3, kp_raw = ''der'', kp_certPEM = '''', kp_algorithm = ''ed25519''\<rparr>"

lemma signed_response_ed25519: "kp_private keys = Ed25519Key k \<Longrightarrow> \<exists>r. signed_response cr p keys now r1 r2 = Inr r"
  by (simp add: signed_response_def signElement_def sign_bytes_def Let_def)


subsection \<open>The stored key\<close>

text \<open>
  What the agent relies on: the path holds what was last written there, and the encodings of
  keys read back. Two starts of one agent read the same certificate from the same bytes.
\<close>

definition serves_secret :: "'w bao_client \<Rightarrow> ('w \<Rightarrow> json_obj option) \<Rightarrow> bool" where
  "serves_secret c sec \<longleftrightarrow>
     (\<forall>w. kvRead c kvPath w = (Inr (sec w), w)) \<and>
     (\<forall>d w w'. kvWrite c kvPath d w = (None, w') \<longrightarrow> sec w' = Some d)"

definition keys_read_back :: "'k x509 \<Rightarrow> bool" where
  "keys_read_back x \<longleftrightarrow>
     (\<forall>t b. x5_unpem x (x5_pem x t b) = Some (t, b)) \<and>
     (\<forall>k b. x5_pkcs8 x k = Inr b \<longrightarrow> x5_unpkcs8 x b = Inr k) \<and>
     (\<forall>k. x5_unpkcs1 x (x5_pkcs1 x k) = Inr k)"

lemma encoded_reads_back:
  assumes x: "keys_read_back x" and made: "generateKeyPair x alg = Inr kp"
    and enc: "encode_private x alg (kp_private kp) = Inr keyPEM"
  shows "stored_keys x (Some [(''private_key'', JStr keyPEM), (''certificate'', JStr (kp_certPEM kp)), (''algorithm'', JStr alg)]) =
     Some kp"
proof -
  note laws = x [unfolded keys_read_back_def]
  have pem: "x5_unpem x (x5_pem x t b) = Some (t, b)" for t b by (rule laws [THEN conjunct1, rule_format])
  have p8: "x5_pkcs8 x k = Inr b \<Longrightarrow> x5_unpkcs8 x b = Inr k" for k b
    by (rule laws [THEN conjunct2, THEN conjunct1, rule_format])
  have p1: "x5_unpkcs1 x (x5_pkcs1 x k) = Inr k" for k by (rule laws [THEN conjunct2, THEN conjunct2, rule_format])
  obtain key der raw where kp: "kp = \<lparr>kp_private = key, kp_raw = raw, kp_certPEM = x5_pem x ''CERTIFICATE'' der, kp_algorithm = alg\<rparr>"
    and cert: "x5_cert x der = Inr raw" and kind: "alg = ''ed25519'' \<and> (\<exists>k. key = Ed25519Key k) \<or> alg = ''rsa'' \<and> (\<exists>k. key = RsaKey k)"
  proof -
    obtain key where key: "(if alg = ''ed25519''
            then map_sum (\<lambda>e. ''generate ed25519 key: '' @ e) Ed25519Key (x5_generate x ''ed25519'')
            else if alg = ''rsa''
            then map_sum (\<lambda>e. ''generate RSA key: '' @ e) RsaKey (x5_generate x ''rsa'')
            else Inl (''unsupported algorithm: '' @ alg)) = Inr key"
      using made unfolding generateKeyPair_def by (auto split: sum.splits)
    have "alg = ''ed25519'' \<and> (\<exists>k. key = Ed25519Key k) \<or> alg = ''rsa'' \<and> (\<exists>k. key = RsaKey k)"
      using key by (cases "x5_generate x alg") (auto split: if_splits)
    moreover have "\<exists>der raw. kp = \<lparr>kp_private = key, kp_raw = raw, kp_certPEM = x5_pem x ''CERTIFICATE'' der, kp_algorithm = alg\<rparr> \<and>
        x5_cert x der = Inr raw"
      using made unfolding generateKeyPair_def key by (auto split: sum.splits)
    ultimately show thesis using that by blast
  qed
  have "decodeKeyPair x keyPEM (kp_certPEM kp) = Inr kp"
  proof (cases "alg = ''ed25519''")
    case True
    with kind obtain k where k: "key = Ed25519Key k" by auto
    then obtain b where b: "x5_pkcs8 x (Ed25519Key k) = Inr b" "keyPEM = x5_pem x ''PRIVATE KEY'' b"
      using enc True by (auto simp: kp encode_private_def split: sum.splits)
    then show ?thesis by (simp add: decodeKeyPair_def decode_private_def pem p8 [OF b(1)] kp cert k True)
  next
    case False
    with kind obtain k where k: "key = RsaKey k" and alg: "alg = ''rsa''" by auto
    then show ?thesis using enc
      by (auto simp: decodeKeyPair_def decode_private_def encode_private_def pem p1 kp cert)
  qed
  then show ?thesis by (simp add: stored_keys_def as_str_def kp)
qed

text \<open>
  C31: a restarted agent signs with the key it had, whichever algorithm it is now configured for:
  once a start has loaded or generated a key pair, every later start loads that pair, its
  certificate and its algorithm.
\<close>

theorem keys_survive_restart:
  assumes "keys_read_back x" and "serves_secret c sec" and "loadOrGenerateKeys x c alg w = (Inr kp, w')"
  shows "loadOrGenerateKeys x c alg' w' = (Inr kp, w')"
proof -
  have read: "kvRead c kvPath v = (Inr (sec v), v)" for v
    using assms(2) unfolding serves_secret_def by (rule conjunct1 [THEN spec])
  have written: "sec v' = Some d" if "kvWrite c kvPath d v = (None, v')" for d v v'
    using assms(2) that unfolding serves_secret_def by blast
  have "stored_keys x (sec w') = Some kp"
  proof (cases "stored_keys x (sec w)")
    case (Some p)
    with assms(3) show ?thesis by (simp add: loadOrGenerateKeys_def read)
  next
    case None
    then obtain keyPEM where made: "generateKeyPair x alg = Inr kp" "encode_private x alg (kp_private kp) = Inr keyPEM"
      and wr: "kvWrite c kvPath [(''private_key'', JStr keyPEM), (''certificate'', JStr (kp_certPEM kp)), (''algorithm'', JStr alg)] w = (None, w')"
      using assms(3) unfolding loadOrGenerateKeys_def read
      by (auto split: sum.splits option.splits prod.splits)
    show ?thesis unfolding written [OF wr] by (rule encoded_reads_back [OF assms(1) made])
  qed
  then show ?thesis by (simp add: loadOrGenerateKeys_def read)
qed

text \<open>An example: one secret, a list of the texts of its fields, and codes that name what they hold.\<close>

definition demo_x509 :: "nat x509" where
  "demo_x509 =
     \<lparr>x5_generate = (\<lambda>a. Inr (length a)), x5_certify = (\<lambda>k. Inr ''der''), x5_cert = Inr,
      x5_pem = (\<lambda>t b. code_strings [t, b]),
      x5_unpem = (\<lambda>s. case decode_strings '''' s of [t, b] \<Rightarrow> Some (t, b) | _ \<Rightarrow> None),
      x5_pkcs8 = (\<lambda>k. case k of Ed25519Key n \<Rightarrow> Inr (replicate n CHR ''e'') | _ \<Rightarrow> Inl ''not here''),
      x5_unpkcs8 = (\<lambda>b. Inr (Ed25519Key (length b))), x5_pkcs1 = (\<lambda>n. replicate n CHR ''r''), x5_unpkcs1 = (\<lambda>b. Inr (length b))\<rparr>"

definition demo_secrets :: "string list bao_client" where
  "demo_secrets =
     \<lparr>bc_addr = '''', bc_token = ''service'',
      bc_do = (\<lambda>m u t body w.
        if m = ''GET'' then (if w = [] then (Answer 404 '''', w) else (Answer 200 (code_strings w), w))
        else (case body of
                Some (JObj [(_, JObj d)]) \<Rightarrow>
                  (let xs = map (\<lambda>(k, v). case v of JStr s \<Rightarrow> s | _ \<Rightarrow> '''') d
                   in if map fst d = [''private_key'', ''certificate'', ''algorithm''] \<and> d = zip (map fst d) (map JStr xs)
                      then (Answer 204 '''', xs) else (Answer 400 '''', w))
              | _ \<Rightarrow> (Answer 400 '''', w))),
      bc_auth = Inr,
      bc_kv = (\<lambda>b. Inr (Some (zip [''private_key'', ''certificate'', ''algorithm''] (map JStr (decode_strings '''' b))))),
      bc_entity = Inl, bc_group = Inl, bc_keys = Inl\<rparr>"

definition demo_secret :: "string list \<Rightarrow> json_obj option" where
  "demo_secret w = (if w = [] then None else Some (zip [''private_key'', ''certificate'', ''algorithm''] (map JStr w)))"

lemma demo_secrets_serves: "serves_secret demo_secrets demo_secret"
proof -
  have read: "kvRead demo_secrets kvPath w = (Inr (demo_secret w), w)" for w
    by (simp add: demo_secrets_def kvRead_def bao_request_def requestWithToken_def read_answer_def demo_secret_def del: code_strings.simps)
  have "demo_secret w' = Some d" if "kvWrite demo_secrets kvPath d w = (None, w')" for d w w'
  proof -
    let ?xs = "map (\<lambda>(k, v). case v of JStr s \<Rightarrow> s | _ \<Rightarrow> '''') d"
    have keys: "map fst d = [''private_key'', ''certificate'', ''algorithm'']" and d: "d = zip (map fst d) (map JStr ?xs)" and w': "w' = ?xs"
      using that by (auto simp: demo_secrets_def kvWrite_def bao_request_def requestWithToken_def write_answer_def Let_def split: if_splits)
    then show ?thesis by (auto simp: demo_secret_def)
  qed
  with read show ?thesis unfolding serves_secret_def by blast
qed

theorem keys_survive_restart_witness:
  "\<exists>w'. loadOrGenerateKeys demo_x509 demo_secrets ''rsa'' [] =
      (Inr \<lparr>kp_private = RsaKey 3, kp_raw = ''der'', kp_certPEM = x5_pem demo_x509 ''CERTIFICATE'' ''der'', kp_algorithm = ''rsa''\<rparr>, w') \<and>
    loadOrGenerateKeys demo_x509 demo_secrets ''ed25519'' w' =
      (Inr \<lparr>kp_private = RsaKey 3, kp_raw = ''der'', kp_certPEM = x5_pem demo_x509 ''CERTIFICATE'' ''der'', kp_algorithm = ''rsa''\<rparr>, w')"
proof -
  have x: "keys_read_back demo_x509"
    unfolding keys_read_back_def
    by (intro conjI allI impI) (auto simp: demo_x509_def simp del: code_strings.simps split: private_key.splits)
  have first: "\<exists>w'. loadOrGenerateKeys demo_x509 demo_secrets ''rsa'' [] =
      (Inr \<lparr>kp_private = RsaKey 3, kp_raw = ''der'', kp_certPEM = x5_pem demo_x509 ''CERTIFICATE'' ''der'', kp_algorithm = ''rsa''\<rparr>, w')"
    by (simp add: loadOrGenerateKeys_def demo_secrets_def kvRead_def kvWrite_def bao_request_def requestWithToken_def read_answer_def
        write_answer_def stored_keys_def generateKeyPair_def encode_private_def demo_x509_def Let_def del: code_strings.simps)
  then show ?thesis using keys_survive_restart [OF x demo_secrets_serves] by blast
qed

end
