(* ===== verification/Scim.thy ===== *)
theory Scim
  imports Idp_Bao Httputil
begin

text \<open>
  The SCIM endpoints of the SAML/SCIM agent (\<^verbatim>\<open>saml-scim-agent/scim\<close>): resources, the handlers of
  users and groups over the OpenBao client, the routes, and the constant answers that describe the service.

  A reply is the status with the value that is encoded; \<open>Failure status detail\<close> of the source is
  \<open>writeError\<close>. The decoded body of a request, or the message of the decoder, comes with the request.
\<close>

section \<open>Resources\<close>

definition schemaUser :: string where
  "schemaUser = ''urn:ietf:params:scim:schemas:core:2.0:User''"

definition schemaGroup :: string where
  "schemaGroup = ''urn:ietf:params:scim:schemas:core:2.0:Group''"

definition schemaServiceProvider :: string where
  "schemaServiceProvider = ''urn:ietf:params:scim:schemas:core:2.0:ServiceProviderConfig''"

definition schemaListResponse :: string where
  "schemaListResponse = ''urn:ietf:params:scim:api:messages:2.0:ListResponse''"

definition schemaError :: string where
  "schemaError = ''urn:ietf:params:scim:api:messages:2.0:Error''"

definition schemaResourceType :: string where
  "schemaResourceType = ''urn:ietf:params:scim:schemas:core:2.0:ResourceType''"

definition schemaSchemaDef :: string where
  "schemaSchemaDef = ''urn:ietf:params:scim:schemas:core:2.0:Schema''"

record scim_name =
  sm_given :: string
  sm_family :: string
  sm_formatted :: string

record scim_email =
  sl_value :: string
  sl_type :: string
  sl_primary :: bool

record scim_ref =
  sf_value :: string
  sf_display :: string
  sf_ref :: string

record scim_meta =
  sa_resourceType :: string
  sa_location :: string
  sa_created :: string
  sa_lastModified :: string

record scim_user =
  su_schemas :: "string list"
  su_id :: string
  su_externalID :: string
  su_userName :: string
  su_name :: "scim_name option"
  su_displayName :: string
  su_emails :: "scim_email list"
  su_active :: bool
  su_groups :: "scim_ref list"
  su_meta :: scim_meta

record scim_group =
  sg_schemas :: "string list"
  sg_id :: string
  sg_displayName :: string
  sg_members :: "scim_ref list"
  sg_meta :: scim_meta

record 'a scim_list =
  li_schemas :: "string list"
  li_total :: int
  li_start :: int
  li_perPage :: int
  li_resources :: "'a list"

text \<open>What the handlers decode a body into. The field \<open>schemas\<close> is decoded and not used.\<close>

record user_input =
  ui_userName :: string
  ui_name :: "scim_name option"
  ui_displayName :: string
  ui_emails :: "scim_email list"
  ui_active :: bool
  ui_password :: string

record group_input =
  gi_displayName :: string
  gi_members :: "scim_ref list"

record scim_request =
  sr_method :: string
  sr_authorization :: string
  sr_path :: string
  sr_user :: "string + user_input"
  sr_group :: "string + group_input"

section \<open>What the service says of itself\<close>

record auth_scheme =
  az_type :: string
  az_name :: string
  az_description :: string

record provider_config =
  pc_schemas :: "string list"
  pc_patch :: bool
  pc_bulk :: "bool \<times> int \<times> int"
  pc_filter :: "bool \<times> int"
  pc_changePassword :: bool
  pc_sort :: bool
  pc_etag :: bool
  pc_schemes :: "auth_scheme list"

record resource_type =
  rt_schemas :: "string list"
  rt_id :: string
  rt_name :: string
  rt_description :: string
  rt_endpoint :: string
  rt_schema :: string

text \<open>Name, type, multi-valued, required, mutability.\<close>

type_synonym scim_attribute = "string \<times> string \<times> bool \<times> bool \<times> string"

record scim_schema =
  sd_schemas :: "string list"
  sd_id :: string
  sd_name :: string
  sd_description :: string
  sd_attributes :: "scim_attribute list"

definition getServiceProviderConfig :: provider_config where
  "getServiceProviderConfig =
     \<lparr>pc_schemas = [schemaServiceProvider], pc_patch = False, pc_bulk = (False, 0, 0), pc_filter = (True, 200),
      pc_changePassword = False, pc_sort = False, pc_etag = False,
      pc_schemes = [\<lparr>az_type = ''oauthbearertoken'', az_name = ''OAuth Bearer Token'',
                     az_description = ''Authentication using an OpenBao token as a Bearer token''\<rparr>]\<rparr>"

definition getResourceTypes :: "resource_type list" where
  "getResourceTypes =
     [\<lparr>rt_schemas = [schemaResourceType], rt_id = ''User'', rt_name = ''User'', rt_description = ''User Account'',
       rt_endpoint = ''/scim/v2/Users'', rt_schema = schemaUser\<rparr>,
      \<lparr>rt_schemas = [schemaResourceType], rt_id = ''Group'', rt_name = ''Group'', rt_description = ''Group'',
       rt_endpoint = ''/scim/v2/Groups'', rt_schema = schemaGroup\<rparr>]"

definition getSchemas :: "scim_schema list" where
  "getSchemas =
     [\<lparr>sd_schemas = [schemaSchemaDef], sd_id = schemaUser, sd_name = ''User'', sd_description = ''User Account'',
       sd_attributes =
         [(''userName'', ''string'', False, True, ''readWrite''), (''name'', ''complex'', False, False, ''readWrite''),
          (''displayName'', ''string'', False, False, ''readWrite''), (''emails'', ''complex'', True, False, ''readWrite''),
          (''active'', ''boolean'', False, False, ''readWrite''), (''groups'', ''complex'', True, False, ''readOnly'')]\<rparr>,
      \<lparr>sd_schemas = [schemaSchemaDef], sd_id = schemaGroup, sd_name = ''Group'', sd_description = ''Group'',
       sd_attributes =
         [(''displayName'', ''string'', False, True, ''readWrite''),
          (''members'', ''complex'', True, False, ''readWrite'')]\<rparr>]"

section \<open>Replies\<close>

datatype scim_payload =
    ScUser scim_user | ScGroup scim_group | ScUsers "scim_user scim_list" | ScGroups "scim_group scim_list"
  | ScConfig provider_config | ScSchemas "scim_schema list" | ScTypes "resource_type list"

type_synonym scim_reply = "scim_payload reply"

definition scim_error :: "nat \<Rightarrow> string \<Rightarrow> scim_reply" where
  "scim_error status detail = Failure status schemaError detail"

definition list_response :: "'a list \<Rightarrow> 'a scim_list" where
  "list_response xs =
     \<lparr>li_schemas = [schemaListResponse], li_total = int (length xs), li_start = 1,
      li_perPage = int (length xs), li_resources = xs\<rparr>"

text \<open>The objects of a listing, one read each; those that cannot be read are left out.\<close>

fun fetch_each :: "(string \<Rightarrow> 'w \<Rightarrow> (string + 'a option) \<times> 'w) \<Rightarrow> string list \<Rightarrow> 'w \<Rightarrow> 'a list \<times> 'w" where
  "fetch_each get [] w = ([], w)"
| "fetch_each get (n # ns) w =
     (case get n w of
        (Inr (Some x), w) \<Rightarrow> (let (xs, w) = fetch_each get ns w in (x # xs, w))
      | (_, w) \<Rightarrow> fetch_each get ns w)"

section \<open>Users\<close>

definition meta_of :: "(string \<times> string) list \<Rightarrow> string \<Rightarrow> string" where
  "meta_of m k = (case map_of m k of None \<Rightarrow> '''' | Some v \<Rightarrow> v)"

definition entityToUser :: "string \<Rightarrow> bao_entity \<Rightarrow> scim_user" where
  "entityToUser baseURL e =
     (let m = be_metadata e; given = meta_of m ''given_name''; family = meta_of m ''family_name''
      in \<lparr>su_schemas = [schemaUser], su_id = be_id e, su_externalID = '''', su_userName = be_name e,
          su_name = (if given \<noteq> '''' \<or> family \<noteq> ''''
                     then Some \<lparr>sm_given = given, sm_family = family, sm_formatted = trim_spaces (given @ '' '' @ family)\<rparr>
                     else None),
          su_displayName = meta_of m ''display_name'',
          su_emails = (if meta_of m ''email'' \<noteq> ''''
                       then [\<lparr>sl_value = meta_of m ''email'', sl_type = ''work'', sl_primary = True\<rparr>] else []),
          su_active = (\<not> be_disabled e),
          su_groups = map (\<lambda>g. \<lparr>sf_value = g, sf_display = '''', sf_ref = baseURL @ ''/scim/v2/Groups/'' @ g\<rparr>)
                        (be_groupIDs e),
          su_meta = \<lparr>sa_resourceType = ''User'', sa_location = baseURL @ ''/scim/v2/Users/'' @ be_id e,
                     sa_created = '''', sa_lastModified = ''''\<rparr>\<rparr>)"

text \<open>The metadata that creation and update make of the input.\<close>

definition input_metadata :: "user_input \<Rightarrow> (string \<times> string) list" where
  "input_metadata i =
     (if ui_displayName i \<noteq> '''' then [(''display_name'', ui_displayName i)] else []) @
     (case ui_name i of
        None \<Rightarrow> []
      | Some n \<Rightarrow>
          (if sm_given n \<noteq> '''' then [(''given_name'', sm_given n)] else []) @
          (if sm_family n \<noteq> '''' then [(''family_name'', sm_family n)] else [])) @
     (case ui_emails i of [] \<Rightarrow> [] | e # _ \<Rightarrow> [(''email'', sl_value e)])"

definition scim_listUsers :: "'w bao_client \<Rightarrow> string \<Rightarrow> 'w \<Rightarrow> scim_reply \<times> 'w" where
  "scim_listUsers c baseURL w =
     (case listEntities c w of
        (Inl e, w) \<Rightarrow> (scim_error 500 (''list entities: '' @ e), w)
      | (Inr names, w) \<Rightarrow>
          let (es, w) = fetch_each (getEntityByName c) names w
          in (Reply 200 (ScUsers (list_response (map (entityToUser baseURL) es))), w))"

text \<open>The opening of the handlers of one user: the entity, or the answer that ends the request.\<close>

definition with_entity ::
    "'w bao_client \<Rightarrow> string \<Rightarrow> (bao_entity \<Rightarrow> 'w \<Rightarrow> scim_reply \<times> 'w) \<Rightarrow> 'w \<Rightarrow> scim_reply \<times> 'w" where
  "with_entity c i k w =
     (case getEntityByID c i w of
        (Inl e, w) \<Rightarrow> (scim_error 500 (''get entity: '' @ e), w)
      | (Inr None, w) \<Rightarrow> (scim_error 404 ''user not found'', w)
      | (Inr (Some e), w) \<Rightarrow> k e w)"

definition scim_getUser :: "'w bao_client \<Rightarrow> string \<Rightarrow> string \<Rightarrow> 'w \<Rightarrow> scim_reply \<times> 'w" where
  "scim_getUser c baseURL i = with_entity c i (\<lambda>e w. (Reply 200 (ScUser (entityToUser baseURL e)), w))"

definition scim_createUser :: "'w bao_client \<Rightarrow> string \<Rightarrow> string + user_input \<Rightarrow> 'w \<Rightarrow> scim_reply \<times> 'w" where
  "scim_createUser c baseURL body w =
     (case body of
        Inl e \<Rightarrow> (scim_error 400 (''invalid JSON: '' @ e), w)
      | Inr i \<Rightarrow>
          if ui_userName i = '''' then (scim_error 400 ''userName is required'', w)
          else (case createEntity c (ui_userName i) (input_metadata i) w of
                  (Inl e, w) \<Rightarrow> (scim_error 409 (''create entity: '' @ e), w)
                | (Inr entity, w) \<Rightarrow>
                    let w = (if ui_password i \<noteq> '''' then snd (createUserpass c (ui_userName i) (ui_password i) w) else w)
                    in (Reply 201 (ScUser (entityToUser baseURL entity)), w)))"

definition scim_updateUser ::
    "'w bao_client \<Rightarrow> string \<Rightarrow> string \<Rightarrow> string + user_input \<Rightarrow> 'w \<Rightarrow> scim_reply \<times> 'w" where
  "scim_updateUser c baseURL i body =
     with_entity c i (\<lambda>entity w.
       case body of
         Inl e \<Rightarrow> (scim_error 400 (''invalid JSON: '' @ e), w)
       | Inr input \<Rightarrow>
          (case updateEntity c (be_name entity) (input_metadata input) (\<not> ui_active input) w of
             (Some e, w) \<Rightarrow> (scim_error 500 (''update entity: '' @ e), w)
           | (None, w) \<Rightarrow>
              (case getEntityByID c i w of
                 (Inr (Some updated), w) \<Rightarrow> (Reply 200 (ScUser (entityToUser baseURL updated)), w)
               | (_, w) \<Rightarrow> (scim_error 500 ''failed to fetch updated entity'', w))))"

definition scim_deleteUser :: "'w bao_client \<Rightarrow> string \<Rightarrow> 'w \<Rightarrow> scim_reply \<times> 'w" where
  "scim_deleteUser c i =
     with_entity c i (\<lambda>entity w.
       let w = snd (deleteUserpass c (be_name entity) w)
       in case deleteEntity c (be_name entity) w of
            (Some e, w) \<Rightarrow> (scim_error 500 (''delete entity: '' @ e), w)
          | (None, w) \<Rightarrow> (Status 204, w))"

section \<open>Groups\<close>

definition openbaoGroupToSCIM :: "string \<Rightarrow> bao_group \<Rightarrow> scim_group" where
  "openbaoGroupToSCIM baseURL g =
     \<lparr>sg_schemas = [schemaGroup], sg_id = bg_id g, sg_displayName = bg_name g,
      sg_members = map (\<lambda>m. \<lparr>sf_value = m, sf_display = '''', sf_ref = baseURL @ ''/scim/v2/Users/'' @ m\<rparr>) (bg_members g),
      sg_meta = \<lparr>sa_resourceType = ''Group'', sa_location = baseURL @ ''/scim/v2/Groups/'' @ bg_id g,
                 sa_created = '''', sa_lastModified = ''''\<rparr>\<rparr>"

definition member_ids :: "group_input \<Rightarrow> string list" where
  "member_ids i = filter (\<lambda>v. v \<noteq> '''') (map sf_value (gi_members i))"

definition scim_listGroups :: "'w bao_client \<Rightarrow> string \<Rightarrow> 'w \<Rightarrow> scim_reply \<times> 'w" where
  "scim_listGroups c baseURL w =
     (case bao_listGroups c w of
        (Inl e, w) \<Rightarrow> (scim_error 500 (''list groups: '' @ e), w)
      | (Inr names, w) \<Rightarrow>
          let (gs, w) = fetch_each (getGroupByName c) names w
          in (Reply 200 (ScGroups (list_response (map (openbaoGroupToSCIM baseURL) gs))), w))"

definition with_group ::
    "'w bao_client \<Rightarrow> string \<Rightarrow> (bao_group \<Rightarrow> 'w \<Rightarrow> scim_reply \<times> 'w) \<Rightarrow> 'w \<Rightarrow> scim_reply \<times> 'w" where
  "with_group c i k w =
     (case getGroupByID c i w of
        (Inl e, w) \<Rightarrow> (scim_error 500 (''get group: '' @ e), w)
      | (Inr None, w) \<Rightarrow> (scim_error 404 ''group not found'', w)
      | (Inr (Some g), w) \<Rightarrow> k g w)"

definition scim_getGroup :: "'w bao_client \<Rightarrow> string \<Rightarrow> string \<Rightarrow> 'w \<Rightarrow> scim_reply \<times> 'w" where
  "scim_getGroup c baseURL i = with_group c i (\<lambda>g w. (Reply 200 (ScGroup (openbaoGroupToSCIM baseURL g)), w))"

definition scim_createGroup :: "'w bao_client \<Rightarrow> string \<Rightarrow> string + group_input \<Rightarrow> 'w \<Rightarrow> scim_reply \<times> 'w" where
  "scim_createGroup c baseURL body w =
     (case body of
        Inl e \<Rightarrow> (scim_error 400 (''invalid JSON: '' @ e), w)
      | Inr i \<Rightarrow>
          if gi_displayName i = '''' then (scim_error 400 ''displayName is required'', w)
          else (case bao_createGroup c (gi_displayName i) (member_ids i) None w of
                  (Inl e, w) \<Rightarrow> (scim_error 409 (''create group: '' @ e), w)
                | (Inr g, w) \<Rightarrow> (Reply 201 (ScGroup (openbaoGroupToSCIM baseURL g)), w)))"

definition scim_updateGroup ::
    "'w bao_client \<Rightarrow> string \<Rightarrow> string \<Rightarrow> string + group_input \<Rightarrow> 'w \<Rightarrow> scim_reply \<times> 'w" where
  "scim_updateGroup c baseURL i body =
     with_group c i (\<lambda>existing w.
       case body of
         Inl e \<Rightarrow> (scim_error 400 (''invalid JSON: '' @ e), w)
       | Inr input \<Rightarrow>
          let displayName = (if gi_displayName input = '''' then bg_name existing else gi_displayName input)
          in case bao_updateGroup c displayName (member_ids input) (bg_metadata existing) w of
               (Some e, w) \<Rightarrow> (scim_error 500 (''update group: '' @ e), w)
             | (None, w) \<Rightarrow>
                (case getGroupByID c i w of
                   (Inr (Some updated), w) \<Rightarrow> (Reply 200 (ScGroup (openbaoGroupToSCIM baseURL updated)), w)
                 | (_, w) \<Rightarrow> (scim_error 500 ''failed to fetch updated group'', w)))"

definition scim_deleteGroup :: "'w bao_client \<Rightarrow> string \<Rightarrow> 'w \<Rightarrow> scim_reply \<times> 'w" where
  "scim_deleteGroup c i =
     with_group c i (\<lambda>g w.
       case bao_deleteGroup c i w of
         (Some e, w) \<Rightarrow> (scim_error 500 (''delete group: '' @ e), w)
       | (None, w) \<Rightarrow> (Status 204, w))"

section \<open>Routes\<close>

definition not_allowed :: scim_reply where
  "not_allowed = scim_error 405 ''method not allowed''"

definition constant_answer :: "string \<Rightarrow> scim_payload \<Rightarrow> 'w \<Rightarrow> scim_reply \<times> 'w" where
  "constant_answer method p w = (if method \<noteq> ''GET'' then not_allowed else Reply 200 p, w)"

definition handleUsers :: "'w bao_client \<Rightarrow> string \<Rightarrow> scim_request \<Rightarrow> 'w \<Rightarrow> scim_reply \<times> 'w" where
  "handleUsers c baseURL r w =
     (if sr_method r = ''GET'' then scim_listUsers c baseURL w
      else if sr_method r = ''POST'' then scim_createUser c baseURL (sr_user r) w
      else (not_allowed, w))"

definition handleUser :: "'w bao_client \<Rightarrow> string \<Rightarrow> scim_request \<Rightarrow> string \<Rightarrow> 'w \<Rightarrow> scim_reply \<times> 'w" where
  "handleUser c baseURL r i w =
     (if sr_method r = ''GET'' then scim_getUser c baseURL i w
      else if sr_method r = ''PUT'' then scim_updateUser c baseURL i (sr_user r) w
      else if sr_method r = ''DELETE'' then scim_deleteUser c i w
      else (not_allowed, w))"

definition handleGroups :: "'w bao_client \<Rightarrow> string \<Rightarrow> scim_request \<Rightarrow> 'w \<Rightarrow> scim_reply \<times> 'w" where
  "handleGroups c baseURL r w =
     (if sr_method r = ''GET'' then scim_listGroups c baseURL w
      else if sr_method r = ''POST'' then scim_createGroup c baseURL (sr_group r) w
      else (not_allowed, w))"

definition handleGroup :: "'w bao_client \<Rightarrow> string \<Rightarrow> scim_request \<Rightarrow> string \<Rightarrow> 'w \<Rightarrow> scim_reply \<times> 'w" where
  "handleGroup c baseURL r i w =
     (if sr_method r = ''GET'' then scim_getGroup c baseURL i w
      else if sr_method r = ''PUT'' then scim_updateGroup c baseURL i (sr_group r) w
      else if sr_method r = ''DELETE'' then scim_deleteGroup c i w
      else (not_allowed, w))"

definition scim_route :: "'w bao_client \<Rightarrow> string \<Rightarrow> scim_request \<Rightarrow> 'w \<Rightarrow> scim_reply \<times> 'w" where
  "scim_route c baseURL r w =
     (let path = sr_path r
      in if path = ''/scim/v2/ServiceProviderConfig''
         then constant_answer (sr_method r) (ScConfig getServiceProviderConfig) w
         else if path = ''/scim/v2/Schemas'' then constant_answer (sr_method r) (ScSchemas getSchemas) w
         else if path = ''/scim/v2/ResourceTypes'' then constant_answer (sr_method r) (ScTypes getResourceTypes) w
         else if path = ''/scim/v2/Users'' then handleUsers c baseURL r w
         else if prefix ''/scim/v2/Users/'' path then handleUser c baseURL r (drop 15 path) w
         else if path = ''/scim/v2/Groups'' then handleGroups c baseURL r w
         else if prefix ''/scim/v2/Groups/'' path then handleGroup c baseURL r (drop 16 path) w
         else (scim_error 404 ''endpoint not found'', w))"

definition scim_serve :: "'w bao_client \<Rightarrow> string \<Rightarrow> scim_request \<Rightarrow> 'w \<Rightarrow> scim_reply \<times> 'w" where
  "scim_serve c baseURL r w =
     (if \<not> prefix ''Bearer '' (sr_authorization r)
      then (scim_error 401 ''missing or invalid Authorization header'', w)
      else if drop 7 (sr_authorization r) = '''' then (scim_error 401 ''empty bearer token'', w)
      else scim_route c baseURL r w)"

section \<open>A log of the requests\<close>

type_synonym bao_calls = "(string \<times> string \<times> string) list"    \<comment> \<open>method, address, token\<close>

definition logged_client :: "'w bao_client \<Rightarrow> ('w \<times> bao_calls) bao_client" where
  "logged_client c =
     \<lparr>bc_addr = bc_addr c, bc_token = bc_token c,
      bc_do = (\<lambda>m u t b (w, l). let (a, w) = bc_do c m u t b w in (a, (w, l @ [(m, u, t)]))),
      bc_auth = bc_auth c, bc_kv = bc_kv c, bc_entity = bc_entity c, bc_group = bc_group c, bc_keys = bc_keys c\<rparr>"

text \<open>An operation that adds to the log, and only requests with one token.\<close>

definition acts_as :: "string \<Rightarrow> ('w \<times> bao_calls \<Rightarrow> 'r \<times> 'w \<times> bao_calls) \<Rightarrow> bool" where
  "acts_as t f \<longleftrightarrow> (\<forall>w l. \<exists>r w' l'. f (w, l) = (r, w', l @ l') \<and> (\<forall>x \<in> set l'. snd (snd x) = t))"

named_theorems acting

lemma acts_return [acting]: "acts_as t (\<lambda>s. (r, s))"
  unfolding acts_as_def by (intro allI exI [of _ r] exI conjI exI [of _ "[]"]) simp_all

lemma acts_bind [acting]:
  assumes "acts_as t f" and "\<And>r. acts_as t (g r)"
  shows "acts_as t (\<lambda>s. case f s of (r, s) \<Rightarrow> g r s)"
  unfolding acts_as_def
proof (intro allI)
  fix w l
  obtain r w1 l1 where f: "f (w, l) = (r, w1, l @ l1)" "\<forall>x \<in> set l1. snd (snd x) = t"
    using assms(1) unfolding acts_as_def by blast
  obtain q w2 l2 where "g r (w1, l @ l1) = (q, w2, (l @ l1) @ l2)" "\<forall>x \<in> set l2. snd (snd x) = t"
    using assms(2) unfolding acts_as_def by blast
  with f show "\<exists>r w' l'. (case f (w, l) of (r, s) \<Rightarrow> g r s) = (r, w', l @ l') \<and> (\<forall>x \<in> set l'. snd (snd x) = t)"
    by (intro exI [of _ q] exI [of _ w2] exI [of _ "l1 @ l2"]) auto
qed

lemma acts_sum [acting]:
  "(\<And>e. acts_as t (f e)) \<Longrightarrow> (\<And>x. acts_as t (g x)) \<Longrightarrow>
     acts_as t (\<lambda>s. case r of Inl e \<Rightarrow> f e s | Inr x \<Rightarrow> g x s)"
  by (cases r) simp_all

lemma acts_option [acting]:
  "acts_as t h \<Longrightarrow> (\<And>y. acts_as t (k y)) \<Longrightarrow> acts_as t (\<lambda>s. case v of None \<Rightarrow> h s | Some y \<Rightarrow> k y s)"
  by (cases v) simp_all

lemma acts_if [acting]: "acts_as t h \<Longrightarrow> acts_as t h' \<Longrightarrow> acts_as t (\<lambda>s. if b then h s else h' s)"
  by (cases b) simp_all

lemma acts_request [acting]: "acts_as (bc_token c) (bao_request (logged_client c) m p b)"
  unfolding acts_as_def
proof (intro allI)
  fix w l
  obtain a w' where "bc_do c m (bc_addr c @ p) (bc_token c) b w = (a, w')" by fastforce
  then show "\<exists>r w' l'. bao_request (logged_client c) m p b (w, l) = (r, w', l @ l') \<and> (\<forall>x \<in> set l'. snd (snd x) = bc_token c)"
    by (intro exI [of _ "fst (bao_request (logged_client c) m p b (w, l))"] exI [of _ w']
        exI [of _ "[(m, bc_addr c @ p, bc_token c)]"])
      (simp add: bao_request_def requestWithToken_def logged_client_def split: bao_answer.split)
qed

lemmas client_defs = getEntityByName_def getEntityByID_def createEntity_def updateEntity_def deleteEntity_def
  createUserpass_def deleteUserpass_def getGroupByName_def getGroupByID_def bao_createGroup_def bao_updateGroup_def
  bao_deleteGroup_def listEntities_def bao_listGroups_def

lemma acts_client [acting]:
  "acts_as (bc_token c) (getEntityByName (logged_client c) n)" "acts_as (bc_token c) (getEntityByID (logged_client c) n)"
  "acts_as (bc_token c) (createEntity (logged_client c) n m)" "acts_as (bc_token c) (updateEntity (logged_client c) n m d)"
  "acts_as (bc_token c) (deleteEntity (logged_client c) n)" "acts_as (bc_token c) (createUserpass (logged_client c) n p)"
  "acts_as (bc_token c) (deleteUserpass (logged_client c) n)" "acts_as (bc_token c) (getGroupByName (logged_client c) n)"
  "acts_as (bc_token c) (getGroupByID (logged_client c) n)" "acts_as (bc_token c) (bao_createGroup (logged_client c) n ms md)"
  "acts_as (bc_token c) (bao_updateGroup (logged_client c) n ms md)" "acts_as (bc_token c) (bao_deleteGroup (logged_client c) n)"
  "acts_as (bc_token c) (listEntities (logged_client c))" "acts_as (bc_token c) (bao_listGroups (logged_client c))"
  unfolding client_defs [abs_def] Let_def by (intro acting)+

lemma acts_fetch [acting]: "(\<And>n. acts_as t (get n)) \<Longrightarrow> acts_as t (fetch_each get ns)"
proof (induction ns)
  case Nil
  have "fetch_each get [] = (\<lambda>w. ([], w))" by (rule ext) simp
  then show ?case by (simp only: acts_return)
next
  case (Cons n ns)
  have "fetch_each get (n # ns) = (\<lambda>s. case get n s of (r, s) \<Rightarrow>
      (case r of Inl e \<Rightarrow> fetch_each get ns s
       | Inr x \<Rightarrow> (case x of None \<Rightarrow> fetch_each get ns s
                  | Some y \<Rightarrow> (case fetch_each get ns s of (xs, s) \<Rightarrow> (y # xs, s)))))"
    by (rule ext) (simp split: prod.split sum.split option.split)
  then show ?case by (simp only:) (intro acting Cons.IH Cons.prems)
qed

lemma acts_snd: "acts_as t f \<Longrightarrow> acts_as t g \<Longrightarrow> acts_as t (\<lambda>s. g (snd (f s)))"
  using acts_bind [of t f "\<lambda>_. g"] by (simp add: split_beta)

lemma acts_entity [acting]:
  "(\<And>e. acts_as (bc_token c) (k e)) \<Longrightarrow> acts_as (bc_token c) (with_entity (logged_client c) i k)"
  unfolding with_entity_def [abs_def] by (intro acting)

lemma acts_group [acting]:
  "(\<And>g. acts_as (bc_token c) (k g)) \<Longrightarrow> acts_as (bc_token c) (with_group (logged_client c) i k)"
  unfolding with_group_def [abs_def] by (intro acting)

lemma acts_users [acting]:
  "acts_as (bc_token c) (scim_listUsers (logged_client c) b)" "acts_as (bc_token c) (scim_getUser (logged_client c) b i)"
  "acts_as (bc_token c) (scim_updateUser (logged_client c) b i body)"
  unfolding scim_listUsers_def [abs_def] scim_getUser_def scim_updateUser_def Let_def by (intro acting)+

lemma acts_create_user [acting]: "acts_as (bc_token c) (scim_createUser (logged_client c) b body)"
proof -
  have "acts_as (bc_token c) (\<lambda>w. (Reply 201 p, if q then snd (createUserpass (logged_client c) n pw w) else w))" for p q n pw
    using acts_snd [OF acts_client(6) acts_return] acts_return by (cases q) simp_all
  then show ?thesis unfolding scim_createUser_def [abs_def] Let_def by (intro acting)
qed

lemma acts_delete_user [acting]: "acts_as (bc_token c) (scim_deleteUser (logged_client c) i)"
  unfolding scim_deleteUser_def Let_def
  by (rule acts_entity, rule acts_snd [where g = "\<lambda>w. case deleteEntity _ _ w of (r, w) \<Rightarrow> _ r w"]) (intro acting)+

lemma acts_groups [acting]:
  "acts_as (bc_token c) (scim_listGroups (logged_client c) b)" "acts_as (bc_token c) (scim_getGroup (logged_client c) b i)"
  "acts_as (bc_token c) (scim_createGroup (logged_client c) b gb)"
  "acts_as (bc_token c) (scim_updateGroup (logged_client c) b i gb)" "acts_as (bc_token c) (scim_deleteGroup (logged_client c) i)"
  unfolding scim_listGroups_def [abs_def] scim_getGroup_def scim_createGroup_def [abs_def] scim_updateGroup_def
    scim_deleteGroup_def Let_def
  by (intro acting)+

lemma acts_route: "acts_as (bc_token c) (scim_route (logged_client c) b r)"
  unfolding scim_route_def [abs_def] handleUsers_def handleUser_def handleGroups_def handleGroup_def constant_answer_def Let_def
  by (intro acting)

lemma route_any_token: "scim_route c b (r\<lparr>sr_authorization := a\<rparr>) w = scim_route c b r w"
  by (simp add: scim_route_def handleUsers_def handleUser_def handleGroups_def handleGroup_def Let_def)

section \<open>Properties\<close>

text \<open>
  C30: the bearer token of a SCIM request is looked at only for not being empty. Any two that are
  not lead to the same answer and the same effect, and every request that goes on to OpenBao
  carries the token of the service itself; without one nothing is asked of OpenBao.
\<close>

theorem scim_acts_as_service:
  "\<exists>reply w' calls. scim_serve (logged_client c) baseURL r (w, []) = (reply, w', calls) \<and>
     (\<forall>x \<in> set calls. snd (snd x) = bc_token c) \<and>
     (if prefix ''Bearer '' (sr_authorization r) \<and> sr_authorization r \<noteq> ''Bearer ''
      then \<forall>t. t = '''' \<or>
        scim_serve (logged_client c) baseURL (r\<lparr>sr_authorization := ''Bearer '' @ t\<rparr>) (w, []) = (reply, w', calls)
      else calls = [] \<and> reply_code reply = Some 401 \<and> w' = w)"
proof (cases "prefix ''Bearer '' (sr_authorization r) \<and> sr_authorization r \<noteq> ''Bearer ''")
  case True
  then obtain t0 where t0: "sr_authorization r = ''Bearer '' @ t0" "t0 \<noteq> ''''" by (auto simp: prefix_def)
  obtain reply w' calls where run: "scim_route (logged_client c) baseURL r (w, []) = (reply, w', calls)"
    and own: "\<forall>x \<in> set calls. snd (snd x) = bc_token c"
    using acts_route [of c baseURL r] unfolding acts_as_def by (metis append_Nil)
  have serve: "scim_serve (logged_client c) baseURL (r\<lparr>sr_authorization := ''Bearer '' @ t\<rparr>) (w, []) = (reply, w', calls)"
    if "t \<noteq> ''''" for t
    using that run by (simp add: scim_serve_def route_any_token)
  have "scim_serve (logged_client c) baseURL r (w, []) = (reply, w', calls)"
    using t0 run by (simp add: scim_serve_def)
  with own serve True show ?thesis by (intro exI conjI) auto
next
  case False
  then have "scim_serve (logged_client c) baseURL r (w, []) =
      (scim_error 401 (if prefix ''Bearer '' (sr_authorization r) then ''empty bearer token''
         else ''missing or invalid Authorization header''), w, [])"
    by (auto simp: scim_serve_def prefix_def)
  with False show ?thesis by (auto simp: scim_error_def)
qed

text \<open>What OpenBao promises of entities and of groups, as far as the endpoints rely on it.\<close>

definition serves_entities :: "'w bao_client \<Rightarrow> ('w \<Rightarrow> string \<Rightarrow> bao_entity option) \<Rightarrow> bool" where
  "serves_entities c ent \<longleftrightarrow>
     (\<forall>i w. getEntityByID c i w = (Inr (ent w i), w)) \<and>
     (\<forall>name m w e w'. (\<forall>j x. ent w j = Some x \<longrightarrow> be_name x \<noteq> name) \<longrightarrow> createEntity c name m w = (Inr e, w') \<longrightarrow>
        be_name e = name \<and> be_metadata e = m \<and> \<not> be_disabled e \<and> ent w' (be_id e) = Some e) \<and>
     (\<forall>u p w. ent (snd (createUserpass c u p w)) = ent w)"

definition serves_named_groups :: "'w bao_client \<Rightarrow> ('w \<Rightarrow> string \<Rightarrow> bao_group option) \<Rightarrow> bool" where
  "serves_named_groups c grp \<longleftrightarrow>
     (\<forall>i w. getGroupByID c i w = (Inr (grp w i), w)) \<and>
     (\<forall>name ms md w i g. grp w i = Some g \<longrightarrow> bg_name g \<noteq> name \<longrightarrow>
        grp (snd (bao_updateGroup c name ms md w)) i = Some g)"

lemma serves_entitiesD:
  assumes "serves_entities c ent"
  shows "getEntityByID c i w = (Inr (ent w i), w)" and "ent (snd (createUserpass c u p w)) = ent w"
    and "\<forall>j x. ent w j = Some x \<longrightarrow> be_name x \<noteq> name \<Longrightarrow> createEntity c name m w = (Inr e, w') \<Longrightarrow>
      be_name e = name \<and> be_metadata e = m \<and> \<not> be_disabled e \<and> ent w' (be_id e) = Some e"
proof -
  note d = assms [unfolded serves_entities_def]
  show "getEntityByID c i w = (Inr (ent w i), w)" by (rule d [THEN conjunct1, rule_format])
  show "ent (snd (createUserpass c u p w)) = ent w" by (rule d [THEN conjunct2, THEN conjunct2, rule_format])
  assume new: "\<forall>j x. ent w j = Some x \<longrightarrow> be_name x \<noteq> name" and made: "createEntity c name m w = (Inr e, w')"
  show "be_name e = name \<and> be_metadata e = m \<and> \<not> be_disabled e \<and> ent w' (be_id e) = Some e"
    using d [THEN conjunct2, THEN conjunct1, THEN spec, THEN spec, THEN spec, THEN spec, THEN spec, THEN mp, OF new, THEN mp, OF made] .
qed

lemma meta_of_input:
  "meta_of (input_metadata i) ''display_name'' = ui_displayName i"
  "meta_of (input_metadata i) ''given_name'' = (case ui_name i of None \<Rightarrow> '''' | Some n \<Rightarrow> sm_given n)"
  "meta_of (input_metadata i) ''family_name'' = (case ui_name i of None \<Rightarrow> '''' | Some n \<Rightarrow> sm_family n)"
  "meta_of (input_metadata i) ''email'' = (case ui_emails i of [] \<Rightarrow> '''' | e # _ \<Rightarrow> sl_value e)"
  by (simp_all add: meta_of_def input_metadata_def split: option.split list.split)

text \<open>
  A user that was created reads back: getting it by the identifier in the answer gives the
  same resource, with the user name, the display name, the given and the family name and the first
  address of the request. It is active, also when the request said it should not be.
\<close>

theorem created_user_reads_back:
  assumes "serves_entities c ent" and "\<forall>j x. ent w j = Some x \<longrightarrow> be_name x \<noteq> ui_userName i"
    and "scim_createUser c baseURL (Inr i) w = (Reply 201 (ScUser u), w')"
  shows "scim_getUser c baseURL (su_id u) w' = (Reply 200 (ScUser u), w') \<and> su_userName u = ui_userName i \<and>
     su_displayName u = ui_displayName i \<and> su_active u \<and>
     map sl_value (su_emails u) = filter (\<lambda>a. a \<noteq> '''') (take 1 (map sl_value (ui_emails i))) \<and>
     map_option (\<lambda>n. (sm_given n, sm_family n)) (su_name u) =
       (case ui_name i of None \<Rightarrow> None
        | Some n \<Rightarrow> if sm_given n = '''' \<and> sm_family n = '''' then None else Some (sm_given n, sm_family n))"
proof -
  obtain e w1 where made: "createEntity c (ui_userName i) (input_metadata i) w = (Inr e, w1)"
    and u: "u = entityToUser baseURL e"
    and w': "w' = (if ui_password i \<noteq> '''' then snd (createUserpass c (ui_userName i) (ui_password i) w1) else w1)"
  proof -
    obtain v w1 where v: "createEntity c (ui_userName i) (input_metadata i) w = (v, w1)" by fastforce
    have name: "ui_userName i \<noteq> ''''"
      using assms(3) by (simp add: scim_createUser_def scim_error_def split: if_splits)
    obtain e where e: "v = Inr e"
    proof (cases v)
      case (Inl x)
      then show thesis using assms(3) by (simp add: scim_createUser_def scim_error_def name v)
    qed (rule that)
    show thesis
      by (rule that [of e w1]) (use assms(3) in \<open>simp_all add: scim_createUser_def name v e Let_def\<close>)
  qed
  have e: "be_name e = ui_userName i" "be_metadata e = input_metadata i" "\<not> be_disabled e" "ent w1 (be_id e) = Some e"
    using serves_entitiesD(3) [OF assms(1,2) made] by blast+
  have "ent w' (be_id e) = Some e" unfolding w' by (simp add: serves_entitiesD(2) [OF assms(1)] e(4))
  then have "getEntityByID c (su_id u) w' = (Inr (Some e), w')"
    unfolding u by (simp add: serves_entitiesD(1) [OF assms(1)] entityToUser_def Let_def)
  then have "scim_getUser c baseURL (su_id u) w' = (Reply 200 (ScUser u), w')"
    by (simp add: scim_getUser_def with_entity_def u)
  moreover have "map sl_value (su_emails u) = filter (\<lambda>a. a \<noteq> '''') (take 1 (map sl_value (ui_emails i)))"
    by (cases "ui_emails i") (simp_all add: u entityToUser_def Let_def e meta_of_input)
  ultimately show ?thesis
    by (simp add: u entityToUser_def Let_def e meta_of_input split: option.split)
qed

text \<open>
  A group cannot be renamed: an update that carries another name is answered 200 with the group as it
  was, members included, and the group is as it was, because OpenBao takes the request for one about
  the group of that other name.
\<close>

theorem rename_is_lost:
  assumes "serves_named_groups c grp" and "grp w i = Some g"
    and "gi_displayName input \<noteq> ''''" and "gi_displayName input \<noteq> bg_name g"
    and "fst (bao_updateGroup c (gi_displayName input) (member_ids input) (bg_metadata g) w) = None"
  shows "\<exists>w'. scim_updateGroup c baseURL i (Inr input) w = (Reply 200 (ScGroup (openbaoGroupToSCIM baseURL g)), w') \<and>
     grp w' i = Some g"
proof -
  obtain w' where up: "bao_updateGroup c (gi_displayName input) (member_ids input) (bg_metadata g) w = (None, w')"
    using assms(5) by (metis prod.collapse)
  have "grp w' i = Some g" using assms(1,2,4) up unfolding serves_named_groups_def by (metis snd_conv)
  moreover have get: "getGroupByID c i v = (Inr (grp v i), v)" for v
    using assms(1) unfolding serves_named_groups_def by blast
  ultimately show ?thesis
    using assms(2,3) up by (intro exI [of _ w']) (simp add: scim_updateGroup_def with_group_def get Let_def)
qed

text \<open>
  An example OpenBao: entities by name, which is also their identifier, with their metadata, and
  groups by name with their members.
\<close>

type_synonym demo_identities = "(string \<rightharpoonup> (string \<times> string) list) \<times> (string \<rightharpoonup> string list)"

definition code_entity :: "string \<Rightarrow> (string \<times> string) list \<Rightarrow> string" where
  "code_entity i md = code_strings (i # concat (map (\<lambda>(k, v). [k, v]) md))"

fun pairs_of :: "string list \<Rightarrow> (string \<times> string) list" where
  "pairs_of (k # v # rest) = (k, v) # pairs_of rest"
| "pairs_of _ = []"

definition demo_do :: "string \<Rightarrow> string \<Rightarrow> string \<Rightarrow> json option \<Rightarrow> demo_identities \<Rightarrow> bao_answer \<times> demo_identities" where
  "demo_do m u t body w =
     (if m = ''GET'' \<and> prefix ''/v1/identity/entity/id/'' u
      then (case fst w (drop 23 u) of None \<Rightarrow> (Answer 404 '''', w) | Some md \<Rightarrow> (Answer 200 (code_entity (drop 23 u) md), w))
      else if m = ''POST'' \<and> u = ''/v1/identity/entity''
      then (case body of
              Some (JObj [(_, JStr n), (_, JObj md)]) \<Rightarrow>
                (let md = map (\<lambda>(k, v). (k, case v of JStr x \<Rightarrow> x | _ \<Rightarrow> '''')) md
                 in (Answer 200 (code_entity n md), ((fst w)(n \<mapsto> md), snd w)))
            | _ \<Rightarrow> (Answer 400 '''', w))
      else if m = ''GET'' \<and> prefix ''/v1/identity/group/id/'' u
      then (case snd w (drop 22 u) of None \<Rightarrow> (Answer 404 '''', w) | Some ms \<Rightarrow> (Answer 200 (code_strings (drop 22 u # ms)), w))
      else if m = ''POST'' \<and> u = ''/v1/identity/group''
      then (case body of
              Some (JObj [(_, JStr n), _, (_, JArr ms), _]) \<Rightarrow> (Answer 204 '''', (fst w, (snd w)(n \<mapsto> str_items ms)))
            | _ \<Rightarrow> (Answer 400 '''', w))
      else if m = ''DELETE'' \<and> prefix ''/v1/identity/entity/name/'' u
      then (Answer 204 '''', ((fst w)(drop 25 u := None), snd w))
      else (Answer 204 '''', w))"

definition entity_of :: "string \<Rightarrow> (string \<times> string) list \<Rightarrow> bao_entity" where
  "entity_of i md = \<lparr>be_id = i, be_name = i, be_metadata = md, be_disabled = False, be_groupIDs = []\<rparr>"

definition group_of :: "string \<Rightarrow> string list \<Rightarrow> bao_group" where
  "group_of i ms = \<lparr>bg_id = i, bg_name = i, bg_metadata = None, bg_members = ms, bg_type = ''internal''\<rparr>"

definition demo_idp_bao :: "demo_identities bao_client" where
  "demo_idp_bao =
     \<lparr>bc_addr = '''', bc_token = ''service'', bc_do = demo_do, bc_auth = Inr, bc_kv = (\<lambda>b. Inr None),
      bc_entity = (\<lambda>b. case decode_strings '''' b of [] \<Rightarrow> Inl ''empty'' | i # kvs \<Rightarrow> Inr (entity_of i (pairs_of kvs))),
      bc_group = (\<lambda>b. case decode_strings '''' b of [] \<Rightarrow> Inl ''empty'' | i # ms \<Rightarrow> Inr (group_of i ms)),
      bc_keys = (\<lambda>b. Inr [])\<rparr>"

lemma pairs_concat [simp]: "pairs_of (concat (map (\<lambda>(k, v). [k, v]) md)) = md"
  by (induction md) auto

lemmas demo_defs = demo_idp_bao_def demo_do_def bao_request_def requestWithToken_def read_answer_def create_answer_def
  write_answer_def client_defs code_entity_def

lemma demo_serves_entities: "serves_entities demo_idp_bao (\<lambda>w i. map_option (entity_of i) (fst w i))"
proof -
  have create: "createEntity demo_idp_bao name m w = (Inr (entity_of name m), ((fst w)(name \<mapsto> m), snd w))" for name m w
    by (simp add: demo_defs str_obj_def comp_def split_beta del: code_strings.simps)
  have get: "getEntityByID demo_idp_bao i w = (Inr (map_option (entity_of i) (fst w i)), w)" for i w
    by (simp add: demo_defs del: code_strings.simps split: option.split)
  have pass: "fst (snd (createUserpass demo_idp_bao u p w)) = fst w" for u p w
    by (simp add: demo_defs)
  show ?thesis unfolding serves_entities_def create get
    by (auto simp: pass entity_of_def)
qed

lemma demo_serves_groups: "serves_named_groups demo_idp_bao (\<lambda>w i. map_option (group_of i) (snd w i))"
proof -
  have get: "getGroupByID demo_idp_bao i w = (Inr (map_option (group_of i) (snd w i)), w)" for i w
    by (simp add: demo_defs del: code_strings.simps split: option.split)
  have up: "snd (bao_updateGroup demo_idp_bao name ms md w) = (fst w, (snd w)(name \<mapsto> ms))" for name ms md w
    by (simp add: demo_defs group_body_def str_items_strs)
  show ?thesis unfolding serves_named_groups_def get up by (auto simp: group_of_def)
qed

theorem scim_acts_as_service_witness:
  "\<exists>w' calls. scim_serve (logged_client demo_idp_bao) ''https://idp''
       \<lparr>sr_method = ''DELETE'', sr_authorization = ''Bearer x'', sr_path = ''/scim/v2/Users/ann'', sr_user = Inl '''', sr_group = Inl ''''\<rparr>
       (([''ann'' \<mapsto> []], Map.empty), []) = (Status 204, w', calls) \<and>
     fst w' ''ann'' = None \<and> (\<forall>x \<in> set calls. snd (snd x) = ''service'')"
proof -
  let ?r = "\<lparr>sr_method = ''DELETE'', sr_authorization = ''Bearer x'', sr_path = ''/scim/v2/Users/ann'', sr_user = Inl '''',
      sr_group = Inl ''''\<rparr>" and ?w = "([''ann'' \<mapsto> []], Map.empty) :: demo_identities"
  have get: "getEntityByID (logged_client demo_idp_bao) ''ann'' (?w, []) =
      (Inr (Some (entity_of ''ann'' [])), ?w, [(''GET'', ''/v1/identity/entity/id/ann'', ''service'')])"
    by (simp add: logged_client_def demo_defs del: code_strings.simps)
  have "\<exists>w' calls. scim_serve (logged_client demo_idp_bao) ''https://idp'' ?r (?w, []) = (Status 204, w', calls) \<and> fst w' ''ann'' = None"
    by (simp add: scim_serve_def scim_route_def handleUser_def scim_deleteUser_def with_entity_def get)
      (simp add: logged_client_def demo_defs entity_of_def)
  moreover obtain reply w' calls where "scim_serve (logged_client demo_idp_bao) ''https://idp'' ?r (?w, []) = (reply, w', calls)"
    and "\<forall>x \<in> set calls. snd (snd x) = bc_token demo_idp_bao"
    using scim_acts_as_service [of demo_idp_bao "''https://idp''" ?r ?w] by blast
  ultimately show ?thesis by (auto simp: demo_idp_bao_def)
qed

definition demo_input :: user_input where
  "demo_input =
     \<lparr>ui_userName = ''ann'', ui_name = Some \<lparr>sm_given = ''Ann'', sm_family = '''', sm_formatted = ''''\<rparr>, ui_displayName = ''Ann B'',
      ui_emails = [\<lparr>sl_value = ''a@b.c'', sl_type = '''', sl_primary = False\<rparr>], ui_active = False, ui_password = ''pw''\<rparr>"

theorem created_user_reads_back_witness:
  "\<exists>u w'. scim_createUser demo_idp_bao '''' (Inr demo_input) (Map.empty, Map.empty) = (Reply 201 (ScUser u), w') \<and>
     scim_getUser demo_idp_bao '''' (su_id u) w' = (Reply 200 (ScUser u), w') \<and> su_displayName u = ''Ann B'' \<and> su_active u"
proof -
  let ?i = "demo_input" and ?w = "(Map.empty, Map.empty) :: demo_identities"
  have "\<exists>u w'. scim_createUser demo_idp_bao '''' (Inr ?i) ?w = (Reply 201 (ScUser u), w')"
    by (simp add: scim_createUser_def demo_input_def demo_defs str_obj_def Let_def)
  then obtain u w' where made: "scim_createUser demo_idp_bao '''' (Inr ?i) ?w = (Reply 201 (ScUser u), w')" by blast
  have fresh: "\<forall>j x. map_option (entity_of j) (fst ?w j) = Some x \<longrightarrow> be_name x \<noteq> ui_userName ?i" by simp
  from created_user_reads_back [OF demo_serves_entities fresh made] made
  show ?thesis by (intro exI [of _ u] exI [of _ w']) (simp add: demo_input_def)
qed

theorem rename_is_lost_witness:
  "\<exists>w'. scim_updateGroup demo_idp_bao '''' ''ops'' (Inr \<lparr>gi_displayName = ''admins'', gi_members = []\<rparr>)
       (Map.empty, [''ops'' \<mapsto> [''ann'']]) =
     (Reply 200 (ScGroup (openbaoGroupToSCIM '''' (group_of ''ops'' [''ann'']))), w')"
proof -
  let ?w = "(Map.empty, [''ops'' \<mapsto> [''ann'']]) :: demo_identities"
  let ?in = "\<lparr>gi_displayName = ''admins'', gi_members = []\<rparr>"
  have g: "map_option (group_of ''ops'') (snd ?w ''ops'') = Some (group_of ''ops'' [''ann''])" by simp
  have other: "gi_displayName ?in \<noteq> bg_name (group_of ''ops'' [''ann''])" by (simp add: group_of_def)
  have ok: "fst (bao_updateGroup demo_idp_bao (gi_displayName ?in) (member_ids ?in) (bg_metadata (group_of ''ops'' [''ann''])) ?w) = None"
    by (simp add: demo_defs group_body_def)
  from rename_is_lost [OF demo_serves_groups g _ other ok, of "[]"] show ?thesis by (simp, blast)
qed

end
