(* ===== verification/Idp_Handler.thy ===== *)
theory Idp_Handler
  imports Idp_Saml Scim Middleware
begin

text \<open>
  The SAML endpoints of the agent (\<^verbatim>\<open>saml-scim-agent/saml/handler.go\<close>) with the two HTML pages they
  answer, the health endpoint, the configuration and the routes (\<^verbatim>\<open>health.go\<close>, \<^verbatim>\<open>config.go\<close>, \<^verbatim>\<open>main.go\<close>).

  A page is kept as what it is filled in with; \<open>page_text\<close> is its text, with the escaping of
  \<^verbatim>\<open>html/template\<close> at the places of the two templates. The clock and the random bytes of a response
  are arguments.
\<close>

section \<open>Pages\<close>

datatype saml_reply =
    Refused nat string                    \<comment> \<open>\<open>http.Error\<close>\<close>
  | LoginForm string string string        \<comment> \<open>\<open>SAMLRequest\<close>, \<open>RelayState\<close>, \<open>Error\<close>\<close>
  | PostForm string string string         \<comment> \<open>\<open>ACSURL\<close>, \<open>SAMLResponse\<close>, \<open>RelayState\<close>\<close>
  | Document string string                \<comment> \<open>its type and text\<close>

text \<open>The escaping of a value in text and in a quoted attribute is the same table of characters.\<close>

definition html_char :: "char \<Rightarrow> string" where
  "html_char c =
     (if c = CHR 0x22 then ''&#34;'' else if c = CHR ''&'' then ''&amp;'' else if c = CHR 0x27 then ''&#39;''
      else if c = CHR ''+'' then ''&#43;'' else if c = CHR ''<'' then ''&lt;'' else if c = CHR ''>'' then ''&gt;''
      else if c = CHR 0x00 then [CHR 0xEF, CHR 0xBF, CHR 0xBD] else [c])"

definition html_escape :: "string \<Rightarrow> string" where
  "html_escape s = concat (map html_char s)"

text \<open>
  In an attribute that is a URL: a scheme other than the three known ones is replaced, and what does not belong
  in a URL is written with a percent sign.
\<close>

definition url_filter :: "string \<Rightarrow> string" where
  "url_filter s =
     (let scheme = takeWhile (\<lambda>c. c \<noteq> CHR '':'') s
      in if CHR '':'' \<in> set s \<and> CHR ''/'' \<notin> set scheme \<and> to_lower scheme \<notin> {''http'', ''https'', ''mailto''}
         then ''#ZgotmplZ'' else s)"

definition url_kept :: "char \<Rightarrow> bool" where
  "url_kept c \<longleftrightarrow> (let n = (of_char c :: nat) in
     48 \<le> n \<and> n \<le> 57 \<or> 65 \<le> n \<and> n \<le> 90 \<or> 97 \<le> n \<and> n \<le> 122 \<or> c \<in> set ''-._~!#$&*+,/:;=?@[]'')"

fun url_normal :: "string \<Rightarrow> string" where
  "url_normal [] = []"
| "url_normal (c # s) =
     (if url_kept c \<or> c = CHR ''%'' \<and> length s \<ge> 2 \<and> hex_val (s ! 0) \<noteq> None \<and> hex_val (s ! 1) \<noteq> None then [c]
      else CHR ''%'' # hex_bytes [of_char c]) @ url_normal s"

definition url_attr :: "string \<Rightarrow> string" where
  "url_attr s = html_escape (url_normal (url_filter s))"

definition tag_attr :: "string \<Rightarrow> string \<Rightarrow> string" where
  "tag_attr name v = name @ ''='' @ [CHR 0x22] @ v @ [CHR 0x22]"

definition lines_text :: "string list \<Rightarrow> string" where
  "lines_text ls = concat (map (\<lambda>l. l @ [CHR 0x0A]) ls)"

definition hidden_input :: "string \<Rightarrow> string \<Rightarrow> string" where
  "hidden_input name v = ''<input '' @ tag_attr ''type'' ''hidden'' @ '' '' @ tag_attr ''name'' name @ '' '' @ tag_attr ''value'' v @ ''>''"

definition login_page :: "string \<Rightarrow> string \<Rightarrow> string \<Rightarrow> string" where
  "login_page samlReq relayState err =
     lines_text
       [''<!DOCTYPE html>'', ''<html>'', ''<head><title>SAML/SCIM Agent SSO Login</title></head>'', ''<body>'',
        ''<h1>Sign In</h1>'',
        if err \<noteq> '''' then ''<p '' @ tag_attr ''style'' ''color:red'' @ ''>'' @ html_escape err @ ''</p>'' else '''',
        ''<form '' @ tag_attr ''method'' ''POST'' @ '' '' @ tag_attr ''action'' ''/saml/login'' @ ''>'',
        hidden_input ''SAMLRequest'' (html_escape samlReq), hidden_input ''RelayState'' (html_escape relayState),
        ''<label>Username: <input '' @ tag_attr ''type'' ''text'' @ '' '' @ tag_attr ''name'' ''username'' @ '' required></label><br>'',
        ''<label>Password: <input '' @ tag_attr ''type'' ''password'' @ '' '' @ tag_attr ''name'' ''password'' @ '' required></label><br>'',
        ''<button '' @ tag_attr ''type'' ''submit'' @ ''>Sign In</button>'', ''</form>'', ''</body>''] @ ''</html>''"

definition post_page :: "string \<Rightarrow> string \<Rightarrow> string \<Rightarrow> string" where
  "post_page acsURL samlResponse relayState =
     lines_text
       [''<!DOCTYPE html>'', ''<html>'', ''<head><title>SSO Redirect</title></head>'',
        ''<body '' @ tag_attr ''onload'' ''document.forms[0].submit()'' @ ''>'',
        ''<form '' @ tag_attr ''method'' ''POST'' @ '' '' @ tag_attr ''action'' (url_attr acsURL) @ ''>'',
        hidden_input ''SAMLResponse'' (html_escape samlResponse), hidden_input ''RelayState'' (html_escape relayState),
        ''<noscript><button '' @ tag_attr ''type'' ''submit'' @ ''>Continue</button></noscript>'', ''</form>'', ''</body>''] @
     ''</html>''"

fun page_text :: "saml_reply \<Rightarrow> string" where
  "page_text (Refused code text) = text @ [CHR 0x0A]"
| "page_text (LoginForm samlReq relayState err) = login_page samlReq relayState err"
| "page_text (PostForm acsURL samlResponse relayState) = post_page acsURL samlResponse relayState"
| "page_text (Document type text) = text"

section \<open>Handlers\<close>

text \<open>
  The parameters of the URL, and those of the form as \<open>ParseForm\<close> leaves them, \<open>Inl\<close> when it fails; a parameter
  of the form comes before one of the URL.
\<close>

record saml_request =
  hr_method :: string
  hr_query :: "(string \<times> string) list"
  hr_form :: "string + (string \<times> string) list"

definition first_value :: "(string \<times> string) list \<Rightarrow> string \<Rightarrow> string" where
  "first_value kvs k = (case map_of kvs k of None \<Rightarrow> '''' | Some v \<Rightarrow> v)"

record ('w, 'k) saml_handler =
  sh_client :: "'w bao_client"
  sh_keys :: "'k key_pair"
  sh_entityID :: string
  sh_ssoURL :: string
  sh_crypto :: "'k saml_crypto"
  sh_inflate :: "string \<Rightarrow> string option"
  sh_unmarshal :: "string \<Rightarrow> string + authn_request"

definition serveMetadata :: "('w, 'k) saml_handler \<Rightarrow> saml_request \<Rightarrow> saml_reply" where
  "serveMetadata h r =
     (if hr_method r \<noteq> ''GET'' then Refused 405 ''method not allowed''
      else Document ''application/xml'' (generateMetadata (sh_entityID h) (sh_ssoURL h) (kp_raw (sh_keys h))))"

definition handleSSORedirect :: "('w, 'k) saml_handler \<Rightarrow> saml_request \<Rightarrow> saml_reply" where
  "handleSSORedirect h r =
     (let samlReq = first_value (hr_query r) ''SAMLRequest''; relayState = first_value (hr_query r) ''RelayState''
      in if samlReq = '''' then Refused 400 ''missing SAMLRequest parameter''
         else (case parseAuthnRequestRedirect (sh_inflate h) (sh_unmarshal h) samlReq of
                 Inl e \<Rightarrow> Refused 400 (''invalid SAMLRequest: '' @ e)
               | Inr _ \<Rightarrow> LoginForm samlReq relayState ''''))"

definition handleSSOPost :: "('w, 'k) saml_handler \<Rightarrow> saml_request \<Rightarrow> saml_reply" where
  "handleSSOPost h r =
     (case hr_form r of
        Inl _ \<Rightarrow> Refused 400 ''invalid form data''
      | Inr form \<Rightarrow>
          let samlReq = first_value (form @ hr_query r) ''SAMLRequest'';
              relayState = first_value (form @ hr_query r) ''RelayState''
          in if samlReq = '''' then Refused 400 ''missing SAMLRequest''
             else (case parseAuthnRequestPost (sh_unmarshal h) samlReq of
                     Inl e \<Rightarrow> Refused 400 (''invalid SAMLRequest: '' @ e)
                   | Inr _ \<Rightarrow> LoginForm samlReq relayState ''''))"

definition serveSSO :: "('w, 'k) saml_handler \<Rightarrow> saml_request \<Rightarrow> saml_reply" where
  "serveSSO h r =
     (if hr_method r = ''GET'' then handleSSORedirect h r
      else if hr_method r = ''POST'' then handleSSOPost h r
      else Refused 405 ''method not allowed'')"

text \<open>The request of a login is read as one of the redirect binding, then as one of the other.\<close>

definition login_request_of :: "('w, 'k) saml_handler \<Rightarrow> string \<Rightarrow> string + authn_request" where
  "login_request_of h samlReq =
     (case parseAuthnRequestRedirect (sh_inflate h) (sh_unmarshal h) samlReq of
        Inr req \<Rightarrow> Inr req
      | Inl _ \<Rightarrow> parseAuthnRequestPost (sh_unmarshal h) samlReq)"

definition basic_entity :: "string \<Rightarrow> bao_entity" where
  "basic_entity username = \<lparr>be_id = '''', be_name = username, be_metadata = [], be_disabled = False, be_groupIDs = []\<rparr>"

definition login_params :: "('w, 'k) saml_handler \<Rightarrow> authn_request \<Rightarrow> string \<Rightarrow> bao_entity \<Rightarrow> assertion_params" where
  "login_params h req username entity =
     (let email = first_value (be_metadata entity) ''email'';
          email = (if email = '''' then username else email);
          audience = (if rq_Issuer req = '''' then rq_ACS req else rq_Issuer req)
      in \<lparr>ap_entityID = sh_entityID h, ap_ssoURL = sh_ssoURL h, ap_requestID = rq_ID req, ap_acsURL = rq_ACS req,
          ap_audience = audience, ap_username = username, ap_email = email, ap_groups = be_groupIDs entity\<rparr>)"

definition serveLogin :: "('w, 'k) saml_handler \<Rightarrow> int \<Rightarrow> nat list \<Rightarrow> nat list \<Rightarrow> saml_request \<Rightarrow> 'w \<Rightarrow> saml_reply \<times> 'w" where
  "serveLogin h now random1 random2 r w =
     (if hr_method r \<noteq> ''POST'' then (Refused 405 ''method not allowed'', w)
      else (case hr_form r of
        Inl _ \<Rightarrow> (Refused 400 ''invalid form data'', w)
      | Inr form \<Rightarrow>
        let value = first_value (form @ hr_query r); username = value ''username''; password = value ''password'';
            samlReq = value ''SAMLRequest''; relayState = value ''RelayState''
        in if username = '''' \<or> password = '''' then (LoginForm samlReq relayState ''Username and password are required'', w)
           else if samlReq = '''' then (Refused 400 ''missing SAMLRequest'', w)
           else (case bao_authenticate (sh_client h) username password w of
             (Inl _, w) \<Rightarrow> (LoginForm samlReq relayState ''Invalid credentials'', w)
           | (Inr token, w) \<Rightarrow>
             (case login_request_of h samlReq of
                Inl _ \<Rightarrow> (Refused 400 ''invalid SAMLRequest'', w)
              | Inr req \<Rightarrow>
                let (found, w) = getEntityByNameWithToken (sh_client h) username token w;
                    entity = (case found of Inr (Some e) \<Rightarrow> e | _ \<Rightarrow> basic_entity username);
                    p = login_params h req username entity
                in if rq_ACS req = '''' then (Refused 400 ''no AssertionConsumerServiceURL in request'', w)
                   else (case buildSignedResponse (sh_crypto h) p (sh_keys h) now random1 random2 of
                           Inl _ \<Rightarrow> (Refused 500 ''internal error building response'', w)
                         | Inr responseXML \<Rightarrow> (PostForm (rq_ACS req) (std_encode responseXML) relayState, w))))))"

definition serveSLO :: "saml_request \<Rightarrow> saml_reply" where
  "serveSLO r =
     (if hr_method r \<noteq> ''GET'' then Refused 405 ''method not allowed''
      else Document ''text/html; charset=utf-8''
        ''<!DOCTYPE html><html><body><h1>Logged Out</h1><p>You have been logged out.</p></body></html>'')"

section \<open>The service\<close>

record idp_config =
  ic_ListenAddr :: string
  ic_TLSCert :: string
  ic_TLSKey :: string
  ic_OpenBaoAddr :: string
  ic_OpenBaoToken :: string
  ic_OpenBaoSkipTLS :: bool
  ic_EntityID :: string
  ic_SSOURL :: string
  ic_KeyAlgorithm :: string

text \<open>The environment is a function that is empty where a variable is not set.\<close>

definition envOrDefault :: "(string \<Rightarrow> string) \<Rightarrow> string \<Rightarrow> string \<Rightarrow> string" where
  "envOrDefault env key def = (if env key = '''' then def else env key)"

definition loadConfig :: "(string \<Rightarrow> string) \<Rightarrow> (string \<Rightarrow> string option) \<Rightarrow> string + idp_config" where
  "loadConfig env file =
     (let token = env ''OPENBAO_TOKEN'';
          tokenFile = env ''OPENBAO_TOKEN_FILE'';
          token = (if token = '''' \<and> tokenFile \<noteq> ''''
                   then (case file tokenFile of Some data \<Rightarrow> trim_spaces data | None \<Rightarrow> token) else token);
          algo = to_lower (envOrDefault env ''SAML_SCIM_AGENT_KEY_ALGORITHM'' ''ed25519'')
      in if algo \<in> {''ed25519'', ''rsa''}
         then Inr
           \<lparr>ic_ListenAddr = envOrDefault env ''SAML_SCIM_AGENT_LISTEN_ADDR'' ''0.0.0.0:8443'',
            ic_TLSCert = env ''SAML_SCIM_AGENT_TLS_CERT'', ic_TLSKey = env ''SAML_SCIM_AGENT_TLS_KEY'',
            ic_OpenBaoAddr = envOrDefault env ''OPENBAO_ADDR'' ''https://127.0.0.1:8200'', ic_OpenBaoToken = token,
            ic_OpenBaoSkipTLS = (to_lower (env ''OPENBAO_SKIP_VERIFY'') = ''true''),
            ic_EntityID = envOrDefault env ''SAML_SCIM_AGENT_ENTITY_ID'' ''https://sso.asymmetric-effort.com'',
            ic_SSOURL = envOrDefault env ''SAML_SCIM_AGENT_SSO_URL'' ''https://sso.asymmetric-effort.com/saml/sso'',
            ic_KeyAlgorithm = algo\<rparr>
         else Inl (''invalid SAML_SCIM_AGENT_KEY_ALGORITHM '' @ [CHR 0x22] @ algo @ [CHR 0x22] @ '': must be '' @
                [CHR 0x22] @ ''ed25519'' @ [CHR 0x22] @ '' or '' @ [CHR 0x22] @ ''rsa'' @ [CHR 0x22]))"

definition serve_health :: "'w bao_client \<Rightarrow> string \<Rightarrow> 'w \<Rightarrow> (string \<times> string) list reply \<times> 'w" where
  "serve_health c method w =
     (if method \<noteq> ''GET'' then (Failure 405 '''' ''method not allowed'', w)
      else (case checkHealth c w of
              (Some e, w) \<Rightarrow> (Reply 503 [(''status'', ''unavailable''), (''error'', e)], w)
            | (None, w) \<Rightarrow> (Reply 200 [(''status'', ''ok'')], w)))"

text \<open>
  \<open>buildMux\<close>, on paths that the multiplexer takes as they are; the agent's SCIM handler gets the
  listen address as its base.
\<close>

datatype idp_answer =
    HealthAnswer "(string \<times> string) list reply" | SamlAnswer saml_reply | ScimAnswer scim_reply
  | Redirected string | NoRoute

definition idp_serve ::
    "('w, 'k) saml_handler \<Rightarrow> idp_config \<Rightarrow> int \<Rightarrow> nat list \<Rightarrow> nat list \<Rightarrow> string \<Rightarrow> saml_request \<Rightarrow> scim_request \<Rightarrow> 'w
      \<Rightarrow> idp_answer \<times> 'w" where
  "idp_serve h cfg now random1 random2 path r q w =
     (if path = ''/health'' then apfst HealthAnswer (serve_health (sh_client h) (hr_method r) w)
      else if path = ''/saml/metadata'' then (SamlAnswer (serveMetadata h r), w)
      else if path = ''/saml/sso'' then (SamlAnswer (serveSSO h r), w)
      else if path = ''/saml/login'' then apfst SamlAnswer (serveLogin h now random1 random2 r w)
      else if path = ''/saml/slo'' then (SamlAnswer (serveSLO r), w)
      else if prefix ''/scim/v2/'' path
      then apfst ScimAnswer (scim_serve (sh_client h) (''https://'' @ ic_ListenAddr cfg) (q\<lparr>sr_path := path\<rparr>) w)
      else if path = ''/scim/v2'' then (Redirected ''/scim/v2/'', w)
      else (NoRoute, w))"

text \<open>\<open>run\<close> up to the multiplexer: the client of the configuration, then the keys.\<close>

definition run_idp ::
    "'k x509 \<Rightarrow> 'k saml_crypto \<Rightarrow> (string \<Rightarrow> string option) \<Rightarrow> (string \<Rightarrow> string + authn_request) \<Rightarrow> 'w bao_client \<Rightarrow>
     idp_config \<Rightarrow> 'w \<Rightarrow> (string + ('w, 'k) saml_handler) \<times> 'w" where
  "run_idp x cr inflate unmarshal transport cfg w =
     (if ic_OpenBaoToken cfg = '''' then (Inl ''OPENBAO_TOKEN or OPENBAO_TOKEN_FILE must be set'', w)
      else let client = newClient (ic_OpenBaoAddr cfg) (ic_OpenBaoToken cfg) transport
           in case loadOrGenerateKeys x client (ic_KeyAlgorithm cfg) w of
                (Inl e, w) \<Rightarrow> (Inl (''failed to initialize SAML keys: '' @ e), w)
              | (Inr keys, w) \<Rightarrow>
                  (Inr \<lparr>sh_client = client, sh_keys = keys, sh_entityID = ic_EntityID cfg, sh_ssoURL = ic_SSOURL cfg,
                        sh_crypto = cr, sh_inflate = inflate, sh_unmarshal = unmarshal\<rparr>, w))"

text \<open>\<open>main\<close>: fatal, or listening, without TLS unless both files are named.\<close>

datatype idp_boot = IdpFatal string | IdpTls string string string | IdpPlain string

definition serve_idp :: "idp_config \<Rightarrow> idp_boot" where
  "serve_idp cfg =
     (if ic_TLSCert cfg \<noteq> '''' \<and> ic_TLSKey cfg \<noteq> '''' then IdpTls (ic_ListenAddr cfg) (ic_TLSCert cfg) (ic_TLSKey cfg)
      else IdpPlain (ic_ListenAddr cfg))"

definition start_idp ::
    "'k x509 \<Rightarrow> 'k saml_crypto \<Rightarrow> (string \<Rightarrow> string option) \<Rightarrow> (string \<Rightarrow> string + authn_request) \<Rightarrow> 'w bao_client \<Rightarrow>
     idp_config \<Rightarrow> 'w \<Rightarrow> idp_boot \<times> 'w" where
  "start_idp x cr inflate unmarshal transport cfg w =
     (case run_idp x cr inflate unmarshal transport cfg w of
        (Inl e, w) \<Rightarrow> (IdpFatal e, w)
      | (Inr h, w) \<Rightarrow> (serve_idp cfg, w))"

definition main_idp ::
    "'k x509 \<Rightarrow> 'k saml_crypto \<Rightarrow> (string \<Rightarrow> string option) \<Rightarrow> (string \<Rightarrow> string + authn_request) \<Rightarrow> 'w bao_client \<Rightarrow>
     (string \<Rightarrow> string) \<Rightarrow> (string \<Rightarrow> string option) \<Rightarrow> 'w \<Rightarrow> idp_boot \<times> 'w" where
  "main_idp x cr inflate unmarshal transport env file w =
     (case loadConfig env file of
        Inl e \<Rightarrow> (IdpFatal (''load config: '' @ e), w)
      | Inr cfg \<Rightarrow> start_idp x cr inflate unmarshal transport cfg w)"

text \<open>It touches OpenBao only for its keys, and not at all without a token.\<close>

lemma main_idp_without_token:
  "env ''OPENBAO_TOKEN'' = '''' \<Longrightarrow> env ''OPENBAO_TOKEN_FILE'' = '''' \<Longrightarrow>
     \<exists>e. main_idp x cr inflate unmarshal transport env file w = (IdpFatal e, w)"
  by (auto simp: main_idp_def loadConfig_def start_idp_def run_idp_def Let_def)

section \<open>Properties\<close>

lemma issued_fields:
  assumes "signed_response cr p keys now random1 random2 = Inr r"
  shows "xr_inResponseTo r = ap_requestID p \<and> xr_destination r = ap_acsURL p \<and> xr_issuer r = ap_entityID p \<and>
     nd_value (xa_nameID (xr_assertion r)) = ap_username p \<and> xa_issuer (xr_assertion r) = ap_entityID p \<and>
     cn_audience (xa_conditions (xr_assertion r)) = ap_audience p \<and>
     cn_notBefore (xa_conditions (xr_assertion r)) = rfc3339 (now - 5) \<and>
     cn_notOnOrAfter (xa_conditions (xr_assertion r)) = rfc3339 (now + 300) \<and>
     xa_confirmation (xr_assertion r) = \<lparr>cf_method = ''urn:oasis:names:tc:SAML:2.0:cm:bearer'', cf_inResponseTo = ap_requestID p,
       cf_notOnOrAfter = rfc3339 (now + 300), cf_recipient = ap_acsURL p\<rparr> \<and>
     xa_attributes (xr_assertion r) = buildAttributeStatement p"
  using assms unfolding signed_response_def Let_def
  by (auto simp: build_assertion_def build_response_def split: sum.splits)

text \<open>The way through \<open>serveLogin\<close> that ends in a response.\<close>

lemma login_issues:
  assumes "hr_method r = ''POST''" and "hr_form r = Inr form" and "v = first_value (form @ hr_query r)"
    and "v ''username'' \<noteq> ''''" and "v ''password'' \<noteq> ''''" and "v ''SAMLRequest'' \<noteq> ''''"
    and "bao_authenticate (sh_client h) (v ''username'') (v ''password'') w = (Inr token, w1)"
    and "login_request_of h (v ''SAMLRequest'') = Inr req"
    and "getEntityByNameWithToken (sh_client h) (v ''username'') token w1 = (found, w2)"
    and "e = (case found of Inr (Some e) \<Rightarrow> e | _ \<Rightarrow> basic_entity (v ''username''))" and "rq_ACS req \<noteq> ''''"
  shows "serveLogin h now random1 random2 r w =
    (case signed_response (sh_crypto h) (login_params h req (v ''username'') e) (sh_keys h) now random1 random2 of
       Inl _ \<Rightarrow> (Refused 500 ''internal error building response'', w2)
     | Inr res \<Rightarrow> (PostForm (rq_ACS req) (std_encode (xml_marshal (response_tree res))) (v ''RelayState''), w2))"
proof -
  have "serveLogin h now random1 random2 r w =
    (case buildSignedResponse (sh_crypto h) (login_params h req (v ''username'') e) (sh_keys h) now random1 random2 of
       Inl _ \<Rightarrow> (Refused 500 ''internal error building response'', w2)
     | Inr x \<Rightarrow> (PostForm (rq_ACS req) (std_encode x) (v ''RelayState''), w2))"
    unfolding serveLogin_def assms(1,2) Let_def sum.case assms(3) [symmetric]
    using assms(4-9,11) by (simp add: assms(10) [symmetric])
  then show ?thesis
    by (cases "signed_response (sh_crypto h) (login_params h req (v ''username'') e) (sh_keys h) now random1 random2")
      (simp_all add: buildSignedResponse_def)
qed

text \<open>
  C9: a response is issued only for a password that OpenBao accepted, and it is bound to the request it
  answers: it names the request, its assertion is about the username of the form, for the
  request's issuer (for its consumer URL when it has none), is to be delivered at that URL, and holds from
  five seconds before to five minutes after it was made.
\<close>

theorem issued_for_a_login:
  assumes "serveLogin h now random1 random2 r w = (PostForm acsURL samlResponse relayState, w')"
  shows "\<exists>form username password token w1 req e a res.
     hr_method r = ''POST'' \<and> hr_form r = Inr form \<and>
     first_value (form @ hr_query r) ''username'' = username \<and> first_value (form @ hr_query r) ''password'' = password \<and>
     username \<noteq> '''' \<and> password \<noteq> '''' \<and> bao_authenticate (sh_client h) username password w = (Inr token, w1) \<and>
     login_request_of h (first_value (form @ hr_query r) ''SAMLRequest'') = Inr req \<and>
     acsURL = rq_ACS req \<and> acsURL \<noteq> '''' \<and>
     signed_response (sh_crypto h) (login_params h req username e) (sh_keys h) now random1 random2 = Inr res \<and>
     samlResponse = std_encode (xml_marshal (response_tree res)) \<and> xr_assertion res = a \<and>
     xr_inResponseTo res = rq_ID req \<and> xr_destination res = acsURL \<and> xr_issuer res = sh_entityID h \<and>
     nd_value (xa_nameID a) = username \<and> xa_issuer a = sh_entityID h \<and>
     cn_audience (xa_conditions a) = (if rq_Issuer req = '''' then acsURL else rq_Issuer req) \<and>
     cn_notBefore (xa_conditions a) = rfc3339 (now - 5) \<and> cn_notOnOrAfter (xa_conditions a) = rfc3339 (now + 300) \<and>
     xa_confirmation a = \<lparr>cf_method = ''urn:oasis:names:tc:SAML:2.0:cm:bearer'', cf_inResponseTo = rq_ID req,
       cf_notOnOrAfter = rfc3339 (now + 300), cf_recipient = acsURL\<rparr>"
proof -
  from assms obtain form where post: "hr_method r = ''POST''" and form: "hr_form r = Inr form"
    unfolding serveLogin_def by (auto split: if_splits sum.splits)
  define v where "v = first_value (form @ hr_query r)"
  note start = assms [unfolded serveLogin_def post form Let_def sum.case v_def [symmetric]]
  have given: "v ''username'' \<noteq> ''''" "v ''password'' \<noteq> ''''" "v ''SAMLRequest'' \<noteq> ''''"
    using start by (auto split: if_splits)
  obtain token w1 where auth: "bao_authenticate (sh_client h) (v ''username'') (v ''password'') w = (Inr token, w1)"
    using start given by (auto split: prod.splits sum.splits)
  obtain req where req: "login_request_of h (v ''SAMLRequest'') = Inr req"
    using start given auth by (auto split: sum.splits)
  obtain found w2 where ent: "getEntityByNameWithToken (sh_client h) (v ''username'') token w1 = (found, w2)" by force
  define e where "e = (case found of Inr (Some e) \<Rightarrow> e | _ \<Rightarrow> basic_entity (v ''username''))"
  have acs: "rq_ACS req \<noteq> ''''"
    using start given auth req ent by (auto split: if_splits)
  obtain res where res: "signed_response (sh_crypto h) (login_params h req (v ''username'') e) (sh_keys h) now random1 random2 = Inr res"
    and out: "acsURL = rq_ACS req" "samlResponse = std_encode (xml_marshal (response_tree res))"
    using assms unfolding login_issues [OF post form v_def given auth req ent e_def acs] by (auto split: sum.splits)
  show ?thesis
    by (intro exI [of _ form] exI [of _ "v ''username''"] exI [of _ "v ''password''"] exI [of _ token] exI [of _ w1]
        exI [of _ req] exI [of _ e] exI [of _ "xr_assertion res"] exI [of _ res])
      (use post form given auth req acs out res issued_fields [OF res] in
        \<open>simp add: v_def [symmetric] login_params_def Let_def\<close>)
qed

text \<open>
  An account that OpenBao protects with a second factor is signed in with the password alone: when the
  answer to the password is 200 without a token, which is how OpenBao asks for the second factor, the
  agent goes on, finds no attributes without a token, and issues the signed response all the same.
\<close>

theorem second_factor_not_asked:
  assumes "hr_method r = ''POST''" and "hr_form r = Inr form"
    and "first_value (form @ hr_query r) ''username'' = username" and "username \<noteq> ''''"
    and "first_value (form @ hr_query r) ''password'' = password" and "password \<noteq> ''''"
    and "first_value (form @ hr_query r) ''SAMLRequest'' = samlReq" and "samlReq \<noteq> ''''"
    and "bao_authenticate (sh_client h) username password w = (Inr '''', w1)"
    and "getEntityByNameWithToken (sh_client h) username '''' w1 = (Inl e, w2)"
    and "login_request_of h samlReq = Inr req" and "rq_ACS req \<noteq> ''''"
    and "kp_private (sh_keys h) = Ed25519Key k"
  shows "\<exists>res. serveLogin h now random1 random2 r w =
       (PostForm (rq_ACS req) (std_encode (xml_marshal (response_tree res))) (first_value (form @ hr_query r) ''RelayState''), w2) \<and>
     signed_response (sh_crypto h) (login_params h req username (basic_entity username)) (sh_keys h) now random1 random2 = Inr res \<and>
     nd_value (xa_nameID (xr_assertion res)) = username"
proof -
  let ?p = "login_params h req username (basic_entity username)"
  obtain res where res: "signed_response (sh_crypto h) ?p (sh_keys h) now random1 random2 = Inr res"
    using signed_response_ed25519 [OF assms(13)] by blast
  have "serveLogin h now random1 random2 r w =
      (PostForm (rq_ACS req) (std_encode (xml_marshal (response_tree res))) (first_value (form @ hr_query r) ''RelayState''), w2)"
    using login_issues [OF assms(1,2) refl, of h w "''''" w1 req "Inl e" w2 "basic_entity username"] assms res by simp
  with res issued_fields [OF res] show ?thesis by (intro exI [of _ res]) (simp add: login_params_def Let_def)
qed

text \<open>An OpenBao that takes every password and asks for a second factor, and knows no entity without a token.\<close>

definition demo_mfa_bao :: "'w bao_client" where
  "demo_mfa_bao =
     \<lparr>bc_addr = '''', bc_token = ''service'',
      bc_do = (\<lambda>m u t body w. if m = ''POST'' then (Answer 200 '''', w) else (Answer (if t = '''' then 403 else 404) '''', w)),
      bc_auth = Inr, bc_kv = (\<lambda>b. Inr None), bc_entity = Inl, bc_group = Inl, bc_keys = Inl\<rparr>"

definition demo_authn :: authn_request where
  "demo_authn = \<lparr>rq_ID = ''r1'', rq_Version = ''2.0'', rq_IssueInstant = '''', rq_Destination = '''', rq_ACS = ''https://sp/acs'',
     rq_Binding = '''', rq_Issuer = ''sp''\<rparr>"

definition demo_idp :: "('w, nat) saml_handler" where
  "demo_idp = \<lparr>sh_client = demo_mfa_bao, sh_keys = demo_keys, sh_entityID = ''idp'', sh_ssoURL = ''idp/sso'', sh_crypto = demo_crypto,
     sh_inflate = (\<lambda>_. None), sh_unmarshal = (\<lambda>_. Inr demo_authn)\<rparr>"

definition demo_form :: saml_request where
  "demo_form = \<lparr>hr_method = ''POST'', hr_query = [],
     hr_form = Inr [(''username'', ''ann''), (''password'', ''pw''), (''SAMLRequest'', ''YWJj''), (''RelayState'', ''s'')]\<rparr>"

lemma demo_password: "bao_authenticate (sh_client demo_idp) ''ann'' ''pw'' w = (Inr '''', w)"
  by (simp add: demo_idp_def demo_mfa_bao_def bao_authenticate_def bao_request_def requestWithToken_def)

lemma demo_entity: "getEntityByNameWithToken (sh_client demo_idp) ''ann'' '''' w = (Inl (status_text ''get entity ann'' 403), w)"
  by (simp add: demo_idp_def demo_mfa_bao_def getEntityByNameWithToken_def requestWithToken_def read_answer_def)

lemma demo_login_request: "login_request_of demo_idp ''YWJj'' = Inr demo_authn"
proof -
  have "std_decode ''YWJj'' = Some ''abc''"
    by code_simp
  then show ?thesis
    by (simp add: login_request_of_def parseAuthnRequestRedirect_def parseAuthnRequestXML_def demo_idp_def demo_authn_def)
qed

theorem second_factor_not_asked_witness:
  "\<exists>res. serveLogin demo_idp 0 [1] [2] demo_form (0::nat) =
     (PostForm ''https://sp/acs'' (std_encode (xml_marshal (response_tree res))) ''s'', 0) \<and>
   nd_value (xa_nameID (xr_assertion res)) = ''ann''"
  using second_factor_not_asked [of demo_form _ "''ann''" "''pw''" "''YWJj''" demo_idp "0::nat" 0 _ 0 demo_authn 3 0 "[1]" "[2]",
      OF _ _ _ _ _ _ _ _ demo_password demo_entity demo_login_request]
  by (auto simp: demo_form_def first_value_def demo_authn_def demo_idp_def demo_keys_def)

theorem issued_for_a_login_witness:
  "\<exists>res. fst (serveLogin demo_idp 0 [1] [2] demo_form (0::nat)) =
     PostForm ''https://sp/acs'' (std_encode (xml_marshal (response_tree res))) ''s'' \<and>
   xr_inResponseTo res = ''r1'' \<and> cn_audience (xa_conditions (xr_assertion res)) = ''sp''"
proof -
  let ?h = "demo_idp :: (nat, nat) saml_handler" and ?e = "basic_entity ''ann''"
  obtain res where "signed_response (sh_crypto ?h) (login_params ?h demo_authn ''ann'' ?e) (sh_keys ?h) 0 [1] [2] = Inr res"
    using signed_response_ed25519 [of "sh_keys ?h" 3 "sh_crypto ?h" "login_params ?h demo_authn ''ann'' ?e" 0 "[1]" "[2]"]
    by (auto simp: demo_idp_def demo_keys_def)
  then have run: "serveLogin ?h 0 [1] [2] demo_form 0 =
      (PostForm ''https://sp/acs'' (std_encode (xml_marshal (response_tree res))) ''s'', 0)"
    by (simp add: serveLogin_def demo_form_def first_value_def demo_password demo_entity demo_login_request
        buildSignedResponse_def Let_def) (simp add: demo_authn_def)
  from issued_for_a_login [OF run] obtain form req a res' where form: "hr_form demo_form = Inr form"
    and req: "login_request_of ?h (first_value (form @ hr_query demo_form) ''SAMLRequest'') = Inr req"
    and out: "std_encode (xml_marshal (response_tree res)) = std_encode (xml_marshal (response_tree res'))"
    and a: "xr_assertion res' = a" and to: "xr_inResponseTo res' = rq_ID req"
    and aud: "cn_audience (xa_conditions a) = (if rq_Issuer req = '''' then ''https://sp/acs'' else rq_Issuer req)"
    by (elim exE conjE) (rule that)
  have "form = [(''username'', ''ann''), (''password'', ''pw''), (''SAMLRequest'', ''YWJj''), (''RelayState'', ''s'')]"
    using form by (simp add: demo_form_def)
  then have "first_value (form @ hr_query demo_form) ''SAMLRequest'' = ''YWJj''" by (simp add: first_value_def)
  with req have "req = demo_authn" by (simp add: demo_login_request)
  then show ?thesis using to aud a unfolding run fst_conv out by (intro exI [of _ res']) (simp add: demo_authn_def)
qed

end
