(* ===== verification/Idp_Login.thy ===== *)
theory Idp_Login
  imports Idp_Handler Login
begin

text \<open>
  The two ends of a login through the SAML agent put together: the API server's \<^verbatim>\<open>internal/auth/saml.go\<close>
  as the client of the agent's \<^verbatim>\<open>/saml/login\<close>. The agent and OpenBao are one world, the page
  that the agent answers is the text that the API server takes apart.
\<close>

section \<open>The agent as the API server sees it\<close>

text \<open>The request that \<open>samlLoginCore\<close> writes; the identifier and the instant come from the clock.\<close>

definition api_request_xml :: "string \<Rightarrow> string \<Rightarrow> string \<Rightarrow> string" where
  "api_request_xml agentURL ident instant =
     ''<samlp:AuthnRequest '' @ tag_attr ''xmlns:samlp'' ''urn:oasis:names:tc:SAML:2.0:protocol'' @ '' '' @
     tag_attr ''ID'' (''_'' @ ident) @ '' '' @ tag_attr ''Version'' ''2.0'' @ '' '' @ tag_attr ''IssueInstant'' instant @ '' '' @
     tag_attr ''AssertionConsumerServiceURL'' (agentURL @ ''/api/v1/auth/login'') @ '' '' @
     tag_attr ''Destination'' (agentURL @ ''/saml/sso'') @ ''>'' @
     ''<saml:Issuer '' @ tag_attr ''xmlns:saml'' ''urn:oasis:names:tc:SAML:2.0:assertion'' @ ''>convocate-api</saml:Issuer>'' @
     ''</samlp:AuthnRequest>''"

definition api_form :: "string \<Rightarrow> string \<Rightarrow> string \<Rightarrow> string \<Rightarrow> string \<Rightarrow> saml_request" where
  "api_form agentURL ident instant username password =
     \<lparr>hr_method = ''POST'', hr_query = [],
      hr_form = Inr [(''SAMLRequest'', std_encode (api_request_xml agentURL ident instant)), (''RelayState'', ''convocate''),
                     (''username'', username), (''password'', password)]\<rparr>"

definition idp_agent ::
    "('w, 'k) saml_handler \<Rightarrow> (string \<Rightarrow> string + saml_info) \<Rightarrow> string \<Rightarrow> string \<Rightarrow> string \<Rightarrow> int \<Rightarrow> nat list \<Rightarrow> nat list
      \<Rightarrow> 'w saml_agent" where
  "idp_agent h xml agentURL ident instant now random1 random2 =
     \<lparr>sv_url = agentURL,
      sv_login = (\<lambda>url username password w.
        let (rep, w) = serveLogin h now random1 random2 (api_form agentURL ident instant username password) w
        in (Inr (page_text rep), w)),
      sv_xml = xml\<rparr>"

section \<open>A plus in every response\<close>

lemma sextet_62: "k < length ns \<Longrightarrow> k mod 3 = 2 \<Longrightarrow> ns ! k = 62 \<Longrightarrow> 62 \<in> set (b64_sextets ns)"
proof (induction ns arbitrary: k rule: b64_sextets.induct)
  case (4 a b c rest)
  show ?case
  proof (cases "k = 2")
    case True
    with 4(4) show ?thesis by (simp add: numeral_2_eq_2)
  next
    case False
    have "3 \<le> k"
    proof (rule ccontr)
      assume "\<not> 3 \<le> k"
      then have "k mod 3 = k" by simp
      with False 4(3) show False by simp
    qed
    then obtain m where k: "k = 3 + m" using le_Suc_ex by blast
    have "m mod 3 = 2" using 4(3) unfolding k by simp
    moreover have "rest ! m = 62" using 4(4) unfolding k by (simp add: numeral_3_eq_3)
    moreover have "m < length rest" using 4(2) unfolding k by simp
    ultimately have "62 \<in> set (b64_sextets rest)" by (intro 4(1) [of m])
    then show ?thesis by simp
  qed
next
  case (3 a b)
  then have "k = 0 \<or> k = 1" by auto
  with 3(2) show ?case by auto
qed simp_all

lemma plus_at: "k < length s \<Longrightarrow> k mod 3 = 2 \<Longrightarrow> s ! k = CHR ''>'' \<Longrightarrow> CHR ''+'' \<in> set (std_encode s)"
  using sextet_62 [of k "map of_char s"] by (force simp: std_encode_def std_char_def Let_def)

lemma three_ends:
  assumes "s = xs @ f @ ys" and "i < length f" "j < length f" "k < length f"
    and "f ! i = CHR ''>''" "f ! j = CHR ''>''" "f ! k = CHR ''>''" and "i mod 3 = 0" "j mod 3 = 1" "k mod 3 = 2"
  shows "CHR ''+'' \<in> set (std_encode s)"
proof -
  have at: "(length xs + n) < length s" "s ! (length xs + n) = f ! n" if "n < length f" for n
    using that by (simp_all add: assms(1) nth_append)
  have "\<exists>n. n < length f \<and> f ! n = CHR ''>'' \<and> (length xs + n) mod 3 = 2"
  proof -
    consider "length xs mod 3 = 2" | "length xs mod 3 = 1" | "length xs mod 3 = 0" by linarith
    then show ?thesis
    proof cases
      case 1
      then show ?thesis using assms(2,5,8) by (intro exI [of _ i]) (simp add: mod_add_eq [of "length xs" 3 i, symmetric])
    next
      case 2
      then show ?thesis using assms(3,6,9) by (intro exI [of _ j]) (simp add: mod_add_eq [of "length xs" 3 j, symmetric])
    next
      case 3
      then show ?thesis using assms(4,7,10) by (intro exI [of _ k]) (simp add: mod_add_eq [of "length xs" 3 k, symmetric])
    qed
  qed
  then obtain n where "n < length f" "f ! n = CHR ''>''" "(length xs + n) mod 3 = 2" by blast
  then show ?thesis using at [of n] plus_at [of "length xs + n" s] by simp
qed

definition ends_fragment :: string where
  "ends_fragment = ''></AudienceRestriction></Conditions>''"

fun kids_of :: "xml_tree \<Rightarrow> xml_tree list" where
  "kids_of (XText s) = []"
| "kids_of (XElem space local attrs kids) = kids"

lemma kid_in: "t \<in> set (kids_of x) \<Longrightarrow> \<exists>us vs. xml_marshal x = us @ xml_marshal t @ vs"
proof (cases x)
  case (XElem space local attrs kids)
  moreover assume "t \<in> set (kids_of x)"
  ultimately obtain ks ls where kids: "kids = ks @ t # ls" by (metis kids_of.simps(2) split_list)
  show ?thesis
    by (intro exI [of _ "open_tag space local attrs @ concat (map xml_marshal ks)"]
        exI [of _ "concat (map xml_marshal ls) @ ''</'' @ local @ ''>''"]) (simp add: XElem kids)
qed simp

definition conditions_tree :: "saml_assertion \<Rightarrow> xml_tree" where
  "conditions_tree a =
     XElem saml_ns ''Conditions''
       [(''NotBefore'', cn_notBefore (xa_conditions a)), (''NotOnOrAfter'', cn_notOnOrAfter (xa_conditions a))]
       [XElem saml_ns ''AudienceRestriction'' [] [leaf saml_ns ''Audience'' (cn_audience (xa_conditions a))]]"

lemma ends_in_conditions: "\<exists>xs. xml_marshal (conditions_tree a) = xs @ ends_fragment"
  unfolding conditions_tree_def ends_fragment_def leaf_def
  by (intro exI [of _ "open_tag saml_ns ''Conditions'' [(''NotBefore'', cn_notBefore (xa_conditions a)), (''NotOnOrAfter'', cn_notOnOrAfter (xa_conditions a))] @
     open_tag saml_ns ''AudienceRestriction'' [] @ open_tag saml_ns ''Audience'' [] @ esc_string (cn_audience (xa_conditions a)) @ ''</Audience''"]) simp

lemma response_has_plus: "CHR ''+'' \<in> set (std_encode (xml_marshal (response_tree r)))"
proof -
  let ?a = "xr_assertion r"
  obtain xs where c: "xml_marshal (conditions_tree ?a) = xs @ ends_fragment" using ends_in_conditions by blast
  obtain us vs where a: "xml_marshal (assertion_tree ?a) = us @ xml_marshal (conditions_tree ?a) @ vs"
    using kid_in [of "conditions_tree ?a" "assertion_tree ?a"] by (auto simp: assertion_tree_def conditions_tree_def)
  obtain ps qs where r: "xml_marshal (response_tree r) = ps @ xml_marshal (assertion_tree ?a) @ qs"
    using kid_in [of "assertion_tree ?a" "response_tree r"] by (auto simp: response_tree_def)
  have "xml_marshal (response_tree r) = (ps @ us @ xs) @ ends_fragment @ (vs @ qs)" by (simp add: r a c)
  then show ?thesis
    by (rule three_ends [where i = 0 and j = 22 and k = 35]) (simp_all add: ends_fragment_def)
qed

section \<open>The pages taken apart\<close>

lemma html_quote_free: "CHR 0x22 \<notin> set (html_escape s)"
proof -
  have "CHR 0x22 \<notin> set (html_char c)" for c by (simp add: html_char_def)
  then show ?thesis by (simp add: html_escape_def)
qed

lemma url_quote_free: "CHR 0x22 \<notin> set (url_attr s)"
  by (simp add: url_attr_def html_quote_free)

lemma after_step: "\<not> prefix m (c # s) \<Longrightarrow> after_marker m (c # s) = after_marker m s"
  by (simp add: after_marker.simps)

lemma after_found: "prefix m (c # s) \<Longrightarrow> after_marker m (c # s) = Some (drop (length m) (c # s))"
  by (simp add: after_marker.simps)

text \<open>The marker does not start in a value, since no value has a quote in it.\<close>

lemma skip_value:
  assumes "CHR 0x22 \<notin> set v"
  shows "after_marker saml_marker (v @ CHR 0x22 # CHR ''>'' # t) = after_marker saml_marker (CHR 0x22 # CHR ''>'' # t)"
  using assms
proof (induction v)
  case (Cons c v)
  have "\<not> prefix saml_marker ((c # v) @ CHR 0x22 # CHR ''>'' # t)"
  proof
    assume pre: "prefix saml_marker ((c # v) @ CHR 0x22 # CHR ''>'' # t)"
    have len: "length saml_marker = 27" by (simp add: saml_marker_def)
    have at: "((c # v) @ CHR 0x22 # CHR ''>'' # t) ! i = saml_marker ! i" if "i < 27" for i
      using pre that unfolding prefix_def by (auto simp: nth_append len)
    show False
    proof (cases "length (c # v) \<le> 5")
      case True
      have "((c # v) @ CHR 0x22 # CHR ''>'' # t) ! length (c # v) = CHR 0x22" by (simp only: nth_append_length)
      then have quote: "saml_marker ! length (c # v) = CHR 0x22" using at [of "length (c # v)"] True by simp
      have "length v \<le> 4" using True by simp
      then have "length v = 0 \<or> length v = 1 \<or> length v = 2 \<or> length v = 3 \<or> length v = 4" by arith
      with quote have five: "length (c # v) = 5" by (elim disjE) (simp_all add: saml_marker_def)
      have "((c # v) @ CHR 0x22 # CHR ''>'' # t) ! 6 = CHR ''>''" using five by (simp add: nth_append)
      with at [of 6] show False by (simp add: saml_marker_def)
    next
      case False
      then have "((c # v) @ CHR 0x22 # CHR ''>'' # t) ! 5 \<in> set (c # v)" by (subst nth_append) (simp del: nth_Cons')
      moreover have "saml_marker ! 5 = CHR 0x22" by (simp add: saml_marker_def)
      ultimately show False using at [of 5] Cons.prems by simp
    qed
  qed
  then show ?case using Cons by (simp add: after_step)
qed simp

lemmas page_simps = lines_text_def hidden_input_def tag_attr_def

lemma post_page_value: "extractSAMLResponseFromHTML (post_page acs resp relay) = Inr (html_escape resp)"
proof -
  have "\<exists>t. after_marker saml_marker (post_page acs resp relay) = Some (html_escape resp @ CHR 0x22 # t)"
    by (simp add: post_page_def page_simps skip_value [unfolded saml_marker_def, simplified] url_quote_free html_quote_free after_step after_found saml_marker_def)
  moreover have "takeWhile (\<lambda>c. c \<noteq> CHR 0x22) (html_escape resp @ CHR 0x22 # t) = html_escape resp" for t
    by (subst takeWhile_append2) (use html_quote_free [of resp] in auto)
  ultimately show ?thesis by (auto simp: extractSAMLResponseFromHTML_def)
qed

lemma after_nil: "m \<noteq> [] \<Longrightarrow> after_marker m [] = None"
  by (simp add: after_marker.simps)

text \<open>A line that the search runs through.\<close>

definition passed :: "string \<Rightarrow> bool" where
  "passed l \<longleftrightarrow> (\<forall>t. after_marker saml_marker (l @ CHR 0x0A # t) = after_marker saml_marker t)"

lemma lines_passed:
  assumes "\<forall>l \<in> set ls. passed l"
  shows "after_marker saml_marker (lines_text ls @ t) = after_marker saml_marker t"
  using assms by (induction ls) (simp_all add: lines_text_def passed_def)

lemma passed_constants:
  "passed ''<!DOCTYPE html>''" "passed ''<html>''" "passed ''<head><title>SAML/SCIM Agent SSO Login</title></head>''"
  "passed ''<body>''" "passed ''<h1>Sign In</h1>''" "passed ''''" "passed ''</form>''" "passed ''</body>''"
  "passed (''<p '' @ tag_attr ''style'' ''color:red'' @ ''>'' @ ''Username and password are required'' @ ''</p>'')"
  "passed (''<p '' @ tag_attr ''style'' ''color:red'' @ ''>'' @ ''Invalid credentials'' @ ''</p>'')"
  "passed (''<form '' @ tag_attr ''method'' ''POST'' @ '' '' @ tag_attr ''action'' ''/saml/login'' @ ''>'')"
  "passed (''<label>Username: <input '' @ tag_attr ''type'' ''text'' @ '' '' @ tag_attr ''name'' ''username'' @ '' required></label><br>'')"
  "passed (''<label>Password: <input '' @ tag_attr ''type'' ''password'' @ '' '' @ tag_attr ''name'' ''password'' @ '' required></label><br>'')"
  "passed (''<button '' @ tag_attr ''type'' ''submit'' @ ''>Sign In</button>'')"
  by (simp_all add: passed_def tag_attr_def after_step saml_marker_def)

lemma passed_inputs: "passed (hidden_input ''SAMLRequest'' (html_escape s))" "passed (hidden_input ''RelayState'' (html_escape s))"
  by (simp_all add: passed_def page_simps after_step saml_marker_def skip_value [unfolded saml_marker_def, simplified] html_quote_free)

lemma login_page_value:
  assumes "err \<in> {'''', ''Username and password are required'', ''Invalid credentials''}"
  shows "extractSAMLResponseFromHTML (login_page samlReq relay err) = Inl ''SAMLResponse not found in response''"
proof -
  have esc: "html_escape ''Username and password are required'' = ''Username and password are required''"
    "html_escape ''Invalid credentials'' = ''Invalid credentials''"
    by (simp_all add: html_escape_def html_char_def)
  have "passed (if err \<noteq> '''' then ''<p '' @ tag_attr ''style'' ''color:red'' @ ''>'' @ html_escape err @ ''</p>'' else '''')"
    using assms by (elim insertE emptyE) (simp_all only: esc passed_constants not_Cons_self if_True if_False simp_thms list.distinct)
  then have "after_marker saml_marker (login_page samlReq relay err) = after_marker saml_marker ''</html>''"
    unfolding login_page_def
    by (intro lines_passed) (simp only: list.set ball_simps passed_constants passed_inputs simp_thms)
  also have "\<dots> = None" by (simp add: after_step after_nil saml_marker_def)
  finally show ?thesis by (simp add: extractSAMLResponseFromHTML_def)
qed

lemma built_is_tree: "buildSignedResponse cr p k now r1 r2 = Inr x \<Longrightarrow> \<exists>res. x = xml_marshal (response_tree res)"
  by (cases "signed_response cr p k now r1 r2") (auto simp: buildSignedResponse_def)

text \<open>Everything that \<open>serveLogin\<close> answers.\<close>

lemma login_replies:
  assumes "serveLogin h now r1 r2 r w = (rep, w')"
  shows "(\<exists>code t. rep = Refused code t \<and> t \<in> {''method not allowed'', ''invalid form data'', ''missing SAMLRequest'',
        ''invalid SAMLRequest'', ''no AssertionConsumerServiceURL in request'', ''internal error building response''}) \<or>
     (\<exists>q s e. rep = LoginForm q s e \<and> e \<in> {'''', ''Username and password are required'', ''Invalid credentials''}) \<or>
     (\<exists>acs res s. rep = PostForm acs (std_encode (xml_marshal (response_tree res))) s)"
proof -
  show ?thesis
    using assms unfolding serveLogin_def Let_def
    by (auto split: if_splits sum.splits prod.splits dest!: built_is_tree)
qed

lemma refused_value:
  assumes "t \<in> {''method not allowed'', ''invalid form data'', ''missing SAMLRequest'',
        ''invalid SAMLRequest'', ''no AssertionConsumerServiceURL in request'', ''internal error building response''}"
  shows "extractSAMLResponseFromHTML (t @ [CHR 0x0A]) = Inl ''SAMLResponse not found in response''"
proof -
  have "\<forall>t \<in> {''method not allowed'', ''invalid form data'', ''missing SAMLRequest'',
        ''invalid SAMLRequest'', ''no AssertionConsumerServiceURL in request'', ''internal error building response''}.
      after_marker saml_marker (t @ [CHR 0x0A]) = None"
    by (simp only: ball_simps, intro conjI TrueI; simp add: after_step after_nil saml_marker_def)
  with assms have "after_marker saml_marker (t @ [CHR 0x0A]) = None" by (rule bspec [rotated])
  then show ?thesis by (simp add: extractSAMLResponseFromHTML_def)
qed

lemma escaped_plus_undecoded: "CHR ''+'' \<in> set s \<Longrightarrow> std_decode (html_escape s) = None"
proof (rule std_decode_bad [where c = "CHR ''&''"])
  assume "CHR ''+'' \<in> set s"
  then show "CHR ''&'' \<in> set (html_escape s)" by (force simp: html_escape_def html_char_def)
qed (simp_all add: std_val_def b64_val_def)

lemma no_principal: "\<exists>e. fst (samlLoginCore v (idp_agent h xml url ident instant now r1 r2) username password w) = Inl e"
proof -
  obtain rep w1 where run: "serveLogin h now r1 r2 (api_form url ident instant username password) w = (rep, w1)" by force
  have "(\<exists>e. extractSAMLResponseFromHTML (page_text rep) = Inl e) \<or>
      (\<exists>x. extractSAMLResponseFromHTML (page_text rep) = Inr x \<and> std_decode x = None)"
    using login_replies [OF run]
    by (elim disjE exE conjE)
      (simp_all only: page_text.simps refused_value login_page_value post_page_value escaped_plus_undecoded response_has_plus
        sum.inject ex_simps simp_thms)
  then show ?thesis by (auto simp: samlLoginCore_def idp_agent_def run)
qed

text \<open>
  C3: no login through the SAML agent succeeds. Whatever the credentials and whatever OpenBao answers, the API
  server refuses: in the page of the agent each plus of the Base64 text is written as a character
  reference, the API server decodes the text without reading references, and no response
  is without a plus, because the closing tags of its conditions end at all three positions modulo three.
\<close>

theorem saml_login_never_succeeds:
  assumes "au_saml c = idp_agent h xml url ident instant now random1 random2" and "url \<noteq> ''''"
  shows "reply_code (fst (handleLogin c r w)) \<in> {Some 400, Some 401}"
proof (cases "rq_body r")
  case None
  then show ?thesis by (simp add: handleLogin_def with_body_def write_error_def)
next
  case (Some q)
  obtain e w1 where core: "samlLoginCore (au_vault c) (au_saml c) (lr_username q) (lr_password q) w = (Inl e, w1)"
    using no_principal [of "au_vault c" h xml url ident instant now random1 random2 "lr_username q" "lr_password q" w]
    unfolding assms(1) by (metis prod.collapse)
  have "sv_url (au_saml c) \<noteq> ''''" using assms by (simp add: idp_agent_def)
  then have "handleLogin c r w = unauthorized ''invalid credentials'' w \<or> handleLogin c r w = unauthorized ''authentication failed'' w1"
    by (simp add: handleLogin_def with_body_def Some login_saml_def samlLogin_def core)
  then show ?thesis by (auto simp: unauthorized_def write_error_def)
qed

lemma demo_reads_all: "login_request_of demo_idp (std_encode s) = Inr demo_authn"
  by (auto simp: login_request_of_def parseAuthnRequestRedirect_def parseAuthnRequestPost_def parseAuthnRequestXML_def
      demo_idp_def demo_authn_def split: option.split)

theorem saml_login_never_succeeds_witness:
  "(\<exists>resp w'. serveLogin demo_idp 0 [1] [2] (api_form ''https://idp'' ''1'' '''' ''ann'' ''pw'') ([] :: string list) =
     (PostForm ''https://sp/acs'' resp ''convocate'', w')) \<and>
   reply_code (fst (handleLogin
     ((demo_login_config '''')\<lparr>au_saml := idp_agent demo_idp (\<lambda>_. Inl '''') ''https://idp'' ''1'' '''' 0 [1] [2]\<rparr>) demo_login_rq []))
   = Some 401"
proof
  let ?h = "demo_idp :: (string list, nat) saml_handler" and ?e = "basic_entity ''ann''"
  obtain res where "signed_response (sh_crypto ?h) (login_params ?h demo_authn ''ann'' ?e) (sh_keys ?h) 0 [1] [2] = Inr res"
    using signed_response_ed25519 [of "sh_keys ?h" 3 "sh_crypto ?h" "login_params ?h demo_authn ''ann'' ?e" 0 "[1]" "[2]"]
    by (auto simp: demo_idp_def demo_keys_def)
  moreover have "std_encode (api_request_xml ''https://idp'' ''1'' '''') \<noteq> ''''"
    using std_roundtrip [of "api_request_xml ''https://idp'' ''1'' ''''"] by (auto simp: std_decode_def strip_pad_def api_request_xml_def)
  ultimately show "\<exists>resp w'. serveLogin demo_idp 0 [1] [2] (api_form ''https://idp'' ''1'' '''' ''ann'' ''pw'') ([] :: string list) =
     (PostForm ''https://sp/acs'' resp ''convocate'', w')"
    by (simp add: serveLogin_def api_form_def first_value_def demo_password demo_entity demo_reads_all buildSignedResponse_def Let_def)
      (simp add: demo_authn_def)
next
  let ?c = "(demo_login_config '''')\<lparr>au_saml := idp_agent demo_idp (\<lambda>_. Inl '''') ''https://idp'' ''1'' '''' 0 [1] [2]\<rparr>"
  have "reply_code (fst (handleLogin ?c demo_login_rq [])) \<in> {Some 400, Some 401}"
    by (rule saml_login_never_succeeds, simp, simp)
  moreover have "reply_code (fst (handleLogin ?c demo_login_rq [])) \<noteq> Some 400"
    by (simp add: handleLogin_def with_body_def demo_login_rq_def demo_req_def login_saml_def unauthorized_def write_error_def
        write_json_def idp_agent_def split: prod.split sum.split option.split saml_error.split)
  ultimately show "reply_code (fst (handleLogin ?c demo_login_rq [])) = Some 401" by simp
qed

end
