(* ===== verification/Startup.thy ===== *)
theory Startup
  imports Nodes AgentPods "HOL-Library.List_Lexorder" "HOL-Library.Char_ord"
begin

text \<open>
  How the API server comes up (\<^verbatim>\<open>api/main.go\<close>): the database connection and its migrations, the notes
  kept in it and the cache (\<^verbatim>\<open>internal/db\<close>, \<^verbatim>\<open>internal/nmgr/pg_notedb.go\<close>), the Kubernetes clients
  (\<^verbatim>\<open>internal/k8s/client.go\<close>, the name space of the agents) and the status page (\<^verbatim>\<open>internal/status\<close>).

  PostgreSQL, Redis and Kubernetes are one world of any type \<open>'w\<close> behind the calls that the code makes; a deadline that
  passes is an error of the call it interrupts.
\<close>

section \<open>Migrations\<close>

record 'w migrator =
  mg_exec :: "string \<Rightarrow> string list \<Rightarrow> 'w \<Rightarrow> string option \<times> 'w"      \<comment> \<open>statement, arguments\<close>
  mg_exists :: "string \<Rightarrow> 'w \<Rightarrow> (string + bool) \<times> 'w"                \<comment> \<open>\<open>QueryRow\<close> of the version, then \<open>Scan\<close>\<close>

record migration_files =
  mf_dir :: "string + string list"
  mf_read :: "string \<Rightarrow> string + string"

definition create_table_sql :: string where
  "create_table_sql = ''CREATE TABLE IF NOT EXISTS schema_migrations (version TEXT PRIMARY KEY, applied_at TIMESTAMPTZ NOT NULL DEFAULT NOW())''"

definition record_sql :: string where
  "record_sql = ''INSERT INTO schema_migrations (version) VALUES ($1)''"

text \<open>One round of the loop: nothing to do, applied, or an error.\<close>

definition migrate_one :: "'w migrator \<Rightarrow> migration_files \<Rightarrow> string \<Rightarrow> 'w \<Rightarrow> (string + bool) \<times> 'w" where
  "migrate_one m fs name w =
     (case mg_exists m name w of
        (Inl e, w) \<Rightarrow> (Inl (''check migration '' @ name @ '': '' @ e), w)
      | (Inr True, w) \<Rightarrow> (Inr False, w)
      | (Inr False, w) \<Rightarrow>
         (case mf_read fs (''migrations/'' @ name) of
            Inl e \<Rightarrow> (Inl (''read migration '' @ name @ '': '' @ e), w)
          | Inr sql \<Rightarrow>
             (case mg_exec m sql [] w of
                (Some e, w) \<Rightarrow> (Inl (''run migration '' @ name @ '': '' @ e), w)
              | (None, w) \<Rightarrow>
                 (case mg_exec m record_sql [name] w of
                    (Some e, w) \<Rightarrow> (Inl (''record migration '' @ name @ '': '' @ e), w)
                  | (None, w) \<Rightarrow> (Inr True, w)))))"

fun migrate_all :: "'w migrator \<Rightarrow> migration_files \<Rightarrow> string list \<Rightarrow> 'w \<Rightarrow> string option \<times> 'w" where
  "migrate_all m fs [] w = (None, w)"
| "migrate_all m fs (name # names) w =
     (case migrate_one m fs name w of
        (Inl e, w) \<Rightarrow> (Some e, w)
      | (Inr _, w) \<Rightarrow> migrate_all m fs names w)"

definition sql_files :: "string list \<Rightarrow> string list" where
  "sql_files entries = sort (filter (suffix ''.sql'') entries)"

definition runMigrations :: "'w migrator \<Rightarrow> migration_files \<Rightarrow> 'w \<Rightarrow> string option \<times> 'w" where
  "runMigrations m fs w =
     (case mg_exec m create_table_sql [] w of
        (Some e, w) \<Rightarrow> (Some (''create migrations table: '' @ e), w)
      | (None, w) \<Rightarrow>
         (case mf_dir fs of
            Inl e \<Rightarrow> (Some (''read migrations dir: '' @ e), w)
          | Inr entries \<Rightarrow> migrate_all m fs (sql_files entries) w))"

section \<open>Connections\<close>

record ('w, 'c) platform =
  pf_env :: "string \<Rightarrow> string"
  pf_parse :: "string \<Rightarrow> string option"                  \<comment> \<open>\<open>ParseConfig\<close>: its error\<close>
  pf_connect :: "string \<Rightarrow> 'w \<Rightarrow> string option \<times> 'w"
  pf_pingPg :: "'w \<Rightarrow> string option \<times> 'w"
  pf_pingRedis :: "string \<Rightarrow> 'w \<Rightarrow> string option \<times> 'w"
  pf_migrator :: "'w migrator"
  pf_files :: migration_files
  pf_inCluster :: "string + 'c"
  pf_home :: string
  pf_fromFile :: "string \<Rightarrow> string + 'c"
  pf_clientset :: "'c \<Rightarrow> string option"
  pf_dynamic :: "'c \<Rightarrow> string option"
  pf_getNs :: "string \<Rightarrow> 'w \<Rightarrow> string option \<times> 'w"
  pf_createNs :: "string \<Rightarrow> 'w \<Rightarrow> string option \<times> 'w"

definition initPostgres :: "('w, 'c) platform \<Rightarrow> 'w \<Rightarrow> string option \<times> 'w" where
  "initPostgres p w =
     (let dsn = pf_env p ''DATABASE_URL''
      in if dsn = '''' then (Some ''DATABASE_URL environment variable is required'', w)
         else (case pf_parse p dsn of
                 Some e \<Rightarrow> (Some (''parse database url: '' @ e), w)
               | None \<Rightarrow>
                  (case pf_connect p dsn w of
                     (Some e, w) \<Rightarrow> (Some (''connect to postgres: '' @ e), w)
                   | (None, w) \<Rightarrow>
                      (case pf_pingPg p w of
                         (Some e, w) \<Rightarrow> (Some (''ping postgres: '' @ e), w)
                       | (None, w) \<Rightarrow> (None, w)))))"

definition initRedis :: "('w, 'c) platform \<Rightarrow> 'w \<Rightarrow> string option \<times> 'w" where
  "initRedis p w =
     (let addr = pf_env p ''REDIS_URL''
      in if addr = '''' then (Some ''REDIS_URL environment variable is required'', w)
         else (case pf_pingRedis p addr w of
                 (Some e, w) \<Rightarrow> (Some (''ping redis: '' @ e), w)
               | (None, w) \<Rightarrow> (None, w)))"

definition getConfig :: "('w, 'c) platform \<Rightarrow> string + 'c" where
  "getConfig p =
     (case pf_inCluster p of
        Inr config \<Rightarrow> Inr config
      | Inl _ \<Rightarrow>
          let kubeconfig = pf_env p ''KUBECONFIG''
          in pf_fromFile p (if kubeconfig = '''' then pf_home p @ ''/.kube/config'' else kubeconfig))"

text \<open>The error of \<open>Init\<close>, with whether \<open>Client\<close> and \<open>DynClient\<close> are set when it returns.\<close>

definition k8s_init :: "('w, 'c) platform \<Rightarrow> string option \<times> bool \<times> bool" where
  "k8s_init p =
     (case getConfig p of
        Inl e \<Rightarrow> (Some (''k8s config: '' @ e), False, False)
      | Inr config \<Rightarrow>
         (case pf_clientset p config of
            Some e \<Rightarrow> (Some (''k8s client: '' @ e), False, False)
          | None \<Rightarrow>
             (case pf_dynamic p config of
                Some e \<Rightarrow> (Some (''k8s dynamic client: '' @ e), True, False)
              | None \<Rightarrow> (None, True, True))))"

definition ensureAgentNamespace :: "('w, 'c) platform \<Rightarrow> 'w \<Rightarrow> string option \<times> 'w" where
  "ensureAgentNamespace p w =
     (case pf_getNs p agentNamespace w of
        (None, w) \<Rightarrow> (None, w)
      | (Some _, w) \<Rightarrow> pf_createNs p agentNamespace w)"

section \<open>The server\<close>

text \<open>
  What \<open>main\<close> comes to: it gives up, or it serves, with or without the cluster (\<open>useK8s\<close> of the managers), at an
  address, with TLS or without.
\<close>

datatype boot = Fatal string | Serving bool string bool

definition boot_api :: "('w, 'c) platform \<Rightarrow> 'w \<Rightarrow> boot \<times> 'w" where
  "boot_api p w =
     (case initPostgres p w of
        (Some e, w) \<Rightarrow> (Fatal (''FATAL: PostgreSQL required but unavailable: '' @ e), w)
      | (None, w) \<Rightarrow>
         (case runMigrations (pf_migrator p) (pf_files p) w of
            (Some e, w) \<Rightarrow> (Fatal (''FATAL: PostgreSQL migration failed: '' @ e), w)
          | (None, w) \<Rightarrow>
             (case initRedis p w of
                (Some e, w) \<Rightarrow> (Fatal (''FATAL: Redis required but unavailable: '' @ e), w)
              | (None, w) \<Rightarrow>
                 let (err, client, dynamic) = k8s_init p;
                     w = (if err = None then snd (ensureAgentNamespace p w) else w);
                     addr = (if pf_env p ''LISTEN_ADDR'' = '''' then '':8443'' else pf_env p ''LISTEN_ADDR'')
                 in (Serving client addr (pf_env p ''TLS_CERT_FILE'' \<noteq> '''' \<and> pf_env p ''TLS_KEY_FILE'' \<noteq> ''''), w))))"

section \<open>Notes in the database\<close>

text \<open>
  The rows of the query, one of them \<open>None\<close> when it cannot be scanned; the instant is already printed. \<open>AddNote\<close> hands
  out the instant that the insertion returned.
\<close>

definition pg_listNotes :: "string + (string \<times> string \<times> string) option list \<Rightarrow> string + node_note list" where
  "pg_listNotes rows =
     (case rows of
        Inl e \<Rightarrow> Inl e
      | Inr rs \<Rightarrow> Inr (map (\<lambda>(author, t, text). \<lparr>nt_author = author, nt_createdAt = t, nt_text = text\<rparr>) (List.map_filter id rs)))"

definition pgNoteDB ::
    "(string \<Rightarrow> 'w \<Rightarrow> string + (string \<times> string \<times> string) option list) \<Rightarrow>
     (string \<Rightarrow> string \<Rightarrow> string \<Rightarrow> 'w \<Rightarrow> (string + string) \<times> 'w) \<Rightarrow> bool \<Rightarrow> 'w note_db option" where
  "pgNoteDB query ins pool =
     (if pool then Some \<lparr>db_list = (\<lambda>i w. pg_listNotes (query i w)), db_add = ins\<rparr> else None)"

section \<open>The status page\<close>

record service_status =
  se_name :: string
  se_status :: string

definition check_service :: "string \<Rightarrow> string option option \<Rightarrow> service_status" where
  "check_service name ping =
     \<lparr>se_name = name,
      se_status = (case ping of None \<Rightarrow> ''unavailable'' | Some (Some _) \<Rightarrow> ''unhealthy'' | Some None \<Rightarrow> ''healthy'')\<rparr>"

record platform_status =
  pl_status :: string
  pl_version :: string
  pl_services :: "service_status list"
  pl_nodes :: "unit list"

text \<open>The pings are \<open>None\<close> where there is no connection; times are left out.\<close>

definition handleStatus :: "string option option \<Rightarrow> string option option \<Rightarrow> platform_status reply" where
  "handleStatus redis pg =
     (let services = [\<lparr>se_name = ''api'', se_status = ''healthy''\<rparr>, check_service ''redis'' redis, check_service ''postgresql'' pg]
      in Reply 200 \<lparr>pl_status = (if list_ex (\<lambda>s. se_status s \<noteq> ''healthy'') services then ''degraded'' else ''healthy''),
                    pl_version = ''2.0.0-dev'', pl_services = services, pl_nodes = []\<rparr>)"

section \<open>Properties\<close>

text \<open>
  What the migrations rely on: \<open>done\<close> are the versions in the table and \<open>executed\<close> the scripts executed so far, in order; the
  query answers from the table, a statement that fails has no effect on either, recording a version adds it
  to the table, and a script of a migration is another statement than those of the migrator.
\<close>

definition keeps_migrations ::
    "'w migrator \<Rightarrow> migration_files \<Rightarrow> ('w \<Rightarrow> string set) \<Rightarrow> ('w \<Rightarrow> string list) \<Rightarrow> bool" where
  "keeps_migrations m fs recorded executed \<longleftrightarrow>
     (\<forall>n w r w'. mg_exists m n w = (r, w') \<longrightarrow>
        recorded w' = recorded w \<and> executed w' = executed w \<and> (\<forall>b. r = Inr b \<longrightarrow> b = (n \<in> recorded w))) \<and>
     (\<forall>w e w'. mg_exec m create_table_sql [] w = (e, w') \<longrightarrow> recorded w' = recorded w \<and> executed w' = executed w) \<and>
     (\<forall>n w e w'. mg_exec m record_sql [n] w = (e, w') \<longrightarrow>
        executed w' = executed w \<and> recorded w' = (if e = None then insert n (recorded w) else recorded w)) \<and>
     (\<forall>f sql w e w'. mf_read fs f = Inr sql \<longrightarrow> mg_exec m sql [] w = (e, w') \<longrightarrow>
        recorded w' = recorded w \<and> executed w' = (if e = None then executed w @ [sql] else executed w))"

lemma keeps_migrationsD:
  assumes "keeps_migrations m fs recorded executed"
  shows "mg_exists m n w = (r, w') \<Longrightarrow> recorded w' = recorded w \<and> executed w' = executed w"
    and "mg_exists m n w = (Inr b, w') \<Longrightarrow> b = (n \<in> recorded w)"
    and "mg_exec m create_table_sql [] w = (e, w') \<Longrightarrow> recorded w' = recorded w \<and> executed w' = executed w"
    and "mg_exec m record_sql [n] w = (e, w') \<Longrightarrow> executed w' = executed w \<and> recorded w' = (if e = None then insert n (recorded w) else recorded w)"
    and "mf_read fs f = Inr sql \<Longrightarrow> mg_exec m sql [] w = (e, w') \<Longrightarrow>
      recorded w' = recorded w \<and> executed w' = (if e = None then executed w @ [sql] else executed w)"
proof -
  note k = assms [unfolded keeps_migrations_def]
  note k1 = k [THEN conjunct1] and k2 = k [THEN conjunct2, THEN conjunct1]
    and k3 = k [THEN conjunct2, THEN conjunct2, THEN conjunct1] and k4 = k [THEN conjunct2, THEN conjunct2, THEN conjunct2]
  show "mg_exists m n w = (r, w') \<Longrightarrow> recorded w' = recorded w \<and> executed w' = executed w" using k1 by blast
  show "mg_exists m n w = (Inr b, w') \<Longrightarrow> b = (n \<in> recorded w)" using k1 by blast
  show "mg_exec m create_table_sql [] w = (e, w') \<Longrightarrow> recorded w' = recorded w \<and> executed w' = executed w" using k2 by blast
  show "mg_exec m record_sql [n] w = (e, w') \<Longrightarrow> executed w' = executed w \<and> recorded w' = (if e = None then insert n (recorded w) else recorded w)"
    by (rule k3 [rule_format])
  show "mf_read fs f = Inr sql \<Longrightarrow> mg_exec m sql [] w = (e, w') \<Longrightarrow>
      recorded w' = recorded w \<and> executed w' = (if e = None then executed w @ [sql] else executed w)"
    by (rule k4 [rule_format])
qed

definition script_of :: "migration_files \<Rightarrow> string \<Rightarrow> string" where
  "script_of fs n = (case mf_read fs (''migrations/'' @ n) of Inl _ \<Rightarrow> '''' | Inr sql \<Rightarrow> sql)"

lemma migrate_one_effect:
  assumes k: "keeps_migrations m fs recorded executed" and run: "migrate_one m fs n w = (r, w')"
  shows "r = Inr b \<Longrightarrow> b = (n \<notin> recorded w) \<and> recorded w' = insert n (recorded w) \<and>
      executed w' = executed w @ (if b then [script_of fs n] else [])"
    and "r = Inl e \<Longrightarrow> recorded w' = recorded w \<and>
      (executed w' = executed w \<or> n \<notin> recorded w \<and> executed w' = executed w @ [script_of fs n])"
proof -
  note d = keeps_migrationsD [OF k]
  obtain q w1 where q: "mg_exists m n w = (q, w1)" by force
  note q1 = d(1) [OF q]
  have both: "(\<forall>b. r = Inr b \<longrightarrow> b = (n \<notin> recorded w) \<and> recorded w' = insert n (recorded w) \<and>
        executed w' = executed w @ (if b then [script_of fs n] else [])) \<and>
      (\<forall>e. r = Inl e \<longrightarrow> recorded w' = recorded w \<and>
        (executed w' = executed w \<or> n \<notin> recorded w \<and> executed w' = executed w @ [script_of fs n]))"
  proof (cases q)
    case (Inl e)
    then show ?thesis using run q q1 by (auto simp: migrate_one_def)
  next
    case (Inr b)
    have b: "b = (n \<in> recorded w)" using d(2) q Inr by blast
    show ?thesis
    proof (cases b)
      case True
      then show ?thesis using run q q1 Inr b by (auto simp: migrate_one_def insert_absorb)
    next
      case False
      show ?thesis
      proof (cases "mf_read fs (''migrations/'' @ n)")
        case (Inl e)
        then show ?thesis using run q q1 Inr False by (auto simp: migrate_one_def)
      next
        case sql: (Inr sql)
        obtain e2 w2 where x: "mg_exec m sql [] w1 = (e2, w2)" by force
        obtain e3 w3 where y: "mg_exec m record_sql [n] w2 = (e3, w3)" by force
        note x1 = d(5) [OF sql x] and y1 = d(4) [OF y]
        show ?thesis
          using run q q1 Inr False b sql x x1 y y1
          by (cases e2; cases e3) (auto simp: migrate_one_def script_of_def)
      qed
    qed
  qed
  show "r = Inr b \<Longrightarrow> b = (n \<notin> recorded w) \<and> recorded w' = insert n (recorded w) \<and>
      executed w' = executed w @ (if b then [script_of fs n] else [])"
    using both by blast
  show "r = Inl e \<Longrightarrow> recorded w' = recorded w \<and>
      (executed w' = executed w \<or> n \<notin> recorded w \<and> executed w' = executed w @ [script_of fs n])"
    using both by blast
qed

lemma migrate_all_effect:
  assumes k: "keeps_migrations m fs recorded executed" and "distinct names" and "migrate_all m fs names w = (None, w')"
  shows "recorded w' = recorded w \<union> set names \<and>
     executed w' = executed w @ map (script_of fs) (filter (\<lambda>n. n \<notin> recorded w) names)"
  using assms(2,3)
proof (induction names arbitrary: w)
  case (Cons n ns)
  obtain r w1 where one: "migrate_one m fs n w = (r, w1)" by force
  with Cons.prems obtain b where r: "r = Inr b" and rest: "migrate_all m fs ns w1 = (None, w')"
    by (cases r) auto
  note e = migrate_one_effect(1) [OF k one r]
  have "recorded w' = recorded w1 \<union> set ns \<and> executed w' = executed w1 @ map (script_of fs) (filter (\<lambda>n. n \<notin> recorded w1) ns)"
    using Cons.IH [OF _ rest] Cons.prems(1) by simp
  moreover have "filter (\<lambda>x. x \<notin> recorded w1) ns = filter (\<lambda>x. x \<notin> recorded w) ns"
    by (rule filter_cong) (use e Cons.prems(1) in auto)
  ultimately show ?case using e by auto
qed simp

lemma migrate_all_known:
  assumes k: "keeps_migrations m fs recorded executed" and "set names \<subseteq> recorded w"
  shows "executed (snd (migrate_all m fs names w)) = executed w"
  using assms(2)
proof (induction names arbitrary: w)
  case (Cons n ns)
  obtain r w1 where one: "migrate_one m fs n w = (r, w1)" by force
  show ?case
  proof (cases r)
    case (Inl e)
    with migrate_one_effect(2) [OF k one Inl] one Cons.prems show ?thesis by auto
  next
    case (Inr b)
    with migrate_one_effect(1) [OF k one Inr] one Cons show ?thesis by (auto simp: insert_absorb)
  qed
qed simp

text \<open>
  C29: the migrations of a successful start are the files whose names end in \<open>.sql\<close> and are not yet recorded, in the
  order of their names, once each; afterwards all of them are recorded, and a later start runs
  none, whether it succeeds or not.
\<close>

theorem migrations_run_once:
  assumes "keeps_migrations m fs recorded executed" and "mf_dir fs = Inr entries" and "distinct entries"
    and "runMigrations m fs w = (None, w')"
  shows "recorded w' = recorded w \<union> set (filter (suffix ''.sql'') entries) \<and>
     executed w' = executed w @ map (script_of fs) (filter (\<lambda>n. n \<notin> recorded w) (sql_files entries)) \<and>
     sorted (sql_files entries) \<and> executed (snd (runMigrations m fs w')) = executed w'"
proof -
  note d = keeps_migrationsD(3) [OF assms(1)]
  obtain w1 where t: "mg_exec m create_table_sql [] w = (None, w1)" and all: "migrate_all m fs (sql_files entries) w1 = (None, w')"
    using assms(2,4) by (auto simp: runMigrations_def split: prod.splits option.splits)
  have dist: "distinct (sql_files entries)" using assms(3) by (simp add: sql_files_def)
  have first: "recorded w' = recorded w \<union> set (sql_files entries) \<and>
      executed w' = executed w @ map (script_of fs) (filter (\<lambda>n. n \<notin> recorded w) (sql_files entries))"
    using migrate_all_effect [OF assms(1) dist all] d [OF t] by simp
  obtain e w2 where t2: "mg_exec m create_table_sql [] w' = (e, w2)" by force
  have "executed (snd (migrate_all m fs (sql_files entries) w2)) = executed w2"
    by (rule migrate_all_known [OF assms(1)]) (use first d [OF t2] in auto)
  then have "executed (snd (runMigrations m fs w')) = executed w'"
    using d [OF t2] assms(2) by (cases e) (simp_all add: runMigrations_def t2)
  with first show ?thesis by (simp add: sql_files_def)
qed

text \<open>
  A migration and its record are two statements: when a start fails after the script of a migration has run, the
  migration is not recorded, and the next start that gets past it runs the script a second time.
\<close>

theorem failed_record_runs_again:
  assumes "keeps_migrations m fs recorded executed" and "migrate_one m fs n w = (Inl e, w1)" and "executed w1 \<noteq> executed w"
    and "migrate_one m fs n w1 = (Inr b, w2)"
  shows "n \<notin> recorded w1 \<and> b \<and> executed w2 = executed w @ [script_of fs n, script_of fs n]"
  using migrate_one_effect(2) [OF assms(1,2) refl] migrate_one_effect(1) [OF assms(1,4) refl] assms(3) by auto

text \<open>
  The server serves exactly when the database is reached and migrated and the cache is reached, in this order;
  the cluster decides only whether its managers use it.
\<close>

theorem serves_iff_stores_ready:
  "(\<exists>k addr tls w'. boot_api p w = (Serving k addr tls, w')) \<longleftrightarrow>
   (\<exists>w1 w2 w3. initPostgres p w = (None, w1) \<and> runMigrations (pf_migrator p) (pf_files p) w1 = (None, w2) \<and>
      initRedis p w2 = (None, w3))"
  by (auto simp: boot_api_def Let_def split: prod.split option.split)

text \<open>An example database: the table, the scripts run, and how many records it still refuses.\<close>

type_synonym demo_db = "string list \<times> string list \<times> nat"

definition demo_migrator :: "demo_db migrator" where
  "demo_migrator =
     \<lparr>mg_exec = (\<lambda>sql args (vs, rs, k).
        if sql = create_table_sql then (None, vs, rs, k)
        else if sql = record_sql \<and> args \<noteq> []
        then (if k > 0 then (Some ''lost'', vs, rs, k - 1) else (None, hd args # vs, rs, k))
        else (None, vs, rs @ [sql], k)),
      mg_exists = (\<lambda>n (vs, rs, k). (Inr (n \<in> set vs), vs, rs, k))\<rparr>"

definition demo_migrations :: migration_files where
  "demo_migrations = \<lparr>mf_dir = Inr [''2.sql'', ''readme'', ''1.sql''], mf_read = (\<lambda>f. Inr (''run '' @ f))\<rparr>"

lemma demo_keeps: "keeps_migrations demo_migrator demo_migrations (\<lambda>w. set (fst w)) (\<lambda>w. fst (snd w))"
  unfolding keeps_migrations_def
  by (auto simp: demo_migrator_def demo_migrations_def create_table_sql_def record_sql_def split: if_splits)

theorem migrations_run_once_witness:
  "\<exists>w'. runMigrations demo_migrator demo_migrations ([''1.sql''], [], 0) = (None, w') \<and>
     fst (snd w') = [''run migrations/2.sql''] \<and> fst (snd (snd (runMigrations demo_migrator demo_migrations w'))) = [''run migrations/2.sql'']"
proof -
  have names: "sql_files [''2.sql'', ''readme'', ''1.sql''] = [''1.sql'', ''2.sql'']" by code_simp
  have "\<exists>w'. runMigrations demo_migrator demo_migrations ([''1.sql''], [], 0) = (None, w')"
    by (simp add: runMigrations_def demo_migrations_def names migrate_one_def demo_migrator_def create_table_sql_def record_sql_def)
  then obtain w' where run: "runMigrations demo_migrator demo_migrations ([''1.sql''], [], 0) = (None, w')" by blast
  have dir: "mf_dir demo_migrations = Inr [''2.sql'', ''readme'', ''1.sql'']" by (simp add: demo_migrations_def)
  from migrations_run_once [OF demo_keeps dir _ run] run show ?thesis
    by (simp add: names script_of_def demo_migrations_def)
qed

theorem failed_record_runs_again_witness:
  "\<exists>w1 w2. migrate_one demo_migrator demo_migrations ''1.sql'' ([], [], 1) = (Inl ''record migration 1.sql: lost'', w1) \<and>
     migrate_one demo_migrator demo_migrations ''1.sql'' w1 = (Inr True, w2) \<and>
     fst (snd w2) = [''run migrations/1.sql'', ''run migrations/1.sql'']"
proof -
  have one: "migrate_one demo_migrator demo_migrations ''1.sql'' ([], [], 1) =
      (Inl ''record migration 1.sql: lost'', [], [''run migrations/1.sql''], 0)"
    by (simp add: migrate_one_def demo_migrator_def demo_migrations_def create_table_sql_def record_sql_def)
  have "\<exists>w2. migrate_one demo_migrator demo_migrations ''1.sql'' ([], [''run migrations/1.sql''], 0) = (Inr True, w2)"
    by (simp add: migrate_one_def demo_migrator_def demo_migrations_def create_table_sql_def record_sql_def)
  then obtain w2 where two: "migrate_one demo_migrator demo_migrations ''1.sql'' ([], [''run migrations/1.sql''], 0) = (Inr True, w2)"
    by blast
  have "fst (snd w2) = [''run migrations/1.sql'', ''run migrations/1.sql'']"
    using failed_record_runs_again [OF demo_keeps one _ two] by (simp add: script_of_def demo_migrations_def)
  with one two show ?thesis by (intro exI conjI)
qed

end
