(* ===== verification/Ui_Server.thy ===== *)
theory Ui_Server
  imports Conv_Prelude
begin

text \<open>
  The server of the user interface (\<^verbatim>\<open>ui/cmd/serve/main.go\<close>): which file a request for a path is answered
  with, and under which caching rule. The file system is a parameter: whether a path exists.
\<close>

section \<open>Paths\<close>

text \<open>
  \<open>filepath.Clean\<close> on its elements: the stack holds the elements so far, last first. A rooted path swallows the
  \<open>..\<close> that would leave the root, a relative one keeps it.
\<close>

definition clean_step :: "bool \<Rightarrow> string \<Rightarrow> string list \<Rightarrow> string list" where
  "clean_step rooted e stack =
     (if e = '''' \<or> e = ''.'' then stack
      else if e = ''..''
      then (case stack of
              [] \<Rightarrow> if rooted then [] else [''..'']
            | x # rest \<Rightarrow> if x = ''..'' then ''..'' # stack else rest)
      else e # stack)"

fun join_slash :: "string list \<Rightarrow> string" where
  "join_slash [] = ''''"
| "join_slash [x] = x"
| "join_slash (x # y # ys) = x @ CHR ''/'' # join_slash (y # ys)"

definition clean_path :: "string \<Rightarrow> string" where
  "clean_path p =
     (let rooted = prefix ''/'' p; out' = join_slash (rev (fold (clean_step rooted) (split_on CHR ''/'' p) []))
      in if rooted then CHR ''/'' # out' else if out' = '''' then ''.'' else out')"

definition join_path :: "string \<Rightarrow> string \<Rightarrow> string" where
  "join_path a b = clean_path (a @ CHR ''/'' # b)"

section \<open>Answers\<close>

datatype ui_answer = UiHealth | UiIndex | UiFile string | UiNotFound

datatype caching = NoStore | Immutable | NoRule

definition local_path :: "string \<Rightarrow> string" where
  "local_path urlPath = join_path ''public'' (clean_path (CHR ''/'' # urlPath))"

text \<open>The handler of everything but the probe; \<open>UiFile\<close> is the file server's answer to the path of the URL.\<close>

definition serve_ui :: "(string \<Rightarrow> bool) \<Rightarrow> string \<Rightarrow> ui_answer \<times> caching" where
  "serve_ui there urlPath =
     (let path = local_path urlPath
      in if \<not> prefix ''public'' path then (UiNotFound, NoRule)
         else if \<not> there path then (UiIndex, NoStore)
         else (UiFile urlPath, if urlPath = ''/'' \<or> urlPath = ''/index.html'' then NoStore else Immutable))"

definition ui_mux :: "(string \<Rightarrow> bool) \<Rightarrow> string \<Rightarrow> string \<Rightarrow> ui_answer \<times> caching" where
  "ui_mux there method urlPath =
     (if method \<in> {''GET'', ''HEAD''} \<and> urlPath = ''/healthz'' then (UiHealth, NoRule) else serve_ui there urlPath)"

section \<open>Properties\<close>

definition plain_element :: "string \<Rightarrow> bool" where
  "plain_element e \<longleftrightarrow> e \<noteq> '''' \<and> e \<noteq> ''.'' \<and> e \<noteq> ''..'' \<and> CHR ''/'' \<notin> set e"

lemma split_parts: "x \<in> set (split_on c s) \<Longrightarrow> c \<notin> set x"
  by (induction s arbitrary: x) (auto split: if_splits list.splits)

lemma split_nonempty: "split_on c s \<noteq> []"
  by (induction s) (auto split: list.split)

lemma split_one: "c \<notin> set x \<Longrightarrow> split_on c x = [x]"
  by (induction x) auto

lemma split_cons: "c \<notin> set x \<Longrightarrow> split_on c (x @ c # s) = x # split_on c s"
  by (induction x) auto

lemma split_join:
  assumes "\<forall>x \<in> set xs. CHR ''/'' \<notin> set x" and "xs \<noteq> []"
  shows "split_on CHR ''/'' (join_slash xs) = xs"
  using assms by (induction xs rule: join_slash.induct) (simp_all add: split_one split_cons)

lemma rooted_plain:
  assumes "\<forall>e \<in> set es. CHR ''/'' \<notin> set e" and "\<forall>e \<in> set stack. plain_element e"
  shows "\<forall>e \<in> set (fold (clean_step True) es stack). plain_element e"
  using assms
proof (induction es arbitrary: stack)
  case (Cons e es)
  have "\<forall>x \<in> set (clean_step True e stack). plain_element x"
    using Cons.prems by (auto simp: clean_step_def plain_element_def split: list.split)
  with Cons show ?case by simp
qed simp

lemma plain_kept: "\<forall>e \<in> set es. plain_element e \<Longrightarrow> fold (clean_step r) es stack = rev es @ stack"
  by (induction es arbitrary: stack) (simp_all add: clean_step_def plain_element_def)

text \<open>
  C37: whatever the path of a request, the file looked up for it lies in the directory \<open>public\<close>: it is that
  directory, or a path below it without an element \<open>..\<close>; the answer is never the one for a path outside.
\<close>

theorem served_from_public:
  "\<exists>es. local_path urlPath = join_slash (''public'' # es) \<and> list_all plain_element es \<and>
     fst (serve_ui there urlPath) \<in> {UiIndex, UiFile urlPath}"
proof -
  define es where "es = rev (fold (clean_step True) (split_on CHR ''/'' (CHR ''/'' # urlPath)) [])"
  have plain: "\<forall>e \<in> set es. plain_element e"
    unfolding es_def set_rev by (rule rooted_plain) (use split_parts in blast, simp)
  have clean: "clean_path (CHR ''/'' # urlPath) = CHR ''/'' # join_slash es"
    by (simp add: clean_path_def es_def del: split_on.simps)
  have elements: "split_on CHR ''/'' (''public'' @ CHR ''/'' # CHR ''/'' # join_slash es) =
      ''public'' # '''' # (if es = [] then [''''] else es)"
    using plain split_join [of es] split_cons [of "CHR ''/''" "''public''" "CHR ''/'' # join_slash es"]
    by (auto simp: plain_element_def)
  have stack: "fold (clean_step False) (split_on CHR ''/'' (''public'' @ CHR ''/'' # CHR ''/'' # join_slash es)) [] = rev es @ [''public'']"
    unfolding elements using plain_kept [OF plain, of False "[''public'']"] by (simp add: clean_step_def)
  have relative: "prefix ''/'' (''public'' @ CHR ''/'' # CHR ''/'' # join_slash es) = False" by simp
  have "join_slash (''public'' # es) \<noteq> ''''" by (cases es) simp_all
  then have path: "local_path urlPath = join_slash (''public'' # es)"
    unfolding local_path_def join_path_def clean clean_path_def [of "''public'' @ _"] relative stack Let_def by simp
  moreover have "prefix ''public'' (join_slash (''public'' # es))" by (cases es) simp_all
  ultimately show ?thesis using plain by (intro exI [of _ es]) (simp add: serve_ui_def Let_def list_all_iff)
qed

end
