(* ===== verification/Spec2Isabelle.thy ===== *)
theory Spec2Isabelle
  imports Project_Flow Agent_Lifecycle Agent_Reach Agent_Output Event_Streams Tracing Api_Types Join_Token Jwt_Key Idp_Login
    Startup Ui_Server
begin

text \<open>
  A verification library of Convocate: the API server of the platform (\<^verbatim>\<open>src/api\<close>), the wrapper that runs in the
  pod of every agent (\<^verbatim>\<open>src/agent\<close>), the identity service for SAML and SCIM (\<^verbatim>\<open>src/saml-scim-agent\<close>) and the
  server of the user interface (\<^verbatim>\<open>src/ui\<close>). Every definition is a translation of the Go code named with it; the
  theorems are about these definitions.

  The program. The API server is a set of applets over one HTTP multiplexer: boards, tickets, repositories, IDE projects, agents,
  nodes, access control, the unified projects endpoint, events and authentication. Applets keep their
  state in memory under a lock, in OpenBao, or in the Kubernetes cluster; almost every route is behind the
  chain of authentication and role check. The projects endpoint calls the other applets over HTTP with an internal token, changes
  of nodes and projects are published to the event hub. For an agent the server makes a pod; the wrapper in it
  runs the Claude CLI as a child process and offers its input, output and restart over HTTP, which the API server proxies.
  Users log in against OpenBao, or through the SAML agent, whose page the API server takes apart.

  Conventions. A handler is a function from a request and a state to a reply and a state (\<open>Httputil\<close>); replies are a status
  with a payload, a failure with its code, or \<open>Panic\<close>. A struct is a record, a nil pointer is \<open>None\<close>, an error is \<open>Inl\<close>
  or the \<open>Some\<close> of an optional message, and a map is an association list where its order or its entries matter. What is
  outside of the program, that is OpenBao, Kubernetes, PostgreSQL, the network, the shell, clocks, random bytes, cryptography
  and the decoders of JSON and XML, is a parameter: a state of any type \<open>'w\<close> with the calls that the code makes, in records such as
  \<open>'w kube\<close>, \<open>'w vault\<close>, \<open>'w bao_client\<close>, \<open>'w provisioner\<close> or \<open>('w, 'c) platform\<close>. Where a property needs a promise of theirs, the promise is a
  definition (\<open>serves_groups\<close>, \<open>serves_entities\<close>, \<open>serves_secret\<close>, \<open>keeps_migrations\<close>) that a witness shows to hold
  of an example. Concurrency is a step relation or an explicit sequence of steps, cut where the code releases its lock.

  Shared theories. \<open>Conv_Prelude\<close>: scans of slices with their lemmas (collection \<open>store_simps\<close>), strings, dates, bounded
  channels. \<open>Streams\<close>: the locale \<open>bounded_stream\<close>, a stream behind a bounded buffer, interpreted by the subscribers of the event hub and
  of the wrapper. \<open>Store_Contracts\<close>: what a store promises to its handlers, as the locales \<open>keyed_store\<close>,
  \<open>creating_store\<close>, \<open>deleting_store\<close> and \<open>counted_store\<close>, interpreted by the stores of boards, cards, edges, tickets, pull requests,
  projects, agents and nodes. \<open>Json_Data\<close>: decoded JSON. \<open>Frames\<close>: WebSocket frames on machine words with the locale \<open>framing\<close>, interpreted by
  both servers. \<open>Jwt\<close>: Base64 and session tokens. \<open>Httputil\<close> and \<open>Middleware\<close> (\<^verbatim>\<open>internal/httputil\<close>, \<^verbatim>\<open>internal/middleware\<close>): requests,
  replies, pagination, the chain of authentication and roles, and the locale \<open>rbac_component\<close>, which every applet interprets
  on its handlers: a caller without a writing role changes nothing.

  The API server. \<open>Board\<close>, \<open>Tickets\<close>, \<open>Repos\<close>, \<open>Ide\<close>, \<open>Llm\<close>, \<open>Agents\<close>, \<open>Nodes\<close>, \<open>Access\<close>, \<open>Projects\<close> and \<open>Events\<close> model \<^verbatim>\<open>internal/pb\<close>,
  \<^verbatim>\<open>sup\<close>, \<^verbatim>\<open>repo\<close>, \<^verbatim>\<open>ide\<close>, \<^verbatim>\<open>llm\<close>, \<^verbatim>\<open>amgr\<close>, \<^verbatim>\<open>nmgr\<close>, \<^verbatim>\<open>ac\<close>, \<^verbatim>\<open>projects\<close> and \<^verbatim>\<open>events\<close>: each has the store with one function per method,
  one function per handler, the table of roles, and a step of the applet (\<open>pb_serve\<close>, \<open>sup_serve\<close> and so on). Their lemmas
  show invariants over every history, what each operation does on every branch, and the defects that the manifest lists.
  \<open>AgentPods\<close>, \<open>Cluster_Nodes\<close>, \<open>Provision\<close> and \<open>Provision_Scripts\<close> model \<^verbatim>\<open>internal/k8s\<close>: the pod of an agent, the operations on nodes, the setup of a
  machine over SSH with the text of its scripts; \<open>Join_Token\<close> the credentials for joining a machine that no caller uses yet. \<open>Event_Streams\<close> is
  an event connection once it is served, read back by its client. \<open>Tracing\<close> is \<^verbatim>\<open>internal/tracing\<close>, \<open>Api_Types\<close> the value sets of \<^verbatim>\<open>internal/types\<close>,
  \<open>Jwt_Key\<close> the loading of the key for session tokens. \<open>Login\<close> is \<^verbatim>\<open>internal/auth\<close>. \<open>Startup\<close> is \<^verbatim>\<open>main.go\<close> with \<^verbatim>\<open>internal/db\<close> and \<^verbatim>\<open>internal/status\<close>: what the
  server needs to come up, and the migrations against the specification that every file runs once. \<open>Server\<close> puts the
  applets together, with the internal calls answered by the applets themselves; \<open>Project_Flow\<close> follows
  a project through it.

  The agent wrapper. \<open>Agent_Process\<close> (\<^verbatim>\<open>process.go\<close>, \<^verbatim>\<open>metrics.go\<close>) has the child process and its counters, \<open>Agent_Lifecycle\<close> the interleavings of
  \<open>Stop\<close>, \<open>Restart\<close>, exits, the waiting goroutine and subscribers as the step relation \<open>proc_step\<close>, \<open>Agent_Server\<close> (\<^verbatim>\<open>auth.go\<close>, \<^verbatim>\<open>server.go\<close>, \<^verbatim>\<open>main.go\<close>) its gate and
  routes, \<open>Agent_Watcher\<close> the debounced watcher, \<open>Agent_Main\<close> the program from its environment to its end over every
  sequence of events, \<open>Agent_Output\<close> what a client hears of the output, and \<open>Agent_Reach\<close> the pod and the wrapper in it together: its
  calls and its probes.

  The identity service. \<open>Idp_Bao\<close> is its OpenBao client, \<open>Scim\<close> the SCIM endpoints, \<open>Idp_Xml\<close> the trees, the escaping and the canonical form,
  \<open>Idp_Saml\<close> requests, responses, signatures, keys and metadata, \<open>Idp_Handler\<close> the endpoints with their HTML pages, the
  configuration and the routes, and \<open>Idp_Login\<close> the login of the API server through it. \<open>Ui_Server\<close> is the server of the
  user interface.

  Bounds. Recursions are structural, or terminate by a measure; retries and polls of the code carry their own bounds (six and twelve
  attempts of a script, at most sixty looks at the join pod, thirty-six at the cluster), so no fuel is needed. Sizes of queues (64), frames and
  quantities are kept as in the code; 64-bit wrap-around is modelled where quantities are read and where frames are written.

  What is not modelled. Data races on memory that the code shares without a lock, and aliasing of slices. Floating point, which is
  rational arithmetic here. The decoders of JSON, XML and ASN.1, SQL, the exporter of traces, and the clients of Kubernetes, Redis and
  PostgreSQL. Unicode beyond bytes in trimming and case conversion. The structs of \<^verbatim>\<open>internal/types\<close> that no code uses: they repeat those of
  the applets. Pool sizes, timeouts and response headers, except where a property is about them.

  Code that the program does not reach is modelled where it decides something (\<open>Join_Token\<close>, \<open>Jwt_Key\<close>); the manifest says so.
\<close>

section \<open>Properties of the whole server\<close>



section \<open>Roles\<close>

definition required_roles :: "string set" where
  "required_roles = range pb_role \<union> range sup_role \<union> range repo_role \<union> range ide_role \<union>
     range amgr_role \<union> range nmgr_role \<union> range ac_role \<union> range pj_role"

lemma range_eq: "(\<And>x. f x \<in> A) \<Longrightarrow> (\<And>a. a \<in> A \<Longrightarrow> \<exists>x. f x = a) \<Longrightarrow> range f = A"
  by blast

lemma role_ranges:
  "range pb_role = {''pb-view'', ''pb-update'', ''pb-execute''}"
  "range sup_role = {''support-view''}"
  "range repo_role = {''repo-view'', ''repo-update'', ''repo-merge''}"
  "range ide_role = {''ide-view'', ''ide-update''}"
  "range amgr_role = {''agent-view'', ''agent-update''}"
  "range nmgr_role = {''node-view'', ''node-create'', ''node-update'', ''node-delete''}"
  "range ac_role = {''access-view'', ''access-update''}"
  "range pj_role = {''ide-view'', ''ide-update''}"
proof -
  show "range pb_role = {''pb-view'', ''pb-update'', ''pb-execute''}"
  proof (rule range_eq)
    fix x show "pb_role x \<in> {''pb-view'', ''pb-update'', ''pb-execute''}" by (cases x; simp)
  qed (use pb_role.simps(1,2,6) in blast)
  show "range sup_role = {''support-view''}" by (auto simp: sup_role_def)
  show "range repo_role = {''repo-view'', ''repo-update'', ''repo-merge''}"
  proof (rule range_eq)
    fix x show "repo_role x \<in> {''repo-view'', ''repo-update'', ''repo-merge''}" by (cases x; simp)
  qed (use repo_role.simps(1,2,6) in blast)
  show "range ide_role = {''ide-view'', ''ide-update''}"
  proof (rule range_eq)
    fix x show "ide_role x \<in> {''ide-view'', ''ide-update''}" by (cases x; simp)
  qed (use ide_role.simps(1,2) in blast)
  show "range amgr_role = {''agent-view'', ''agent-update''}"
  proof (rule range_eq)
    fix x show "amgr_role x \<in> {''agent-view'', ''agent-update''}" by (cases x; simp)
  qed (use amgr_role.simps(1,2) in blast)
  show "range nmgr_role = {''node-view'', ''node-create'', ''node-update'', ''node-delete''}"
  proof (rule range_eq)
    fix x show "nmgr_role x \<in> {''node-view'', ''node-create'', ''node-update'', ''node-delete''}" by (cases x; simp)
  qed (use nmgr_role.simps(1,2,4,5) in blast)
  show "range ac_role = {''access-view'', ''access-update''}"
  proof (rule range_eq)
    fix x show "ac_role x \<in> {''access-view'', ''access-update''}" by (cases x; simp)
  qed (use ac_role.simps(1,2) in blast)
  show "range pj_role = {''ide-view'', ''ide-update''}"
  proof (rule range_eq)
    fix x show "pj_role x \<in> {''ide-view'', ''ide-update''}" by (cases x; simp)
  qed (use pj_role.simps(1,2) in blast)
qed

text \<open>
  C36: the roles that access control offers for groups are exactly the roles the routes of the
  server ask for, and the administrator role: no route asks for a role that cannot be given, no
  role on offer opens nothing, and each opens in the user interface the applet it is listed under.
\<close>

theorem roles_on_offer:
  "set (map ro_id listRoles) = insert ''admin'' required_roles \<and>
   list_all (\<lambda>ro. ro_applet ro = ''all'' \<or> ro_applet ro \<in> set (rolesToApplets id [ro_id ro])) listRoles"
proof
  show "set (map ro_id listRoles) = insert ''admin'' required_roles"
    by (auto simp: listRoles_def ac_roles_def required_roles_def role_ranges)
  show "list_all (\<lambda>ro. ro_applet ro = ''all'' \<or> ro_applet ro \<in> set (rolesToApplets id [ro_id ro])) listRoles"
    by (simp add: listRoles_def ac_roles_def rolesToApplets_def admin_policy_def to_lower_def lower_char_def applet_of_def)
qed

lemma stream_publish:
  assumes "on_channel ch p h" and "hub_sets h" and "length (sub_buf (hub_heap h ! p)) < 64"
    and "marshal \<lparr>ev_type = ty, ev_timestamp = now, ev_payload = pl\<rparr> = Some data"
    and "wants ty (hub_heap h ! p)"
  shows "stream_of (hub_heap (publish marshal now ch ty pl h) ! p) = stream_of (hub_heap h ! p) @ [data]"
  using stream_step [OF assms(1,2), of "Publish now ch ty pl" marshal] assms
  by (simp add: published_def capacity_def)


text \<open>
  C21: a node that is created over the API is announced: a subscriber of the channel
  \<open>nmgr/status\<close> that wants the type and has room in its buffer receives the creation, as the
  last event of its stream, by the time the request is answered.
\<close>

theorem created_node_announced:
  assumes "authenticate env r = Some p" and "role_granted ''node-create'' (p_roles p)"
    and "Option.bind (rq_body r) nb_create = Some q" and "create_checks (cf_nodes c) q (st_nodes s) = None"
    and "nm_events (st_nodes s) = []"
    and "on_channel ''nmgr/status'' k (st_hub s)" and "hub_sets (st_hub s)"
    and "length (sub_buf (hub_heap (st_hub s) ! k)) < 64"
    and "wants ''node.pending'' (hub_heap (st_hub s) ! k)"
    and "cf_marshal c \<lparr>ev_type = ''node.pending'', ev_timestamp = rq_now r,
           ev_payload = cf_encode c (EvPending (fst (ns_create (new_node q '''') (nm_store (st_nodes s)))))\<rparr> = Some data"
  shows "let s' = api_step c env (NodeCall NmCreate r) s
    in stream_of (hub_heap (st_hub s') ! k) = stream_of (hub_heap (st_hub s) ! k) @ [data] \<and>
       length (nodes (nm_store (st_nodes s'))) = length (nodes (nm_store (st_nodes s))) + 1"
proof -
  let ?st = "nm_store (st_nodes s)"
  have served: "nmgr_serve (cf_nodes c) env NmCreate r (st_nodes s) =
      create_insert (cf_nodes c) q (st_nodes s)"
    using assms(1-4) by (simp add: nmgr_serve_def guarded_granted nm_create_def)
  have same: "ns_create (new_node q ''Pending'') ?st = ns_create (new_node q '''') ?st"
    by (simp add: ns_create_def new_node_def)
  have ev: "nm_events (snd (create_insert (cf_nodes c) q (st_nodes s))) =
      [EvPending (fst (ns_create (new_node q '''') ?st))]"
    and len: "length (nodes (nm_store (snd (create_insert (cf_nodes c) q (st_nodes s))))) = length (nodes ?st) + 1"
    using assms(5) by (simp_all add: create_insert_def same publish_event_def split: prod.split)
      (simp_all add: ns_create_def Let_def)
  show ?thesis
    using stream_publish [of "''nmgr/status''" k "st_hub s" "cf_marshal c" "''node.pending''", OF assms(6-8) assms(10) assms(9)] len
    by (simp add: served flush_events_def node_publications_def ev)
qed


definition demo_create_rq :: "nmgr_body request" where
  "demo_create_rq = demo_req (\<lambda>k. '''') (Some \<lparr>nb_create = Some (demo_node ''n1''), nb_patch = None,
     nb_text = '''', nb_report = None\<rparr>)"

definition demo_watched :: "((kind \<times> string) list, string list) api_state" where
  "demo_watched = (api_init ''now'' [] [])\<lparr>st_hub := snd (subscribe ''nmgr/status'' [] defaultHub)\<rparr>"

theorem created_node_announced_witness:
  "stream_of (hub_heap (st_hub (api_step demo_config (demo_env [''node-create''])
     (NodeCall NmCreate demo_create_rq) demo_watched)) ! 0) = [''node.pending'']"
proof -
  obtain p where p: "authenticate (demo_env [''node-create'']) demo_create_rq = Some p"
    and "set (p_roles p) = set [''node-create''] - {''''}"
    using demo_authenticate [of "[''node-create'']"] unfolding demo_create_rq_def by blast
  then have roles: "set (p_roles p) = {''node-create''}" by simp
  have granted: "role_granted ''node-create'' (p_roles p)" by (simp add: role_granted_iff roles)
  have on: "on_channel ''nmgr/status'' 0 (st_hub demo_watched)" and sets: "hub_sets (st_hub demo_watched)"
    using on_channel_subscribe [OF hub_sets_default, of "''nmgr/status''" "[]"]
      hub_sets_step [OF hub_sets_default, of _ "Subscribe ''nmgr/status'' []"]
    by (simp_all add: demo_watched_def) (simp add: defaultHub_def)
  have sub: "hub_heap (st_hub demo_watched) ! 0 =
      \<lparr>sub_types = None, sub_buf = [], sub_sent = [], sub_closed = False, sub_closes = 0\<rparr>"
    by (simp add: demo_watched_def subscribe_def defaultHub_def)
  have checks: "create_checks (cf_nodes demo_config) (demo_node ''n1'') (st_nodes demo_watched) = None"
    by (simp add: create_checks_def demo_config_def demo_node_def name_char_def demo_watched_def
        api_init_def nmgr_init_def nmgr_newStore_def ns_get_def ns_list_def)
  have body: "Option.bind (rq_body demo_create_rq) nb_create = Some (demo_node ''n1'')"
    by (simp add: demo_create_rq_def demo_req_def)
  have quiet: "nm_events (st_nodes demo_watched) = []"
    by (simp add: demo_watched_def api_init_def nmgr_init_def)
  have marshal: "cf_marshal demo_config \<lparr>ev_type = ''node.pending'', ev_timestamp = now, ev_payload = x\<rparr> =
      Some ''node.pending''" for now x
    by (simp add: demo_config_def)
  have "length (sub_buf (hub_heap (st_hub demo_watched) ! 0)) < 64"
    and "wants ''node.pending'' (hub_heap (st_hub demo_watched) ! 0)"
    by (simp_all add: sub wants_def)
  note announced = created_node_announced [of "demo_env [''node-create'']" demo_create_rq p "demo_node ''n1''"
      demo_config demo_watched 0 "''node.pending''", OF p granted body checks quiet on sets this marshal]
  then show ?thesis unfolding Let_def sub stream_of_def by simp
qed

end
